(* ===== verification/Prelude.thy ===== *)
theory Prelude
  imports Complex_Main "HOL-Library.Multiset"
begin

text \<open>
  Generic vocabulary shared by every component: JavaScript strings and the library
  operations the sources apply to them, numbers, nullish defaults, and the
  stable sort behind Array.prototype.sort.

  A JavaScript string is represented by the UTF-8 bytes of its text (type string, one
  char per byte).  Concatenation, equality, startsWith, split and search for ASCII
  separators act on the bytes exactly as on the text; js_length recovers the number
  of UTF-16 code units, which is what .length reports.  A finite JavaScript number is
  the exact rational it denotes.
\<close>

named_theorems js_simps "evaluation rules for the JavaScript library operations"
named_theorems inv_intros "introduction rules for the invariants of the components"

type_synonym number = rat

section \<open>Nullish defaults and truthiness\<close>

text \<open>The operator ?? on a value that may be null or undefined.\<close>

definition nullish :: "'a option \<Rightarrow> 'a \<Rightarrow> 'a" where
  "nullish x d = (case x of None \<Rightarrow> d | Some v \<Rightarrow> v)"

text \<open>The operator ?? between two values that may both be missing.\<close>

definition nullish_opt :: "'a option \<Rightarrow> 'a option \<Rightarrow> 'a option" where
  "nullish_opt x y = (case x of None \<Rightarrow> y | Some v \<Rightarrow> Some v)"

text \<open>A string that may be missing is truthy when it is there and not empty.\<close>

definition truthy :: "string option \<Rightarrow> bool" where
  "truthy x \<longleftrightarrow> (case x of None \<Rightarrow> False | Some s \<Rightarrow> s \<noteq> [])"

text \<open>The operator || with a missing value on the right: s || undefined.\<close>

definition or_none :: "string \<Rightarrow> string option" where
  "or_none s = (if s = [] then None else Some s)"

lemma nullish_simps [simp, js_simps]:
  "nullish None d = d" "nullish (Some v) d = v"
  by (simp_all add: nullish_def)

lemma nullish_opt_simps [simp, js_simps]:
  "nullish_opt None y = y" "nullish_opt (Some v) y = Some v"
  by (simp_all add: nullish_opt_def)

lemma truthy_simps [simp, js_simps]:
  "truthy None = False" "truthy (Some s) = (s \<noteq> [])"
  by (simp_all add: truthy_def)

lemma or_none_simps [simp]:
  "or_none [] = None" "s \<noteq> [] \<Longrightarrow> or_none s = Some s"
  by (simp_all add: or_none_def)

lemma or_none_eq_Some [simp]: "or_none s = Some t \<longleftrightarrow> t = s \<and> s \<noteq> []"
  by (auto simp: or_none_def)

section \<open>String operations\<close>

definition startsWith :: "string \<Rightarrow> string \<Rightarrow> bool" where
  "startsWith s p \<longleftrightarrow> take (length p) s = p"

lemma startsWith_iff: "startsWith s p \<longleftrightarrow> (\<exists>t. s = p @ t)"
  by (auto simp: startsWith_def) (metis append_take_drop_id)

lemma startsWith_append [simp]: "startsWith (p @ t) p"
  by (simp add: startsWith_def)

lemma startsWith_drop: "startsWith s p \<Longrightarrow> p @ drop (length p) s = s"
  by (metis append_take_drop_id startsWith_def)

lemma startsWith_refl [simp]: "startsWith s s"
  by (simp add: startsWith_def)

text \<open>parts.join(sep).\<close>

fun join :: "string \<Rightarrow> string list \<Rightarrow> string" where
  "join sep [] = []"
| "join sep [x] = x"
| "join sep (x # y # zs) = x @ sep @ join sep (y # zs)"

lemma join_singleton_sep: "join sep (x # xs) = x @ concat (map (\<lambda>y. sep @ y) xs)"
  by (induction xs arbitrary: x) auto

text \<open>toUpperCase of one ASCII letter.\<close>

definition upper_char :: "char \<Rightarrow> char" where
  "upper_char c =
     (let n = (of_char c :: nat) in if 97 \<le> n \<and> n \<le> 122 then char_of (n - 32) else c)"

text \<open>s.split(c) for a one-character separator; the result is never empty.\<close>

fun split_char :: "char \<Rightarrow> string \<Rightarrow> string list" where
  "split_char c [] = [[]]"
| "split_char c (x # xs) =
     (if x = c then [] # split_char c xs
      else (case split_char c xs of [] \<Rightarrow> [[x]] | p # ps \<Rightarrow> (x # p) # ps))"

lemma split_char_ne [simp]: "split_char c s \<noteq> []"
  by (induction s) (auto split: list.splits)

lemma split_char_no_sep: "c \<notin> set s \<Longrightarrow> split_char c s = [s]"
  by (induction s) auto

lemma split_char_parts: "p \<in> set (split_char c s) \<Longrightarrow> c \<notin> set p"
  by (induction s arbitrary: p) (auto split: if_splits list.splits)

lemma split_char_append:
  "c \<notin> set p \<Longrightarrow> split_char c (p @ c # s) = p # split_char c s"
  by (induction p) auto

lemma join_split_char: "join [c] (split_char c s) = s"
proof (induction s)
  case (Cons x xs)
  show ?case
  proof (cases "split_char c xs")
    case (Cons p ps)
    with Cons.IH show ?thesis by (cases ps) auto
  qed simp
qed simp

lemma split_join_char:
  "ps \<noteq> [] \<Longrightarrow> \<forall>p \<in> set ps. c \<notin> set p \<Longrightarrow> split_char c (join [c] ps) = ps"
proof (induction ps)
  case (Cons x xs)
  then show ?case
    by (cases xs) (auto simp: split_char_no_sep split_char_append)
qed simp

text \<open>
  White space as String.prototype.trim and the class \<open>\s\<close> of a regular expression
  understand it, given by the UTF-8 encodings of the characters.
\<close>

definition whitespace_encodings :: "nat list list" where
  "whitespace_encodings =
     [[9], [10], [11], [12], [13], [32], [194, 160], [225, 154, 128]]
     @ map (\<lambda>k. [226, 128, k]) ([128..<139] @ [168, 169, 175])
     @ [[226, 129, 159], [227, 128, 128], [239, 187, 191]]"

definition char_codes :: "string \<Rightarrow> nat list" where
  "char_codes s = map of_char s"

text \<open>How many bytes the white space character at the front of the text takes (0: none).\<close>

definition ws_front :: "string \<Rightarrow> nat" where
  "ws_front s =
     (case find (\<lambda>w. take (length w) (char_codes s) = w) whitespace_encodings of
        None \<Rightarrow> 0 | Some w \<Rightarrow> length w)"

definition ws_back :: "string \<Rightarrow> nat" where
  "ws_back s =
     (case find (\<lambda>w. take (length w) (char_codes (rev s)) = rev w) whitespace_encodings of
        None \<Rightarrow> 0 | Some w \<Rightarrow> length w)"

function trim_start :: "string \<Rightarrow> string" where
  "trim_start s = (if s = [] \<or> ws_front s = 0 then s else trim_start (drop (ws_front s) s))"
  by pat_completeness auto
termination by (relation "measure length") auto

function trim_end :: "string \<Rightarrow> string" where
  "trim_end s =
     (if s = [] \<or> ws_back s = 0 then s else trim_end (take (length s - ws_back s) s))"
  by pat_completeness auto
termination by (relation "measure length") auto

declare trim_start.simps [simp del] trim_end.simps [simp del]

definition trim :: "string \<Rightarrow> string" where
  "trim s = trim_end (trim_start s)"

lemma trim_start_suffix: "\<exists>p. s = p @ trim_start s"
proof (induction s rule: trim_start.induct)
  case (1 s)
  show ?case
  proof (cases "s = [] \<or> ws_front s = 0")
    case True
    then show ?thesis by (subst trim_start.simps) auto
  next
    case False
    then obtain p where "drop (ws_front s) s = p @ trim_start (drop (ws_front s) s)"
      using "1.IH" by auto
    then have "s = (take (ws_front s) s @ p) @ trim_start s"
      using False by (metis append.assoc append_take_drop_id trim_start.simps)
    then show ?thesis by blast
  qed
qed

lemma trim_end_prefix: "\<exists>p. s = trim_end s @ p"
proof (induction s rule: trim_end.induct)
  case (1 s)
  show ?case
  proof (cases "s = [] \<or> ws_back s = 0")
    case True
    then show ?thesis by (subst trim_end.simps) auto
  next
    case False
    let ?k = "length s - ws_back s"
    obtain p where "take ?k s = trim_end (take ?k s) @ p"
      using "1.IH" False by auto
    then have "s = trim_end s @ (p @ drop ?k s)"
      using False by (metis append.assoc append_take_drop_id trim_end.simps)
    then show ?thesis by blast
  qed
qed

lemma trim_infix: "\<exists>p q. s = p @ trim s @ q"
  using trim_start_suffix [of s] trim_end_prefix [of "trim_start s"]
  by (metis trim_def append.assoc)

text \<open>.length: UTF-16 code units of the text.\<close>

definition js_length :: "string \<Rightarrow> nat" where
  "js_length s =
     length (filter (\<lambda>n. n < 128 \<or> 192 \<le> n) (char_codes s))
     + length (filter (\<lambda>n. 240 \<le> n) (char_codes s))"

lemma js_length_ascii: "\<forall>c \<in> set s. (of_char c :: nat) < 128 \<Longrightarrow> js_length s = length s"
  by (induction s) (auto simp: js_length_def char_codes_def)

text \<open>Decimal text of a natural number and of an integer.\<close>

fun nat_digits :: "nat \<Rightarrow> string" where
  "nat_digits n = (if n < 10 then [char_of (48 + n)] else nat_digits (n div 10) @ [char_of (48 + n mod 10)])"

declare nat_digits.simps [simp del]

definition int_text :: "int \<Rightarrow> string" where
  "int_text i = (if i < 0 then CHR ''-'' # nat_digits (nat (- i)) else nat_digits (nat i))"

end
