(* ===== verification/Js_Sort.thy ===== *)
theory Js_Sort
  imports Prelude
begin

text \<open>
  Array.prototype.sort: a stable sort by a comparator that returns a negative, zero or
  positive number.  The locale js_comparator is the contract a comparator has to keep
  (a consistent comparator, in the words of the language standard); its lemmas say what
  the sorted array is.  The providers are the comparators of the sources.
\<close>

type_synonym 'a comparator = "'a \<Rightarrow> 'a \<Rightarrow> int"

fun insert_by :: "'a comparator \<Rightarrow> 'a \<Rightarrow> 'a list \<Rightarrow> 'a list" where
  "insert_by cmp x [] = [x]"
| "insert_by cmp x (y # ys) = (if cmp x y \<le> 0 then x # y # ys else y # insert_by cmp x ys)"

fun js_sort :: "'a comparator \<Rightarrow> 'a list \<Rightarrow> 'a list" where
  "js_sort cmp [] = []"
| "js_sort cmp (x # xs) = insert_by cmp x (js_sort cmp xs)"

lemma mset_insert_by [simp]: "mset (insert_by cmp x ys) = add_mset x (mset ys)"
  by (induction ys) auto

lemma mset_js_sort [simp]: "mset (js_sort cmp xs) = mset xs"
  by (induction xs) auto

lemma set_insert_by [simp]: "set (insert_by cmp x ys) = insert x (set ys)"
  by (metis mset_insert_by set_mset_add_mset_insert set_mset_mset)

lemma set_js_sort [simp]: "set (js_sort cmp xs) = set xs"
  by (metis mset_js_sort set_mset_mset)

lemma length_js_sort [simp]: "length (js_sort cmp xs) = length xs"
  by (metis mset_js_sort size_mset)

text \<open>A list that is in order already is left alone, whatever the comparator.\<close>

lemma insert_by_least:
  "\<forall>y \<in> set ys. cmp x y \<le> 0 \<Longrightarrow> insert_by cmp x ys = x # ys"
  by (cases ys) auto

lemma js_sort_id: "sorted_wrt (\<lambda>a b. cmp a b \<le> 0) xs \<Longrightarrow> js_sort cmp xs = xs"
  by (induction xs) (auto simp: insert_by_least)

text \<open>\<open>a - b || c || d\<close>: the first key that differs decides.\<close>

definition then_by :: "int \<Rightarrow> int \<Rightarrow> int" where
  "then_by a b = (if a \<noteq> 0 then a else b)"

locale js_comparator =
  fixes cmp :: "'a \<Rightarrow> 'a \<Rightarrow> int"
  assumes cmp_antisym: "cmp x y > 0 \<longleftrightarrow> cmp y x < 0"
    and cmp_trans: "cmp x y \<le> 0 \<Longrightarrow> cmp y z \<le> 0 \<Longrightarrow> cmp x z \<le> 0"
begin

lemma cmp_refl [simp]: "cmp x x \<le> 0"
  using cmp_antisym [of x x] by force

lemma cmp_total: "cmp x y \<le> 0 \<or> cmp y x \<le> 0"
  using cmp_antisym [of x y] cmp_antisym [of y x] by force

lemma cmp_not_le: "\<not> cmp x y \<le> 0 \<Longrightarrow> cmp y x \<le> 0"
  using cmp_total by blast

lemma sorted_insert_by:
  "sorted_wrt (\<lambda>a b. cmp a b \<le> 0) ys \<Longrightarrow> sorted_wrt (\<lambda>a b. cmp a b \<le> 0) (insert_by cmp x ys)"
  by (induction ys) (auto intro: cmp_trans dest: cmp_not_le)

lemma sorted_js_sort: "sorted_wrt (\<lambda>a b. cmp a b \<le> 0) (js_sort cmp xs)"
  by (induction xs) (auto intro: sorted_insert_by)

lemma js_sort_idem: "js_sort cmp (js_sort cmp xs) = js_sort cmp xs"
  by (rule js_sort_id [OF sorted_js_sort])

text \<open>Stability: the elements that compare equal to k keep their order.\<close>

lemma cmp_eq_trans: "cmp x y = 0 \<Longrightarrow> cmp y z = 0 \<Longrightarrow> cmp x z = 0"
  by (metis cmp_antisym cmp_trans linorder_cases order_refl less_le_not_le)

lemma cmp_eq_sym: "cmp x y = 0 \<Longrightarrow> cmp y x = 0"
  by (metis cmp_antisym linorder_cases order_less_irrefl)

lemma filter_insert_by_other:
  "\<not> P x \<Longrightarrow> filter P (insert_by cmp x ys) = filter P ys"
  by (induction ys) auto

lemma filter_insert_by_equal:
  "\<forall>y. P y \<longrightarrow> cmp x y \<le> 0 \<Longrightarrow> P x \<Longrightarrow> filter P (insert_by cmp x ys) = x # filter P ys"
  by (induction ys) auto

lemma js_sort_stable:
  "filter (\<lambda>y. cmp k y = 0) (js_sort cmp xs) = filter (\<lambda>y. cmp k y = 0) xs"
proof (induction xs)
  case (Cons x xs)
  show ?case
  proof (cases "cmp k x = 0")
    case True
    then have "\<forall>y. cmp k y = 0 \<longrightarrow> cmp x y \<le> 0"
      by (metis cmp_eq_sym cmp_eq_trans order_refl)
    with True Cons.IH show ?thesis by (simp add: filter_insert_by_equal)
  qed (use Cons.IH in \<open>simp add: filter_insert_by_other\<close>)
qed simp

end

text \<open>A lexicographic combination of comparators is a comparator.\<close>

lemma js_comparator_then_by:
  assumes a: "js_comparator f" and b: "js_comparator g"
  shows "js_comparator (\<lambda>x y. then_by (f x y) (g x y))"
proof
  fix x y z
  show "0 < then_by (f x y) (g x y) \<longleftrightarrow> then_by (f y x) (g y x) < 0"
    by (metis then_by_def js_comparator.cmp_antisym [OF a] js_comparator.cmp_antisym [OF b]
        js_comparator.cmp_eq_sym [OF a] linorder_neq_iff order_less_asym)
  assume 1: "then_by (f x y) (g x y) \<le> 0" and 2: "then_by (f y z) (g y z) \<le> 0"
  have f1: "f x y \<le> 0" and f2: "f y z \<le> 0"
    using 1 2 by (auto simp: then_by_def split: if_splits)
  have f3: "f x z \<le> 0" using js_comparator.cmp_trans [OF a f1 f2] .
  show "then_by (f x z) (g x z) \<le> 0"
  proof (cases "f x z = 0")
    case True
    have zx: "f z x \<le> 0" using js_comparator.cmp_eq_sym [OF a True] by simp
    have "f y x \<le> 0" using js_comparator.cmp_trans [OF a f2 zx] .
    then have xy: "f x y = 0" using f1 js_comparator.cmp_antisym [OF a, of y x] by linarith
    have "f z y \<le> 0" using js_comparator.cmp_trans [OF a zx f1] .
    then have yz: "f y z = 0" using f2 js_comparator.cmp_antisym [OF a, of z y] by linarith
    have "g x y \<le> 0" and "g y z \<le> 0" using 1 2 xy yz by (auto simp: then_by_def)
    then show ?thesis using True js_comparator.cmp_trans [OF b] by (auto simp: then_by_def)
  qed (use f3 in \<open>simp add: then_by_def\<close>)
qed

text \<open>Only the sign of a result matters; a difference of numbers is read through it.\<close>

definition num_sign :: "number \<Rightarrow> int" where
  "num_sign r = (if r < 0 then - 1 else if r = 0 then 0 else 1)"

lemma js_comparator_num: "js_comparator (\<lambda>x y. num_sign (key x - key y))"
  by unfold_locales (auto simp: num_sign_def split: if_splits)

text \<open>Subtracting two integer keys is a comparator, as is swapping its arguments.\<close>

lemma js_comparator_key: "js_comparator (\<lambda>x y. (key x :: int) - key y)"
  by unfold_locales auto

lemma js_comparator_on: "js_comparator c \<Longrightarrow> js_comparator (\<lambda>x y. c (key x) (key y))"
  by (simp add: js_comparator_def)

end
