(* ===== verification/Js_Values.thy ===== *)
theory Js_Values
  imports Prelude
begin

text \<open>
  JSON values, as response.json() delivers them and as the request bodies carry them.
  An object is the list of its entries, in order, without duplicate keys.  A request
  body is kept as the value handed to JSON.stringify: the client only ever tests whether
  a body is a FormData and whether it is undefined, never its text.
\<close>

datatype json =
    JNull
  | JBool bool
  | JNum number
  | JStr string
  | JArr "json list"
  | JObj "(string \<times> json) list"

text \<open>Property access v.k on a JSON value: None stands for undefined.\<close>

fun get_prop :: "string \<Rightarrow> json \<Rightarrow> json option" where
  "get_prop k (JObj es) = map_of es k"
| "get_prop k _ = None"

fun truthy_json :: "json \<Rightarrow> bool" where
  "truthy_json JNull = False"
| "truthy_json (JBool b) = b"
| "truthy_json (JNum n) = (n \<noteq> 0)"
| "truthy_json (JStr s) = (s \<noteq> [])"
| "truthy_json _ = True"

definition truthy_json_opt :: "json option \<Rightarrow> bool" where
  "truthy_json_opt v = (case v of None \<Rightarrow> False | Some x \<Rightarrow> truthy_json x)"

text \<open>typeof v === "object", which holds of arrays and of null too.\<close>

fun is_object :: "json \<Rightarrow> bool" where
  "is_object JNull = True"
| "is_object (JArr _) = True"
| "is_object (JObj _) = True"
| "is_object _ = False"

fun as_string :: "json \<Rightarrow> string option" where
  "as_string (JStr s) = Some s"
| "as_string _ = None"

fun as_array :: "json \<Rightarrow> json list option" where
  "as_array (JArr xs) = Some xs"
| "as_array _ = None"

text \<open>
  Number to text.  A number with at most twenty decimals is written out; the exponent
  notation of very large and very small numbers is not modelled.
\<close>

definition decimals :: "number \<Rightarrow> nat" where
  "decimals r = (case find (\<lambda>k. of_int \<lfloor>r * 10 ^ k\<rfloor> = r * 10 ^ k) [0..<21] of None \<Rightarrow> 20 | Some k \<Rightarrow> k)"

definition number_text :: "number \<Rightarrow> string" where
  "number_text r =
     (let k = decimals r; n = nat \<lfloor>\<bar>r\<bar> * 10 ^ k\<rfloor>;
          frac = nat_digits (n mod 10 ^ k)
      in (if r < 0 then ''-'' else '''') @ nat_digits (n div 10 ^ k)
         @ (if k = 0 then '''' else ''.'' @ replicate (k - length frac) (CHR ''0'') @ frac))"

text \<open>String(v).\<close>

fun to_text :: "json \<Rightarrow> string" where
  "to_text JNull = ''null''"
| "to_text (JBool b) = (if b then ''true'' else ''false'')"
| "to_text (JNum n) = number_text n"
| "to_text (JStr s) = s"
| "to_text (JArr xs) =
     join '','' (map (\<lambda>x. case x of JNull \<Rightarrow> [] | v \<Rightarrow> to_text v) xs)"
| "to_text (JObj _) = ''[object Object]''"

text \<open>
  An object literal whose entries may be undefined; JSON.stringify leaves those out.
\<close>

definition json_object :: "(string \<times> json option) list \<Rightarrow> json" where
  "json_object es = JObj (List.map_filter (\<lambda>(k, v). map_option (Pair k) v) es)"

text \<open>A member that is null on the wire when the value is missing: string | null.\<close>

definition json_nullable :: "('a \<Rightarrow> json) \<Rightarrow> 'a option \<Rightarrow> json" where
  "json_nullable f v = (case v of None \<Rightarrow> JNull | Some x \<Rightarrow> f x)"

fun json_keys :: "json \<Rightarrow> string list" where
  "json_keys (JObj es) = map fst es"
| "json_keys _ = []"

lemma json_keys_object:
  "set (json_keys (json_object es)) = {k. \<exists>v. (k, Some v) \<in> set es}"
  by (force simp: json_object_def map_filter_def)

lemma json_keys_object_subset: "set (json_keys (json_object es)) \<subseteq> set (map fst es)"
  by (force simp: json_keys_object)

section \<open>Text to number\<close>

text \<open>
  Number(text).  A numeral is white space, then either a decimal numeral with an optional
  sign, fraction and exponent, or a hexadecimal, octal or binary literal; blank text is
  zero and everything else is NaN.  The value is the exact one, not the nearest double.
\<close>

datatype js_num = NaN | Infinite bool | Finite number

definition digit_value :: "char \<Rightarrow> nat option" where
  "digit_value c =
     (let n = of_char c :: nat
      in if 48 \<le> n \<and> n \<le> 57 then Some (n - 48)
         else if 97 \<le> n \<and> n \<le> 122 then Some (n - 87)
         else if 65 \<le> n \<and> n \<le> 90 then Some (n - 55) else None)"

definition is_digit_in :: "nat \<Rightarrow> char \<Rightarrow> bool" where
  "is_digit_in base c = (case digit_value c of None \<Rightarrow> False | Some d \<Rightarrow> d < base)"

definition digits_value :: "nat \<Rightarrow> string \<Rightarrow> nat" where
  "digits_value base ds = foldl (\<lambda>acc c. acc * base + the (digit_value c)) 0 ds"

text \<open>The longest run of digits at the front, and the rest.\<close>

definition span_digits :: "nat \<Rightarrow> string \<Rightarrow> string \<times> string" where
  "span_digits base s = (takeWhile (is_digit_in base) s, dropWhile (is_digit_in base) s)"

definition take_sign :: "string \<Rightarrow> bool \<times> string" where
  "take_sign s =
     (case s of [] \<Rightarrow> (False, s)
      | c # cs \<Rightarrow> if c = CHR ''-'' then (True, cs) else if c = CHR ''+'' then (False, cs) else (False, s))"

text \<open>The exponent part at the end of a numeral: Some 0 when there is none.\<close>

definition exponent_value :: "string \<Rightarrow> int option" where
  "exponent_value s =
     (case s of [] \<Rightarrow> Some 0
      | c # cs \<Rightarrow>
          if c \<noteq> CHR ''e'' \<and> c \<noteq> CHR ''E'' then None
          else let (neg, t) = take_sign cs; (ds, rest) = span_digits 10 t
               in if ds = [] \<or> rest \<noteq> [] then None
                  else Some (if neg then - int (digits_value 10 ds) else int (digits_value 10 ds)))"

definition scale_ten :: "int \<Rightarrow> number \<Rightarrow> number" where
  "scale_ten e r = (if e < 0 then r / 10 ^ nat (- e) else r * 10 ^ nat e)"

definition unsigned_decimal :: "string \<Rightarrow> number option" where
  "unsigned_decimal s =
     (let (whole, r1) = span_digits 10 s;
          (frac, r2) = (case r1 of [] \<Rightarrow> ([], [])
                        | c # cs \<Rightarrow> if c = CHR ''.'' then span_digits 10 cs else ([], r1))
      in if whole = [] \<and> frac = [] then None
         else map_option
                (\<lambda>e. scale_ten (e - int (length frac)) (of_nat (digits_value 10 (whole @ frac))))
                (exponent_value r2))"

definition radix_literal :: "string \<Rightarrow> number option" where
  "radix_literal s =
     (case s of
        z # x # ds \<Rightarrow>
          (let base = (if x \<in> {CHR ''x'', CHR ''X''} then 16
                       else if x \<in> {CHR ''o'', CHR ''O''} then 8
                       else if x \<in> {CHR ''b'', CHR ''B''} then 2 else 0)
           in if z = CHR ''0'' \<and> base \<noteq> 0 \<and> ds \<noteq> [] \<and> list_all (is_digit_in base) ds
              then Some (of_nat (digits_value base ds)) else None)
      | _ \<Rightarrow> None)"

definition parse_number :: "string \<Rightarrow> js_num" where
  "parse_number text =
     (let s = trim text
      in if s = [] then Finite 0
         else case radix_literal s of
                Some r \<Rightarrow> Finite r
              | None \<Rightarrow>
                  let (neg, t) = take_sign s
                  in if t = ''Infinity'' then Infinite neg
                     else case unsigned_decimal t of
                            None \<Rightarrow> NaN
                          | Some r \<Rightarrow> Finite (if neg then - r else r))"

text \<open>Number(s) || undefined: zero and NaN are falsy.\<close>

definition number_or_none :: "string \<Rightarrow> js_num option" where
  "number_or_none s =
     (case parse_number s of NaN \<Rightarrow> None | Finite r \<Rightarrow> if r = 0 then None else Some (Finite r)
      | Infinite b \<Rightarrow> Some (Infinite b))"

text \<open>Math.round: half way goes up.\<close>

definition js_round :: "number \<Rightarrow> int" where
  "js_round r = \<lfloor>r + 1 / 2\<rfloor>"

end
