(* ===== verification/Js_Json.thy ===== *)
theory Js_Json
  imports Js_Values
begin

text \<open>
  JSON.parse, which the client applies to response bodies, to upload responses, to the
  diagnostics header and to the lines of an event stream.  A text is UTF-8; an escape in
  a string literal is turned into the UTF-8 bytes of the code point it denotes.  The
  recursion is bounded by the length of the text, which every nested call shortens.
\<close>

section \<open>Characters\<close>

definition utf8_encode :: "nat \<Rightarrow> string" where
  "utf8_encode n =
     map char_of
       (if n < 128 then [n]
        else if n < 2048 then [192 + n div 64, 128 + n mod 64]
        else if n < 65536 then [224 + n div 4096, 128 + n div 64 mod 64, 128 + n mod 64]
        else [240 + n div 262144, 128 + n div 4096 mod 64, 128 + n div 64 mod 64, 128 + n mod 64])"

definition json_ws :: "char \<Rightarrow> bool" where
  "json_ws c \<longleftrightarrow> c \<in> {char_of (9::nat), char_of (10::nat), char_of (13::nat), CHR '' ''}"

definition skip_ws :: "string \<Rightarrow> string" where
  "skip_ws s = dropWhile json_ws s"

text \<open>Four hexadecimal digits.\<close>

fun hex4 :: "string \<Rightarrow> (nat \<times> string) option" where
  "hex4 (a # b # c # d # rest) =
     (if list_all (is_digit_in 16) [a, b, c, d] then Some (digits_value 16 [a, b, c, d], rest) else None)"
| "hex4 _ = None"

text \<open>The unit after backslash u; a high surrogate takes the low surrogate after it along.\<close>

definition unicode_escape :: "string \<Rightarrow> (string \<times> string) option" where
  "unicode_escape s =
     (case hex4 s of
        None \<Rightarrow> None
      | Some (u, rest) \<Rightarrow>
          (case (if 55296 \<le> u \<and> u < 56320 \<and> take 2 rest = [CHR 0x5C, CHR ''u'']
                 then hex4 (drop 2 rest) else None) of
             Some (l, rest') \<Rightarrow>
               if 56320 \<le> l \<and> l < 57344
               then Some (utf8_encode (65536 + (u - 55296) * 1024 + (l - 56320)), rest')
               else Some (utf8_encode u, rest)
           | None \<Rightarrow> Some (utf8_encode u, rest)))"

definition simple_escape :: "char \<Rightarrow> nat option" where
  "simple_escape c =
     map_of [(CHR 0x22, 34), (CHR 0x5C, 92), (CHR ''/'', 47), (CHR ''b'', 8), (CHR ''f'', 12),
       (CHR ''n'', 10), (CHR ''r'', 13), (CHR ''t'', 9)] c"

text \<open>A string literal after its opening quote.\<close>

fun json_string :: "nat \<Rightarrow> string \<Rightarrow> (string \<times> string) option" where
  "json_string (Suc n) (c # cs) =
     (if c = CHR 0x22 then Some ([], cs)
      else if (of_char c :: nat) < 32 then None
      else if c \<noteq> CHR 0x5C then map_option (\<lambda>(t, rest). (c # t, rest)) (json_string n cs)
      else (case cs of
              [] \<Rightarrow> None
            | e # es \<Rightarrow>
                (case (if e = CHR ''u'' then unicode_escape es
                       else map_option (\<lambda>k. ([char_of k], es)) (simple_escape e)) of
                   None \<Rightarrow> None
                 | Some (p, es') \<Rightarrow> map_option (\<lambda>(t, rest). (p @ t, rest)) (json_string n es'))))"
| "json_string _ _ = None"

section \<open>Values\<close>

text \<open>obj[k] = v: an existing entry keeps its place, a new one goes to the end.\<close>

fun put_entry :: "'k \<Rightarrow> 'v \<Rightarrow> ('k \<times> 'v) list \<Rightarrow> ('k \<times> 'v) list" where
  "put_entry k v [] = [(k, v)]"
| "put_entry k v ((k', v') # es) = (if k' = k then (k, v) # es else (k', v') # put_entry k v es)"

lemma map_of_put_entry [simp]: "map_of (put_entry k v es) = (map_of es)(k \<mapsto> v)"
  by (induction es) auto

definition json_number :: "string \<Rightarrow> (json \<times> string) option" where
  "json_number s =
     (let (neg, t) = (case s of c # cs \<Rightarrow> if c = CHR ''-'' then (True, cs) else (False, s) | [] \<Rightarrow> (False, s));
          (whole, r1) = span_digits 10 t;
          (frac, r2) = (case r1 of c # cs \<Rightarrow> if c = CHR ''.'' then span_digits 10 cs else ([], r1) | [] \<Rightarrow> ([], r1));
          (expo, r3) = (case r2 of
              c # cs \<Rightarrow>
                if c = CHR ''e'' \<or> c = CHR ''E''
                then let (s', u) = take_sign cs; (ds, rest) = span_digits 10 u
                     in (take (length r2 - length rest) r2, rest)
                else ([], r2)
            | [] \<Rightarrow> ([], r2))
      in if whole = [] \<or> (hd whole = CHR ''0'' \<and> length whole > 1) \<or> (r1 \<noteq> r2 \<and> frac = []) then None
         else case unsigned_decimal (whole @ (if frac = [] then [] else CHR ''.'' # frac) @ expo) of
                None \<Rightarrow> None
              | Some r \<Rightarrow> Some (JNum (if neg then - r else r), r3))"

text \<open>A value, the elements of an array and the members of an object, white space first.\<close>

fun json_value :: "nat \<Rightarrow> string \<Rightarrow> (json \<times> string) option"
  and json_elements :: "nat \<Rightarrow> string \<Rightarrow> (json list \<times> string) option"
  and json_members :: "nat \<Rightarrow> (string \<times> json) list \<Rightarrow> string \<Rightarrow> ((string \<times> json) list \<times> string) option" where
  "json_value 0 s = None"
| "json_value (Suc n) s =
     (let t = skip_ws s in
      if startsWith t ''null'' then Some (JNull, drop 4 t)
      else if startsWith t ''true'' then Some (JBool True, drop 4 t)
      else if startsWith t ''false'' then Some (JBool False, drop 5 t)
      else (case t of
              [] \<Rightarrow> None
            | c # cs \<Rightarrow>
                if c = CHR 0x22 then map_option (\<lambda>(x, r). (JStr x, r)) (json_string (length t) cs)
                else if c = CHR ''['' then
                  (if startsWith (skip_ws cs) '']'' then Some (JArr [], drop 1 (skip_ws cs))
                   else map_option (\<lambda>(xs, r). (JArr xs, r)) (json_elements n cs))
                else if c = CHR ''{'' then
                  (if startsWith (skip_ws cs) ''}'' then Some (JObj [], drop 1 (skip_ws cs))
                   else map_option (\<lambda>(es, r). (JObj es, r)) (json_members n [] cs))
                else json_number t))"
| "json_elements 0 s = None"
| "json_elements (Suc n) s =
     (case json_value n s of
        None \<Rightarrow> None
      | Some (v, r) \<Rightarrow>
          (case skip_ws r of
             [] \<Rightarrow> None
           | c # cs \<Rightarrow>
               if c = CHR '']'' then Some ([v], cs)
               else if c = CHR '','' then map_option (\<lambda>(vs, q). (v # vs, q)) (json_elements n cs)
               else None))"
| "json_members 0 es s = None"
| "json_members (Suc n) es s =
     (case skip_ws s of
        [] \<Rightarrow> None
      | q # t \<Rightarrow>
          if q \<noteq> CHR 0x22 then None
          else (case json_string (Suc (length t)) t of
                  None \<Rightarrow> None
                | Some (k, r1) \<Rightarrow>
                    if \<not> startsWith (skip_ws r1) '':'' then None
                    else (case json_value n (drop 1 (skip_ws r1)) of
                            None \<Rightarrow> None
                          | Some (v, r2) \<Rightarrow>
                              (case skip_ws r2 of
                                 [] \<Rightarrow> None
                               | c # cs \<Rightarrow>
                                   if c = CHR ''}'' then Some (put_entry k v es, cs)
                                   else if c = CHR '','' then json_members n (put_entry k v es) cs
                                   else None))))"

definition JSON_parse :: "string \<Rightarrow> json option" where
  "JSON_parse s =
     (case json_value (Suc (2 * length s)) s of
        None \<Rightarrow> None
      | Some (v, rest) \<Rightarrow> if skip_ws rest = [] then Some v else None)"

text \<open>A JSON text with tildes for its quotation marks.\<close>

definition with_quotes :: "string \<Rightarrow> string" where
  "with_quotes s = map (\<lambda>c. if c = CHR ''~'' then CHR 0x22 else c) s"

end
