(* ===== verification/Api_Types.thy ===== *)
theory Api_Types
  imports Js_Json
begin

text \<open>
  The data of the API, as frontend/src/api/*.ts declares it: one record per object type,
  one datatype per union of literals, with the name of the source in front of every
  field.  A member that may be null or left out is an option, one that may be both is an
  option of an option; Record is an association list.  The functions ending in _json give
  the JSON value of a request body that contains the type.
\<close>

section \<open>Literals\<close>

datatype ProjectTaskStatus = Backlog | Todo | In_progress | Review | Done

datatype ProjectTaskPriority = Low | Medium | High | Urgent

datatype CalendarItemType = EventItem | AppointmentItem | TaskItem

datatype CalendarItemSource = Planner | TaskSource

fun ProjectTaskStatus_text :: "ProjectTaskStatus \<Rightarrow> string" where
  "ProjectTaskStatus_text Backlog = ''backlog''"
| "ProjectTaskStatus_text Todo = ''todo''"
| "ProjectTaskStatus_text In_progress = ''in_progress''"
| "ProjectTaskStatus_text Review = ''review''"
| "ProjectTaskStatus_text Done = ''done''"

fun ProjectTaskPriority_text :: "ProjectTaskPriority \<Rightarrow> string" where
  "ProjectTaskPriority_text Low = ''low''"
| "ProjectTaskPriority_text Medium = ''medium''"
| "ProjectTaskPriority_text High = ''high''"
| "ProjectTaskPriority_text Urgent = ''urgent''"

fun CalendarItemType_text :: "CalendarItemType \<Rightarrow> string" where
  "CalendarItemType_text EventItem = ''event''"
| "CalendarItemType_text AppointmentItem = ''appointment''"
| "CalendarItemType_text TaskItem = ''task''"

definition ProjectTaskStatus_json :: "ProjectTaskStatus \<Rightarrow> json" where
  "ProjectTaskStatus_json s = JStr (ProjectTaskStatus_text s)"

definition ProjectTaskPriority_json :: "ProjectTaskPriority \<Rightarrow> json" where
  "ProjectTaskPriority_json p = JStr (ProjectTaskPriority_text p)"

definition CalendarItemType_json :: "CalendarItemType \<Rightarrow> json" where
  "CalendarItemType_json t = JStr (CalendarItemType_text t)"

definition json_list :: "('a \<Rightarrow> json) \<Rightarrow> 'a list \<Rightarrow> json" where
  "json_list f xs = JArr (map f xs)"

definition json_map :: "('a \<Rightarrow> json) \<Rightarrow> (string \<times> 'a) list \<Rightarrow> json" where
  "json_map f es = JObj (map (\<lambda>(k, v). (k, f v)) es)"

section \<open>Authentication: api/auth.ts\<close>

record AuthUser =
  AuthUser_id :: string
  AuthUser_email :: string
  AuthUser_full_name :: "string option"
  AuthUser_is_verified :: bool
  AuthUser_is_admin :: bool
  AuthUser_mfa_enabled :: bool

record AuthResponse =
  AuthResponse_user :: AuthUser

record MfaSetup =
  MfaSetup_secret :: string
  MfaSetup_provisioning_uri :: string

section \<open>The signed-in user: api/users.ts\<close>

record UserProfile =
  UserProfile_id :: string
  UserProfile_email :: string
  UserProfile_full_name :: "string option"
  UserProfile_is_verified :: bool
  UserProfile_mfa_enabled :: bool

record Session =
  Session_id :: string
  Session_created_at :: string
  Session_expires_at :: string

record UserDirectoryEntry =
  UserDirectoryEntry_id :: string
  UserDirectoryEntry_email :: string
  UserDirectoryEntry_full_name :: "string option"

section \<open>Projects and tasks: api/projects.ts\<close>

record Project =
  Project_id :: string
  Project_organization_id :: string
  Project_name :: string
  Project_description :: "string option"
  Project_created_at :: string

record ProjectSummary =
  ProjectSummary_project_count :: number
  ProjectSummary_open_task_count :: number

record ProjectTaskAssignee =
  ProjectTaskAssignee_id :: string
  ProjectTaskAssignee_email :: string
  ProjectTaskAssignee_full_name :: "string option"

record ProjectTask =
  ProjectTask_id :: string
  ProjectTask_project_id :: string
  ProjectTask_title :: string
  ProjectTask_description :: "string option"
  ProjectTask_status :: ProjectTaskStatus
  ProjectTask_priority :: ProjectTaskPriority
  ProjectTask_due_date :: "string option"
  ProjectTask_position :: number
  ProjectTask_assignee :: "ProjectTaskAssignee option"
  ProjectTask_created_at :: string
  ProjectTask_updated_at :: string

section \<open>The calendar: api/calendar.ts\<close>

record CalendarItem =
  CalendarItem_id :: string
  CalendarItem_source :: CalendarItemSource
  CalendarItem_type :: CalendarItemType
  CalendarItem_title :: string
  CalendarItem_description :: "string option"
  CalendarItem_date :: string
  CalendarItem_start_time :: "string option"
  CalendarItem_end_time :: "string option"
  CalendarItem_project_id :: "string option"
  CalendarItem_project_name :: "string option"
  CalendarItem_priority :: "ProjectTaskPriority option"
  CalendarItem_status :: "ProjectTaskStatus option"
  CalendarItem_created_at :: string

section \<open>Notifications: api/notifications.ts\<close>

record Notification =
  Notification_id :: string
  Notification_type :: string
  Notification_title :: string
  Notification_body :: "string option"
  Notification_is_read :: bool
  Notification_created_at :: string

record NotificationPreferences =
  NotificationPreferences_email_enabled :: bool
  NotificationPreferences_push_enabled :: bool
  NotificationPreferences_marketing_enabled :: bool

record NotificationUnreadCount =
  NotificationUnreadCount_count :: number

section \<open>Settings: api/settings.ts\<close>

record ConfigEntry =
  ConfigEntry_key :: string
  ConfigEntry_value :: string
  ConfigEntry_value_type :: string
  ConfigEntry_description :: "string option"
  ConfigEntry_requires_restart :: bool
  ConfigEntry_is_custom :: bool
  ConfigEntry_is_secret :: bool

record ConfigSettingsResponse =
  ConfigSettingsResponse_items :: "ConfigEntry list"
  ConfigSettingsResponse_notice :: string

record ConfigSettingsUpdateRequest_items_item =
  ConfigSettingsUpdateRequest_items_item_key :: string
  ConfigSettingsUpdateRequest_items_item_value :: string

record ConfigSettingsUpdateRequest =
  ConfigSettingsUpdateRequest_items :: "ConfigSettingsUpdateRequest_items_item list"

record DatabaseSetting =
  DatabaseSetting_id :: string
  DatabaseSetting_key :: string
  DatabaseSetting_value :: string
  DatabaseSetting_description :: "string option"
  DatabaseSetting_updated_at :: string

section \<open>Diagnostics events: api/developerDiagnosticsEvents.ts\<close>

record DeveloperRequestSummary_external_calls_item =
  DeveloperRequestSummary_external_calls_item_provider :: string
  DeveloperRequestSummary_external_calls_item_operation :: string
  DeveloperRequestSummary_external_calls_item_latency_ms :: "number option"

record DeveloperRequestSummary =
  DeveloperRequestSummary_method :: string
  DeveloperRequestSummary_path :: string
  DeveloperRequestSummary_status_code :: "number option"
  DeveloperRequestSummary_duration_ms :: number
  DeveloperRequestSummary_correlation_id :: "string option"
  DeveloperRequestSummary_trace_id :: "string option"
  DeveloperRequestSummary_sql_query_count :: number
  DeveloperRequestSummary_db_duration_ms :: number
  DeveloperRequestSummary_cache_hits :: number
  DeveloperRequestSummary_cache_misses :: number
  DeveloperRequestSummary_external_calls :: "DeveloperRequestSummary_external_calls_item list"
  DeveloperRequestSummary_celery_tasks :: "string list"
  DeveloperRequestSummary_rag_stages :: "string list"
  DeveloperRequestSummary_rag_retrieved_chunk_count :: "number option"

section \<open>Diagnostics for developers: api/developerDiagnostics.ts\<close>

record DeveloperDiagnosticsStatus =
  DeveloperDiagnosticsStatus_enabled :: bool
  DeveloperDiagnosticsStatus_environment :: string
  DeveloperDiagnosticsStatus_grafana_base_url :: "string option"
  DeveloperDiagnosticsStatus_tempo_explore_url :: "string option"
  DeveloperDiagnosticsStatus_note :: string

record DeveloperDiagnosticsRecent =
  DeveloperDiagnosticsRecent_enabled :: bool
  DeveloperDiagnosticsRecent_items :: "DeveloperRequestSummary list"

end
