(* ===== verification/Chat_Types.thy ===== *)
theory Chat_Types
  imports Api_Types
begin

text \<open>
  The data of the knowledge chat, as frontend/src/features/chat/types.ts declares it, with
  the conventions of Api_Types.  The event payloads of the stream are a tagged union.
\<close>

section \<open>Literals\<close>

datatype ChatMode = AutoMode | DocumentsMode | GeneralMode | WebMode

datatype ChatSourceKind = DocumentSource | WebSource | MemorySource

datatype ChatRouteReason =
    Explicit_mode | Current_information | Direct_web_request | Selected_documents
  | General_question | Fallback

datatype chat_role = UserRole | AssistantRole

datatype route_confidence = HighConfidence | MediumConfidence | LowConfidence

text \<open>An error code is one of the literals of ChatErrorCode; the code treats it as a text.\<close>

type_synonym ChatErrorCode = string

fun ChatMode_text :: "ChatMode \<Rightarrow> string" where
  "ChatMode_text AutoMode = ''auto''"
| "ChatMode_text DocumentsMode = ''documents''"
| "ChatMode_text GeneralMode = ''general''"
| "ChatMode_text WebMode = ''web''"

definition ChatMode_json :: "ChatMode \<Rightarrow> json" where
  "ChatMode_json m = JStr (ChatMode_text m)"

section \<open>Objects\<close>

record ChatMessageRequest =
  ChatMessageRequest_contract_version :: "string option"
  ChatMessageRequest_content :: string
  ChatMessageRequest_mode :: "ChatMode option"
  ChatMessageRequest_conversation_id :: "string option option"
  ChatMessageRequest_project_id :: "string option option"
  ChatMessageRequest_document_ids :: "string list option"
  ChatMessageRequest_memory_enabled :: "bool option option"
  ChatMessageRequest_memory_write_enabled :: "bool option option"
  ChatMessageRequest_use_memory :: "bool option option"
  ChatMessageRequest_write_memory :: "bool option option"

record ChatSource =
  ChatSource_source_id :: string
  ChatSource_kind :: ChatSourceKind
  ChatSource_title :: string
  ChatSource_document_id :: "string option option"
  ChatSource_chunk_id :: "string option option"
  ChatSource_url :: "string option option"
  ChatSource_snippet :: "string option option"
  ChatSource_score :: "number option option"
  ChatSource_page_number :: "number option option"
  ChatSource_chunk_index :: "number option option"
  ChatSource_rank :: "number option option"
  ChatSource_published_at :: "string option option"
  ChatSource_metadata :: "(string \<times> json) list option"
  ChatSource_available :: "bool option"

record ChatRouteDecision =
  ChatRouteDecision_mode :: ChatMode
  ChatRouteDecision_reason :: ChatRouteReason
  ChatRouteDecision_confidence :: route_confidence
  ChatRouteDecision_use_documents :: bool
  ChatRouteDecision_use_memory :: bool
  ChatRouteDecision_use_web :: bool
  ChatRouteDecision_search_query :: "string option"

record ChatMessage =
  ChatMessage_id :: string
  ChatMessage_role :: chat_role
  ChatMessage_content :: string
  ChatMessage_mode :: ChatMode
  ChatMessage_document_ids :: "string list"
  ChatMessage_status :: string
  ChatMessage_ai_run_id :: "string option"
  ChatMessage_model_name :: "string option"
  ChatMessage_route_reason :: "ChatRouteReason option"
  ChatMessage_route_confidence :: "route_confidence option"
  ChatMessage_input_tokens :: "number option option"
  ChatMessage_output_tokens :: "number option option"
  ChatMessage_completed_at :: "string option option"
  ChatMessage_error_code :: "string option option"
  ChatMessage_created_at :: string
  ChatMessage_sources :: "ChatSource list"

record ChatConversation =
  ChatConversation_id :: string
  ChatConversation_title :: string
  ChatConversation_project_id :: "string option"
  ChatConversation_mode :: ChatMode
  ChatConversation_selected_document_ids :: "string list"
  ChatConversation_memory_enabled :: bool
  ChatConversation_memory_write_enabled :: bool
  ChatConversation_created_at :: string
  ChatConversation_updated_at :: string
  ChatConversation_messages :: "ChatMessage list"

record RagDocument =
  RagDocument_id :: string
  RagDocument_project_id :: "string option"
  RagDocument_filename :: string
  RagDocument_original_filename :: string
  RagDocument_content_type :: string
  RagDocument_fingerprint :: "string option option"
  RagDocument_status :: string
  RagDocument_created_at :: string
  RagDocument_updated_at :: string
  RagDocument_needs_reindex :: "bool option"

record RagIngestionJob =
  RagIngestionJob_id :: string
  RagIngestionJob_document_id :: string
  RagIngestionJob_user_id :: string
  RagIngestionJob_project_id :: "string option"
  RagIngestionJob_status :: string
  RagIngestionJob_error_message :: "string option"
  RagIngestionJob_attempts :: number
  RagIngestionJob_deadline_at :: "string option"
  RagIngestionJob_heartbeat_at :: "string option"
  RagIngestionJob_started_at :: "string option"
  RagIngestionJob_finished_at :: "string option"
  RagIngestionJob_created_at :: string

record RagUploadResponse =
  RagUploadResponse_document :: RagDocument
  RagUploadResponse_ingestion_job :: RagIngestionJob
  RagUploadResponse_duplicate :: "bool option"

definition ChatMessageRequest_json :: "ChatMessageRequest \<Rightarrow> json" where
  "ChatMessageRequest_json x = json_object
     [(''contract_version'', map_option JStr (ChatMessageRequest_contract_version x)),
      (''content'', Some (JStr (ChatMessageRequest_content x))),
      (''mode'', map_option ChatMode_json (ChatMessageRequest_mode x)),
      (''conversation_id'', map_option (json_nullable JStr) (ChatMessageRequest_conversation_id x)),
      (''project_id'', map_option (json_nullable JStr) (ChatMessageRequest_project_id x)),
      (''document_ids'', map_option (json_list JStr) (ChatMessageRequest_document_ids x)),
      (''memory_enabled'', map_option (json_nullable JBool) (ChatMessageRequest_memory_enabled x)),
      (''memory_write_enabled'', map_option (json_nullable JBool) (ChatMessageRequest_memory_write_enabled x)),
      (''use_memory'', map_option (json_nullable JBool) (ChatMessageRequest_use_memory x)),
      (''write_memory'', map_option (json_nullable JBool) (ChatMessageRequest_write_memory x))]"

text \<open>A conversation without its messages.\<close>

record ChatConversationSummary =
  Summary_id :: string
  Summary_title :: string
  Summary_project_id :: "string option"
  Summary_mode :: ChatMode
  Summary_selected_document_ids :: "string list"
  Summary_memory_enabled :: bool
  Summary_memory_write_enabled :: bool
  Summary_created_at :: string
  Summary_updated_at :: string

section \<open>Stream events\<close>

datatype ChatEvent =
    StatusEvent string
  | SourceEvent json
  | TokenEvent string
  | FinalEvent string string "json list" "json option"
  | ErrorEvent ChatErrorCode string bool
  | CancelledEvent string
  | UnknownEvent json

text \<open>
  The payload of an envelope by its member event.  The sources of an answer stay JSON
  values, which the stream code only moves around; a payload that is none of the declared
  objects is an UnknownEvent, which no branch of the handler looks at.
\<close>

definition get_text :: "string \<Rightarrow> json \<Rightarrow> string option" where
  "get_text k v = (case get_prop k v of Some (JStr s) \<Rightarrow> Some s | _ \<Rightarrow> None)"

definition chat_event :: "json \<Rightarrow> ChatEvent" where
  "chat_event v =
     (case get_text ''event'' v of
        None \<Rightarrow> UnknownEvent v
      | Some e \<Rightarrow>
          if e = ''status'' then
            (case get_text ''status'' v of Some s \<Rightarrow> StatusEvent s | None \<Rightarrow> UnknownEvent v)
          else if e = ''source'' then
            (case get_prop ''source'' v of Some s \<Rightarrow> SourceEvent s | None \<Rightarrow> UnknownEvent v)
          else if e = ''token'' then
            (case get_text ''token'' v of Some t \<Rightarrow> TokenEvent t | None \<Rightarrow> UnknownEvent v)
          else if e = ''final'' then
            (case (get_text ''answer'' v, get_prop ''sources'' v) of
               (Some a, Some (JArr ss)) \<Rightarrow>
                 FinalEvent (nullish (get_text ''message_id'' v) []) a ss (get_prop ''route'' v)
             | _ \<Rightarrow> UnknownEvent v)
          else if e = ''error'' then
            (case (get_text ''code'' v, get_text ''message'' v, get_prop ''retryable'' v) of
               (Some c, Some m, Some (JBool b)) \<Rightarrow> ErrorEvent c m b
             | _ \<Rightarrow> UnknownEvent v)
          else if e = ''cancelled'' then
            (case get_text ''message'' v of Some m \<Rightarrow> CancelledEvent m | None \<Rightarrow> UnknownEvent v)
          else UnknownEvent v)"

text \<open>An envelope as the parser delivers it: a sequence that is no number reads as NaN.\<close>

record ChatEventEnvelope =
  en_version :: "json option"
  en_sequence :: js_num
  en_payload :: ChatEvent

definition json_number_value :: "json option \<Rightarrow> js_num" where
  "json_number_value v =
     (case v of
        Some (JNum n) \<Rightarrow> Finite n
      | Some JNull \<Rightarrow> Finite 0
      | Some (JBool b) \<Rightarrow> Finite (if b then 1 else 0)
      | Some (JStr s) \<Rightarrow> parse_number s
      | _ \<Rightarrow> NaN)"

definition chat_envelope :: "json \<Rightarrow> ChatEventEnvelope option" where
  "chat_envelope v =
     (case get_prop ''payload'' v of
        None \<Rightarrow> None
      | Some p \<Rightarrow>
          if truthy_json p
          then Some \<lparr>en_version = get_prop ''contract_version'' v,
                     en_sequence = json_number_value (get_prop ''sequence'' v), en_payload = chat_event p\<rparr>
          else None)"

end
