(* ===== verification/Step_System.thy ===== *)
theory Step_System
  imports Prelude
begin

text \<open>
  Event driven components.  The browser runs one handler at a time, so a component is a
  state, the events it reacts to, a guard that says when an event can occur and a step
  function that is the handler.  The locale step_system is the contract between a
  component and the proofs about all of its executions.
\<close>

inductive reachable :: "('s \<Rightarrow> 'e \<Rightarrow> bool) \<Rightarrow> ('s \<Rightarrow> 'e \<Rightarrow> 's) \<Rightarrow> 's \<Rightarrow> 's \<Rightarrow> bool"
  for enabled :: "'s \<Rightarrow> 'e \<Rightarrow> bool" and step :: "'s \<Rightarrow> 'e \<Rightarrow> 's" and init :: 's where
  reachable_init: "reachable enabled step init init"
| reachable_step:
    "reachable enabled step init s \<Longrightarrow> enabled s e \<Longrightarrow> reachable enabled step init (step s e)"

text \<open>An execution from a state; None when an event is not enabled where it occurs.\<close>

fun run_events :: "('s \<Rightarrow> 'e \<Rightarrow> bool) \<Rightarrow> ('s \<Rightarrow> 'e \<Rightarrow> 's) \<Rightarrow> 's \<Rightarrow> 'e list \<Rightarrow> 's option" where
  "run_events enabled step s [] = Some s"
| "run_events enabled step s (e # es) =
     (if enabled s e then run_events enabled step (step s e) es else None)"

lemma run_events_append:
  "run_events en st s (es @ fs) =
     (case run_events en st s es of None \<Rightarrow> None | Some t \<Rightarrow> run_events en st t fs)"
  by (induction es arbitrary: s) auto

lemma run_events_Cons_Some:
  "run_events en st s (e # es) = Some t \<longleftrightarrow> en s e \<and> run_events en st (st s e) es = Some t"
  by simp

lemma reachable_run:
  "reachable en st i s \<Longrightarrow> run_events en st s es = Some t \<Longrightarrow> reachable en st i t"
  by (induction es arbitrary: s) (auto intro: reachable_step split: if_splits)

lemma reachable_iff_run: "reachable en st i s \<longleftrightarrow> (\<exists>es. run_events en st i es = Some s)"
proof
  assume "reachable en st i s"
  then show "\<exists>es. run_events en st i es = Some s"
  proof induction
    case reachable_init
    show ?case by (rule exI [of _ "[]"]) simp
  next
    case (reachable_step s e)
    then obtain es where "run_events en st i es = Some s" by blast
    with reachable_step.hyps have "run_events en st i (es @ [e]) = Some (st s e)"
      by (simp add: run_events_append)
    then show ?case by blast
  qed
qed (blast intro: reachable_run reachable.reachable_init)

locale step_system =
  fixes enabled :: "'s \<Rightarrow> 'e \<Rightarrow> bool"
    and step :: "'s \<Rightarrow> 'e \<Rightarrow> 's"
    and init :: 's
    and invar :: "'s \<Rightarrow> bool"
  assumes invar_init: "invar init"
    and invar_step: "invar s \<Longrightarrow> enabled s e \<Longrightarrow> invar (step s e)"
begin

lemma invar_reachable: "reachable enabled step init s \<Longrightarrow> invar s"
  by (induction rule: reachable.induct) (auto intro: invar_init invar_step)

lemma invar_run: "invar s \<Longrightarrow> run_events enabled step s es = Some t \<Longrightarrow> invar t"
  by (induction es arbitrary: s) (auto intro: invar_step split: if_splits)

text \<open>What holds in a state that satisfies the invariant and is kept by every step that
  satisfies a side condition is kept along an execution of such steps.\<close>

lemma run_preserves:
  assumes keep: "\<And>s e. invar s \<Longrightarrow> P s \<Longrightarrow> enabled s e \<Longrightarrow> side e \<Longrightarrow> P (step s e)"
    and "invar s" and "P s" and "list_all side es"
    and "run_events enabled step s es = Some t"
  shows "P t"
  using assms(2-)
proof (induction es arbitrary: s)
  case (Cons e es)
  from Cons.prems have en: "enabled s e" by (simp split: if_splits)
  from Cons.prems have "P (step s e)" using keep en by simp
  moreover have "invar (step s e)" using Cons.prems(1) en by (rule invar_step)
  ultimately show ?case using Cons en by simp
qed simp

end

end
