(* ===== verification/Auth_Session.thy ===== *)
theory Auth_Session
  imports Step_System
begin

text \<open>
  The session half of frontend/src/api/client.ts: the module variables that coordinate
  token refreshes, the functions that change them, and the callbacks of the shared
  refresh promise.  Every await in the source ends a handler, so the handlers here are
  the pieces of code between two awaits; the events are the points where the browser
  runs one of them.
\<close>

section \<open>State\<close>

text \<open>The promise that refreshForRetry creates; it never rejects.\<close>

datatype promise_state = Pending | Fulfilled bool

record refresh_request =
  rr_generation :: nat
  rr_state :: promise_state

text \<open>
  refresh_requests is the log of the refresh requests sent so far; a promise is its
  position in the log.  expired_events is the log of the AUTH_SESSION_EXPIRED_EVENTs
  dispatched, each with the generation it was raised for.
\<close>

record auth_session =
  refreshPromise :: "nat option"
  refreshPromiseGeneration :: "nat option"
  authSessionGeneration :: nat
  authSessionActive :: bool
  refresh_requests :: "refresh_request list"
  expired_events :: "nat list"

definition initial_auth_session :: auth_session where
  "initial_auth_session =
     \<lparr>refreshPromise = None, refreshPromiseGeneration = None, authSessionGeneration = 0,
      authSessionActive = True, refresh_requests = [], expired_events = []\<rparr>"

section \<open>Handlers\<close>

definition expireAuthSession :: "nat \<Rightarrow> auth_session \<Rightarrow> auth_session" where
  "expireAuthSession generation s =
     (if \<not> authSessionActive s \<or> generation \<noteq> authSessionGeneration s then s
      else s\<lparr>authSessionActive := False,
             authSessionGeneration := authSessionGeneration s + 1,
             expired_events := expired_events s @ [generation]\<rparr>)"

definition beginAuthLogout :: "auth_session \<Rightarrow> auth_session" where
  "beginAuthLogout s =
     s\<lparr>authSessionActive := False, authSessionGeneration := authSessionGeneration s + 1\<rparr>"

definition markAuthSessionActive :: "auth_session \<Rightarrow> auth_session" where
  "markAuthSessionActive s =
     s\<lparr>authSessionActive := True, authSessionGeneration := authSessionGeneration s + 1\<rparr>"

text \<open>What the synchronous part of refreshForRetry ends with.\<close>

datatype refresh_answer =
    ThrowCancelled
  | Answer bool
  | Await nat

text \<open>The body of the guard: a new request becomes the shared promise.\<close>

definition start_refresh :: "auth_session \<Rightarrow> auth_session" where
  "start_refresh s =
     s\<lparr>refresh_requests := refresh_requests s
          @ [\<lparr>rr_generation = authSessionGeneration s, rr_state = Pending\<rparr>],
       refreshPromise := Some (length (refresh_requests s)),
       refreshPromiseGeneration := Some (authSessionGeneration s)\<rparr>"

definition needs_refresh :: "auth_session \<Rightarrow> bool" where
  "needs_refresh s \<longleftrightarrow>
     refreshPromise s = None
     \<or> refreshPromiseGeneration s \<noteq> Some (authSessionGeneration s)"

definition refreshForRetry :: "bool \<Rightarrow> auth_session \<Rightarrow> refresh_answer \<times> auth_session" where
  "refreshForRetry aborted s =
     (if aborted then (ThrowCancelled, s)
      else if \<not> authSessionActive s then (Answer False, s)
      else let s' = (if needs_refresh s then start_refresh s else s)
           in (case refreshPromise s' of
                 None \<Rightarrow> (Answer False, s')
               | Some p \<Rightarrow> (Await p, s')))"

text \<open>
  The then-callback of request p: the refresh response is in, refreshed says whether it
  was ok.  The value it returns fulfils the promise.
\<close>

definition settle_refresh :: "nat \<Rightarrow> bool \<Rightarrow> auth_session \<Rightarrow> auth_session" where
  "settle_refresh p refreshed s =
     (let generation = rr_generation (refresh_requests s ! p);
          s' = (if \<not> refreshed then expireAuthSession generation s else s);
          v = (refreshed \<and> authSessionActive s' \<and> generation = authSessionGeneration s')
      in s'\<lparr>refresh_requests := (refresh_requests s')[p := \<lparr>rr_generation = generation, rr_state = Fulfilled v\<rparr>]\<rparr>)"

text \<open>The finally-callback of request p.\<close>

definition clear_refresh :: "nat \<Rightarrow> auth_session \<Rightarrow> auth_session" where
  "clear_refresh p s =
     (if refreshPromise s = Some p
      then s\<lparr>refreshPromise := None, refreshPromiseGeneration := None\<rparr> else s)"

section \<open>Events\<close>

datatype auth_event =
    LogoutBegins
  | SessionMarkedActive
  | RefreshWanted bool
  | RefreshResponse nat bool
  | RefreshFinally nat

definition promise_of :: "auth_session \<Rightarrow> nat \<Rightarrow> promise_state option" where
  "promise_of s p =
     (if p < length (refresh_requests s) then Some (rr_state (refresh_requests s ! p)) else None)"

fun auth_enabled :: "auth_session \<Rightarrow> auth_event \<Rightarrow> bool" where
  "auth_enabled s (RefreshResponse p ok) = (promise_of s p = Some Pending)"
| "auth_enabled s (RefreshFinally p) =
     (promise_of s p \<noteq> None \<and> promise_of s p \<noteq> Some Pending)"
| "auth_enabled s _ = True"

fun auth_step :: "auth_session \<Rightarrow> auth_event \<Rightarrow> auth_session" where
  "auth_step s LogoutBegins = beginAuthLogout s"
| "auth_step s SessionMarkedActive = markAuthSessionActive s"
| "auth_step s (RefreshWanted aborted) = snd (refreshForRetry aborted s)"
| "auth_step s (RefreshResponse p ok) = settle_refresh p ok s"
| "auth_step s (RefreshFinally p) = clear_refresh p s"

definition auth_reachable :: "auth_session \<Rightarrow> bool" where
  "auth_reachable s \<longleftrightarrow> reachable auth_enabled auth_step initial_auth_session s"

section \<open>The invariant\<close>

definition pending_at :: "auth_session \<Rightarrow> nat \<Rightarrow> nat \<Rightarrow> bool" where
  "pending_at s p g \<longleftrightarrow>
     promise_of s p = Some Pending \<and> rr_generation (refresh_requests s ! p) = g"

text \<open>
  The shared promise and its generation agree with the log; no request belongs to a
  future generation; a request in flight for the current generation is the shared one;
  two requests in flight belong to different generations; a generation expires once,
  and only when it is over.
\<close>

definition auth_inv :: "auth_session \<Rightarrow> bool" where
  "auth_inv s \<longleftrightarrow>
     (\<forall>p. refreshPromise s = Some p \<longrightarrow>
        p < length (refresh_requests s)
        \<and> refreshPromiseGeneration s = Some (rr_generation (refresh_requests s ! p)))
     \<and> (\<forall>r \<in> set (refresh_requests s). rr_generation r \<le> authSessionGeneration s)
     \<and> (\<forall>p. pending_at s p (authSessionGeneration s) \<longrightarrow> refreshPromise s = Some p)
     \<and> (\<forall>p q g. pending_at s p g \<longrightarrow> pending_at s q g \<longrightarrow> p = q)
     \<and> distinct (expired_events s)
     \<and> (\<forall>g \<in> set (expired_events s). g < authSessionGeneration s)"

lemma auth_invD:
  assumes "auth_inv s"
  shows "refreshPromise s = Some p \<Longrightarrow> p < length (refresh_requests s)"
    and "refreshPromise s = Some p \<Longrightarrow>
      refreshPromiseGeneration s = Some (rr_generation (refresh_requests s ! p))"
    and "r \<in> set (refresh_requests s) \<Longrightarrow> rr_generation r \<le> authSessionGeneration s"
    and "pending_at s p (authSessionGeneration s) \<Longrightarrow> refreshPromise s = Some p"
    and "pending_at s p g \<Longrightarrow> pending_at s q g \<Longrightarrow> p = q"
    and "distinct (expired_events s)"
    and "g \<in> set (expired_events s) \<Longrightarrow> g < authSessionGeneration s"
  using assms unfolding auth_inv_def by blast+

lemma auth_invI:
  assumes "\<And>p. refreshPromise s = Some p \<Longrightarrow>
        p < length (refresh_requests s)
        \<and> refreshPromiseGeneration s = Some (rr_generation (refresh_requests s ! p))"
    and "\<And>r. r \<in> set (refresh_requests s) \<Longrightarrow> rr_generation r \<le> authSessionGeneration s"
    and "\<And>p. pending_at s p (authSessionGeneration s) \<Longrightarrow> refreshPromise s = Some p"
    and "\<And>p q g. pending_at s p g \<Longrightarrow> pending_at s q g \<Longrightarrow> p = q"
    and "distinct (expired_events s)"
    and "\<And>g. g \<in> set (expired_events s) \<Longrightarrow> g < authSessionGeneration s"
  shows "auth_inv s"
  using assms unfolding auth_inv_def by blast

lemma pending_generation:
  "auth_inv s \<Longrightarrow> pending_at s p g \<Longrightarrow> g \<le> authSessionGeneration s"
  by (auto simp: pending_at_def promise_of_def split: if_splits intro!: auth_invD(3) nth_mem)

lemma auth_inv_init: "auth_inv initial_auth_session"
  by (simp add: auth_inv_def initial_auth_session_def pending_at_def promise_of_def)

text \<open>A new generation keeps the invariant: nothing is in flight for it.\<close>

definition next_generation :: "auth_session \<Rightarrow> bool \<Rightarrow> auth_session" where
  "next_generation s act =
     s\<lparr>authSessionActive := act, authSessionGeneration := authSessionGeneration s + 1\<rparr>"

lemma pending_at_cong:
  "refresh_requests t = refresh_requests s \<Longrightarrow> pending_at t p g = pending_at s p g"
  by (simp add: pending_at_def promise_of_def)

lemma next_generation_simps [simp]:
  "refresh_requests (next_generation s act) = refresh_requests s"
  "refreshPromise (next_generation s act) = refreshPromise s"
  "refreshPromiseGeneration (next_generation s act) = refreshPromiseGeneration s"
  "authSessionGeneration (next_generation s act) = Suc (authSessionGeneration s)"
  "authSessionActive (next_generation s act) = act"
  "expired_events (next_generation s act) = expired_events s"
  by (simp_all add: next_generation_def)

lemma pending_at_next_generation [simp]: "pending_at (next_generation s act) = pending_at s"
  by (intro ext pending_at_cong) simp

lemma not_pending_at_next: "auth_inv s \<Longrightarrow> \<not> pending_at s p (Suc (authSessionGeneration s))"
  using pending_generation by fastforce

lemma auth_inv_next_generation:
  assumes "auth_inv s" shows "auth_inv (next_generation s act)"
proof (rule auth_invI)
  fix p assume "pending_at (next_generation s act) p (authSessionGeneration (next_generation s act))"
  then show "refreshPromise (next_generation s act) = Some p"
    using not_pending_at_next [OF assms] by simp
qed (use auth_invD [OF assms] in \<open>auto intro: le_SucI less_SucI\<close>)

lemma auth_inv_event:
  assumes "auth_inv s" and "g < authSessionGeneration s" and "g \<notin> set (expired_events s)"
  shows "auth_inv (s\<lparr>expired_events := expired_events s @ [g]\<rparr>)" (is "auth_inv ?t")
proof -
  have p: "pending_at ?t = pending_at s" by (intro ext pending_at_cong) simp
  show ?thesis
    by (rule auth_invI; (unfold p)?) (use auth_invD [OF assms(1)] assms(2,3) in auto)
qed

lemma expireAuthSession_eq:
  "expireAuthSession g s =
     (if authSessionActive s \<and> g = authSessionGeneration s
      then (next_generation s False)\<lparr>expired_events := expired_events s @ [g]\<rparr> else s)"
  by (simp add: expireAuthSession_def next_generation_def)

lemma auth_inv_expire:
  assumes "auth_inv s" shows "auth_inv (expireAuthSession g s)"
proof -
  have "authSessionGeneration s \<notin> set (expired_events s)" using auth_invD(7) [OF assms] by blast
  then show ?thesis
    using assms auth_inv_event [OF auth_inv_next_generation [OF assms, of False], of g]
    by (cases "g = authSessionGeneration s") (simp_all add: expireAuthSession_eq)
qed

lemma pending_at_start:
  "pending_at (start_refresh s) p g \<longleftrightarrow>
     pending_at s p g \<or> p = length (refresh_requests s) \<and> g = authSessionGeneration s"
  by (auto simp: pending_at_def promise_of_def start_refresh_def nth_append)

lemma no_pending_when_needed:
  assumes "auth_inv s" and "needs_refresh s"
  shows "\<not> pending_at s p (authSessionGeneration s)"
proof
  assume p: "pending_at s p (authSessionGeneration s)"
  then have "refreshPromise s = Some p" by (rule auth_invD(4) [OF assms(1)])
  moreover from this have "refreshPromiseGeneration s = Some (authSessionGeneration s)"
    using auth_invD(2) [OF assms(1)] p by (simp add: pending_at_def)
  ultimately show False using assms(2) by (simp add: needs_refresh_def)
qed

lemma auth_inv_start:
  assumes inv: "auth_inv s" and need: "needs_refresh s"
  shows "auth_inv (start_refresh s)"
proof -
  note none = no_pending_when_needed [OF inv need]
  have f: "refresh_requests (start_refresh s) = refresh_requests s
             @ [\<lparr>rr_generation = authSessionGeneration s, rr_state = Pending\<rparr>]"
    "refreshPromise (start_refresh s) = Some (length (refresh_requests s))"
    "refreshPromiseGeneration (start_refresh s) = Some (authSessionGeneration s)"
    "authSessionGeneration (start_refresh s) = authSessionGeneration s"
    "expired_events (start_refresh s) = expired_events s"
    by (simp_all add: start_refresh_def)
  show ?thesis
    unfolding auth_inv_def f pending_at_start
    using none auth_invD(3,5,6,7) [OF inv] by auto
qed

lemma pending_at_settled:
  "refresh_requests t = (refresh_requests s)[p := \<lparr>rr_generation = h, rr_state = Fulfilled v\<rparr>] \<Longrightarrow>
   pending_at t q g \<longleftrightarrow> q \<noteq> p \<and> pending_at s q g"
  by (cases "q = p") (auto simp: pending_at_def promise_of_def)

text \<open>Recording the value of request p keeps the invariant.\<close>

lemma auth_inv_fulfil:
  assumes inv: "auth_inv s" and g: "g = rr_generation (refresh_requests s ! p)"
    and p: "p < length (refresh_requests s)"
  shows "auth_inv (s\<lparr>refresh_requests := (refresh_requests s)[p := \<lparr>rr_generation = g, rr_state = Fulfilled v\<rparr>]\<rparr>)"
    (is "auth_inv ?t")
proof -
  have pend: "pending_at ?t q h \<longleftrightarrow> q \<noteq> p \<and> pending_at s q h" for q h
    by (rule pending_at_settled) simp
  have gen: "rr_generation (refresh_requests ?t ! q) = rr_generation (refresh_requests s ! q)" for q
    using g p by (cases "q = p") simp_all
  have "rr_generation (refresh_requests s ! p) \<le> authSessionGeneration s"
    using auth_invD(3) [OF inv] p by simp
  then have le: "rr_generation r \<le> authSessionGeneration s" if "r \<in> set (refresh_requests ?t)" for r
    using that auth_invD(3) [OF inv] g
    by (auto dest: set_update_subset_insert [THEN subsetD])
  show ?thesis
    by (rule auth_invI; (unfold pend gen)?) (use auth_invD [OF inv] le in \<open>simp_all, blast\<close>)
qed

lemma auth_inv_settle:
  assumes inv: "auth_inv s" and p: "promise_of s p = Some Pending"
  shows "auth_inv (settle_refresh p ok s)"
proof -
  let ?g = "rr_generation (refresh_requests s ! p)"
  let ?s = "if \<not> ok then expireAuthSession ?g s else s"
  have "auth_inv ?s" using auth_inv_expire [OF inv] inv by simp
  moreover have "refresh_requests ?s = refresh_requests s"
    by (simp add: expireAuthSession_def)
  moreover have "p < length (refresh_requests s)"
    using p by (simp add: promise_of_def split: if_splits)
  ultimately show ?thesis
    unfolding settle_refresh_def Let_def by (intro auth_inv_fulfil) simp_all
qed

lemma auth_inv_clear:
  assumes inv: "auth_inv s" and p: "promise_of s p \<noteq> Some Pending"
  shows "auth_inv (clear_refresh p s)"
proof (cases "refreshPromise s = Some p")
  case True
  let ?t = "s\<lparr>refreshPromise := None, refreshPromiseGeneration := None\<rparr>"
  have none: "\<not> pending_at s q (authSessionGeneration s)" for q
    using auth_invD(4) [OF inv, of q] True p by (auto simp: pending_at_def)
  have same: "pending_at ?t = pending_at s" by (intro ext pending_at_cong) simp
  have "auth_inv ?t"
    by (rule auth_invI; (unfold same)?) (use auth_invD [OF inv] none in auto)
  with True show ?thesis by (simp add: clear_refresh_def)
qed (use inv in \<open>simp add: clear_refresh_def\<close>)

lemma auth_inv_step:
  assumes "auth_inv s" and "auth_enabled s e" shows "auth_inv (auth_step s e)"
proof (cases e)
  case LogoutBegins
  then show ?thesis using auth_inv_next_generation [OF assms(1), of False]
    by (simp add: beginAuthLogout_def next_generation_def)
next
  case SessionMarkedActive
  then show ?thesis using auth_inv_next_generation [OF assms(1), of True]
    by (simp add: markAuthSessionActive_def next_generation_def)
next
  case (RefreshWanted b)
  then show ?thesis using assms(1) auth_inv_start [OF assms(1)]
    by (simp add: refreshForRetry_def Let_def split: option.split)
next
  case (RefreshResponse p ok)
  then show ?thesis using assms auth_inv_settle [OF assms(1)] by simp
next
  case (RefreshFinally p)
  then show ?thesis using assms auth_inv_clear [OF assms(1)] by simp
qed

interpretation auth: step_system auth_enabled auth_step initial_auth_session auth_inv
  by unfold_locales (auto intro: auth_inv_init auth_inv_step)

lemma auth_reachable_inv: "auth_reachable s \<Longrightarrow> auth_inv s"
  unfolding auth_reachable_def by (rule auth.invar_reachable)

section \<open>Properties\<close>

lemma auth_reachable_run:
  "run_events auth_enabled auth_step initial_auth_session es = Some s \<Longrightarrow> auth_reachable s"
  unfolding auth_reachable_def by (auto simp: reachable_iff_run)

lemma pending_atI:
  "promise_of s p = Some Pending \<Longrightarrow> pending_at s p (rr_generation (refresh_requests s ! p))"
  by (simp add: pending_at_def)

lemma promise_of_settle:
  assumes "promise_of s p = Some Pending"
  shows "promise_of (settle_refresh p ok s) q =
     (if q = p
      then Some (Fulfilled (ok \<and> authSessionActive s
             \<and> rr_generation (refresh_requests s ! p) = authSessionGeneration s))
      else promise_of s q)"
  using assms by (auto simp: settle_refresh_def Let_def promise_of_def expireAuthSession_def)

lemma settle_refresh_frame:
  "length (refresh_requests (settle_refresh p ok s)) = length (refresh_requests s)"
  "refreshPromise (settle_refresh p ok s) = refreshPromise s"
  "refreshPromiseGeneration (settle_refresh p ok s) = refreshPromiseGeneration s"
  by (simp_all add: settle_refresh_def Let_def expireAuthSession_def)

lemma settle_refresh_session:
  "authSessionActive (settle_refresh p ok s) =
     authSessionActive (if ok then s else expireAuthSession (rr_generation (refresh_requests s ! p)) s)"
  "authSessionGeneration (settle_refresh p ok s) =
     authSessionGeneration (if ok then s else expireAuthSession (rr_generation (refresh_requests s ! p)) s)"
  "expired_events (settle_refresh p ok s) =
     expired_events (if ok then s else expireAuthSession (rr_generation (refresh_requests s ! p)) s)"
  by (simp_all add: settle_refresh_def Let_def)

lemma promise_of_frame [simp]:
  "promise_of (beginAuthLogout s) p = promise_of s p"
  "promise_of (markAuthSessionActive s) p = promise_of s p"
  "promise_of (clear_refresh q s) p = promise_of s p"
  "promise_of (expireAuthSession g s) p = promise_of s p"
  by (simp_all add: promise_of_def beginAuthLogout_def markAuthSessionActive_def
      clear_refresh_def expireAuthSession_def)

lemma clear_refresh_frame [simp]:
  "authSessionActive (clear_refresh p s) = authSessionActive s"
  "authSessionGeneration (clear_refresh p s) = authSessionGeneration s"
  "refresh_requests (clear_refresh p s) = refresh_requests s"
  "expired_events (clear_refresh p s) = expired_events s"
  by (simp_all add: clear_refresh_def)

lemma beginAuthLogout_frame [simp]:
  "authSessionActive (beginAuthLogout s) = False"
  "authSessionGeneration (beginAuthLogout s) = Suc (authSessionGeneration s)"
  "refresh_requests (beginAuthLogout s) = refresh_requests s"
  "expired_events (beginAuthLogout s) = expired_events s"
  by (simp_all add: beginAuthLogout_def)

lemma refreshForRetry_inactive [simp]:
  "\<not> authSessionActive s \<Longrightarrow> snd (refreshForRetry aborted s) = s"
  by (simp add: refreshForRetry_def)

text \<open>
  C1: Single flight. In every reachable state of the client two refresh requests that are
  in flight at once belong to different session generations: the callers of one session
  never have two refreshes outstanding.
\<close>
theorem refresh_single_flight:
  assumes "auth_reachable s"
    and "promise_of s p = Some Pending" and "promise_of s q = Some Pending"
    and "rr_generation (refresh_requests s ! p) = rr_generation (refresh_requests s ! q)"
  shows "p = q"
  using auth_invD(5) [OF auth_reachable_inv [OF assms(1)]] pending_atI assms(2-4) by metis

definition two_sessions_run :: "auth_event list" where
  "two_sessions_run = [RefreshWanted False, SessionMarkedActive, RefreshWanted False]"

definition two_sessions_state :: auth_session where
  "two_sessions_state =
     the (run_events auth_enabled auth_step initial_auth_session two_sessions_run)"

lemma two_sessions_reachable: "auth_reachable two_sessions_state"
  by (rule auth_reachable_run [of two_sessions_run]) code_simp

theorem refresh_single_flight_witness:
  "promise_of two_sessions_state 0 = Some Pending \<and> promise_of two_sessions_state 1 = Some Pending
   \<and> rr_generation (refresh_requests two_sessions_state ! 0)
     \<noteq> rr_generation (refresh_requests two_sessions_state ! 1)"
proof -
  have 0: "promise_of two_sessions_state 0 = Some Pending" by code_simp
  have 1: "promise_of two_sessions_state 1 = Some Pending" by code_simp
  from refresh_single_flight [OF two_sessions_reachable 0 1] 0 1 show ?thesis by auto
qed

text \<open>
  Callers share the refresh in flight. While a refresh of the current session is
  outstanding, a caller that meets a 401 waits on that very promise and changes nothing:
  no second request is sent.
\<close>
theorem refresh_joined:
  assumes "auth_reachable s" and "authSessionActive s"
    and "promise_of s p = Some Pending"
    and "rr_generation (refresh_requests s ! p) = authSessionGeneration s"
  shows "refreshForRetry False s = (Await p, s)"
proof -
  have inv: "auth_inv s" by (rule auth_reachable_inv [OF assms(1)])
  have p: "pending_at s p (authSessionGeneration s)" using assms(3,4) by (simp add: pending_at_def)
  have "refreshPromise s = Some p" by (rule auth_invD(4) [OF inv p])
  moreover have "\<not> needs_refresh s" using no_pending_when_needed [OF inv] p by blast
  ultimately show ?thesis using assms(2) by (simp add: refreshForRetry_def)
qed

theorem refresh_joined_witness:
  "refreshForRetry False two_sessions_state = (Await 1, two_sessions_state)"
proof (rule refresh_joined [OF two_sessions_reachable])
  show "authSessionActive two_sessions_state" by code_simp
  show "promise_of two_sessions_state 1 = Some Pending" by code_simp
  show "rr_generation (refresh_requests two_sessions_state ! 1)
     = authSessionGeneration two_sessions_state" by code_simp
qed

text \<open>
  A session expires once. In every reachable state the generations for which
  AUTH_SESSION_EXPIRED_EVENT has been dispatched are pairwise different and all of them
  are over: however many requests fail together, the event is raised once per session.
\<close>
theorem expired_once_per_session:
  assumes "auth_reachable s"
  shows "distinct (expired_events s)
    \<and> (\<forall>g \<in> set (expired_events s). g < authSessionGeneration s)"
  using auth_invD(6,7) [OF auth_reachable_inv [OF assms]] by blast

definition expired_state :: auth_session where
  "expired_state =
     the (run_events auth_enabled auth_step initial_auth_session
       [RefreshWanted False, RefreshWanted False, RefreshResponse 0 False, RefreshWanted False,
        SessionMarkedActive, RefreshWanted False, RefreshResponse 1 False])"

theorem expired_once_per_session_witness:
  "expired_events expired_state = [0, 2] \<and> distinct (expired_events expired_state)"
proof -
  have "auth_reachable expired_state"
    by (rule auth_reachable_run
        [of "[RefreshWanted False, RefreshWanted False, RefreshResponse 0 False, RefreshWanted False,
              SessionMarkedActive, RefreshWanted False, RefreshResponse 1 False]"]) code_simp
  from expired_once_per_session [OF this] have "distinct (expired_events expired_state)" by blast
  moreover have "expired_events expired_state = [0, 2]" by code_simp
  ultimately show ?thesis by blast
qed

text \<open>
  A late refresh response is inert. When the response of a refresh arrives after the
  session it was sent for is over (a logout, an expiry or a new sign-in came first),
  its waiters are told not to retry and nothing else changes: the newer session is
  neither expired nor confirmed by it, and its own shared promise stays in place.
\<close>
theorem stale_refresh_inert:
  assumes "promise_of s p = Some Pending"
    and "rr_generation (refresh_requests s ! p) \<noteq> authSessionGeneration s"
  shows "promise_of (settle_refresh p ok s) p = Some (Fulfilled False)
    \<and> (\<forall>q. q = p \<or> promise_of (settle_refresh p ok s) q = promise_of s q)
    \<and> authSessionActive (settle_refresh p ok s) = authSessionActive s
    \<and> authSessionGeneration (settle_refresh p ok s) = authSessionGeneration s
    \<and> expired_events (settle_refresh p ok s) = expired_events s
    \<and> refreshPromise (settle_refresh p ok s) = refreshPromise s"
  using assms
  by (auto simp: promise_of_settle settle_refresh_session settle_refresh_frame expireAuthSession_def)

theorem stale_refresh_inert_witness:
  "promise_of (settle_refresh 0 False two_sessions_state) 0 = Some (Fulfilled False)
   \<and> authSessionActive (settle_refresh 0 False two_sessions_state)"
proof -
  have 0: "promise_of two_sessions_state 0 = Some Pending" by code_simp
  have g: "rr_generation (refresh_requests two_sessions_state ! 0)
      \<noteq> authSessionGeneration two_sessions_state" by code_simp
  have "authSessionActive two_sessions_state" by code_simp
  with stale_refresh_inert [OF 0 g, of False] show ?thesis by simp
qed

text \<open>
  C2: Logout wins every race. After beginAuthLogout and until a session is marked active
  again, whatever events follow: no refresh request is sent, no expiry event is raised,
  and a caller that was waiting for a refresh is never told to retry.
\<close>
theorem logout_wins:
  assumes "auth_reachable s"
    and "run_events auth_enabled auth_step (beginAuthLogout s) es = Some t"
    and "SessionMarkedActive \<notin> set es"
  shows "\<not> authSessionActive t
    \<and> length (refresh_requests t) = length (refresh_requests s)
    \<and> expired_events t = expired_events s
    \<and> (\<forall>p. promise_of s p = Some Pending \<longrightarrow> promise_of t p \<in> {Some Pending, Some (Fulfilled False)})"
proof (rule auth.run_preserves [where side = "\<lambda>e. e \<noteq> SessionMarkedActive"])
  show "auth_inv (beginAuthLogout s)"
    using auth_inv_step [OF auth_reachable_inv [OF assms(1)], of LogoutBegins] by simp
  show "list_all (\<lambda>e. e \<noteq> SessionMarkedActive) es"
    using assms(3) by (auto simp: list_all_iff)
  show "run_events auth_enabled auth_step (beginAuthLogout s) es = Some t" by (rule assms(2))
  fix u e
  assume "\<not> authSessionActive u \<and> length (refresh_requests u) = length (refresh_requests s)
    \<and> expired_events u = expired_events s
    \<and> (\<forall>p. promise_of s p = Some Pending \<longrightarrow> promise_of u p \<in> {Some Pending, Some (Fulfilled False)})"
    and "auth_enabled u e" and "e \<noteq> SessionMarkedActive"
  then show "\<not> authSessionActive (auth_step u e)
    \<and> length (refresh_requests (auth_step u e)) = length (refresh_requests s)
    \<and> expired_events (auth_step u e) = expired_events s
    \<and> (\<forall>p. promise_of s p = Some Pending \<longrightarrow>
          promise_of (auth_step u e) p \<in> {Some Pending, Some (Fulfilled False)})"
    by (cases e)
      (auto simp: promise_of_settle settle_refresh_session settle_refresh_frame expireAuthSession_def)
qed simp_all

theorem logout_wins_witness:
  "\<not> authSessionActive (the (run_events auth_enabled auth_step (beginAuthLogout two_sessions_state)
      [RefreshResponse 1 True, RefreshWanted False, RefreshFinally 1]))"
proof -
  let ?es = "[RefreshResponse 1 True, RefreshWanted False, RefreshFinally 1]"
  have "run_events auth_enabled auth_step (beginAuthLogout two_sessions_state) ?es \<noteq> None"
    by code_simp
  then obtain t where t: "run_events auth_enabled auth_step (beginAuthLogout two_sessions_state) ?es = Some t"
    by blast
  from logout_wins [OF two_sessions_reachable t] show ?thesis unfolding t by simp
qed

end
