(* ===== verification/Js_Uri.thy ===== *)
theory Js_Uri
  imports Js_Values
begin

text \<open>
  encodeURIComponent, decodeURIComponent and URLSearchParams on UTF-8 byte strings.  The
  client decodes the value of a cookie, and it escapes path segments and query values
  with these functions; decode (encode s) = s is what makes the escaped segment arrive
  as the value that was meant, and an encoded segment never contains a separator.
\<close>

section \<open>Percent escapes\<close>

definition hex_digit :: "nat \<Rightarrow> char" where
  "hex_digit n = ''0123456789ABCDEF'' ! n"

definition percent_escape :: "char \<Rightarrow> string" where
  "percent_escape c = [CHR ''%'', hex_digit (of_char c div 16), hex_digit (of_char c mod 16)]"

definition is_alnum :: "char \<Rightarrow> bool" where
  "is_alnum c =
     (let n = of_char c :: nat
      in 48 \<le> n \<and> n \<le> 57 \<or> 65 \<le> n \<and> n \<le> 90 \<or> 97 \<le> n \<and> n \<le> 122)"

definition uri_unreserved :: "char \<Rightarrow> bool" where
  "uri_unreserved c \<longleftrightarrow> is_alnum c \<or> c \<in> set ''-_.!~*()'' \<or> c = CHR 0x27"

definition encodeURIComponent :: "string \<Rightarrow> string" where
  "encodeURIComponent s = concat (map (\<lambda>c. if uri_unreserved c then [c] else percent_escape c) s)"

text \<open>The bytes that the escapes stand for; None when a percent sign is not followed by two hexadecimal digits.\<close>

fun unescape_percent :: "string \<Rightarrow> string option" where
  "unescape_percent [] = Some []"
| "unescape_percent (c # cs) =
     (if c \<noteq> CHR ''%'' then map_option ((#) c) (unescape_percent cs)
      else (case cs of
              h # l # rest \<Rightarrow>
                if is_digit_in 16 h \<and> is_digit_in 16 l
                then map_option ((#) (char_of (digits_value 16 [h, l]))) (unescape_percent rest)
                else None
            | _ \<Rightarrow> None))"

text \<open>
  Well-formed UTF-8: the lead byte says how many continuation bytes follow, and the
  second byte excludes overlong forms, surrogates and code points above 10FFFF.
\<close>

definition continuation :: "nat \<Rightarrow> bool" where
  "continuation n \<longleftrightarrow> 128 \<le> n \<and> n < 192"

fun valid_utf8 :: "nat list \<Rightarrow> bool" where
  "valid_utf8 [] = True"
| "valid_utf8 (a # as) =
     (if a < 128 then valid_utf8 as
      else if 194 \<le> a \<and> a < 224
      then (case as of b # r \<Rightarrow> continuation b \<and> valid_utf8 r | _ \<Rightarrow> False)
      else if 224 \<le> a \<and> a < 240
      then (case as of
              b # c # r \<Rightarrow>
                continuation b \<and> continuation c \<and> (a = 224 \<longrightarrow> 160 \<le> b) \<and> (a = 237 \<longrightarrow> b < 160)
                \<and> valid_utf8 r
            | _ \<Rightarrow> False)
      else if 240 \<le> a \<and> a < 245
      then (case as of
              b # c # d # r \<Rightarrow>
                continuation b \<and> continuation c \<and> continuation d
                \<and> (a = 240 \<longrightarrow> 144 \<le> b) \<and> (a = 244 \<longrightarrow> b < 144) \<and> valid_utf8 r
            | _ \<Rightarrow> False)
      else False)"

text \<open>decodeURIComponent; None is the URIError it throws.\<close>

definition decodeURIComponent :: "string \<Rightarrow> string option" where
  "decodeURIComponent s =
     (case unescape_percent s of
        None \<Rightarrow> None
      | Some t \<Rightarrow> if valid_utf8 (char_codes t) then Some t else None)"

lemma hex_digit_mem: "n < 16 \<Longrightarrow> hex_digit n \<in> set ''0123456789ABCDEF''"
  unfolding hex_digit_def by (rule nth_mem) simp

lemma hex_digit_less: "n < 16 \<Longrightarrow> is_digit_in 16 (hex_digit n) \<and> digit_value (hex_digit n) = Some n"
proof -
  have "map digit_value ''0123456789ABCDEF'' = map Some [0..<16]" by code_simp
  then have "map digit_value ''0123456789ABCDEF'' ! n = map Some [0..<16] ! n" by simp
  then show "n < 16 \<Longrightarrow> is_digit_in 16 (hex_digit n) \<and> digit_value (hex_digit n) = Some n"
    unfolding is_digit_in_def hex_digit_def by (subst (asm) (1 2) nth_map; simp)
qed

lemma of_char_less: "(of_char c :: nat) < 256"
  by (metis char_of_char of_char_of mod_less_divisor zero_less_numeral)

lemma of_char_div_less: "of_char c div 16 < (16::nat)"
  using of_char_less [of c] by linarith

lemma unescape_percent_escape:
  "unescape_percent (percent_escape c @ s) = map_option ((#) c) (unescape_percent s)"
proof -
  have a: "of_char c div 16 < (16::nat)" and b: "of_char c mod 16 < (16::nat)"
    by (simp_all add: of_char_div_less)
  have "digits_value 16 [hex_digit (of_char c div 16), hex_digit (of_char c mod 16)] = of_char c"
    using hex_digit_less [OF a] hex_digit_less [OF b] by (simp add: digits_value_def)
  then show ?thesis
    using hex_digit_less [OF a] hex_digit_less [OF b] by (simp add: percent_escape_def)
qed

lemma unescape_percent_encode: "unescape_percent (encodeURIComponent s) = Some s"
proof (induction s)
  case (Cons c cs)
  have "\<not> uri_unreserved (CHR ''%'')" by code_simp
  then show ?case
    using Cons unescape_percent_escape [of c "encodeURIComponent cs"]
    by (auto simp: encodeURIComponent_def)
qed (simp add: encodeURIComponent_def)

lemma decode_encodeURIComponent:
  "valid_utf8 (char_codes s) \<Longrightarrow> decodeURIComponent (encodeURIComponent s) = Some s"
  by (simp add: decodeURIComponent_def unescape_percent_encode)

lemma uri_unreserved_hex_digit: "n < 16 \<Longrightarrow> uri_unreserved (hex_digit n)"
proof -
  have "list_all uri_unreserved ''0123456789ABCDEF''" by code_simp
  then show "n < 16 \<Longrightarrow> uri_unreserved (hex_digit n)"
    unfolding list_all_iff using hex_digit_mem by blast
qed

lemma encodeURIComponent_chars:
  assumes "c \<in> set (encodeURIComponent s)"
  shows "uri_unreserved c \<or> c = CHR ''%''"
proof -
  from assms have "\<exists>d. c \<in> set (if uri_unreserved d then [d] else percent_escape d)"
    unfolding encodeURIComponent_def set_concat set_map by blast
  then obtain d where d: "c \<in> set (if uri_unreserved d then [d] else percent_escape d)" ..
  have "of_char d div 16 < (16::nat)" by (rule of_char_div_less)
  with d show ?thesis
    by (auto simp: percent_escape_def uri_unreserved_hex_digit split: if_splits)
qed

lemma encodeURIComponent_no_separator:
  "c \<in> {CHR ''/'', CHR ''?'', CHR ''&'', CHR ''='', CHR ''#''} \<Longrightarrow> c \<notin> set (encodeURIComponent s)"
  using encodeURIComponent_chars [of c s] by (auto simp: uri_unreserved_def is_alnum_def)

lemma encodeURIComponent_inj: "encodeURIComponent s = encodeURIComponent t \<Longrightarrow> s = t"
  by (metis option.inject unescape_percent_encode)

section \<open>URLSearchParams\<close>

definition form_unreserved :: "char \<Rightarrow> bool" where
  "form_unreserved c \<longleftrightarrow> is_alnum c \<or> c \<in> set ''*-._''"

definition form_encode :: "string \<Rightarrow> string" where
  "form_encode s =
     concat (map (\<lambda>c. if c = CHR '' '' then ''+'' else if form_unreserved c then [c] else percent_escape c) s)"

type_synonym url_params = "(string \<times> string) list"

text \<open>params.toString().\<close>

definition params_text :: "url_params \<Rightarrow> string" where
  "params_text ps = join ''&'' (map (\<lambda>(k, v). form_encode k @ ''='' @ form_encode v) ps)"

text \<open>params.set(k, v): the first entry is replaced and the others of that name go.\<close>

fun params_set :: "string \<Rightarrow> string \<Rightarrow> url_params \<Rightarrow> url_params" where
  "params_set k v [] = [(k, v)]"
| "params_set k v ((k', v') # ps) =
     (if k' = k then (k, v) # filter (\<lambda>(n, _). n \<noteq> k) ps else (k', v') # params_set k v ps)"

definition params_get :: "string \<Rightarrow> url_params \<Rightarrow> string option" where
  "params_get k ps = map_of ps k"

definition params_delete :: "string \<Rightarrow> url_params \<Rightarrow> url_params" where
  "params_delete k ps = filter (\<lambda>(n, _). n \<noteq> k) ps"

lemma params_get_set [simp]:
  "params_get k (params_set k' v ps) = (if k = k' then Some v else params_get k ps)"
proof (induction ps)
  case (Cons p ps)
  have "map_of (filter (\<lambda>(n, _). n \<noteq> k') ps) k = map_of ps k" if "k \<noteq> k'"
    using that by (induction ps) auto
  with Cons show ?case by (cases p) (auto simp: params_get_def)
qed (simp add: params_get_def)

lemma params_get_delete [simp]:
  "params_get k (params_delete k' ps) = (if k = k' then None else params_get k ps)"
  by (induction ps) (auto simp: params_get_def params_delete_def)

text \<open>Reading a query string back.\<close>

definition form_decode :: "string \<Rightarrow> string option" where
  "form_decode s = unescape_percent (map (\<lambda>c. if c = CHR ''+'' then CHR '' '' else c) s)"

lemma form_decode_encode: "form_decode (form_encode s) = Some s"
proof (induction s)
  case (Cons c cs)
  let ?f = "map (\<lambda>c. if c = CHR ''+'' then CHR '' '' else c)"
  have hex: "hex_digit n \<noteq> CHR ''+''" if "n < 16" for n
    using that uri_unreserved_hex_digit [of n] by (auto simp: uri_unreserved_def is_alnum_def)
  have "of_char c div 16 < (16::nat)" by (rule of_char_div_less)
  then have esc: "?f (percent_escape c) = percent_escape c"
    by (simp add: percent_escape_def hex)
  have res: "\<not> form_unreserved (CHR ''%'')" "\<not> form_unreserved (CHR ''+'')" by code_simp+
  show ?case
    using Cons res unescape_percent_escape [of c "?f (form_encode cs)"] esc
    by (auto simp: form_encode_def form_decode_def)
qed (simp add: form_encode_def form_decode_def)

lemma form_encode_no_separator:
  assumes "c \<in> {CHR ''&'', CHR ''='', CHR ''#''}" shows "c \<notin> set (form_encode s)"
proof
  assume "c \<in> set (form_encode s)"
  then have "\<exists>d. c \<in> set (if d = CHR '' '' then ''+'' else if form_unreserved d then [d] else percent_escape d)"
    unfolding form_encode_def set_concat set_map by blast
  then obtain d where d: "c \<in> set (if d = CHR '' '' then ''+'' else if form_unreserved d then [d] else percent_escape d)" ..
  have "of_char d div 16 < (16::nat)" by (rule of_char_div_less)
  moreover have "\<not> uri_unreserved c" using assms by (auto simp: uri_unreserved_def is_alnum_def)
  ultimately show False
    using d assms uri_unreserved_hex_digit
    by (auto simp: percent_escape_def form_unreserved_def is_alnum_def split: if_splits)
qed

text \<open>The pairs of a query text, as the server reads them.\<close>

definition split_pair :: "string \<Rightarrow> string \<times> string" where
  "split_pair s = (takeWhile (\<lambda>c. c \<noteq> CHR ''='') s, drop 1 (dropWhile (\<lambda>c. c \<noteq> CHR ''='') s))"

definition read_params :: "string \<Rightarrow> (string option \<times> string option) list" where
  "read_params s =
     (if s = [] then []
      else map (\<lambda>p. (form_decode (fst (split_pair p)), form_decode (snd (split_pair p)))) (split_char (CHR ''&'') s))"

lemma split_pair_join: "CHR ''='' \<notin> set k \<Longrightarrow> split_pair (k @ CHR ''='' # v) = (k, v)"
  by (induction k) (auto simp: split_pair_def)

lemma read_params_text:
  "read_params (params_text ps) = map (\<lambda>(k, v). (Some k, Some v)) ps"
proof (cases "ps = []")
  case False
  let ?pair = "\<lambda>(k, v). form_encode k @ ''='' @ form_encode v"
  have amp: "\<forall>p \<in> set (map ?pair ps). CHR ''&'' \<notin> set p"
    using form_encode_no_separator [of "CHR ''&''"] by auto
  have "params_text ps \<noteq> []"
    using False by (cases ps; cases "tl ps") (auto simp: params_text_def)
  moreover have "split_char (CHR ''&'') (params_text ps) = map ?pair ps"
    unfolding params_text_def using amp False by (intro split_join_char) auto
  moreover have "split_pair (?pair (k, v)) = (form_encode k, form_encode v)" for k v
    using form_encode_no_separator [of "CHR ''=''" k] by (simp add: split_pair_join)
  ultimately show ?thesis
    by (simp add: read_params_def comp_def case_prod_beta form_decode_encode)
qed (simp add: read_params_def params_text_def)

end
