(* ===== verification/Api_Errors.thy ===== *)
theory Api_Errors
  imports Js_Json Js_Uri
begin

text \<open>
  The error half of frontend/src/api/client.ts: the class ApiError, the functions that
  read the code and the field errors out of an error body, and the translation of a
  response that is not ok.  Every throw and rejection of the client is a js_error.
\<close>

section \<open>Headers\<close>

text \<open>A Headers object: names in lower case, one entry per name.\<close>

type_synonym headers = "(string \<times> string) list"

definition lower_char :: "char \<Rightarrow> char" where
  "lower_char c = (let n = of_char c :: nat in if 65 \<le> n \<and> n \<le> 90 then char_of (n + 32) else c)"

definition lower_case :: "string \<Rightarrow> string" where
  "lower_case s = map lower_char s"

definition header_get :: "string \<Rightarrow> headers \<Rightarrow> string option" where
  "header_get name hs = map_of hs (lower_case name)"

text \<open>
  A header value is a byte string without NUL, line feed and carriage return; the text
  may use the code points up to 255, whose UTF-8 lead bytes are below 196.
\<close>

definition http_blank :: "char \<Rightarrow> bool" where
  "http_blank c \<longleftrightarrow> json_ws c"

definition normalize_value :: "string \<Rightarrow> string" where
  "normalize_value v = rev (dropWhile http_blank (rev (dropWhile http_blank v)))"

definition valid_header_value :: "string \<Rightarrow> bool" where
  "valid_header_value v \<longleftrightarrow>
     list_all (\<lambda>n. n < 196 \<and> n \<notin> {0, 10, 13}) (char_codes (normalize_value v))"

section \<open>The class ApiError\<close>

text \<open>The details of an error: the body of the response, or the error that fetch threw.\<close>

datatype error_details = NetworkFault | Payload json

type_synonym field_errors = "(string \<times> string list) list"

record ApiErrorOptions =
  o_status :: "nat option"
  o_code :: "string option"
  o_correlationId :: "string option"
  o_details :: "error_details option"
  o_fieldErrors :: "field_errors option"
  o_retryAfterSeconds :: "js_num option"
  o_cancelled :: "bool option"
  o_retryable :: "bool option"

definition no_options :: ApiErrorOptions where
  "no_options =
     \<lparr>o_status = None, o_code = None, o_correlationId = None, o_details = None,
      o_fieldErrors = None, o_retryAfterSeconds = None, o_cancelled = None, o_retryable = None\<rparr>"

record ApiError =
  message :: string
  status :: nat
  code :: "string option"
  correlationId :: "string option"
  details :: "error_details option"
  fieldErrors :: field_errors
  retryAfterSeconds :: "js_num option"
  cancelled :: bool
  retryable :: bool

definition new_ApiError :: "string \<Rightarrow> ApiErrorOptions \<Rightarrow> ApiError" where
  "new_ApiError msg opts =
     \<lparr>message = msg,
      status = nullish (o_status opts) 0,
      code = o_code opts,
      correlationId = o_correlationId opts,
      details = o_details opts,
      fieldErrors = nullish (o_fieldErrors opts) [],
      retryAfterSeconds = o_retryAfterSeconds opts,
      cancelled = nullish (o_cancelled opts) False,
      retryable = nullish (o_retryable opts) False\<rparr>"

definition cancelledRequestError :: ApiError where
  "cancelledRequestError =
     new_ApiError ''The request was cancelled.'' (no_options\<lparr>o_cancelled := Some True\<rparr>)"

definition sessionExpiredError :: ApiError where
  "sessionExpiredError =
     new_ApiError ''Session expired. Please sign in again.'' (no_options\<lparr>o_status := Some 401\<rparr>)"

text \<open>What a promise of the client rejects with.\<close>

datatype js_error =
    ApiFailure ApiError
  | UriError
  | TypeError
  | SyntaxError
  | BodyReadError

section \<open>Reading an error body\<close>

definition error_texts :: "json \<Rightarrow> string list" where
  "error_texts v = (case as_array v of Some xs \<Rightarrow> map to_text xs | None \<Rightarrow> [to_text v])"

definition getFieldErrors :: "json \<Rightarrow> field_errors" where
  "getFieldErrors err =
     (if \<not> truthy_json err \<or> \<not> is_object err then []
      else case get_prop ''errors'' err of
             Some (JObj es) \<Rightarrow> map (\<lambda>(field, v). (field, error_texts v)) es
           | _ \<Rightarrow> [])"

definition getErrorCode :: "json \<Rightarrow> string option" where
  "getErrorCode err =
     (if \<not> truthy_json err \<or> \<not> is_object err then None
      else case get_prop ''error_code'' err of
             Some (JStr c) \<Rightarrow> Some c
           | _ \<Rightarrow>
               (case get_prop ''code'' err of
                  Some (JStr c) \<Rightarrow> Some c
                | _ \<Rightarrow>
                    (case get_prop ''error'' err of
                       None \<Rightarrow> None
                     | Some e \<Rightarrow> (case get_prop ''code'' e of Some (JStr c) \<Rightarrow> Some c | _ \<Rightarrow> None))))"

text \<open>
  The members that every object inherits: reading one of them that the object does not
  define itself gives a value that cannot be spread into an array.
\<close>

definition inherited_members :: "string list" where
  "inherited_members =
     [''__proto__'', ''__defineGetter__'', ''__defineSetter__'', ''__lookupGetter__'', ''__lookupSetter__'',
      ''constructor'', ''hasOwnProperty'', ''isPrototypeOf'', ''propertyIsEnumerable'',
      ''toLocaleString'', ''toString'', ''valueOf'']"

text \<open>\<open>fieldErrors[field] = [...(fieldErrors[field] ?? []), text]\<close>; None is a TypeError.\<close>

definition add_field_error :: "string \<Rightarrow> string \<Rightarrow> field_errors \<Rightarrow> field_errors option" where
  "add_field_error field t fe =
     (case map_of fe field of
        Some ts \<Rightarrow> Some (put_entry field (ts @ [t]) fe)
      | None \<Rightarrow> if field \<in> set inherited_members then None else Some (put_entry field [t] fe))"

text \<open>The field an item of a validation error is about: the last entry of its location.\<close>

definition item_field :: "json \<Rightarrow> string option" where
  "item_field item =
     (case get_prop ''loc'' item of
        Some (JArr loc) \<Rightarrow> (if loc = [] then None else as_string (last loc))
      | _ \<Rightarrow> None)"

definition item_text :: "json \<Rightarrow> string" where
  "item_text item =
     (case get_prop ''msg'' item of
        None \<Rightarrow> ''Invalid value'' | Some JNull \<Rightarrow> ''Invalid value'' | Some v \<Rightarrow> to_text v)"

fun add_detail_items :: "json list \<Rightarrow> field_errors \<Rightarrow> field_errors option" where
  "add_detail_items [] fe = Some fe"
| "add_detail_items (item # items) fe =
     (if \<not> truthy_json item \<or> \<not> is_object item then add_detail_items items fe
      else (case item_field item of
              None \<Rightarrow> add_detail_items items fe
            | Some field \<Rightarrow>
                (case add_field_error field (item_text item) fe of
                   None \<Rightarrow> None
                 | Some fe' \<Rightarrow> add_detail_items items fe')))"

definition responseFieldErrors :: "json \<Rightarrow> field_errors option" where
  "responseFieldErrors err =
     (case get_prop ''detail'' err of
        Some (JArr items) \<Rightarrow> add_detail_items items (getFieldErrors err)
      | _ \<Rightarrow> Some (getFieldErrors err))"

definition error_detail :: "string \<Rightarrow> json \<Rightarrow> string" where
  "error_detail fallback err =
     (case get_prop ''detail'' err of Some (JStr d) \<Rightarrow> d | _ \<Rightarrow> fallback)"

definition retryable_status :: "nat \<Rightarrow> bool" where
  "retryable_status st \<longleftrightarrow> st = 429 \<or> 500 \<le> st"

section \<open>Responses\<close>

datatype response_body = BodyText string | BodyBroken

record response =
  resp_status :: nat
  resp_headers :: headers
  resp_body :: response_body

definition resp_ok :: "response \<Rightarrow> bool" where
  "resp_ok r \<longleftrightarrow> 200 \<le> resp_status r \<and> resp_status r < 300"

definition response_json :: "response \<Rightarrow> js_error + json" where
  "response_json r =
     (case resp_body r of
        BodyBroken \<Rightarrow> Inl BodyReadError
      | BodyText t \<Rightarrow> (case JSON_parse t of None \<Rightarrow> Inl SyntaxError | Some v \<Rightarrow> Inr v))"

text \<open>\<open>await response.json().catch(() => ({}))\<close>.\<close>

definition response_json_or_empty :: "response \<Rightarrow> json" where
  "response_json_or_empty r = (case response_json r of Inl _ \<Rightarrow> JObj [] | Inr v \<Rightarrow> v)"

text \<open>The error that apiFetch throws for a response that is not ok.\<close>

definition response_error :: "response \<Rightarrow> js_error" where
  "response_error r =
     (let err = response_json_or_empty r;
          retryAfter = header_get ''Retry-After'' (resp_headers r)
      in case responseFieldErrors err of
           None \<Rightarrow> TypeError
         | Some fe \<Rightarrow>
             ApiFailure (new_ApiError (error_detail ''Request failed'' err)
               (no_options\<lparr>o_status := Some (resp_status r),
                  o_code := getErrorCode err,
                  o_correlationId := header_get ''X-Correlation-ID'' (resp_headers r),
                  o_details := Some (Payload err),
                  o_fieldErrors := Some fe,
                  o_retryAfterSeconds :=
                    (if truthy retryAfter then number_or_none (the retryAfter) else None),
                  o_retryable := Some (retryable_status (resp_status r))\<rparr>)))"

text \<open>The error that apiFetchStream throws for a response that is not ok.\<close>

definition stream_error :: "response \<Rightarrow> js_error" where
  "stream_error r =
     (let err = response_json_or_empty r
      in ApiFailure (new_ApiError (error_detail ''Request failed'' err)
           (no_options\<lparr>o_status := Some (resp_status r),
              o_code := getErrorCode err,
              o_correlationId := header_get ''X-Correlation-ID'' (resp_headers r),
              o_details := Some (Payload err),
              o_retryable := Some (retryable_status (resp_status r))\<rparr>)))"

end
