(* ===== verification/Api_Client.thy ===== *)
theory Api_Client
  imports Auth_Session Api_Errors
begin

text \<open>
  The request half of frontend/src/api/client.ts: createRequestSignal, readCookie, the
  CSRF header, apiFetch, apiFetchStream, apiUpload and the functions on top of them.

  What the browser and the server do is an argument of the functions: an attempt holds
  the cookies when the request is prepared, what happens until fetch settles, the
  outcome, and what happens while the caller waits for a token refresh.  The functions
  thread the client's world: the session machine of Auth_Session, the signal of the
  caller, and logs of the requests sent, the diagnostics published and the progress
  reported.  A promise that never settles is the result Unsettled.
\<close>

section \<open>Cookies and the CSRF header\<close>

text \<open>The texts after the separator \<open>"; "\<close>, from left to right.\<close>

fun cookie_tails :: "string \<Rightarrow> string list" where
  "cookie_tails [] = []"
| "cookie_tails (c # cs) =
     (if startsWith (c # cs) ''; '' then drop 1 cs # cookie_tails cs else cookie_tails cs)"

text \<open>
  readCookie for a name without regular expression characters: the leftmost match of
  \<open>(?:^|; )name=([^;]*)\<close>, decoded; Inl is the URIError of decodeURIComponent.  The
  replacement meant to escape such characters never matches, since the pattern ends in
  the characters \<open>\\]\<close>, so the name goes into the regular expression as it is.
\<close>

definition readCookie :: "string \<Rightarrow> string \<Rightarrow> js_error + string option" where
  "readCookie name cookie =
     (case find (\<lambda>s. startsWith s (name @ ''='')) (cookie # cookie_tails cookie) of
        None \<Rightarrow> Inr None
      | Some s \<Rightarrow>
          (case decodeURIComponent (takeWhile (\<lambda>c. c \<noteq> CHR '';'') (drop (length name + 1) s)) of
             None \<Rightarrow> Inl UriError
           | Some v \<Rightarrow> Inr (Some v)))"

definition buildCsrfHeaders :: "string \<Rightarrow> js_error + headers" where
  "buildCsrfHeaders cookie =
     (case readCookie ''csrf_token'' cookie of
        Inl e \<Rightarrow> Inl e
      | Inr t \<Rightarrow> Inr (if truthy t then [(''X-CSRF-Token'', the t)] else []))"

text \<open>headers.has, headers.set and the constructor new Headers(init).\<close>

definition header_has :: "string \<Rightarrow> headers \<Rightarrow> bool" where
  "header_has name hs \<longleftrightarrow> header_get name hs \<noteq> None"

definition header_set :: "string \<Rightarrow> string \<Rightarrow> headers \<Rightarrow> js_error + headers" where
  "header_set name v hs =
     (if valid_header_value v then Inr (put_entry (lower_case name) (normalize_value v) hs)
      else Inl TypeError)"

definition header_append :: "string \<Rightarrow> string \<Rightarrow> headers \<Rightarrow> js_error + headers" where
  "header_append name v hs =
     (if valid_header_value v
      then Inr (put_entry (lower_case name)
             (case header_get name hs of
                None \<Rightarrow> normalize_value v
              | Some u \<Rightarrow> u @ '', '' @ normalize_value v) hs)
      else Inl TypeError)"

fun new_Headers :: "(string \<times> string) list \<Rightarrow> headers \<Rightarrow> js_error + headers" where
  "new_Headers [] hs = Inr hs"
| "new_Headers ((name, v) # init) hs =
     (case header_append name v hs of Inl e \<Rightarrow> Inl e | Inr hs' \<Rightarrow> new_Headers init hs')"

definition add_csrf :: "string \<Rightarrow> headers \<Rightarrow> js_error + headers" where
  "add_csrf cookie hs =
     (if header_has ''X-CSRF-Token'' hs then Inr hs
      else case readCookie ''csrf_token'' cookie of
             Inl e \<Rightarrow> Inl e
           | Inr t \<Rightarrow> if truthy t then header_set ''X-CSRF-Token'' (the t) hs else Inr hs)"

section \<open>Requests\<close>

text \<open>A form entry is a text or a file; a file is known by its name, type and size.\<close>

record upload_file =
  file_name :: string
  file_type :: string
  file_size :: nat

datatype form_value = FormText string | FormFile upload_file

datatype request_body = JsonBody json | FormBody "(string \<times> form_value) list"

text \<open>RequestInit: init_signal says whether the caller passes a signal.\<close>

record RequestInit =
  init_method :: "string option"
  init_headers :: "(string \<times> string) list"
  init_body :: "request_body option"
  init_signal :: bool

definition no_init :: RequestInit where
  "no_init = \<lparr>init_method = None, init_headers = [], init_body = None, init_signal = False\<rparr>"

record sent_request =
  sent_method :: string
  sent_url :: string
  sent_headers :: headers
  sent_body :: "request_body option"
  sent_credentials :: string

definition default_api_base :: string where
  "default_api_base = ''http://localhost:8000/api/v1''"

definition is_form :: "request_body option \<Rightarrow> bool" where
  "is_form b \<longleftrightarrow> (case b of Some (FormBody _) \<Rightarrow> True | _ \<Rightarrow> False)"

text \<open>The headers of apiFetch.\<close>

definition fetch_headers :: "RequestInit \<Rightarrow> string \<Rightarrow> js_error + headers" where
  "fetch_headers opts cookie =
     (case new_Headers (init_headers opts) [] of
        Inl e \<Rightarrow> Inl e
      | Inr hs \<Rightarrow>
          (case (if \<not> is_form (init_body opts) \<and> init_body opts \<noteq> None \<and> \<not> header_has ''Content-Type'' hs
                 then header_set ''Content-Type'' ''application/json'' hs else Inr hs) of
             Inl e \<Rightarrow> Inl e
           | Inr hs' \<Rightarrow> add_csrf cookie hs'))"

text \<open>The headers of apiFetchStream.\<close>

definition stream_headers :: "RequestInit \<Rightarrow> string \<Rightarrow> js_error + headers" where
  "stream_headers opts cookie =
     (case new_Headers (init_headers opts) [] of Inl e \<Rightarrow> Inl e | Inr hs \<Rightarrow> add_csrf cookie hs)"

section \<open>The signal of a request\<close>

record request_signal =
  rs_aborted :: bool
  rs_timedOut :: bool
  rs_listening :: bool

definition createRequestSignal :: "bool \<Rightarrow> request_signal" where
  "createRequestSignal parent_aborted =
     \<lparr>rs_aborted = parent_aborted, rs_timedOut = False, rs_listening = True\<rparr>"

definition abortOnTimeout :: "request_signal \<Rightarrow> request_signal" where
  "abortOnTimeout rs = (if rs_listening rs then rs\<lparr>rs_timedOut := True, rs_aborted := True\<rparr> else rs)"

definition abortFromParent :: "request_signal \<Rightarrow> request_signal" where
  "abortFromParent rs = (if rs_listening rs then rs\<lparr>rs_aborted := True\<rparr> else rs)"

definition signal_cleanup :: "request_signal \<Rightarrow> request_signal" where
  "signal_cleanup rs = rs\<lparr>rs_listening := False\<rparr>"

section \<open>The world of the client\<close>

record upload_progress =
  up_loaded :: nat
  up_total :: nat
  up_percent :: js_num

record client_world =
  cw_session :: auth_session
  cw_aborted :: bool
  cw_api_base :: "string option"
  cw_sent :: "sent_request list"
  cw_diagnostics :: "json list"
  cw_progress :: "upload_progress list"

definition API_BASE :: "client_world \<Rightarrow> string" where
  "API_BASE w = nullish (cw_api_base w) default_api_base"

definition send_request :: "sent_request \<Rightarrow> client_world \<Rightarrow> client_world" where
  "send_request r w = w\<lparr>cw_sent := cw_sent w @ [r]\<rparr>"

text \<open>
  What happens between two handlers of a request: an event of the session, the caller
  aborting its signal, the deadline of the request.
\<close>

datatype client_event = OfSession auth_event | CallerAborts | DeadlinePasses

definition session_event :: "auth_event \<Rightarrow> client_world \<Rightarrow> client_world" where
  "session_event e w =
     (if auth_enabled (cw_session w) e
      then w\<lparr>cw_session := auth_step (cw_session w) e\<rparr> else w)"

text \<open>\<open>options.signal?.aborted\<close>; the caller can only abort a signal it passed.\<close>

definition is_aborted :: "bool \<Rightarrow> client_world \<Rightarrow> bool" where
  "is_aborted signal w \<longleftrightarrow> signal \<and> cw_aborted w"

definition caller_aborts :: "bool \<Rightarrow> client_world \<Rightarrow> client_world" where
  "caller_aborts signal w = (if signal then w\<lparr>cw_aborted := True\<rparr> else w)"

fun while_fetching :: "bool \<Rightarrow> client_event list \<Rightarrow> request_signal \<Rightarrow> client_world \<Rightarrow> request_signal \<times> client_world" where
  "while_fetching signal [] rs w = (rs, w)"
| "while_fetching signal (e # es) rs w =
     (case e of
        OfSession a \<Rightarrow> while_fetching signal es rs (session_event a w)
      | CallerAborts \<Rightarrow>
          while_fetching signal es (if signal then abortFromParent rs else rs) (caller_aborts signal w)
      | DeadlinePasses \<Rightarrow> while_fetching signal es (abortOnTimeout rs) w)"

text \<open>Events that only change the world, as between a settled promise and its continuation.\<close>

fun while_idle :: "bool \<Rightarrow> client_event list \<Rightarrow> client_world \<Rightarrow> client_world" where
  "while_idle signal [] w = w"
| "while_idle signal (e # es) w =
     while_idle signal es
       (case e of OfSession a \<Rightarrow> session_event a w | CallerAborts \<Rightarrow> caller_aborts signal w
        | DeadlinePasses \<Rightarrow> w)"

section \<open>Waiting for a refresh\<close>

datatype 'a settled = Resolved 'a | Rejected js_error | Unsettled

text \<open>
  waitForRefresh: the promise of the refresh, unless the caller aborts first.  The
  events after the one that settles the wait happen before the continuation runs.
\<close>

fun waitForRefresh :: "bool \<Rightarrow> nat \<Rightarrow> client_event list \<Rightarrow> client_world \<Rightarrow> bool settled \<times> client_world" where
  "waitForRefresh signal p es w =
     (if is_aborted signal w then (Rejected (ApiFailure cancelledRequestError), while_idle signal es w)
      else case promise_of (cw_session w) p of
             Some (Fulfilled v) \<Rightarrow> (Resolved v, while_idle signal es w)
           | _ \<Rightarrow>
               (case es of
                  [] \<Rightarrow> (Unsettled, w)
                | e # es' \<Rightarrow> waitForRefresh signal p es' (while_idle signal [e] w)))"

declare waitForRefresh.simps [simp del]

text \<open>\<open>await refreshForRetry(options.signal)\<close>.\<close>

definition await_refreshForRetry :: "bool \<Rightarrow> client_event list \<Rightarrow> client_world \<Rightarrow> bool settled \<times> client_world" where
  "await_refreshForRetry signal es w =
     (let (answer, s) = refreshForRetry (is_aborted signal w) (cw_session w);
          w' = w\<lparr>cw_session := s\<rparr>
      in case answer of
           ThrowCancelled \<Rightarrow> (Rejected (ApiFailure cancelledRequestError), while_idle signal es w')
         | Answer v \<Rightarrow> (Resolved v, while_idle signal es w')
         | Await p \<Rightarrow> waitForRefresh signal p es w')"

text \<open>
  refreshAccessToken: the request, its headers read from the cookies of the moment, and
  the answer; every exception is the answer False.
\<close>

datatype fetch_outcome = NetworkFailure | Answered response

definition refresh_request_of :: "string \<Rightarrow> client_world \<Rightarrow> js_error + sent_request" where
  "refresh_request_of cookie w =
     (case buildCsrfHeaders cookie of
        Inl e \<Rightarrow> Inl e
      | Inr init \<Rightarrow>
          (case new_Headers init [] of
             Inl e \<Rightarrow> Inl e
           | Inr hs \<Rightarrow>
               Inr \<lparr>sent_method = ''POST'', sent_url = API_BASE w @ ''/auth/refresh'', sent_headers = hs,
                    sent_body = None, sent_credentials = ''include''\<rparr>))"

definition refreshAccessToken :: "string \<Rightarrow> fetch_outcome \<Rightarrow> client_world \<Rightarrow> bool \<times> client_world" where
  "refreshAccessToken cookie outcome w =
     (case refresh_request_of cookie w of
        Inl _ \<Rightarrow> (False, w)
      | Inr r \<Rightarrow>
          (case outcome of
             NetworkFailure \<Rightarrow> (False, send_request r w)
           | Answered a \<Rightarrow> (resp_ok a, send_request r w)))"

section \<open>apiFetch\<close>

record attempt =
  at_cookie :: string
  at_events :: "client_event list"
  at_outcome :: fetch_outcome
  at_wait :: "client_event list"

definition fetch_failure :: "request_signal \<Rightarrow> bool \<Rightarrow> ApiError" where
  "fetch_failure rs was_aborted =
     new_ApiError
       (if rs_timedOut rs then ''The request timed out. Please try again.''
        else if was_aborted then ''The request was cancelled.''
        else ''The server could not be reached. Please try again.'')
       (no_options\<lparr>o_retryable := Some (\<not> was_aborted), o_cancelled := Some (was_aborted),
          o_details := Some NetworkFault\<rparr>)"

text \<open>parseDeveloperDiagnosticsHeader; a text that is not JSON gives null.\<close>

definition parseDeveloperDiagnosticsHeader :: "string option \<Rightarrow> json option" where
  "parseDeveloperDiagnosticsHeader v =
     (if \<not> truthy v then None
      else case JSON_parse (the v) of Some JNull \<Rightarrow> None | r \<Rightarrow> r)"

definition publishDeveloperDiagnostics :: "json \<Rightarrow> client_world \<Rightarrow> client_world" where
  "publishDeveloperDiagnostics d w = w\<lparr>cw_diagnostics := cw_diagnostics w @ [d]\<rparr>"

definition note_diagnostics :: "response \<Rightarrow> client_world \<Rightarrow> client_world" where
  "note_diagnostics r w =
     (case parseDeveloperDiagnosticsHeader (header_get ''X-Developer-Diagnostics'' (resp_headers r)) of
        Some d \<Rightarrow> if truthy_json d then publishDeveloperDiagnostics d w else w
      | None \<Rightarrow> w)"

definition fetch_result :: "response \<Rightarrow> json option settled" where
  "fetch_result r =
     (if \<not> resp_ok r then Rejected (response_error r)
      else if resp_status r = 204 then Resolved None
      else case response_json r of Inl e \<Rightarrow> Rejected e | Inr v \<Rightarrow> Resolved (Some v))"

definition fetch_request :: "string \<Rightarrow> RequestInit \<Rightarrow> headers \<Rightarrow> client_world \<Rightarrow> sent_request" where
  "fetch_request path opts hs w =
     \<lparr>sent_method = nullish (init_method opts) ''GET'', sent_url = API_BASE w @ path,
      sent_headers = hs, sent_body = init_body opts, sent_credentials = ''include''\<rparr>"

fun apiFetch :: "string \<Rightarrow> RequestInit \<Rightarrow> bool \<Rightarrow> attempt list \<Rightarrow> client_world \<Rightarrow> json option settled \<times> client_world" where
  "apiFetch path opts retry [] w = (Unsettled, w)"
| "apiFetch path opts retry (a # as) w =
     (case fetch_headers opts (at_cookie a) of
        Inl e \<Rightarrow> (Rejected e, w)
      | Inr hs \<Rightarrow>
          (let (rs, w2) = while_fetching (init_signal opts) (at_events a)
                            (createRequestSignal (is_aborted (init_signal opts) w))
                            (send_request (fetch_request path opts hs w) w)
           in case at_outcome a of
                NetworkFailure \<Rightarrow> (Rejected (ApiFailure (fetch_failure (signal_cleanup rs) (is_aborted (init_signal opts) w2))), w2)
              | Answered r \<Rightarrow>
                  (let w3 = note_diagnostics r w2
                   in if resp_status r = 401 \<and> retry \<and> \<not> is_aborted (init_signal opts) w3
                      then (case await_refreshForRetry (init_signal opts) (at_wait a) w3 of
                              (Rejected e, w4) \<Rightarrow> (Rejected e, w4)
                            | (Unsettled, w4) \<Rightarrow> (Unsettled, w4)
                            | (Resolved refreshed, w4) \<Rightarrow>
                                if \<not> refreshed then (Rejected (ApiFailure sessionExpiredError), w4)
                                else if is_aborted (init_signal opts) w4 then (Rejected (ApiFailure cancelledRequestError), w4)
                                else apiFetch path opts False as w4)
                      else (fetch_result r, w3))))"

text \<open>apiFetchPage and apiFetchItems: the items member of the page.\<close>

definition apiFetchPage :: "string \<Rightarrow> RequestInit \<Rightarrow> attempt list \<Rightarrow> client_world \<Rightarrow> json option settled \<times> client_world" where
  "apiFetchPage path opts as w = apiFetch path opts True as w"

definition apiFetchItems :: "string \<Rightarrow> RequestInit \<Rightarrow> attempt list \<Rightarrow> client_world \<Rightarrow> json option settled \<times> client_world" where
  "apiFetchItems path opts as w =
     (case apiFetchPage path opts as w of
        (Resolved page, w') \<Rightarrow>
          (case page of
             None \<Rightarrow> (Rejected TypeError, w')
           | Some JNull \<Rightarrow> (Rejected TypeError, w')
           | Some v \<Rightarrow> (Resolved (get_prop ''items'' v), w'))
      | (r, w') \<Rightarrow> (r, w'))"

section \<open>apiFetchStream\<close>

definition stream_failure :: "bool \<Rightarrow> ApiError" where
  "stream_failure was_aborted =
     new_ApiError
       (if was_aborted then ''The request was cancelled.''
        else ''The server could not be reached. Please try again.'')
       (no_options\<lparr>o_cancelled := Some (was_aborted), o_retryable := Some (\<not> was_aborted),
          o_details := Some NetworkFault\<rparr>)"

fun apiFetchStream :: "string \<Rightarrow> RequestInit \<Rightarrow> bool \<Rightarrow> attempt list \<Rightarrow> client_world \<Rightarrow> response settled \<times> client_world" where
  "apiFetchStream path opts retry [] w = (Unsettled, w)"
| "apiFetchStream path opts retry (a # as) w =
     (case stream_headers opts (at_cookie a) of
        Inl e \<Rightarrow> (Rejected e, w)
      | Inr hs \<Rightarrow>
          (let w2 = while_idle (init_signal opts) (at_events a)
                      (send_request (fetch_request path opts hs w) w)
           in case at_outcome a of
                NetworkFailure \<Rightarrow> (Rejected (ApiFailure (stream_failure (is_aborted (init_signal opts) w2))), w2)
              | Answered r \<Rightarrow>
                  if resp_status r = 401 \<and> retry \<and> \<not> is_aborted (init_signal opts) w2
                  then (case await_refreshForRetry (init_signal opts) (at_wait a) w2 of
                          (Rejected e, w3) \<Rightarrow> (Rejected e, w3)
                        | (Unsettled, w3) \<Rightarrow> (Unsettled, w3)
                        | (Resolved refreshed, w3) \<Rightarrow>
                            if \<not> refreshed then (Rejected (ApiFailure sessionExpiredError), w3)
                            else apiFetchStream path opts False as w3)
                  else if \<not> resp_ok r then (Rejected (stream_error r), w2)
                  else (Resolved r, w2)))"

section \<open>apiUpload\<close>

definition upload_percent :: "nat \<Rightarrow> nat \<Rightarrow> js_num" where
  "upload_percent loaded total_bytes =
     (if total_bytes = 0 then (if loaded = 0 then NaN else Infinite False)
      else Finite (of_int (js_round (of_nat loaded / of_nat total_bytes * 100))))"

datatype xhr_event =
    XhrProgress bool nat nat
  | XhrLoad nat string
  | XhrError
  | XhrTimeout
  | XhrMeanwhile client_event

datatype xhr_end = Loaded nat string | XhrFailed ApiError | XhrOpen

definition upload_unreachable :: ApiError where
  "upload_unreachable =
     new_ApiError ''The server could not be reached. Please try again.'' (no_options\<lparr>o_retryable := Some True\<rparr>)"

definition upload_timed_out :: ApiError where
  "upload_timed_out =
     new_ApiError ''The upload timed out. Please try again.'' (no_options\<lparr>o_retryable := Some True\<rparr>)"

definition upload_cancelled :: ApiError where
  "upload_cancelled =
     new_ApiError ''The upload was cancelled.'' (no_options\<lparr>o_cancelled := Some True\<rparr>)"

definition report_progress :: "bool \<Rightarrow> nat \<Rightarrow> nat \<Rightarrow> client_world \<Rightarrow> client_world" where
  "report_progress computable loaded total_bytes w =
     (if computable
      then w\<lparr>cw_progress := cw_progress w
               @ [\<lparr>up_loaded = loaded, up_total = total_bytes, up_percent = upload_percent loaded total_bytes\<rparr>]\<rparr>
      else w)"

text \<open>The events of a request that has been sent, up to the one that ends it.\<close>

fun run_xhr :: "bool \<Rightarrow> xhr_event list \<Rightarrow> client_world \<Rightarrow> xhr_end \<times> client_world" where
  "run_xhr signal [] w = (XhrOpen, w)"
| "run_xhr signal (e # es) w =
     (case e of
        XhrProgress computable loaded total_bytes \<Rightarrow>
          run_xhr signal es (report_progress computable loaded total_bytes w)
      | XhrLoad st txt \<Rightarrow> (Loaded st txt, w)
      | XhrError \<Rightarrow> (XhrFailed upload_unreachable, w)
      | XhrTimeout \<Rightarrow> (XhrFailed upload_timed_out, w)
      | XhrMeanwhile CallerAborts \<Rightarrow>
          if signal then (XhrFailed upload_cancelled, caller_aborts signal w) else run_xhr signal es w
      | XhrMeanwhile c \<Rightarrow> run_xhr signal es (while_idle signal [c] w))"

definition upload_payload :: "string \<Rightarrow> json" where
  "upload_payload txt =
     (if txt = [] then JObj [] else case JSON_parse txt of None \<Rightarrow> JObj [] | Some v \<Rightarrow> v)"

definition upload_error :: "nat \<Rightarrow> json \<Rightarrow> ApiError" where
  "upload_error st payload =
     new_ApiError (error_detail ''Upload failed'' payload)
       (no_options\<lparr>o_status := Some st, o_code := getErrorCode payload,
          o_details := Some (Payload payload), o_fieldErrors := Some (getFieldErrors payload),
          o_retryable := Some (retryable_status st)\<rparr>)"

text \<open>
  The end of onload.  A null payload of a failed upload has no member detail: reading it
  throws inside the event handler, where nobody catches it, and the promise stays open.
\<close>

definition upload_result :: "nat \<Rightarrow> json \<Rightarrow> json settled" where
  "upload_result st payload =
     (if st < 200 \<or> 300 \<le> st
      then if payload = JNull then Unsettled else Rejected (ApiFailure (upload_error st payload))
      else Resolved payload)"

record upload_attempt =
  ua_cookie :: string
  ua_events :: "xhr_event list"
  ua_wait :: "client_event list"

definition upload_headers :: "string \<Rightarrow> js_error + headers" where
  "upload_headers cookie =
     (case readCookie ''csrf_token'' cookie of
        Inl e \<Rightarrow> Inl e
      | Inr t \<Rightarrow> if truthy t then header_set ''X-CSRF-Token'' (the t) [] else Inr [])"

definition upload_request :: "string \<Rightarrow> (string \<times> form_value) list \<Rightarrow> headers \<Rightarrow> client_world \<Rightarrow> sent_request" where
  "upload_request path form hs w =
     \<lparr>sent_method = ''POST'', sent_url = API_BASE w @ path, sent_headers = hs,
      sent_body = Some (FormBody form), sent_credentials = ''include''\<rparr>"

text \<open>
  When the signal is already aborted, xhr.abort() is called on a request that was opened
  and never sent: the browser fires no abort event for it, and the promise stays open.
\<close>

fun apiUpload :: "string \<Rightarrow> (string \<times> form_value) list \<Rightarrow> bool \<Rightarrow> bool \<Rightarrow> upload_attempt list \<Rightarrow> client_world \<Rightarrow> json settled \<times> client_world" where
  "apiUpload path form signal retry [] w = (Unsettled, w)"
| "apiUpload path form signal retry (a # as) w =
     (case upload_headers (ua_cookie a) of
        Inl e \<Rightarrow> (Rejected e, w)
      | Inr hs \<Rightarrow>
          if is_aborted signal w then (Unsettled, w)
          else (case run_xhr signal (ua_events a) (send_request (upload_request path form hs w) w) of
                  (XhrOpen, w2) \<Rightarrow> (Unsettled, w2)
                | (XhrFailed e, w2) \<Rightarrow> (Rejected (ApiFailure e), w2)
                | (Loaded st txt, w2) \<Rightarrow>
                    if st = 401 \<and> retry \<and> \<not> is_aborted signal w2
                    then (case await_refreshForRetry signal (ua_wait a) w2 of
                            (Rejected e, w3) \<Rightarrow> (Rejected e, w3)
                          | (Unsettled, w3) \<Rightarrow> (Unsettled, w3)
                          | (Resolved refreshed, w3) \<Rightarrow>
                              if \<not> refreshed then (Rejected (ApiFailure sessionExpiredError), w3)
                              else apiUpload path form signal False as w3)
                    else (upload_result st (upload_payload txt), w2)))"

end
