(* ===== verification/Api_Transport.thy ===== *)
theory Api_Transport
  imports Api_Client
begin

text \<open>
  The ways a call of the API modules reaches apiFetch: directly, through apiFetchItems,
  or through customFetch of frontend/src/api/orvalMutator.ts, which the generated
  endpoint functions use; and the Axios instance of frontend/src/api/axiosClient.ts.
  The constructor URL of the browser is an argument: given a URL it returns the pathname
  and the search part, or None when it throws.
\<close>

type_synonym url_parser = "string \<Rightarrow> (string \<times> string) option"

section \<open>Generated calls: api/orvalMutator.ts\<close>

definition API_PREFIX :: string where
  "API_PREFIX = ''/api/v1''"

text \<open>s || "/".\<close>

definition or_slash :: "string \<Rightarrow> string" where
  "or_slash s = (if s = [] then ''/'' else s)"

definition strip_origin :: "url_parser \<Rightarrow> string \<Rightarrow> string" where
  "strip_origin new_URL url =
     (if startsWith url ''http://'' \<or> startsWith url ''https://''
      then (case new_URL url of None \<Rightarrow> url | Some (pathname, search) \<Rightarrow> pathname @ search)
      else url)"

definition toApiPath :: "url_parser \<Rightarrow> string \<Rightarrow> string \<Rightarrow> string" where
  "toApiPath new_URL api_base url =
     (if startsWith url api_base then or_slash (drop (length api_base) url)
      else let u = strip_origin new_URL url
           in if startsWith u API_PREFIX then or_slash (drop (length API_PREFIX) u)
              else if startsWith u ''/'' then u else CHR ''/'' # u)"

definition customFetch :: "url_parser \<Rightarrow> string \<Rightarrow> RequestInit \<Rightarrow> attempt list \<Rightarrow> client_world \<Rightarrow> json option settled \<times> client_world" where
  "customFetch new_URL url opts as w = apiFetch (toApiPath new_URL (API_BASE w) url) opts True as w"

text \<open>
  The shape of a generated endpoint function: the URL with its query parameters, the
  method, and a JSON body with its content type.
\<close>

definition orval_url :: "string \<Rightarrow> (string \<times> string) list \<Rightarrow> string" where
  "orval_url path params =
     (let q = params_text params in if length q > 0 then path @ ''?'' @ q else path)"

definition orval_init :: "string \<Rightarrow> json option \<Rightarrow> RequestInit" where
  "orval_init meth body =
     (case body of
        None \<Rightarrow> no_init\<lparr>init_method := Some meth\<rparr>
      | Some b \<Rightarrow> no_init\<lparr>init_method := Some meth,
                    init_headers := [(''Content-Type'', ''application/json'')],
                    init_body := Some (JsonBody b)\<rparr>)"

section \<open>Calls\<close>

datatype api_call =
    Fetch string RequestInit
  | FetchItems string RequestInit
  | Generated string RequestInit

definition send :: "string \<Rightarrow> request_body option \<Rightarrow> RequestInit" where
  "send meth body = no_init\<lparr>init_method := Some meth, init_body := body\<rparr>"

fun perform :: "url_parser \<Rightarrow> api_call \<Rightarrow> attempt list \<Rightarrow> client_world \<Rightarrow> json option settled \<times> client_world" where
  "perform new_URL (Fetch path opts) as w = apiFetch path opts True as w"
| "perform new_URL (FetchItems path opts) as w = apiFetchItems path opts as w"
| "perform new_URL (Generated url opts) as w = customFetch new_URL url opts as w"

section \<open>The Axios instance: api/axiosClient.ts\<close>

record axios_config =
  ax_baseURL :: string
  ax_withCredentials :: bool
  ax_headers :: "(string \<times> string) list"

definition apiAxios :: "client_world \<Rightarrow> axios_config" where
  "apiAxios w =
     \<lparr>ax_baseURL = API_BASE w, ax_withCredentials = True,
      ax_headers = [(''Content-Type'', ''application/json'')]\<rparr>"

text \<open>The request interceptor: the CSRF headers are set on the configuration.\<close>

definition axios_request :: "string \<Rightarrow> axios_config \<Rightarrow> js_error + axios_config" where
  "axios_request cookie config =
     (case buildCsrfHeaders cookie of
        Inl e \<Rightarrow> Inl e
      | Inr csrf \<Rightarrow> Inr (config\<lparr>ax_headers := foldl (\<lambda>hs (k, v). put_entry k v hs) (ax_headers config) csrf\<rparr>))"

text \<open>An Axios error as far as the message looks at it: the body of the response, and the message.\<close>

record axios_error =
  axe_data :: "json option"
  axe_message :: "string option"

definition getAxiosErrorMessage :: "axios_error option \<Rightarrow> string \<Rightarrow> string" where
  "getAxiosErrorMessage error fallback =
     (case error of
        None \<Rightarrow> fallback
      | Some e \<Rightarrow>
          (case (case axe_data e of None \<Rightarrow> None | Some d \<Rightarrow> get_prop ''detail'' d) of
             Some (JStr detail) \<Rightarrow> detail
           | _ \<Rightarrow> if truthy (axe_message e) then the (axe_message e) else fallback))"

section \<open>Properties\<close>

lemma toApiPath_prefix:
  assumes "\<not> startsWith (API_PREFIX @ rest) base"
  shows "toApiPath new_URL base (API_PREFIX @ rest) = or_slash rest"
proof -
  have "\<not> startsWith (API_PREFIX @ rest) ''http://''" "\<not> startsWith (API_PREFIX @ rest) ''https://''"
    by (simp_all add: API_PREFIX_def startsWith_def)
  then show ?thesis using assms by (simp add: toApiPath_def strip_origin_def)
qed

text \<open>
  A generated call reaches its endpoint. For a generated URL /api/v1 followed by a path
  that starts with a slash, the URL that customFetch makes apiFetch request is API_BASE
  followed by that path, or the generated URL itself when it already lies under API_BASE;
  the prefix is never sent twice.
\<close>
theorem generated_call_url:
  assumes "startsWith rest ''/''"
  shows "sent_url (fetch_request (toApiPath new_URL (API_BASE w) (API_PREFIX @ rest)) opts hs w) =
    (if startsWith (API_PREFIX @ rest) (API_BASE w)
     then API_BASE w @ or_slash (drop (length (API_BASE w)) (API_PREFIX @ rest))
     else API_BASE w @ rest)
    \<and> (startsWith (API_PREFIX @ rest) (API_BASE w) \<longrightarrow> API_BASE w \<noteq> API_PREFIX @ rest
       \<longrightarrow> sent_url (fetch_request (toApiPath new_URL (API_BASE w) (API_PREFIX @ rest)) opts hs w) = API_PREFIX @ rest)"
proof (cases "startsWith (API_PREFIX @ rest) (API_BASE w)")
  case True
  then have "API_BASE w @ drop (length (API_BASE w)) (API_PREFIX @ rest) = API_PREFIX @ rest"
    by (rule startsWith_drop)
  then show ?thesis using True
    by (auto simp: toApiPath_def fetch_request_def or_slash_def)
next
  case False
  have "rest \<noteq> []" using assms by (auto simp: startsWith_def)
  then show ?thesis using toApiPath_prefix [OF False] False
    by (simp add: fetch_request_def or_slash_def)
qed

definition relative_base_world :: client_world where
  "relative_base_world =
     \<lparr>cw_session = initial_auth_session, cw_aborted = False, cw_api_base = Some ''/api/v1'', cw_sent = [],
      cw_diagnostics = [], cw_progress = []\<rparr>"

theorem generated_call_url_witness:
  "sent_url (fetch_request (toApiPath (\<lambda>_. None) (API_BASE relative_base_world) (API_PREFIX @ ''/admin/users''))
     no_init [] relative_base_world) = ''/api/v1/admin/users''"
proof -
  have 1: "startsWith ''/admin/users'' ''/''" by code_simp
  have 2: "startsWith (API_PREFIX @ ''/admin/users'') (API_BASE relative_base_world)" by code_simp
  have 3: "API_BASE relative_base_world @ or_slash (drop (length (API_BASE relative_base_world)) (API_PREFIX @ ''/admin/users''))
      = ''/api/v1/admin/users''" by code_simp
  show ?thesis using generated_call_url [OF 1, of "\<lambda>_. None" relative_base_world no_init "[]"] 2 3
    by (simp only: if_True)
qed

end
