(* ===== verification/Api_Contract.thy ===== *)
theory Api_Contract
  imports Api_Transport Api_Types
begin

text \<open>
  The contract between the API modules and the server: the operations of
  frontend/openapi/openapi.json that the hand-written modules use, each with its method,
  its path template below /api/v1, the members of its request body (all of them, and the
  required ones) and whether it answers with a page; and what it means for a call to
  conform to one of them.  The theories Contract_Core, Contract_Platform and Contract_Ai
  show it of every call.
\<close>

section \<open>Operations\<close>

datatype path_part = Seg string | Hole

datatype body_schema =
    NoBody
  | JsonSchema "string list" "string list"
  | FormSchema "string list" "string list"

record api_route =
  rt_method :: string
  rt_path :: "path_part list"
  rt_body :: body_schema
  rt_paged :: bool

text \<open>The segments of a path, its query left out.\<close>

definition path_segments :: "string \<Rightarrow> string list" where
  "path_segments p = split_char (CHR ''/'') (takeWhile (\<lambda>c. c \<noteq> CHR ''?'') p)"

text \<open>A parameter of a path is one segment: not empty and without separators.\<close>

definition path_segment :: "string \<Rightarrow> bool" where
  "path_segment s \<longleftrightarrow> s \<noteq> [] \<and> CHR ''/'' \<notin> set s \<and> CHR ''?'' \<notin> set s"

fun match_segments :: "path_part list \<Rightarrow> string list \<Rightarrow> bool" where
  "match_segments [] [] = True"
| "match_segments (Seg t # ps) (s # ss) = (s = t \<and> match_segments ps ss)"
| "match_segments (Hole # ps) (s # ss) = (s \<noteq> [] \<and> match_segments ps ss)"
| "match_segments _ _ = False"

definition match_path :: "path_part list \<Rightarrow> string \<Rightarrow> bool" where
  "match_path ps p =
     (case path_segments p of [] \<Rightarrow> False | s # ss \<Rightarrow> s = [] \<and> match_segments ps ss)"

definition keys_conform :: "string list \<Rightarrow> string list \<Rightarrow> string list \<Rightarrow> bool" where
  "keys_conform props required ks \<longleftrightarrow>
     list_all (\<lambda>k. k \<in> set props) ks \<and> list_all (\<lambda>k. k \<in> set ks) required"

fun body_conforms :: "body_schema \<Rightarrow> request_body option \<Rightarrow> bool" where
  "body_conforms NoBody b = (b = None)"
| "body_conforms (JsonSchema props required) (Some (JsonBody v)) = keys_conform props required (json_keys v)"
| "body_conforms (FormSchema props required) (Some (FormBody form)) = keys_conform props required (map fst form)"
| "body_conforms _ _ = False"

text \<open>What a call asks for: the path, the options, and whether it reads a page.\<close>

fun call_parts :: "api_call \<Rightarrow> string \<times> RequestInit \<times> bool" where
  "call_parts (Fetch path opts) = (path, opts, False)"
| "call_parts (FetchItems path opts) = (path, opts, True)"
| "call_parts (Generated url opts) = (or_slash (drop (length API_PREFIX) url), opts, False)"

definition route_matches :: "api_call \<Rightarrow> api_route \<Rightarrow> bool" where
  "route_matches c r =
     (let (path, opts, paged) = call_parts c
      in rt_method r = nullish (init_method opts) ''GET'' \<and> match_path (rt_path r) path
         \<and> body_conforms (rt_body r) (init_body opts) \<and> rt_paged r = paged)"

definition conforms :: "api_route list \<Rightarrow> api_call \<Rightarrow> bool" where
  "conforms routes c \<longleftrightarrow> list_ex (route_matches c) routes"

text \<open>The options of a read: no method and no body of their own.\<close>

definition is_get :: "RequestInit \<Rightarrow> bool" where
  "is_get opts \<longleftrightarrow> init_method opts = None \<and> init_body opts = None"

section \<open>Deciding conformance\<close>

named_theorems contract_simps "rules that compute the path and the body of a call"

lemma path_segment_D:
  "path_segment s \<Longrightarrow> s \<noteq> []" "path_segment s \<Longrightarrow> CHR ''/'' \<notin> set s" "path_segment s \<Longrightarrow> CHR ''?'' \<notin> set s"
  by (simp_all add: path_segment_def)

lemma path_segment_ne [contract_simps]: "path_segment s \<Longrightarrow> s \<noteq> []"
  by (rule path_segment_D(1))

lemma takeWhile_segment [contract_simps]:
  "path_segment s \<Longrightarrow> takeWhile (\<lambda>c. c \<noteq> CHR ''?'') (s @ t) = s @ takeWhile (\<lambda>c. c \<noteq> CHR ''?'') t"
  using path_segment_D(3) by (intro takeWhile_append2) auto

lemma takeWhile_segment_end [contract_simps]:
  "path_segment s \<Longrightarrow> takeWhile (\<lambda>c. c \<noteq> CHR ''?'') s = s"
  using takeWhile_segment [of s "[]"] by simp

lemma split_segment [contract_simps]:
  "path_segment s \<Longrightarrow> split_char (CHR ''/'') (s @ CHR ''/'' # t) = s # split_char (CHR ''/'') t"
  using path_segment_D(2) by (rule split_char_append)

lemma split_segment_end [contract_simps]:
  "path_segment s \<Longrightarrow> split_char (CHR ''/'') s = [s]"
  using path_segment_D(2) by (rule split_char_no_sep)

lemma keys_conform_object [contract_simps]:
  "list_all (\<lambda>k. k \<in> set props) (map fst es) \<Longrightarrow> list_all (\<lambda>k. \<exists>v. (k, Some v) \<in> set es) required
   \<Longrightarrow> keys_conform props required (json_keys (json_object es))"
  using json_keys_object_subset [of es] unfolding keys_conform_def list_all_iff json_keys_object by blast

lemma send_simps [contract_simps]:
  "init_method (send m b) = Some m" "init_body (send m b) = b"
  by (simp_all add: send_def)

lemma is_get_simps [contract_simps]:
  "is_get opts \<Longrightarrow> init_method opts = None" "is_get opts \<Longrightarrow> init_body opts = None"
  by (simp_all add: is_get_def)

lemma is_get_no_init: "is_get no_init"
  by (simp add: is_get_def no_init_def)

lemmas is_get_no_init_simps [contract_simps] = is_get_simps [OF is_get_no_init]

lemma keys_conform_Cons [contract_simps]:
  "keys_conform props required (k # ks) \<longleftrightarrow>
     list_all (\<lambda>k. k \<in> set props) (k # ks) \<and> list_all (\<lambda>q. q \<in> set (k # ks)) required"
  by (simp add: keys_conform_def)

text \<open>
  A search for the operation that compares the method first, then the path, and looks at
  the body only where both fit.
\<close>

definition fits :: "string \<Rightarrow> string list \<Rightarrow> bool \<Rightarrow> request_body option \<Rightarrow> api_route \<Rightarrow> bool" where
  "fits m segs paged body r =
     (if rt_method r = m
      then (if match_segments (rt_path r) segs
            then (if rt_paged r = paged then body_conforms (rt_body r) body else False)
            else False)
      else False)"

lemma conforms_Fetch:
  "path_segments path = [] # segs \<Longrightarrow> nullish (init_method opts) ''GET'' = m \<Longrightarrow> init_body opts = body
   \<Longrightarrow> list_ex (fits m segs False body) routes \<Longrightarrow> conforms routes (Fetch path opts)"
  by (auto simp: conforms_def route_matches_def match_path_def fits_def list_ex_iff split: if_splits)

lemma conforms_FetchItems:
  "path_segments path = [] # segs \<Longrightarrow> nullish (init_method opts) ''GET'' = m \<Longrightarrow> init_body opts = body
   \<Longrightarrow> list_ex (fits m segs True body) routes \<Longrightarrow> conforms routes (FetchItems path opts)"
  by (auto simp: conforms_def route_matches_def match_path_def fits_def list_ex_iff split: if_splits)

lemmas conforms_rules = conforms_Fetch conforms_FetchItems

section \<open>The operations in use\<close>

definition core_routes :: "api_route list" where
  "core_routes =
     [\<lparr>rt_method = ''POST'', rt_path = [Seg ''auth'', Seg ''sign-up''],
       rt_body = JsonSchema [''admin_invite_code'', ''email'', ''full_name'', ''password''] [''email'', ''password''], rt_paged = False\<rparr>,
      \<lparr>rt_method = ''POST'', rt_path = [Seg ''auth'', Seg ''sign-in''],
       rt_body = JsonSchema [''email'', ''mfa_code'', ''password''] [''email'', ''password''], rt_paged = False\<rparr>,
      \<lparr>rt_method = ''POST'', rt_path = [Seg ''auth'', Seg ''refresh''],
       rt_body = NoBody, rt_paged = False\<rparr>,
      \<lparr>rt_method = ''GET'', rt_path = [Seg ''auth'', Seg ''me''],
       rt_body = NoBody, rt_paged = False\<rparr>,
      \<lparr>rt_method = ''POST'', rt_path = [Seg ''auth'', Seg ''logout''],
       rt_body = NoBody, rt_paged = False\<rparr>,
      \<lparr>rt_method = ''POST'', rt_path = [Seg ''auth'', Seg ''forgot-password''],
       rt_body = JsonSchema [''email''] [''email''], rt_paged = False\<rparr>,
      \<lparr>rt_method = ''POST'', rt_path = [Seg ''auth'', Seg ''reset-password''],
       rt_body = JsonSchema [''new_password'', ''token''] [''token'', ''new_password''], rt_paged = False\<rparr>,
      \<lparr>rt_method = ''POST'', rt_path = [Seg ''auth'', Seg ''verify-email''],
       rt_body = JsonSchema [''token''] [''token''], rt_paged = False\<rparr>,
      \<lparr>rt_method = ''POST'', rt_path = [Seg ''auth'', Seg ''resend-verification''],
       rt_body = JsonSchema [''email''] [''email''], rt_paged = False\<rparr>,
      \<lparr>rt_method = ''POST'', rt_path = [Seg ''auth'', Seg ''mfa'', Seg ''enable''],
       rt_body = NoBody, rt_paged = False\<rparr>,
      \<lparr>rt_method = ''POST'', rt_path = [Seg ''auth'', Seg ''mfa'', Seg ''verify''],
       rt_body = JsonSchema [''code''] [''code''], rt_paged = False\<rparr>,
      \<lparr>rt_method = ''POST'', rt_path = [Seg ''auth'', Seg ''mfa'', Seg ''disable''],
       rt_body = JsonSchema [''code''] [''code''], rt_paged = False\<rparr>,
      \<lparr>rt_method = ''GET'', rt_path = [Seg ''users'', Seg ''me''],
       rt_body = NoBody, rt_paged = False\<rparr>,
      \<lparr>rt_method = ''PATCH'', rt_path = [Seg ''users'', Seg ''me''],
       rt_body = JsonSchema [''full_name''] [], rt_paged = False\<rparr>,
      \<lparr>rt_method = ''PATCH'', rt_path = [Seg ''users'', Seg ''me'', Seg ''password''],
       rt_body = JsonSchema [''current_password'', ''new_password''] [''current_password'', ''new_password''], rt_paged = False\<rparr>,
      \<lparr>rt_method = ''GET'', rt_path = [Seg ''users'', Seg ''me'', Seg ''sessions''],
       rt_body = NoBody, rt_paged = False\<rparr>,
      \<lparr>rt_method = ''DELETE'', rt_path = [Seg ''users'', Seg ''me'', Seg ''sessions'', Hole],
       rt_body = NoBody, rt_paged = False\<rparr>,
      \<lparr>rt_method = ''GET'', rt_path = [Seg ''users'', Seg ''directory''],
       rt_body = NoBody, rt_paged = True\<rparr>,
      \<lparr>rt_method = ''GET'', rt_path = [Seg ''projects''],
       rt_body = NoBody, rt_paged = True\<rparr>,
      \<lparr>rt_method = ''GET'', rt_path = [Seg ''projects'', Seg ''summary''],
       rt_body = NoBody, rt_paged = False\<rparr>,
      \<lparr>rt_method = ''GET'', rt_path = [Seg ''projects'', Hole],
       rt_body = NoBody, rt_paged = False\<rparr>,
      \<lparr>rt_method = ''POST'', rt_path = [Seg ''projects''],
       rt_body = JsonSchema [''description'', ''name'', ''organization_id''] [''name''], rt_paged = False\<rparr>,
      \<lparr>rt_method = ''GET'', rt_path = [Seg ''projects'', Hole, Seg ''tasks''],
       rt_body = NoBody, rt_paged = True\<rparr>,
      \<lparr>rt_method = ''POST'', rt_path = [Seg ''projects'', Hole, Seg ''tasks''],
       rt_body = JsonSchema [''assignee_id'', ''description'', ''due_date'', ''priority'', ''status'', ''title''] [''title''], rt_paged = False\<rparr>,
      \<lparr>rt_method = ''PATCH'', rt_path = [Seg ''projects'', Hole, Seg ''tasks'', Hole],
       rt_body = JsonSchema [''assignee_id'', ''description'', ''due_date'', ''priority'', ''status'', ''title''] [], rt_paged = False\<rparr>,
      \<lparr>rt_method = ''DELETE'', rt_path = [Seg ''projects'', Hole, Seg ''tasks'', Hole],
       rt_body = NoBody, rt_paged = False\<rparr>,
      \<lparr>rt_method = ''PUT'', rt_path = [Seg ''projects'', Hole, Seg ''tasks'', Seg ''reorder''],
       rt_body = JsonSchema [''columns''] [''columns''], rt_paged = False\<rparr>,
      \<lparr>rt_method = ''GET'', rt_path = [Seg ''calendar'', Seg ''items''],
       rt_body = NoBody, rt_paged = False\<rparr>,
      \<lparr>rt_method = ''POST'', rt_path = [Seg ''calendar'', Seg ''items''],
       rt_body = JsonSchema [''assignee_id'', ''date'', ''description'', ''end_time'', ''priority'', ''project_id'', ''start_time'', ''title'', ''type''] [''type'', ''title'', ''date''], rt_paged = False\<rparr>,
      \<lparr>rt_method = ''GET'', rt_path = [Seg ''notifications''],
       rt_body = NoBody, rt_paged = True\<rparr>,
      \<lparr>rt_method = ''PATCH'', rt_path = [Seg ''notifications'', Hole, Seg ''read''],
       rt_body = NoBody, rt_paged = False\<rparr>,
      \<lparr>rt_method = ''PATCH'', rt_path = [Seg ''notifications'', Seg ''read-all''],
       rt_body = NoBody, rt_paged = False\<rparr>,
      \<lparr>rt_method = ''GET'', rt_path = [Seg ''notifications'', Seg ''unread-count''],
       rt_body = NoBody, rt_paged = False\<rparr>,
      \<lparr>rt_method = ''GET'', rt_path = [Seg ''notifications'', Seg ''preferences''],
       rt_body = NoBody, rt_paged = False\<rparr>,
      \<lparr>rt_method = ''PUT'', rt_path = [Seg ''notifications'', Seg ''preferences''],
       rt_body = JsonSchema [''email_enabled'', ''marketing_enabled'', ''push_enabled''] [], rt_paged = False\<rparr>,
      \<lparr>rt_method = ''GET'', rt_path = [Seg ''settings'', Seg ''config''],
       rt_body = NoBody, rt_paged = False\<rparr>,
      \<lparr>rt_method = ''PUT'', rt_path = [Seg ''settings'', Seg ''config''],
       rt_body = JsonSchema [''items''] [''items''], rt_paged = False\<rparr>,
      \<lparr>rt_method = ''GET'', rt_path = [Seg ''settings'', Seg ''database''],
       rt_body = NoBody, rt_paged = False\<rparr>,
      \<lparr>rt_method = ''POST'', rt_path = [Seg ''settings'', Seg ''database''],
       rt_body = JsonSchema [''description'', ''key'', ''value''] [''key''], rt_paged = False\<rparr>,
      \<lparr>rt_method = ''PATCH'', rt_path = [Seg ''settings'', Seg ''database'', Hole],
       rt_body = JsonSchema [''description'', ''value''] [], rt_paged = False\<rparr>,
      \<lparr>rt_method = ''DELETE'', rt_path = [Seg ''settings'', Seg ''database'', Hole],
       rt_body = NoBody, rt_paged = False\<rparr>,
      \<lparr>rt_method = ''GET'', rt_path = [Seg ''developer'', Seg ''diagnostics'', Seg ''status''],
       rt_body = NoBody, rt_paged = False\<rparr>,
      \<lparr>rt_method = ''GET'', rt_path = [Seg ''developer'', Seg ''diagnostics'', Seg ''recent''],
       rt_body = NoBody, rt_paged = False\<rparr>]"

definition platform_routes :: "api_route list" where
  "platform_routes =
     [\<lparr>rt_method = ''GET'', rt_path = [Seg ''platform'', Seg ''metadata''],
       rt_body = NoBody, rt_paged = False\<rparr>,
      \<lparr>rt_method = ''GET'', rt_path = [Seg ''platform'', Seg ''admin'', Seg ''config''],
       rt_body = NoBody, rt_paged = False\<rparr>,
      \<lparr>rt_method = ''PUT'', rt_path = [Seg ''platform'', Seg ''admin'', Seg ''config''],
       rt_body = JsonSchema [''app_name'', ''core_domain_plural'', ''core_domain_singular'', ''mfa_enabled'', ''module_overrides'', ''module_pack''] [], rt_paged = False\<rparr>,
      \<lparr>rt_method = ''GET'', rt_path = [Seg ''platform'', Seg ''billing'', Seg ''plans''],
       rt_body = NoBody, rt_paged = False\<rparr>,
      \<lparr>rt_method = ''GET'', rt_path = [Seg ''platform'', Seg ''billing'', Seg ''subscription''],
       rt_body = NoBody, rt_paged = False\<rparr>,
      \<lparr>rt_method = ''PUT'', rt_path = [Seg ''platform'', Seg ''billing'', Seg ''subscription''],
       rt_body = JsonSchema [''plan_code''] [''plan_code''], rt_paged = False\<rparr>,
      \<lparr>rt_method = ''GET'', rt_path = [Seg ''platform'', Seg ''admin'', Seg ''plans''],
       rt_body = NoBody, rt_paged = False\<rparr>,
      \<lparr>rt_method = ''POST'', rt_path = [Seg ''platform'', Seg ''admin'', Seg ''plans''],
       rt_body = JsonSchema [''code'', ''description'', ''features'', ''interval'', ''is_default'', ''name'', ''price_cents''] [''code'', ''name'', ''price_cents'', ''interval''], rt_paged = False\<rparr>,
      \<lparr>rt_method = ''PATCH'', rt_path = [Seg ''platform'', Seg ''admin'', Seg ''plans'', Hole],
       rt_body = JsonSchema [''description'', ''features'', ''interval'', ''is_active'', ''is_default'', ''name'', ''price_cents''] [], rt_paged = False\<rparr>,
      \<lparr>rt_method = ''GET'', rt_path = [Seg ''platform'', Seg ''api-keys''],
       rt_body = NoBody, rt_paged = True\<rparr>,
      \<lparr>rt_method = ''POST'', rt_path = [Seg ''platform'', Seg ''api-keys''],
       rt_body = JsonSchema [''name''] [''name''], rt_paged = False\<rparr>,
      \<lparr>rt_method = ''DELETE'', rt_path = [Seg ''platform'', Seg ''api-keys'', Hole],
       rt_body = NoBody, rt_paged = False\<rparr>,
      \<lparr>rt_method = ''GET'', rt_path = [Seg ''platform'', Seg ''webhooks''],
       rt_body = NoBody, rt_paged = True\<rparr>,
      \<lparr>rt_method = ''POST'', rt_path = [Seg ''platform'', Seg ''webhooks''],
       rt_body = JsonSchema [''description'', ''events'', ''target_url''] [''target_url''], rt_paged = False\<rparr>,
      \<lparr>rt_method = ''PATCH'', rt_path = [Seg ''platform'', Seg ''webhooks'', Hole],
       rt_body = JsonSchema [''description'', ''events'', ''is_active'', ''target_url''] [], rt_paged = False\<rparr>,
      \<lparr>rt_method = ''DELETE'', rt_path = [Seg ''platform'', Seg ''webhooks'', Hole],
       rt_body = NoBody, rt_paged = False\<rparr>,
      \<lparr>rt_method = ''POST'', rt_path = [Seg ''platform'', Seg ''webhooks'', Hole, Seg ''test''],
       rt_body = NoBody, rt_paged = False\<rparr>,
      \<lparr>rt_method = ''GET'', rt_path = [Seg ''platform'', Seg ''feature-flags''],
       rt_body = NoBody, rt_paged = False\<rparr>,
      \<lparr>rt_method = ''GET'', rt_path = [Seg ''platform'', Seg ''admin'', Seg ''feature-flags''],
       rt_body = NoBody, rt_paged = False\<rparr>,
      \<lparr>rt_method = ''POST'', rt_path = [Seg ''platform'', Seg ''admin'', Seg ''feature-flags''],
       rt_body = JsonSchema [''description'', ''is_enabled'', ''key'', ''module_key'', ''name'', ''rollout_percentage''] [''key'', ''name''], rt_paged = False\<rparr>,
      \<lparr>rt_method = ''PATCH'', rt_path = [Seg ''platform'', Seg ''admin'', Seg ''feature-flags'', Hole],
       rt_body = JsonSchema [''description'', ''is_enabled'', ''module_key'', ''name'', ''rollout_percentage''] [], rt_paged = False\<rparr>,
      \<lparr>rt_method = ''GET'', rt_path = [Seg ''platform'', Seg ''admin'', Seg ''email-templates''],
       rt_body = NoBody, rt_paged = False\<rparr>,
      \<lparr>rt_method = ''POST'', rt_path = [Seg ''platform'', Seg ''admin'', Seg ''email-templates''],
       rt_body = JsonSchema [''html_template'', ''is_active'', ''key'', ''name'', ''subject_template'', ''text_template''] [''key'', ''name'', ''subject_template'', ''html_template''], rt_paged = False\<rparr>,
      \<lparr>rt_method = ''PATCH'', rt_path = [Seg ''platform'', Seg ''admin'', Seg ''email-templates'', Hole],
       rt_body = JsonSchema [''html_template'', ''is_active'', ''name'', ''subject_template'', ''text_template''] [], rt_paged = False\<rparr>]"

definition ai_routes :: "api_route list" where
  "ai_routes =
     [\<lparr>rt_method = ''GET'', rt_path = [Seg ''ai'', Seg ''overview''],
       rt_body = NoBody, rt_paged = False\<rparr>,
      \<lparr>rt_method = ''GET'', rt_path = [Seg ''ai'', Seg ''prompts'', Hole, Seg ''versions''],
       rt_body = NoBody, rt_paged = True\<rparr>,
      \<lparr>rt_method = ''POST'', rt_path = [Seg ''ai'', Seg ''prompts''],
       rt_body = JsonSchema [''description'', ''key'', ''name''] [''key'', ''name''], rt_paged = False\<rparr>,
      \<lparr>rt_method = ''PATCH'', rt_path = [Seg ''ai'', Seg ''prompts'', Hole],
       rt_body = JsonSchema [''active_version_id'', ''description'', ''is_active'', ''name''] [], rt_paged = False\<rparr>,
      \<lparr>rt_method = ''POST'', rt_path = [Seg ''ai'', Seg ''prompts'', Hole, Seg ''versions''],
       rt_body = JsonSchema [''input_cost_per_million'', ''is_published'', ''model_name'', ''output_cost_per_million'', ''provider_key'', ''response_format'', ''rollout_percentage'', ''system_prompt'', ''temperature'', ''user_prompt_template'', ''variable_definitions''] [''provider_key'', ''model_name'', ''user_prompt_template''], rt_paged = False\<rparr>,
      \<lparr>rt_method = ''PATCH'', rt_path = [Seg ''ai'', Seg ''prompts'', Hole, Seg ''versions'', Hole],
       rt_body = JsonSchema [''input_cost_per_million'', ''is_published'', ''output_cost_per_million'', ''response_format'', ''rollout_percentage'', ''system_prompt'', ''temperature'', ''user_prompt_template'', ''variable_definitions''] [], rt_paged = False\<rparr>,
      \<lparr>rt_method = ''POST'', rt_path = [Seg ''ai'', Seg ''documents''],
       rt_body = JsonSchema [''content'', ''content_type'', ''description'', ''metadata'', ''title''] [''title'', ''content''], rt_paged = False\<rparr>,
      \<lparr>rt_method = ''POST'', rt_path = [Seg ''ai'', Seg ''documents'', Seg ''upload''],
       rt_body = FormSchema [''description'', ''file''] [''file''], rt_paged = False\<rparr>,
      \<lparr>rt_method = ''POST'', rt_path = [Seg ''ai'', Seg ''retrieve''],
       rt_body = JsonSchema [''document_ids'', ''query'', ''top_k''] [''query''], rt_paged = False\<rparr>,
      \<lparr>rt_method = ''POST'', rt_path = [Seg ''ai'', Seg ''runs''],
       rt_body = JsonSchema [''document_ids'', ''prompt_template_key'', ''prompt_version_id'', ''retrieval_query'', ''review_required'', ''top_k'', ''variables''] [], rt_paged = False\<rparr>,
      \<lparr>rt_method = ''GET'', rt_path = [Seg ''ai'', Seg ''reviews''],
       rt_body = NoBody, rt_paged = True\<rparr>,
      \<lparr>rt_method = ''POST'', rt_path = [Seg ''ai'', Seg ''runs'', Hole, Seg ''reviews''],
       rt_body = JsonSchema [''assigned_to_user_id''] [], rt_paged = False\<rparr>,
      \<lparr>rt_method = ''POST'', rt_path = [Seg ''ai'', Seg ''reviews'', Hole, Seg ''decision''],
       rt_body = JsonSchema [''corrected_output'', ''reviewer_notes'', ''status''] [''status''], rt_paged = False\<rparr>,
      \<lparr>rt_method = ''GET'', rt_path = [Seg ''ai'', Seg ''runs'', Hole, Seg ''feedback''],
       rt_body = NoBody, rt_paged = True\<rparr>,
      \<lparr>rt_method = ''POST'', rt_path = [Seg ''ai'', Seg ''runs'', Hole, Seg ''feedback''],
       rt_body = JsonSchema [''comment'', ''corrected_output'', ''rating''] [''rating''], rt_paged = False\<rparr>,
      \<lparr>rt_method = ''GET'', rt_path = [Seg ''ai'', Seg ''evaluation-datasets''],
       rt_body = NoBody, rt_paged = True\<rparr>,
      \<lparr>rt_method = ''POST'', rt_path = [Seg ''ai'', Seg ''evaluation-datasets''],
       rt_body = JsonSchema [''description'', ''name''] [''name''], rt_paged = False\<rparr>,
      \<lparr>rt_method = ''GET'', rt_path = [Seg ''ai'', Seg ''evaluation-datasets'', Hole, Seg ''cases''],
       rt_body = NoBody, rt_paged = True\<rparr>,
      \<lparr>rt_method = ''POST'', rt_path = [Seg ''ai'', Seg ''evaluation-datasets'', Hole, Seg ''cases''],
       rt_body = JsonSchema [''document_ids'', ''evaluation_type'', ''expected_chunk_ids'', ''expected_output_json'', ''expected_output_text'', ''input_variables'', ''notes'', ''retrieval_query''] [], rt_paged = False\<rparr>,
      \<lparr>rt_method = ''GET'', rt_path = [Seg ''ai'', Seg ''evaluation-runs''],
       rt_body = NoBody, rt_paged = True\<rparr>,
      \<lparr>rt_method = ''POST'', rt_path = [Seg ''ai'', Seg ''evaluation-datasets'', Hole, Seg ''run''],
       rt_body = JsonSchema [''prompt_version_id''] [''prompt_version_id''], rt_paged = False\<rparr>]"

end
