(* ===== verification/Chat_Api.thy ===== *)
theory Chat_Api
  imports Chat_Types Api_Contract
begin

text \<open>
  The endpoints of the knowledge chat, features/chat/api.ts, and the part of openapi.json
  they use: each call conforms to its operation.
\<close>

section \<open>Endpoints\<close>

definition listChatConversations :: api_call where
  "listChatConversations = FetchItems ''/chat/conversations'' no_init"

definition getChatConversation :: "string \<Rightarrow> api_call" where
  "getChatConversation conversationId = Fetch (''/chat/conversations/'' @ conversationId) no_init"

definition createChatConversation :: "ChatMode \<Rightarrow> string list \<Rightarrow> string option \<Rightarrow> bool \<Rightarrow> bool \<Rightarrow> api_call" where
  "createChatConversation mode selectedDocumentIds projectId memoryEnabled memoryWriteEnabled =
     Fetch ''/chat/conversations'' (send ''POST'' (Some (JsonBody (json_object
       [(''contract_version'', Some (JStr ''v1'')),
        (''mode'', Some (ChatMode_json mode)),
        (''project_id'', Some (json_nullable JStr projectId)),
        (''selected_document_ids'', Some (json_list JStr selectedDocumentIds)),
        (''memory_enabled'', Some (JBool (if mode = DocumentsMode then False else memoryEnabled))),
        (''memory_write_enabled'', Some (JBool (if mode = DocumentsMode then False else memoryWriteEnabled)))]))))"

record updateChatConversation_payload =
  conversation_title :: "string option"
  conversation_mode :: "ChatMode option"
  conversation_selected_document_ids :: "string list option"
  conversation_memory_enabled :: "bool option"
  conversation_memory_write_enabled :: "bool option"

definition updateChatConversation :: "string \<Rightarrow> updateChatConversation_payload \<Rightarrow> api_call" where
  "updateChatConversation conversationId payload =
     Fetch (''/chat/conversations/'' @ conversationId) (send ''PATCH'' (Some (JsonBody (json_object
       [(''contract_version'', Some (JStr ''v1'')),
        (''title'', map_option JStr (conversation_title payload)),
        (''mode'', map_option ChatMode_json (conversation_mode payload)),
        (''selected_document_ids'', map_option (json_list JStr) (conversation_selected_document_ids payload)),
        (''memory_enabled'', map_option JBool (conversation_memory_enabled payload)),
        (''memory_write_enabled'', map_option JBool (conversation_memory_write_enabled payload))]))))"

definition clearChatConversation :: "string \<Rightarrow> api_call" where
  "clearChatConversation conversationId =
     Fetch (''/chat/conversations/'' @ conversationId @ ''/clear'') (send ''POST'' None)"

definition renameChatConversation :: "string \<Rightarrow> string \<Rightarrow> api_call" where
  "renameChatConversation conversationId title =
     Fetch (''/chat/conversations/'' @ conversationId)
       (send ''PATCH'' (Some (JsonBody (json_object [(''title'', Some (JStr title))]))))"

definition deleteChatConversation :: "string \<Rightarrow> api_call" where
  "deleteChatConversation conversationId = Fetch (''/chat/conversations/'' @ conversationId) (send ''DELETE'' None)"

definition listRagDocuments :: "string option \<Rightarrow> api_call" where
  "listRagDocuments projectId =
     (let query = (if truthy projectId then ''?project_id='' @ encodeURIComponent (nullish projectId []) else [])
      in FetchItems (''/rag/documents'' @ query) no_init)"

definition uploadRagDocument_form :: "upload_file \<Rightarrow> string option \<Rightarrow> (string \<times> form_value) list" where
  "uploadRagDocument_form file projectId =
     [(''file'', FormFile file)]
     @ (if truthy projectId then [(''project_id'', FormText (nullish projectId []))] else [])"

definition uploadRagDocument :: "upload_file \<Rightarrow> string option \<Rightarrow> upload_attempt list \<Rightarrow> client_world \<Rightarrow> json settled \<times> client_world" where
  "uploadRagDocument file projectId as w =
     apiUpload ''/rag/documents/upload'' (uploadRagDocument_form file projectId) False True as w"

definition listRagIngestionJobs :: api_call where
  "listRagIngestionJobs = FetchItems ''/rag/jobs'' no_init"

definition deleteRagDocument :: "string \<Rightarrow> api_call" where
  "deleteRagDocument documentId = Fetch (''/rag/documents/'' @ documentId) (send ''DELETE'' None)"

definition getRagIngestionJob :: "string \<Rightarrow> api_call" where
  "getRagIngestionJob jobId = Fetch (''/rag/jobs/'' @ jobId) no_init"

definition retryRagIngestionJob :: "string \<Rightarrow> api_call" where
  "retryRagIngestionJob jobId = Fetch (''/rag/jobs/'' @ jobId @ ''/retry'') (send ''POST'' None)"

definition reindexRagDocument :: "string \<Rightarrow> api_call" where
  "reindexRagDocument documentId = Fetch (''/rag/documents/'' @ documentId @ ''/reindex'') (send ''POST'' None)"

definition stream_path :: "string \<Rightarrow> string" where
  "stream_path conversationId = ''/chat/conversations/'' @ conversationId @ ''/messages/stream''"

definition stream_init :: "ChatMessageRequest \<Rightarrow> RequestInit" where
  "stream_init payload = (send ''POST'' (Some (JsonBody (ChatMessageRequest_json payload))))\<lparr>init_signal := True\<rparr>"

definition streamChatMessage :: "string \<Rightarrow> ChatMessageRequest \<Rightarrow> attempt list \<Rightarrow> client_world \<Rightarrow> response settled \<times> client_world" where
  "streamChatMessage conversationId payload as w =
     apiFetchStream (stream_path conversationId) (stream_init payload) True as w"

lemmas chat_endpoints =
  listChatConversations_def getChatConversation_def createChatConversation_def updateChatConversation_def
  clearChatConversation_def renameChatConversation_def deleteChatConversation_def listRagDocuments_def
  listRagIngestionJobs_def deleteRagDocument_def getRagIngestionJob_def retryRagIngestionJob_def
  reindexRagDocument_def stream_path_def stream_init_def

section \<open>The contract of the chat: openapi/openapi.json\<close>

definition chat_routes :: "api_route list" where
  "chat_routes =
     [\<lparr>rt_method = ''GET'', rt_path = [Seg ''chat'', Seg ''conversations''], rt_body = NoBody, rt_paged = True\<rparr>,
      \<lparr>rt_method = ''POST'', rt_path = [Seg ''chat'', Seg ''conversations''],
       rt_body = JsonSchema [''contract_version'', ''memory_enabled'', ''memory_write_enabled'', ''mode'',
         ''project_id'', ''selected_document_ids'', ''title''] [], rt_paged = False\<rparr>,
      \<lparr>rt_method = ''GET'', rt_path = [Seg ''chat'', Seg ''conversations'', Hole], rt_body = NoBody, rt_paged = False\<rparr>,
      \<lparr>rt_method = ''PATCH'', rt_path = [Seg ''chat'', Seg ''conversations'', Hole],
       rt_body = JsonSchema [''contract_version'', ''memory_enabled'', ''memory_write_enabled'', ''mode'',
         ''selected_document_ids'', ''title''] [], rt_paged = False\<rparr>,
      \<lparr>rt_method = ''DELETE'', rt_path = [Seg ''chat'', Seg ''conversations'', Hole], rt_body = NoBody, rt_paged = False\<rparr>,
      \<lparr>rt_method = ''POST'', rt_path = [Seg ''chat'', Seg ''conversations'', Hole, Seg ''clear''],
       rt_body = NoBody, rt_paged = False\<rparr>,
      \<lparr>rt_method = ''POST'', rt_path = [Seg ''chat'', Seg ''conversations'', Hole, Seg ''messages'', Seg ''stream''],
       rt_body = JsonSchema [''content'', ''contract_version'', ''conversation_id'', ''document_ids'',
         ''memory_enabled'', ''memory_write_enabled'', ''mode'', ''project_id'', ''use_memory'', ''write_memory'']
         [''content''], rt_paged = False\<rparr>,
      \<lparr>rt_method = ''GET'', rt_path = [Seg ''rag'', Seg ''documents''], rt_body = NoBody, rt_paged = True\<rparr>,
      \<lparr>rt_method = ''POST'', rt_path = [Seg ''rag'', Seg ''documents'', Seg ''upload''],
       rt_body = FormSchema [''file'', ''project_id''] [''file''], rt_paged = False\<rparr>,
      \<lparr>rt_method = ''DELETE'', rt_path = [Seg ''rag'', Seg ''documents'', Hole], rt_body = NoBody, rt_paged = False\<rparr>,
      \<lparr>rt_method = ''POST'', rt_path = [Seg ''rag'', Seg ''documents'', Hole, Seg ''reindex''],
       rt_body = NoBody, rt_paged = False\<rparr>,
      \<lparr>rt_method = ''GET'', rt_path = [Seg ''rag'', Seg ''jobs''], rt_body = NoBody, rt_paged = True\<rparr>,
      \<lparr>rt_method = ''GET'', rt_path = [Seg ''rag'', Seg ''jobs'', Hole], rt_body = NoBody, rt_paged = False\<rparr>,
      \<lparr>rt_method = ''POST'', rt_path = [Seg ''rag'', Seg ''jobs'', Hole, Seg ''retry''],
       rt_body = NoBody, rt_paged = False\<rparr>]"

text \<open>
  The calls of the chat.  The stream and the upload go through other functions of the
  client and are listed with the path and the options they pass on.
\<close>

inductive chat_call :: "api_call \<Rightarrow> bool" where
  "chat_call listChatConversations"
| "path_segment c \<Longrightarrow> chat_call (getChatConversation c)"
| "chat_call (createChatConversation mode docs project mem memw)"
| "path_segment c \<Longrightarrow> chat_call (updateChatConversation c payload)"
| "path_segment c \<Longrightarrow> chat_call (clearChatConversation c)"
| "path_segment c \<Longrightarrow> chat_call (renameChatConversation c title)"
| "path_segment c \<Longrightarrow> chat_call (deleteChatConversation c)"
| "chat_call (listRagDocuments project)"
| chat_upload: "chat_call (Fetch ''/rag/documents/upload'' (send ''POST'' (Some (FormBody (uploadRagDocument_form file project)))))"
| "chat_call listRagIngestionJobs"
| "path_segment d \<Longrightarrow> chat_call (deleteRagDocument d)"
| "path_segment j \<Longrightarrow> chat_call (getRagIngestionJob j)"
| "path_segment j \<Longrightarrow> chat_call (retryRagIngestionJob j)"
| "path_segment d \<Longrightarrow> chat_call (reindexRagDocument d)"
| chat_stream: "path_segment c \<Longrightarrow> chat_call (Fetch (stream_path c) (stream_init msg))"

lemma documents_segments:
  "path_segments (''/rag/documents'' @ (if b then ''?project_id='' @ q else [])) = [[], ''rag'', ''documents'']"
  by (cases b) (simp_all add: path_segments_def)

lemma chat_call_conforms: "chat_call c \<Longrightarrow> conforms chat_routes c"
  apply (induction rule: chat_call.induct)
  apply (unfold chat_endpoints ChatMessageRequest_json_def uploadRagDocument_form_def Let_def)
  apply (rule conforms_rules, simp add: path_segments_def documents_segments [unfolded path_segments_def] contract_simps,
      simp add: contract_simps, simp add: contract_simps,
      simp add: chat_routes_def fits_def contract_simps)+
  done

end
