(* ===== verification/Chat_Stream.thy ===== *)
theory Chat_Stream
  imports Chat_Types Api_Client
begin

text \<open>
  The event stream of the knowledge chat: parseSseBuffer of features/chat/stream.ts and the
  hook useChatStream.  The stream arrives in chunks of bytes; decoding is the identity on
  them.  The hook is the code of send with its callbacks: what the reader delivers is an
  argument, and the result is the state after the finally block.
\<close>

section \<open>parseSseBuffer\<close>

text \<open>
  The length of the separator \<open>\r?\n\r?\n\<close> at the front of the text, and of the line end
  \<open>\r?\n\<close>; zero when there is none.
\<close>

definition CR :: char where "CR = char_of (13::nat)"
definition LF :: char where "LF = char_of (10::nat)"

definition line_end :: "string \<Rightarrow> nat" where
  "line_end s =
     (case s of
        [] \<Rightarrow> 0
      | c # cs \<Rightarrow>
          if c = LF then 1
          else if c = CR \<and> cs \<noteq> [] \<and> hd cs = LF then 2 else 0)"

definition block_end :: "string \<Rightarrow> nat" where
  "block_end s =
     (let a = line_end s
      in if a = 0 then 0
         else let b = line_end (drop a s) in if b = 0 then 0 else a + b)"

text \<open>s.split of a separator whose length at the front of a text the function gives.\<close>

function split_at :: "(string \<Rightarrow> nat) \<Rightarrow> string \<Rightarrow> string list" where
  "split_at sep [] = [[]]"
| "split_at sep (c # cs) =
     (if sep (c # cs) > 0 then [] # split_at sep (drop (sep (c # cs)) (c # cs))
      else (case split_at sep cs of [] \<Rightarrow> [[c]] | p # ps \<Rightarrow> (c # p) # ps))"
  by pat_completeness auto
termination by (relation "measure (length \<circ> snd)") auto

definition data_prefix :: string where
  "data_prefix = ''data:''"

text \<open>The data of a block: the text after data: of its first such line, trimmed.\<close>

definition block_data :: "string \<Rightarrow> string option" where
  "block_data block =
     map_option (\<lambda>line. trim (drop (length data_prefix) line))
       (find (\<lambda>line. startsWith line data_prefix) (split_at line_end block))"

definition block_events :: "string \<Rightarrow> ChatEventEnvelope list" where
  "block_events block =
     (case block_data block of
        None \<Rightarrow> []
      | Some d \<Rightarrow>
          if d = [] then []
          else (case JSON_parse d of
                  None \<Rightarrow> []
                | Some v \<Rightarrow> (case chat_envelope v of None \<Rightarrow> [] | Some e \<Rightarrow> [e])))"

definition parseSseBuffer :: "string \<Rightarrow> ChatEventEnvelope list \<times> string" where
  "parseSseBuffer buffer =
     (let blocks = split_at block_end buffer
      in (concat (map block_events (butlast blocks)), last blocks))"

definition isFinalEvent :: "ChatEvent \<Rightarrow> bool" where
  "isFinalEvent e \<longleftrightarrow> (case e of FinalEvent _ _ _ _ \<Rightarrow> True | _ \<Rightarrow> False)"

section \<open>useChatStream\<close>

record ActiveChatStream =
  acs_user :: string
  acs_answer :: string
  acs_sources :: "json list"

datatype stream_error =
    ClientError js_error
  | StreamUnavailable
  | AbortError
  | ReaderError

text \<open>
  The state of the hook; settled_calls and error_calls are the calls of onSettled and
  onError so far.
\<close>

record chat_stream =
  cs_streaming :: "ActiveChatStream option"
  cs_error :: "stream_error option"
  cs_cancelled :: bool
  cs_controller :: bool
  cs_settled_calls :: "string list"
  cs_error_calls :: "stream_error list"

definition initial_chat_stream :: chat_stream where
  "initial_chat_stream =
     \<lparr>cs_streaming = None, cs_error = None, cs_cancelled = False, cs_controller = False,
      cs_settled_calls = [], cs_error_calls = []\<rparr>"

text \<open>\<open>a <= b\<close> on numbers: false when one of them is NaN.\<close>

fun js_num_le :: "js_num \<Rightarrow> js_num \<Rightarrow> bool" where
  "js_num_le NaN _ = False"
| "js_num_le _ NaN = False"
| "js_num_le (Finite a) (Finite b) = (a \<le> b)"
| "js_num_le (Infinite a) (Infinite b) = (a \<or> \<not> b)"
| "js_num_le (Infinite a) (Finite _) = a"
| "js_num_le (Finite _) (Infinite b) = (\<not> b)"

definition contract_error :: stream_error where
  "contract_error =
     ClientError (ApiFailure (new_ApiError ''The chat stream contract was invalid.''
       (no_options\<lparr>o_code := Some ''invalid_request''\<rparr>)))"

definition event_error :: "string \<Rightarrow> string \<Rightarrow> bool \<Rightarrow> stream_error" where
  "event_error c m r =
     ClientError (ApiFailure (new_ApiError m (no_options\<lparr>o_code := Some c, o_retryable := Some r\<rparr>)))"

text \<open>The effect of an event on the stream state; Inl is what the handler throws.\<close>

fun apply_event :: "ChatEvent \<Rightarrow> ActiveChatStream option \<Rightarrow> stream_error + ActiveChatStream option" where
  "apply_event (TokenEvent t) cur = Inr (map_option (acs_answer_update (\<lambda>a. a @ t)) cur)"
| "apply_event (SourceEvent s) cur = Inr (map_option (acs_sources_update (\<lambda>ss. ss @ [s])) cur)"
| "apply_event (ErrorEvent c m r) cur = Inl (event_error c m r)"
| "apply_event (FinalEvent i a ss rt) cur =
     Inr (map_option (\<lambda>st. st\<lparr>acs_answer := a, acs_sources := ss\<rparr>) cur)"
| "apply_event _ cur = Inr cur"

text \<open>
  The loop over the events of a chunk.  The updates of the stream state queued before a
  throw stay in place, so the state is returned on both paths.
\<close>

fun consume_events :: "ChatEventEnvelope list \<Rightarrow> js_num \<Rightarrow> ActiveChatStream option \<Rightarrow> stream_error option \<times> js_num \<times> ActiveChatStream option" where
  "consume_events [] last_sequence cur = (None, last_sequence, cur)"
| "consume_events (e # es) last_sequence cur =
     (if en_version e \<noteq> Some (JStr ''v1'') \<or> js_num_le (en_sequence e) last_sequence
      then (Some contract_error, last_sequence, cur)
      else (case apply_event (en_payload e) cur of
              Inl err \<Rightarrow> (Some err, en_sequence e, cur)
            | Inr cur' \<Rightarrow> consume_events es (en_sequence e) cur'))"

text \<open>What the reader delivers, and the user cancelling in between.\<close>

datatype read_result = Chunk string | ReadDone | ReadFails bool | UserCancels

text \<open>
  The read loop: Some None is its regular end, Some (Some e) a throw, None a read that
  never answers.  The flag says whether the controller has been aborted.
\<close>

fun read_loop :: "read_result list \<Rightarrow> string \<Rightarrow> js_num \<Rightarrow> ActiveChatStream option \<Rightarrow> bool \<Rightarrow> stream_error option option \<times> ActiveChatStream option \<times> bool" where
  "read_loop [] buffer n cur aborted = (None, cur, aborted)"
| "read_loop (r # rs) buffer n cur aborted =
     (case r of
        UserCancels \<Rightarrow> read_loop rs buffer n cur True
      | ReadFails is_abort \<Rightarrow> (Some (Some (if is_abort then AbortError else ReaderError)), cur, aborted)
      | Chunk bytes \<Rightarrow>
          (let (es, rest) = parseSseBuffer (buffer @ bytes)
           in case consume_events es n cur of
                (Some err, n', cur') \<Rightarrow> (Some (Some err), cur', aborted)
              | (None, n', cur') \<Rightarrow> read_loop rs rest n' cur' aborted)
      | ReadDone \<Rightarrow>
          (let (es, rest) = parseSseBuffer buffer
           in case consume_events es n cur of
                (Some err, n', cur') \<Rightarrow> (Some (Some err), cur', aborted)
              | (None, n', cur') \<Rightarrow> (Some None, cur', aborted)))"

text \<open>streamChatMessage: the response with its body, or the rejection.\<close>

datatype stream_answer = Streaming "read_result list" | NoBodyReader | StreamRejected js_error

definition is_cancellation :: "bool \<Rightarrow> stream_error \<Rightarrow> bool" where
  "is_cancellation aborted err \<longleftrightarrow>
     aborted \<or> (case err of ClientError (ApiFailure e) \<Rightarrow> cancelled e | AbortError \<Rightarrow> True | _ \<Rightarrow> False)"

text \<open>The catch block and the finally block.\<close>

definition stream_failed :: "bool \<Rightarrow> stream_error \<Rightarrow> chat_stream \<Rightarrow> chat_stream" where
  "stream_failed aborted err s =
     (if is_cancellation aborted err then s\<lparr>cs_cancelled := True\<rparr>
      else s\<lparr>cs_error := Some err, cs_error_calls := cs_error_calls s @ [err]\<rparr>)"

definition stream_finished :: "string \<Rightarrow> chat_stream \<Rightarrow> chat_stream" where
  "stream_finished conversationId s =
     s\<lparr>cs_controller := False, cs_streaming := None,
       cs_settled_calls := cs_settled_calls s @ [conversationId]\<rparr>"

definition stream_started :: "string \<Rightarrow> chat_stream \<Rightarrow> chat_stream" where
  "stream_started content s =
     s\<lparr>cs_error := None, cs_cancelled := False, cs_controller := True,
       cs_streaming := Some \<lparr>acs_user = content, acs_answer = [], acs_sources = []\<rparr>\<rparr>"

definition stream_send :: "string \<Rightarrow> string \<Rightarrow> bool \<Rightarrow> stream_answer \<Rightarrow> chat_stream \<Rightarrow> chat_stream" where
  "stream_send conversationId content aborted answer s =
     (if cs_streaming s \<noteq> None then s
      else let s1 = stream_started content s
           in case answer of
                StreamRejected e \<Rightarrow>
                  stream_finished conversationId (stream_failed aborted (ClientError e) s1)
              | NoBodyReader \<Rightarrow>
                  stream_finished conversationId (stream_failed aborted StreamUnavailable s1)
              | Streaming rs \<Rightarrow>
                  (case read_loop rs [] (Finite 0) (cs_streaming s1) aborted of
                     (None, cur, _) \<Rightarrow> s1\<lparr>cs_streaming := cur\<rparr>
                   | (Some None, cur, _) \<Rightarrow>
                       stream_finished conversationId (s1\<lparr>cs_streaming := cur\<rparr>)
                   | (Some (Some err), cur, aborted') \<Rightarrow>
                       stream_finished conversationId
                         (stream_failed aborted' err (s1\<lparr>cs_streaming := cur\<rparr>))))"

section \<open>Splitting does not depend on the chunks\<close>

lemma split_at_ne [simp]: "split_at f s \<noteq> []"
  by (induction f s rule: split_at.induct) (auto split: list.split)

lemma split_at_single: "split_at f s = [p] \<Longrightarrow> p = s"
  by (induction f s arbitrary: p rule: split_at.induct) (auto split: list.splits if_splits)

text \<open>
  What a separator of a stream has to keep: it lies within the text, more text does not
  change a separator that is there, and a text that only becomes a separator when more
  arrives holds none yet.
\<close>

locale separator =
  fixes sep :: "string \<Rightarrow> nat"
  assumes sep_le: "sep s \<le> length s"
    and sep_stable: "sep s > 0 \<Longrightarrow> sep (s @ t) = sep s"
    and sep_pending: "s \<noteq> [] \<Longrightarrow> sep s = 0 \<Longrightarrow> sep (s @ t) > 0 \<Longrightarrow> split_at sep s = [s]"
begin

lemma split_at_append:
  "split_at sep (s @ t) = butlast (split_at sep s) @ split_at sep (last (split_at sep s) @ t)"
proof (induction s rule: length_induct)
  case (1 s)
  show ?case
  proof (cases s)
    case (Cons c cs)
    consider (sep) "sep s > 0" | (pending) "sep s = 0" "sep (s @ t) > 0" | (no) "sep (s @ t) = 0" "sep s = 0"
      by fastforce
    then show ?thesis
    proof cases
      case sep
      have len: "length (drop (sep s) s) < length s" using sep Cons by simp
      have eq: "split_at sep (s @ t) = [] # split_at sep (drop (sep s) s @ t)"
      proof -
        have "drop (sep s) (s @ t) = drop (sep s) s @ t" using sep_le [of s] by simp
        moreover have "split_at sep (s @ t) = [] # split_at sep (drop (sep s) (s @ t))"
          using sep sep_stable [OF sep, of t] Cons by simp
        ultimately show ?thesis by simp
      qed
      have eq': "split_at sep s = [] # split_at sep (drop (sep s) s)" using sep Cons by simp
      show ?thesis unfolding eq eq' using "1.IH" len by simp
    next
      case pending
      then show ?thesis using sep_pending [of s t] Cons by simp
    next
      case no
      obtain p ps where ps: "split_at sep cs = p # ps" by (cases "split_at sep cs") auto
      have IH: "split_at sep (cs @ t) = butlast (split_at sep cs) @ split_at sep (last (split_at sep cs) @ t)"
        using "1.IH" Cons by simp
      show ?thesis
      proof (cases "ps = []")
        case True
        have "split_at sep s = [s]"
          using Cons no ps True split_at_single [of sep cs p] by simp
        then show ?thesis by simp
      next
        case False
        have "split_at sep s = (c # p) # ps" using Cons no ps by simp
        moreover have "split_at sep (s @ t) = (case split_at sep (cs @ t) of [] \<Rightarrow> [[c]] | q # qs \<Rightarrow> (c # q) # qs)"
          using Cons no by simp
        ultimately show ?thesis using IH ps False by simp
      qed
    qed
  qed simp
qed

end

lemma line_end_le: "line_end s \<le> length s"
  by (cases s; cases "tl s") (auto simp: line_end_def)

lemma CR_LF [simp]: "CR \<noteq> LF" "LF \<noteq> CR"
  by (simp_all add: CR_def LF_def)

lemma line_end_stable: "line_end s > 0 \<Longrightarrow> line_end (s @ t) = line_end s"
  by (cases s; cases "tl s") (auto simp: line_end_def split: if_splits)

lemma line_end_pending: "s \<noteq> [] \<Longrightarrow> line_end s = 0 \<Longrightarrow> line_end (s @ t) > 0 \<Longrightarrow> s = [CR]"
  by (cases s; cases "tl s") (auto simp: line_end_def split: if_splits)

interpretation lines: separator line_end
proof
  show "line_end s \<le> length s" for s by (rule line_end_le)
  show "line_end s > 0 \<Longrightarrow> line_end (s @ t) = line_end s" for s t by (rule line_end_stable)
  show "split_at line_end s = [s]" if "s \<noteq> []" "line_end s = 0" "line_end (s @ t) > 0" for s t
    using line_end_pending [OF that] by (simp add: line_end_def)
qed

lemma block_end_pending:
  assumes "s \<noteq> []" and "block_end s = 0" and "block_end (s @ t) > 0"
  shows "s \<in> {[CR], [LF], [CR, LF], [LF, CR], [CR, LF, CR]}"
proof (cases "line_end s = 0")
  case True
  have "line_end (s @ t) > 0" using assms(3) by (auto simp: block_end_def Let_def split: if_splits)
  with True assms(1) show ?thesis using line_end_pending by blast
next
  case False
  let ?r = "drop (line_end s) s"
  have "line_end ?r = 0" using assms(2) False by (auto simp: block_end_def Let_def split: if_splits)
  moreover have "line_end (?r @ t) > 0"
    using assms(3) False line_end_stable [of s t] line_end_le [of s]
    by (auto simp: block_end_def Let_def split: if_splits)
  ultimately have r: "?r = [] \<or> ?r = [CR]" using line_end_pending by blast
  have a: "take (line_end s) s \<in> {[LF], [CR, LF]}"
    using False by (cases s; cases "tl s") (auto simp: line_end_def split: if_splits)
  have "\<exists>u v. s = u @ v \<and> u \<in> {[LF], [CR, LF]} \<and> (v = [] \<or> v = [CR])"
    using r a append_take_drop_id [of "line_end s" s, symmetric] by blast
  then show ?thesis by auto
qed

interpretation blocks: separator block_end
proof
  fix s t
  have "line_end (drop (line_end s) s) \<le> length s - line_end s"
    using line_end_le [of "drop (line_end s) s"] by simp
  then show "block_end s \<le> length s"
    using line_end_le [of s] by (auto simp: block_end_def Let_def)
  show "block_end s > 0 \<Longrightarrow> block_end (s @ t) = block_end s"
    using line_end_stable [of s t] line_end_stable [of "drop (line_end s) s" t] line_end_le [of s]
    by (auto simp: block_end_def Let_def split: if_splits)
  show "split_at block_end s = [s]" if "s \<noteq> []" "block_end s = 0" "block_end (s @ t) > 0"
    using block_end_pending [OF that] by (auto simp: block_end_def line_end_def Let_def)
qed

lemma parseSseBuffer_append:
  "parseSseBuffer (s @ t) =
     (fst (parseSseBuffer s) @ fst (parseSseBuffer (snd (parseSseBuffer s) @ t)),
      snd (parseSseBuffer (snd (parseSseBuffer s) @ t)))"
  by (simp add: parseSseBuffer_def Let_def blocks.split_at_append [of s t] butlast_append)

lemma consume_events_append:
  "consume_events (es @ fs) n cur =
     (case consume_events es n cur of
        (Some err, n', cur') \<Rightarrow> (Some err, n', cur')
      | (None, n', cur') \<Rightarrow> consume_events fs n' cur')"
  by (induction es arbitrary: n cur) (auto split: sum.split)

lemma read_loop_chunk:
  "read_loop (Chunk b # rs) buffer n cur aborted =
     (case consume_events (fst (parseSseBuffer (buffer @ b))) n cur of
        (Some err, n', cur') \<Rightarrow> (Some (Some err), cur', aborted)
      | (None, n', cur') \<Rightarrow> read_loop rs (snd (parseSseBuffer (buffer @ b))) n' cur' aborted)"
  by (simp add: case_prod_beta)

lemma read_loop_merge:
  "read_loop (Chunk a # Chunk b # rs) buffer n cur aborted = read_loop (Chunk (a @ b) # rs) buffer n cur aborted"
  unfolding read_loop_chunk append_assoc [symmetric] parseSseBuffer_append [of "buffer @ a" b]
  by (auto simp: consume_events_append case_prod_beta simp del: read_loop.simps split: option.split)

lemma read_loop_concat:
  "cs \<noteq> [] \<Longrightarrow> read_loop (map Chunk cs @ rs) buffer n cur aborted = read_loop (Chunk (concat cs) # rs) buffer n cur aborted"
proof (induction cs arbitrary: buffer n cur rule: induct_list012)
  case (3 a b cs)
  have "read_loop (map Chunk (a # b # cs) @ rs) buffer n cur aborted
      = read_loop (Chunk a # map Chunk (b # cs) @ rs) buffer n cur aborted" by simp
  also have "\<dots> = read_loop (Chunk a # Chunk (concat (b # cs)) # rs) buffer n cur aborted"
    unfolding read_loop_chunk [of a] using "3.IH"(2) by (simp del: read_loop.simps split: option.split prod.split)
  also have "\<dots> = read_loop (Chunk (concat (a # b # cs)) # rs) buffer n cur aborted"
    by (simp add: read_loop_merge del: read_loop.simps)
  finally show ?case .
qed simp_all

section \<open>Properties\<close>


definition token_block :: "string \<Rightarrow> string \<Rightarrow> string" where
  "token_block seq t =
     with_quotes (concat [''data: {~contract_version~:~v1~,~sequence~:'', seq,
       '',~payload~:{~event~:~token~,~token~:~'', t, ''~}}'']) @ [LF, LF]"

definition split_delivery :: "string list" where
  "split_delivery =
     [take 40 (token_block ''1'' ''Hel''), drop 40 (token_block ''1'' ''Hel'') @ token_block ''2'' ''lo'']"



definition token_event :: "number \<Rightarrow> string \<Rightarrow> ChatEventEnvelope" where
  "token_event n t = \<lparr>en_version = Some (JStr ''v1''), en_sequence = Finite n, en_payload = TokenEvent t\<rparr>"

definition empty_stream :: ActiveChatStream where
  "empty_stream = \<lparr>acs_user = ''Hi'', acs_answer = [], acs_sources = []\<rparr>"


text \<open>The text of the tokens of a list of events.\<close>

fun tokens_of :: "ChatEventEnvelope list \<Rightarrow> string" where
  "tokens_of [] = []"
| "tokens_of (e # es) = (case en_payload e of TokenEvent t \<Rightarrow> t @ tokens_of es | _ \<Rightarrow> tokens_of es)"

definition no_final :: "ChatEventEnvelope list \<Rightarrow> bool" where
  "no_final es \<longleftrightarrow> list_all (\<lambda>e. \<not> isFinalEvent (en_payload e)) es"

lemma consume_tokens:
  "consume_events es n (Some st) = (None, n', cur') \<Longrightarrow> no_final es \<Longrightarrow>
     \<exists>st'. cur' = Some st' \<and> acs_answer st' = acs_answer st @ tokens_of es"
proof (induction es arbitrary: n st)
  case (Cons e es)
  from Cons.prems obtain cur2 where
    step: "apply_event (en_payload e) (Some st) = Inr cur2" and rest: "consume_events es (en_sequence e) cur2 = (None, n', cur')"
    by (auto split: if_splits sum.splits)
  have fin: "\<not> isFinalEvent (en_payload e)" "no_final es" using Cons.prems(2) by (simp_all add: no_final_def)
  show ?case
  proof (cases "en_payload e")
    case (TokenEvent t)
    then show ?thesis using step rest Cons.IH [of "en_sequence e"] fin by fastforce
  next
    case (SourceEvent s)
    then show ?thesis using step rest Cons.IH [of "en_sequence e"] fin by fastforce
  qed (use step rest fin Cons.IH [of "en_sequence e" st] in \<open>auto simp: isFinalEvent_def\<close>)
qed auto

text \<open>
  C11: The answer is what was streamed. When a stream is accepted, the answer shown is the
  concatenation of its tokens, in order; when it holds a final event, it is the answer of
  the last final event with the tokens after it, whatever was streamed before.
\<close>
theorem streamed_answer:
  assumes "consume_events es n (Some st) = (None, n', cur')"
  shows "\<exists>st'. cur' = Some st'
    \<and> (no_final es \<longrightarrow> acs_answer st' = acs_answer st @ tokens_of es)
    \<and> (\<forall>pre e post i a ss rt. es = pre @ e # post \<longrightarrow> en_payload e = FinalEvent i a ss rt \<longrightarrow> no_final post
          \<longrightarrow> acs_answer st' = a @ tokens_of post)"
proof -
  have stays: "\<exists>st'. cur2 = Some st'" if "consume_events fs m (Some st2) = (None, m', cur2)" for fs m st2 m' cur2
    using that
  proof (induction fs arbitrary: m st2)
    case (Cons f fs)
    then show ?case by (cases "en_payload f") (auto split: if_splits)
  qed auto
  obtain st' where st': "cur' = Some st'" using stays [OF assms] by blast
  moreover have "acs_answer st' = a @ tokens_of post"
    if es: "es = pre @ e # post" and e: "en_payload e = FinalEvent i a ss rt" and no: "no_final post"
    for pre e post i a ss rt
  proof -
    obtain m cur2 where pre: "consume_events pre n (Some st) = (None, m, cur2)"
        and rest: "consume_events (e # post) m cur2 = (None, n', cur')"
      using assms unfolding es consume_events_append by (auto split: prod.splits option.splits)
    obtain st2 where st2: "cur2 = Some st2" using stays [OF pre] by blast
    have "consume_events post (en_sequence e) (Some (st2\<lparr>acs_answer := a, acs_sources := ss\<rparr>)) = (None, n', cur')"
      using rest e st2 by (auto split: if_splits)
    from consume_tokens [OF this no] st' show ?thesis by simp
  qed
  moreover have "no_final es \<longrightarrow> acs_answer st' = acs_answer st @ tokens_of es"
    using consume_tokens [OF assms] st' by auto
  ultimately show ?thesis by blast
qed

theorem streamed_answer_witness:
  "\<exists>st'. snd (snd (consume_events [token_event 1 ''He'', token_event 2 ''llo''] (Finite 0) (Some empty_stream))) = Some st'
     \<and> acs_answer st' = ''Hello''"
proof -
  have "fst (consume_events [token_event 1 ''He'', token_event 2 ''llo''] (Finite 0) (Some empty_stream)) = None"
    by (simp add: token_event_def)
  then obtain n' cur' where run:
    "consume_events [token_event 1 ''He'', token_event 2 ''llo''] (Finite 0) (Some empty_stream) = (None, n', cur')"
    by (metis prod.collapse)
  have "no_final [token_event 1 ''He'', token_event 2 ''llo'']"
    by (simp add: no_final_def token_event_def isFinalEvent_def)
  moreover have "tokens_of [token_event 1 ''He'', token_event 2 ''llo''] = ''Hello''"
    by (simp add: token_event_def)
  moreover have "acs_answer empty_stream = []" by (simp add: empty_stream_def)
  ultimately show ?thesis using streamed_answer [OF run] run by auto
qed

text \<open>The reader ends: it is done or fails at some point.\<close>

definition reader_ends :: "read_result list \<Rightarrow> bool" where
  "reader_ends rs \<longleftrightarrow> list_ex (\<lambda>r. case r of ReadDone \<Rightarrow> True | ReadFails _ \<Rightarrow> True | _ \<Rightarrow> False) rs"

lemma read_loop_ends: "reader_ends rs \<Longrightarrow> fst (read_loop rs buffer n cur aborted) \<noteq> None"
proof (induction rs arbitrary: buffer n cur aborted)
  case (Cons r rs)
  then show ?case
    by (cases r) (auto simp: reader_ends_def case_prod_beta split: option.split)
qed (simp add: reader_ends_def)

lemma stream_failed_frame [simp]:
  "cs_settled_calls (stream_failed aborted err s) = cs_settled_calls s"
  by (simp add: stream_failed_def)

definition answer_ends :: "stream_answer \<Rightarrow> bool" where
  "answer_ends a \<longleftrightarrow> (case a of Streaming rs \<Rightarrow> reader_ends rs | _ \<Rightarrow> True)"

text \<open>
  C12: A message never leaves the chat busy. However the request and its stream end, after
  send the hook holds no active stream and no controller, onSettled has been called
  exactly once for the conversation, and the outcome is one of three: no error and not
  cancelled, cancelled without an error, or an error that was given to onError once.
\<close>
theorem stream_always_cleaned:
  assumes "cs_streaming s = None" and "answer_ends answer"
    and "t = stream_send conversationId content aborted answer s"
  shows "cs_streaming t = None \<and> \<not> cs_controller t
    \<and> cs_settled_calls t = cs_settled_calls s @ [conversationId]
    \<and> (cs_error t = None \<or> \<not> cs_cancelled t)
    \<and> cs_error_calls t = cs_error_calls s @ (case cs_error t of None \<Rightarrow> [] | Some e \<Rightarrow> [e])"
proof (cases answer)
  case (Streaming rs)
  let ?cur = "Some \<lparr>acs_user = content, acs_answer = [], acs_sources = []\<rparr>"
  have "reader_ends rs" using assms(2) Streaming by (simp add: answer_ends_def)
  then obtain out cur ab where "read_loop rs [] (Finite 0) ?cur aborted = (Some out, cur, ab)"
    using read_loop_ends [of rs "[]" "Finite 0" ?cur aborted] by (metis option.exhaust prod.collapse)
  then show ?thesis
    using assms(1,3) Streaming
    by (cases out)
      (auto simp: stream_send_def Let_def stream_started_def stream_finished_def stream_failed_def)
qed (use assms in \<open>auto simp: stream_send_def Let_def stream_started_def stream_finished_def stream_failed_def\<close>)

theorem stream_always_cleaned_witness:
  "cs_streaming (stream_send ''c1'' ''Hi'' False (Streaming [Chunk ''x'', UserCancels, ReadFails True]) initial_chat_stream) = None"
proof -
  have 1: "cs_streaming initial_chat_stream = None" by (simp add: initial_chat_stream_def)
  have 2: "answer_ends (Streaming [Chunk ''x'', UserCancels, ReadFails True])"
    by (simp add: answer_ends_def reader_ends_def)
  from stream_always_cleaned [OF 1 2 refl] show ?thesis by blast
qed

text \<open>
  Cancelling is not an error. When the user cancels before the stream throws, whatever
  the reader or the events threw, the hook reports the cancellation and onError is not called.
\<close>
theorem cancelled_stream_reports_no_error:
  assumes "cs_streaming s = None"
    and "read_loop rs [] (Finite 0) (Some \<lparr>acs_user = content, acs_answer = [], acs_sources = []\<rparr>) aborted
      = (Some (Some err), cur, True)"
  shows "cs_cancelled (stream_send conversationId content aborted (Streaming rs) s)
    \<and> cs_error (stream_send conversationId content aborted (Streaming rs) s) = None
    \<and> cs_error_calls (stream_send conversationId content aborted (Streaming rs) s) = cs_error_calls s"
  using assms
  by (simp add: stream_send_def Let_def stream_started_def stream_finished_def stream_failed_def is_cancellation_def)

theorem cancelled_stream_reports_no_error_witness:
  "cs_cancelled (stream_send ''c1'' ''Hi'' False (Streaming [UserCancels, ReadFails False]) initial_chat_stream)"
proof -
  have 1: "cs_streaming initial_chat_stream = None" by (simp add: initial_chat_stream_def)
  have 2: "read_loop [UserCancels, ReadFails False] [] (Finite 0)
      (Some \<lparr>acs_user = ''Hi'', acs_answer = [], acs_sources = []\<rparr>) False
      = (Some (Some ReaderError), Some \<lparr>acs_user = ''Hi'', acs_answer = [], acs_sources = []\<rparr>, True)"
    by simp
  from cancelled_stream_reports_no_error [OF 1 2] show ?thesis by blast
qed

end
