(* ===== verification/Chat_View.thy ===== *)
theory Chat_View
  imports Chat_Api Chat_Stream
begin

text \<open>
  The state around the chat stream: which conversation is open (useConversationList),
  which documents, mode and memory flags apply (useChatSelection), uploads
  (uploadValidation, useDocumentUpload), the polling of ingestion jobs
  (useKnowledgeDocuments) and the view that sends a message (KnowledgeChatView).
\<close>

section \<open>The open conversation: useConversationList.ts\<close>

definition activeConversationId :: "string option \<Rightarrow> ChatConversationSummary list option \<Rightarrow> string option" where
  "activeConversationId selected conversations =
     (if selected = Some [] then None
      else nullish_opt selected
        (case conversations of Some (c # _) \<Rightarrow> Some (Summary_id c) | _ \<Rightarrow> None))"

text \<open>The conversation query runs for a truthy id only.\<close>

definition selected_query :: "string option \<Rightarrow> api_call option" where
  "selected_query active = (if truthy active then Some (getChatConversation (nullish active [])) else None)"

section \<open>The selection: useChatSelection.ts\<close>

record SelectionState =
  sel_conversationId :: "string option"
  sel_selectedDocumentIds :: "string list"
  sel_mode :: ChatMode
  sel_memoryEnabled :: bool
  sel_memoryWriteEnabled :: bool

definition selection_defaults :: SelectionState where
  "selection_defaults =
     \<lparr>sel_conversationId = None, sel_selectedDocumentIds = [], sel_mode = AutoMode,
      sel_memoryEnabled = True, sel_memoryWriteEnabled = True\<rparr>"

definition selection_state :: "ChatConversation option \<Rightarrow> SelectionState option \<Rightarrow> SelectionState" where
  "selection_state conversation loc =
     (case conversation of
        Some c \<Rightarrow>
          (case loc of
             Some l \<Rightarrow>
               if sel_conversationId l = Some (ChatConversation_id c) then l
               else \<lparr>sel_conversationId = Some (ChatConversation_id c),
                 sel_selectedDocumentIds = ChatConversation_selected_document_ids c,
                 sel_mode = ChatConversation_mode c,
                 sel_memoryEnabled = ChatConversation_memory_enabled c,
                 sel_memoryWriteEnabled = ChatConversation_memory_write_enabled c\<rparr>
           | None \<Rightarrow> \<lparr>sel_conversationId = Some (ChatConversation_id c),
                 sel_selectedDocumentIds = ChatConversation_selected_document_ids c,
                 sel_mode = ChatConversation_mode c,
                 sel_memoryEnabled = ChatConversation_memory_enabled c,
                 sel_memoryWriteEnabled = ChatConversation_memory_write_enabled c\<rparr>)
      | None \<Rightarrow>
          (case loc of
             Some l \<Rightarrow> if sel_conversationId l = None then l else selection_defaults
           | None \<Rightarrow> selection_defaults))"

text \<open>
  apply: the new local state, and the patch handed to onPersist when a conversation is
  open.  A patch is the payload of updateChatConversation.
\<close>

definition no_patch :: updateChatConversation_payload where
  "no_patch = \<lparr>conversation_title = None, conversation_mode = None, conversation_selected_document_ids = None,
     conversation_memory_enabled = None, conversation_memory_write_enabled = None\<rparr>"

definition apply_selection ::
  "ChatConversation option \<Rightarrow> SelectionState \<Rightarrow> updateChatConversation_payload option
     \<Rightarrow> SelectionState option \<times> updateChatConversation_payload option"
where
  "apply_selection conversation next_state persisted =
     (Some next_state, if conversation = None then None else persisted)"

definition toggleDocument ::
  "ChatConversation option \<Rightarrow> RagDocument \<Rightarrow> SelectionState option
     \<Rightarrow> SelectionState option \<times> updateChatConversation_payload option"
where
  "toggleDocument conversation document loc =
     (if RagDocument_status document \<noteq> ''indexed'' \<or> RagDocument_needs_reindex document = Some True
      then (loc, None)
      else
        let st = selection_state conversation loc;
            ids = sel_selectedDocumentIds st;
            i = RagDocument_id document;
            new_ids = (if i \<in> set ids then filter (\<lambda>x. x \<noteq> i) ids else ids @ [i])
        in apply_selection conversation (st\<lparr>sel_selectedDocumentIds := new_ids\<rparr>)
             (Some (no_patch\<lparr>conversation_selected_document_ids := Some new_ids\<rparr>)))"

datatype memory_kind = MemoryRead | MemoryWrite

definition setMemory ::
  "ChatConversation option \<Rightarrow> memory_kind \<Rightarrow> bool \<Rightarrow> SelectionState option
     \<Rightarrow> SelectionState option \<times> updateChatConversation_payload option"
where
  "setMemory conversation kind checked loc =
     (let st = selection_state conversation loc
      in apply_selection conversation
           (if kind = MemoryRead then st\<lparr>sel_memoryEnabled := checked\<rparr> else st\<lparr>sel_memoryWriteEnabled := checked\<rparr>)
           (Some (if kind = MemoryRead then no_patch\<lparr>conversation_memory_enabled := Some checked\<rparr>
                  else no_patch\<lparr>conversation_memory_write_enabled := Some checked\<rparr>)))"

definition setMode ::
  "ChatConversation option \<Rightarrow> ChatMode \<Rightarrow> SelectionState option
     \<Rightarrow> SelectionState option \<times> updateChatConversation_payload option"
where
  "setMode conversation mode loc =
     apply_selection conversation ((selection_state conversation loc)\<lparr>sel_mode := mode\<rparr>) None"

definition reset_selection :: "SelectionState option" where
  "reset_selection = Some selection_defaults"

section \<open>Uploads: uploadValidation.ts, useDocumentUpload.ts, DocumentUpload.tsx\<close>

definition lower_char :: "char \<Rightarrow> char" where
  "lower_char c =
     (let n = (of_char c :: nat) in if 65 \<le> n \<and> n \<le> 90 then char_of (n + 32) else c)"

text \<open>
  The text after the last dot, or the whole name when there is none, in lower case.  The
  only other characters whose lower case is made of ASCII letters, the Kelvin sign and the
  dotted capital I, give a k and an i, which no allowed extension has.
\<close>

definition upload_extension :: "string \<Rightarrow> string" where
  "upload_extension name = CHR ''.'' # map lower_char (last (split_char (CHR ''.'') name))"

definition MAX_CHAT_UPLOAD_BYTES :: nat where
  "MAX_CHAT_UPLOAD_BYTES = 10 * 1024 * 1024"

definition ALLOWED_CHAT_EXTENSIONS :: "string list" where
  "ALLOWED_CHAT_EXTENSIONS = [''.pdf'', ''.txt'', ''.md'', ''.docx'', ''.csv'']"

definition validateChatUpload :: "upload_file \<Rightarrow> string option" where
  "validateChatUpload file =
     (if file_size file > MAX_CHAT_UPLOAD_BYTES then Some ''Document uploads must be 10 MB or smaller.''
      else if upload_extension (file_name file) \<notin> set ALLOWED_CHAT_EXTENSIONS
      then Some ''Choose a .pdf, .txt, .md, .docx, or .csv file.''
      else None)"

definition MAX_DOCUMENT_UPLOAD_BYTES :: nat where
  "MAX_DOCUMENT_UPLOAD_BYTES = 10 * 1024 * 1024"

definition ALLOWED_DOCUMENT_EXTENSIONS :: "string list" where
  "ALLOWED_DOCUMENT_EXTENSIONS = [''.txt'', ''.md'', ''.json'', ''.ndjson'']"

definition validateDocumentUpload :: "upload_file \<Rightarrow> string option" where
  "validateDocumentUpload file =
     (if file_size file > MAX_DOCUMENT_UPLOAD_BYTES then Some ''Document uploads must be 10 MB or smaller.''
      else if upload_extension (file_name file) \<notin> set ALLOWED_DOCUMENT_EXTENSIONS
      then Some ''Choose a .txt, .md, .json, or .ndjson file.''
      else None)"

record UploadProgressState =
  up_filename :: string
  up_percent :: js_num
  up_job :: "RagIngestionJob option"
  up_duplicate :: "bool option"

record document_upload =
  du_progress :: "UploadProgressState option"
  du_validationError :: "string option"
  du_sending :: "upload_file list"

text \<open>upload(file): the files handed to the mutation are logged in du_sending.\<close>

definition upload_document :: "upload_file \<Rightarrow> document_upload \<Rightarrow> bool \<times> document_upload" where
  "upload_document file s =
     (case validateChatUpload file of
        Some e \<Rightarrow> (False, s\<lparr>du_validationError := Some e\<rparr>)
      | None \<Rightarrow> (True,
          s\<lparr>du_validationError := None,
            du_progress := Some \<lparr>up_filename = file_name file, up_percent = Finite 0, up_job = None, up_duplicate = None\<rparr>,
            du_sending := du_sending s @ [file]\<rparr>))"

definition upload_onProgress :: "js_num \<Rightarrow> document_upload \<Rightarrow> document_upload" where
  "upload_onProgress percent s = s\<lparr>du_progress := map_option (\<lambda>p. p\<lparr>up_percent := percent\<rparr>) (du_progress s)\<rparr>"

definition upload_onSuccess :: "RagUploadResponse \<Rightarrow> upload_file \<Rightarrow> document_upload \<Rightarrow> document_upload" where
  "upload_onSuccess result file s =
     s\<lparr>du_progress := Some \<lparr>up_filename = file_name file, up_percent = Finite 100,
          up_job = Some (RagUploadResponse_ingestion_job result),
          up_duplicate = RagUploadResponse_duplicate result\<rparr>,
       du_validationError := None\<rparr>"

definition upload_reset :: "document_upload \<Rightarrow> document_upload" where
  "upload_reset s = s\<lparr>du_progress := None, du_validationError := None\<rparr>"

definition jobStatusLabel :: "RagIngestionJob \<Rightarrow> string" where
  "jobStatusLabel job =
     (if RagIngestionJob_status job = ''completed'' then ''Indexed''
      else if RagIngestionJob_status job = ''failed'' then ''Indexing failed''
      else if RagIngestionJob_status job = ''running'' then ''Indexing'' else ''Queued for indexing'')"

section \<open>Ingestion jobs: useKnowledgeDocuments.ts\<close>

text \<open>The next poll in milliseconds, or none.\<close>

definition jobs_refetchInterval :: "RagIngestionJob list option \<Rightarrow> nat option" where
  "jobs_refetchInterval data =
     (if \<exists>job \<in> set (nullish data []). RagIngestionJob_status job = ''pending'' \<or> RagIngestionJob_status job = ''running''
      then Some 3000 else None)"

definition selectable_document :: "RagDocument \<Rightarrow> bool" where
  "selectable_document d \<longleftrightarrow> RagDocument_status d = ''indexed'' \<and> RagDocument_needs_reindex d \<noteq> Some True"

section \<open>The view: KnowledgeChatView.tsx\<close>

text \<open>What a catch clause or a query may hold: an ApiError, another Error, or no Error.\<close>

datatype caught_error = CaughtApi ApiError | CaughtError string | CaughtOther

definition errorText :: "caught_error \<Rightarrow> string" where
  "errorText e =
     (case e of
        CaughtApi a \<Rightarrow>
          if ApiError.code a = Some ''feature_disabled''
          then ''Knowledge chat is not enabled yet. An administrator must enable CHAT_ENABLED before using it.''
          else if ApiError.code a = Some ''search_unavailable'' \<or> ApiError.code a = Some ''web_search_unavailable''
          then ''Web search is temporarily unavailable. Try again later.''
          else if ApiError.code a = Some ''documents_required'' \<or> ApiError.code a = Some ''no_documents_selected''
          then ''Select at least one indexed document first.''
          else ApiError.message a
      | CaughtError msg \<Rightarrow> msg
      | CaughtOther \<Rightarrow> ''The knowledge chat request failed.'')"

definition displayedUploadProgress :: "RagIngestionJob list \<Rightarrow> UploadProgressState option \<Rightarrow> UploadProgressState option" where
  "displayedUploadProgress jobs progress =
     (case progress of
        None \<Rightarrow> None
      | Some p \<Rightarrow>
          (case up_job p of
             None \<Rightarrow> Some p
           | Some j \<Rightarrow>
               (case find (\<lambda>job. RagIngestionJob_id job = RagIngestionJob_id j) jobs of
                  None \<Rightarrow> Some p
                | Some refreshed \<Rightarrow> Some (p\<lparr>up_job := Some refreshed\<rparr>))))"

definition effectiveMode :: "ChatConversation option \<Rightarrow> SelectionState \<Rightarrow> ChatMode" where
  "effectiveMode conversation sel = nullish (map_option ChatConversation_mode conversation) (sel_mode sel)"

definition effectiveMemoryEnabled :: "ChatConversation option \<Rightarrow> SelectionState \<Rightarrow> bool" where
  "effectiveMemoryEnabled conversation sel =
     nullish (map_option ChatConversation_memory_enabled conversation) (sel_memoryEnabled sel)"

definition effectiveMemoryWriteEnabled :: "ChatConversation option \<Rightarrow> SelectionState \<Rightarrow> bool" where
  "effectiveMemoryWriteEnabled conversation sel =
     nullish (map_option ChatConversation_memory_write_enabled conversation) (sel_memoryWriteEnabled sel)"

definition canSend :: "ChatConversation option \<Rightarrow> SelectionState \<Rightarrow> bool" where
  "canSend conversation sel \<longleftrightarrow>
     (if effectiveMode conversation sel = DocumentsMode then sel_selectedDocumentIds sel \<noteq> [] else True)"

record chat_page =
  cp_draft :: string
  cp_uiError :: "string option"
  cp_selected :: "string option"
  cp_conversations :: "ChatConversationSummary list option"
  cp_conversation :: "ChatConversation option"
  cp_local :: "SelectionState option"
  cp_streaming :: bool

text \<open>
  What sendMessage sends: the creation of a conversation, if any, and then the message of
  the stream.  created is the answer to the creation.
\<close>

definition create_request :: "SelectionState \<Rightarrow> api_call" where
  "create_request sel =
     createChatConversation (sel_mode sel) (sel_selectedDocumentIds sel) None
       (sel_memoryEnabled sel) (sel_memoryWriteEnabled sel)"

definition stream_message :: "string \<Rightarrow> ChatConversation option \<Rightarrow> SelectionState \<Rightarrow> ChatMessageRequest" where
  "stream_message content conversation sel =
     \<lparr>ChatMessageRequest_contract_version = Some ''v1'', ChatMessageRequest_content = content,
      ChatMessageRequest_mode = Some (effectiveMode conversation sel),
      ChatMessageRequest_conversation_id = None, ChatMessageRequest_project_id = None,
      ChatMessageRequest_document_ids =
        Some (if effectiveMode conversation sel = GeneralMode \<or> effectiveMode conversation sel = WebMode
              then [] else sel_selectedDocumentIds sel),
      ChatMessageRequest_memory_enabled = Some (Some (effectiveMemoryEnabled conversation sel)),
      ChatMessageRequest_memory_write_enabled = Some (Some (effectiveMemoryWriteEnabled conversation sel)),
      ChatMessageRequest_use_memory = None, ChatMessageRequest_write_memory = None\<rparr>"

definition sendMessage ::
  "caught_error + ChatConversationSummary \<Rightarrow> chat_page
     \<Rightarrow> api_call option \<times> (string \<times> ChatMessageRequest) option \<times> chat_page"
where
  "sendMessage created p =
     (let content = trim (cp_draft p);
          conversation = cp_conversation p;
          sel = selection_state conversation (cp_local p);
          active = activeConversationId (cp_selected p) (cp_conversations p)
      in if content = [] \<or> cp_streaming p \<or> \<not> canSend conversation sel then (None, None, p)
         else if truthy active
         then (None, Some (nullish active [], stream_message content conversation sel), p\<lparr>cp_draft := []\<rparr>)
         else (case created of
             Inl e \<Rightarrow> (Some (create_request sel), None, p\<lparr>cp_uiError := Some (errorText e)\<rparr>)
           | Inr summary \<Rightarrow>
               (Some (create_request sel), Some (Summary_id summary, stream_message content conversation sel),
                p\<lparr>cp_draft := [], cp_selected := Some (Summary_id summary)\<rparr>)))"

text \<open>New chat, and what follows a deletion.\<close>

definition new_chat :: "chat_page \<Rightarrow> chat_page" where
  "new_chat p = p\<lparr>cp_selected := Some [], cp_local := reset_selection\<rparr>"

definition conversation_deleted :: "string \<Rightarrow> chat_page \<Rightarrow> chat_page" where
  "conversation_deleted i p =
     (if activeConversationId (cp_selected p) (cp_conversations p) = Some i then p\<lparr>cp_selected := Some []\<rparr> else p)"

section \<open>What they do\<close>

lemmas selection_defs = toggleDocument_def setMemory_def setMode_def apply_selection_def selection_state_def

text \<open>
  C22: A message leaves the view only if it is allowed. It is sent exactly when the draft
  is not blank, nothing is streaming and the mode has the documents it needs, to the open
  conversation or to the one just created; its text is the trimmed draft, a message in
  documents mode names at least one document, and one in general or web mode names none.
  Otherwise nothing is sent, and only a failed creation changes the page: it shows the
  error and keeps the draft.
\<close>
theorem sent_message_spec:
  "(case sendMessage created p of
      (creation, Some (target, msg), p') \<Rightarrow>
        \<not> cp_streaming p \<and> cp_draft p' = [] \<and>
        ChatMessageRequest_content msg = trim (cp_draft p) \<and> trim (cp_draft p) \<noteq> [] \<and>
        (ChatMessageRequest_mode msg = Some DocumentsMode \<longrightarrow>
           (\<exists>d ds. ChatMessageRequest_document_ids msg = Some (d # ds))) \<and>
        (ChatMessageRequest_mode msg \<in> {Some GeneralMode, Some WebMode} \<longrightarrow>
           ChatMessageRequest_document_ids msg = Some []) \<and>
        (case creation of
           None \<Rightarrow> activeConversationId (cp_selected p) (cp_conversations p) = Some target \<and> target \<noteq> []
         | Some _ \<Rightarrow> (\<exists>s. created = Inr s \<and> target = Summary_id s))
    | (None, None, p') \<Rightarrow> p' = p \<and>
        (trim (cp_draft p) = [] \<or> cp_streaming p
         \<or> \<not> canSend (cp_conversation p) (selection_state (cp_conversation p) (cp_local p)))
    | (Some _, None, p') \<Rightarrow> (\<exists>e. created = Inl e \<and> p' = p\<lparr>cp_uiError := Some (errorText e)\<rparr>))"
proof -
  have act: "truthy a \<Longrightarrow> a = Some (nullish a []) \<and> nullish a [] \<noteq> []" for a
    by (cases a) auto
  have docs: "xs \<noteq> [] \<Longrightarrow> \<exists>d ds. xs = d # ds" for xs :: "string list"
    by (cases xs) auto
  show ?thesis
    using act [of "activeConversationId (cp_selected p) (cp_conversations p)"]
    by (auto simp: sendMessage_def stream_message_def canSend_def Let_def dest!: docs split: sum.splits if_splits)
qed

text \<open>
  Documents mode loses the memory setting only on one of two requests. When the first
  message of a new chat is sent in documents mode, the conversation is created with memory
  off, whatever the selection says, but the message itself carries the selection's flags,
  which are on unless the user switched them off in another mode.
\<close>
theorem first_documents_message_keeps_memory:
  assumes "sel_mode sel = DocumentsMode" and "sel_selectedDocumentIds sel \<noteq> []" and "sel_conversationId sel = None"
    and "trim d \<noteq> []" and "p = \<lparr>cp_draft = d, cp_uiError = None, cp_selected = Some [], cp_conversations = cs,
      cp_conversation = None, cp_local = Some sel, cp_streaming = False\<rparr>"
  shows "\<exists>msg body p'. sendMessage (Inr summary) p =
       (Some (Fetch ''/chat/conversations'' (send ''POST'' (Some (JsonBody body)))), Some (Summary_id summary, msg), p')
    \<and> get_prop ''memory_enabled'' body = Some (JBool False)
    \<and> get_prop ''memory_write_enabled'' body = Some (JBool False)
    \<and> ChatMessageRequest_memory_enabled msg = Some (Some (sel_memoryEnabled sel))
    \<and> ChatMessageRequest_memory_write_enabled msg = Some (Some (sel_memoryWriteEnabled sel))"
  using assms(1-4)
  by (simp add: assms(5) sendMessage_def activeConversationId_def selection_state_def canSend_def effectiveMode_def
      create_request_def createChatConversation_def stream_message_def effectiveMemoryEnabled_def
      effectiveMemoryWriteEnabled_def Let_def json_object_def)
    (intro exI conjI, rule refl, simp_all)

definition documents_selection :: SelectionState where
  "documents_selection = selection_defaults\<lparr>sel_mode := DocumentsMode, sel_selectedDocumentIds := [''d1'']\<rparr>"

definition summary_of :: "string \<Rightarrow> ChatConversationSummary" where
  "summary_of i = \<lparr>Summary_id = i, Summary_title = ''Chat'', Summary_project_id = None, Summary_mode = DocumentsMode,
     Summary_selected_document_ids = [''d1''], Summary_memory_enabled = False, Summary_memory_write_enabled = False,
     Summary_created_at = ''2024-01-01T00:00:00Z'', Summary_updated_at = ''2024-01-01T00:00:00Z''\<rparr>"

theorem first_documents_message_keeps_memory_witness:
  "\<exists>msg body p'. sendMessage (Inr (summary_of ''c1''))
      \<lparr>cp_draft = ''Hi'', cp_uiError = None, cp_selected = Some [], cp_conversations = None,
       cp_conversation = None, cp_local = Some documents_selection, cp_streaming = False\<rparr> =
       (Some (Fetch ''/chat/conversations'' (send ''POST'' (Some (JsonBody body)))), Some (''c1'', msg), p')
    \<and> get_prop ''memory_enabled'' body = Some (JBool False)
    \<and> ChatMessageRequest_memory_enabled msg = Some (Some True)"
proof -
  have "trim ''Hi'' \<noteq> []" by code_simp
  with first_documents_message_keeps_memory [of documents_selection "''Hi''"
      "\<lparr>cp_draft = ''Hi'', cp_uiError = None, cp_selected = Some [], cp_conversations = None,
       cp_conversation = None, cp_local = Some documents_selection, cp_streaming = False\<rparr>" None "summary_of ''c1''"]
  show ?thesis
    by (auto simp: documents_selection_def selection_defaults_def summary_of_def)
qed

text \<open>A run of operations on the selection while a fixed conversation, or none, is open.\<close>

datatype selection_event = Toggle RagDocument | Memory memory_kind bool | Mode ChatMode | Reset

fun selection_step :: "ChatConversation option \<Rightarrow> selection_event \<Rightarrow> SelectionState option
     \<Rightarrow> SelectionState option \<times> updateChatConversation_payload option" where
  "selection_step c (Toggle d) l = toggleDocument c d l"
| "selection_step c (Memory k b) l = setMemory c k b l"
| "selection_step c (Mode m) l = setMode c m l"
| "selection_step c Reset l = (reset_selection, None)"

fun run_selection :: "ChatConversation option \<Rightarrow> selection_event list \<Rightarrow> SelectionState option
     \<Rightarrow> SelectionState option \<times> updateChatConversation_payload list" where
  "run_selection c [] l = (l, [])"
| "run_selection c (s # ss) l =
     (let (l1, p) = selection_step c s l; (l2, ps) = run_selection c ss l1
      in (l2, (case p of None \<Rightarrow> ps | Some q \<Rightarrow> q # ps)))"

text \<open>What the server holds after the patches, starting from the conversation.\<close>

definition patched :: "updateChatConversation_payload \<Rightarrow> ChatConversation \<Rightarrow> ChatConversation" where
  "patched q c =
     c\<lparr>ChatConversation_selected_document_ids := nullish (conversation_selected_document_ids q) (ChatConversation_selected_document_ids c),
       ChatConversation_memory_enabled := nullish (conversation_memory_enabled q) (ChatConversation_memory_enabled c),
       ChatConversation_memory_write_enabled := nullish (conversation_memory_write_enabled q) (ChatConversation_memory_write_enabled c)\<rparr>"

definition agrees :: "SelectionState \<Rightarrow> ChatConversation \<Rightarrow> bool" where
  "agrees st c \<longleftrightarrow>
     sel_conversationId st = Some (ChatConversation_id c)
     \<and> sel_selectedDocumentIds st = ChatConversation_selected_document_ids c
     \<and> sel_memoryEnabled st = ChatConversation_memory_enabled c
     \<and> sel_memoryWriteEnabled st = ChatConversation_memory_write_enabled c"

lemma patched_id [simp]: "ChatConversation_id (patched q c) = ChatConversation_id c"
  by (simp add: patched_def)

lemma selection_state_id: "sel_conversationId (selection_state (Some c) l) = Some (ChatConversation_id c)"
  by (auto simp: selection_state_def split: option.splits)

lemma selection_step_agrees:
  assumes "agrees (selection_state (Some c) l) d" and "selection_step (Some c) s l = (l1, p)" and "s \<noteq> Reset"
  shows "agrees (selection_state (Some c) l1) (case p of None \<Rightarrow> d | Some q \<Rightarrow> patched q d)"
proof -
  have "ChatConversation_id c = ChatConversation_id d"
    using assms(1) selection_state_id [of c l] by (simp add: agrees_def)
  moreover have "selection_state (Some c) (Some st) = st" if "sel_conversationId st = Some (ChatConversation_id c)" for st
    using that by (simp add: selection_state_def)
  ultimately show ?thesis
    using assms selection_state_id [of c l]
    by (cases s) (auto simp: toggleDocument_def setMemory_def setMode_def apply_selection_def agrees_def
        patched_def no_patch_def Let_def split: if_splits)
qed


definition demo_conversation :: "string \<Rightarrow> ChatConversation" where
  "demo_conversation i =
     \<lparr>ChatConversation_id = i, ChatConversation_title = ''Chat'', ChatConversation_project_id = None,
      ChatConversation_mode = AutoMode, ChatConversation_selected_document_ids = [''d1''],
      ChatConversation_memory_enabled = True, ChatConversation_memory_write_enabled = True,
      ChatConversation_created_at = [], ChatConversation_updated_at = [], ChatConversation_messages = []\<rparr>"


text \<open>
  Which files may be uploaded. A file is handed to the upload exactly when it has at
  most ten mebibytes and its name ends, in any case of letters, in pdf, txt, md, docx or
  csv after its last dot; a name without a dot counts as its own extension, so a file
  called pdf is accepted. A refused file sends nothing and keeps the progress shown.
\<close>
theorem upload_accepted_iff:
  "(fst (upload_document file s) \<longleftrightarrow> file_size file \<le> 10485760
      \<and> map lower_char (last (split_char (CHR ''.'') (file_name file))) \<in> {''pdf'', ''txt'', ''md'', ''docx'', ''csv''})
   \<and> du_sending (snd (upload_document file s))
      = du_sending s @ (if fst (upload_document file s) then [file] else [])
   \<and> (\<not> fst (upload_document file s) \<longrightarrow> du_progress (snd (upload_document file s)) = du_progress s)
   \<and> validateChatUpload \<lparr>file_name = ''pdf'', file_type = [], file_size = 1\<rparr> = None"
  by (auto simp: upload_document_def validateChatUpload_def MAX_CHAT_UPLOAD_BYTES_def upload_extension_def
      ALLOWED_CHAT_EXTENSIONS_def lower_char_def)

theorem upload_accepted_iff_witness:
  "du_sending (snd (upload_document \<lparr>file_name = ''a.b.PDF'', file_type = [], file_size = 10\<rparr>
      \<lparr>du_progress = None, du_validationError = None, du_sending = []\<rparr>))
   = [\<lparr>file_name = ''a.b.PDF'', file_type = [], file_size = 10\<rparr>]"
proof -
  have "map lower_char (last (split_char (CHR ''.'') ''a.b.PDF'')) = ''pdf''" by code_simp
  with upload_accepted_iff [of "\<lparr>file_name = ''a.b.PDF'', file_type = [], file_size = 10\<rparr>"
      "\<lparr>du_progress = None, du_validationError = None, du_sending = []\<rparr>"]
  show ?thesis by simp
qed

definition demo_page :: chat_page where
  "demo_page = \<lparr>cp_draft = '' Hi'', cp_uiError = None, cp_selected = Some ''c1'', cp_conversations = None,
     cp_conversation = Some (demo_conversation ''c1''), cp_local = None, cp_streaming = False\<rparr>"

theorem sent_message_spec_witness:
  "\<exists>target msg p'. sendMessage (Inl CaughtOther) demo_page = (None, Some (target, msg), p')
     \<and> ChatMessageRequest_content msg = ''Hi''"
proof -
  have t: "trim '' Hi'' = ''Hi''" by code_simp
  then have "\<exists>target msg p'. sendMessage (Inl CaughtOther) demo_page = (None, Some (target, msg), p')"
    by (simp add: sendMessage_def demo_page_def demo_conversation_def activeConversationId_def canSend_def
        effectiveMode_def Let_def)
  with sent_message_spec [where created = "Inl CaughtOther" and p = demo_page] t show ?thesis
    by (fastforce simp: demo_page_def)
qed

end
