(* ===== verification/Query_Keys.thy ===== *)
theory Query_Keys
  imports Js_Json
begin

text \<open>
  The query keys of frontend/src/config/queryKeys.ts and the functions on the query cache
  beside them.  The cache itself is TanStack Query, which is not part of the repository:
  it is a parameter, a record of the operations the code calls, and query_client_laws
  states what its documentation promises of them.
\<close>

section \<open>Keys\<close>

datatype key_part = KStr string | KNum number | KBool bool

type_synonym query_key = "key_part list"

text \<open>The filters of the job console.\<close>

record job_filters =
  jf_status :: string
  jf_jobType :: string
  jf_queue :: string
  jf_projectId :: string
  jf_failedOnly :: bool

definition queryKeys_auth_all :: query_key where
  "queryKeys_auth_all = [KStr ''auth'']"

definition queryKeys_auth_me :: query_key where
  "queryKeys_auth_me = [KStr ''auth'', KStr ''me'']"

definition queryKeys_users_all :: query_key where
  "queryKeys_users_all = [KStr ''users'']"

definition queryKeys_users_me :: query_key where
  "queryKeys_users_me = [KStr ''users'', KStr ''me'']"

definition queryKeys_users_profile :: query_key where
  "queryKeys_users_profile = [KStr ''users'', KStr ''profile'']"

definition queryKeys_users_sessions :: query_key where
  "queryKeys_users_sessions = [KStr ''users'', KStr ''sessions'']"

definition queryKeys_users_directory :: query_key where
  "queryKeys_users_directory = [KStr ''users'', KStr ''directory'']"

definition queryKeys_notifications_all :: query_key where
  "queryKeys_notifications_all = [KStr ''notifications'']"

definition queryKeys_notifications_unreadCount :: query_key where
  "queryKeys_notifications_unreadCount = [KStr ''notifications'', KStr ''unread-count'']"

definition queryKeys_notifications_preferences :: query_key where
  "queryKeys_notifications_preferences = [KStr ''notifications'', KStr ''preferences'']"

definition queryKeys_projects_all :: query_key where
  "queryKeys_projects_all = [KStr ''projects'']"

definition queryKeys_projects_summary :: query_key where
  "queryKeys_projects_summary = [KStr ''projects'', KStr ''summary'']"

definition queryKeys_projects_detail :: "string \<Rightarrow> query_key" where
  "queryKeys_projects_detail projectId = [KStr ''projects'', KStr projectId]"

definition queryKeys_projects_tasks :: "string \<Rightarrow> query_key" where
  "queryKeys_projects_tasks projectId = [KStr ''projects'', KStr projectId, KStr ''tasks'']"

definition queryKeys_calendar_all :: query_key where
  "queryKeys_calendar_all = [KStr ''calendar'', KStr ''items'']"

definition queryKeys_calendar_items :: "string \<Rightarrow> string \<Rightarrow> query_key" where
  "queryKeys_calendar_items start end = [KStr ''calendar'', KStr ''items'', KStr start, KStr end]"

definition queryKeys_admin_all :: query_key where
  "queryKeys_admin_all = [KStr ''admin'']"

definition queryKeys_admin_users :: "number \<Rightarrow> string \<Rightarrow> query_key" where
  "queryKeys_admin_users page search = [KStr ''admin'', KStr ''users'', KNum page, KStr search]"

definition queryKeys_admin_policyRoles :: query_key where
  "queryKeys_admin_policyRoles = [KStr ''admin'', KStr ''policy-roles'']"

definition queryKeys_admin_policyPermissions :: query_key where
  "queryKeys_admin_policyPermissions = [KStr ''admin'', KStr ''policy-permissions'']"

definition queryKeys_admin_userRoleAssignments :: "string \<Rightarrow> query_key" where
  "queryKeys_admin_userRoleAssignments userId = [KStr ''admin'', KStr ''role-assignments'', KStr userId]"

definition queryKeys_admin_diagnostics :: query_key where
  "queryKeys_admin_diagnostics = [KStr ''admin'', KStr ''diagnostics'']"

definition queryKeys_admin_jobs :: "job_filters \<Rightarrow> query_key" where
  "queryKeys_admin_jobs filters = [KStr ''admin'', KStr ''jobs'', KStr (jf_status filters), KStr (jf_jobType filters), KStr (jf_queue filters), KStr (jf_projectId filters), KBool (jf_failedOnly filters)]"

definition queryKeys_admin_ragIndexStatus :: query_key where
  "queryKeys_admin_ragIndexStatus = [KStr ''admin'', KStr ''rag-index-status'']"

definition queryKeys_admin_ragEvalDatasets :: query_key where
  "queryKeys_admin_ragEvalDatasets = [KStr ''admin'', KStr ''rag-eval-datasets'']"

definition queryKeys_admin_ragEvalCases :: "string \<Rightarrow> query_key" where
  "queryKeys_admin_ragEvalCases datasetId = [KStr ''admin'', KStr ''rag-eval-cases'', KStr datasetId]"

definition queryKeys_admin_ragEvalRuns :: "string \<Rightarrow> query_key" where
  "queryKeys_admin_ragEvalRuns datasetId = [KStr ''admin'', KStr ''rag-eval-runs'', KStr datasetId]"

definition queryKeys_memory_all :: query_key where
  "queryKeys_memory_all = [KStr ''memory'']"

definition queryKeys_memory_list :: "number \<Rightarrow> number \<Rightarrow> query_key" where
  "queryKeys_memory_list limit offset = [KStr ''memory'', KStr ''list'', KNum limit, KNum offset]"

definition queryKeys_platform_all :: query_key where
  "queryKeys_platform_all = [KStr ''platform'']"

definition queryKeys_platform_metadata :: query_key where
  "queryKeys_platform_metadata = [KStr ''platform'', KStr ''metadata'']"

definition queryKeys_platform_plans :: query_key where
  "queryKeys_platform_plans = [KStr ''platform'', KStr ''plans'']"

definition queryKeys_platform_subscription :: query_key where
  "queryKeys_platform_subscription = [KStr ''platform'', KStr ''subscription'']"

definition queryKeys_platform_apiKeys :: query_key where
  "queryKeys_platform_apiKeys = [KStr ''platform'', KStr ''api-keys'']"

definition queryKeys_platform_webhooks :: query_key where
  "queryKeys_platform_webhooks = [KStr ''platform'', KStr ''webhooks'']"

definition queryKeys_platform_featureFlags :: query_key where
  "queryKeys_platform_featureFlags = [KStr ''platform'', KStr ''feature-flags'']"

definition queryKeys_platform_admin_config :: query_key where
  "queryKeys_platform_admin_config = [KStr ''platform'', KStr ''admin'', KStr ''config'']"

definition queryKeys_platform_admin_plans :: query_key where
  "queryKeys_platform_admin_plans = [KStr ''platform'', KStr ''admin'', KStr ''plans'']"

definition queryKeys_platform_admin_featureFlags :: query_key where
  "queryKeys_platform_admin_featureFlags = [KStr ''platform'', KStr ''admin'', KStr ''feature-flags'']"

definition queryKeys_platform_admin_emailTemplates :: query_key where
  "queryKeys_platform_admin_emailTemplates = [KStr ''platform'', KStr ''admin'', KStr ''email-templates'']"

definition queryKeys_settings_config :: query_key where
  "queryKeys_settings_config = [KStr ''settings'', KStr ''config'']"

definition queryKeys_settings_database :: query_key where
  "queryKeys_settings_database = [KStr ''settings'', KStr ''database'']"

definition queryKeys_observability_links :: query_key where
  "queryKeys_observability_links = [KStr ''observability'', KStr ''links'']"

definition queryKeys_observability_status :: query_key where
  "queryKeys_observability_status = [KStr ''observability'', KStr ''status'']"

definition queryKeys_ai_all :: query_key where
  "queryKeys_ai_all = [KStr ''ai'']"

definition queryKeys_ai_overview :: query_key where
  "queryKeys_ai_overview = [KStr ''ai'', KStr ''overview'']"

definition queryKeys_ai_reviews :: query_key where
  "queryKeys_ai_reviews = [KStr ''ai'', KStr ''reviews'']"

definition queryKeys_ai_evaluationRuns :: query_key where
  "queryKeys_ai_evaluationRuns = [KStr ''ai'', KStr ''evaluation-runs'']"

definition queryKeys_ai_promptVersions :: "string \<Rightarrow> query_key" where
  "queryKeys_ai_promptVersions templateId = [KStr ''ai'', KStr ''prompt-versions'', KStr templateId]"

definition queryKeys_ai_datasetCases :: "string \<Rightarrow> query_key" where
  "queryKeys_ai_datasetCases datasetId = [KStr ''ai'', KStr ''dataset-cases'', KStr datasetId]"

definition queryKeys_chat_all :: query_key where
  "queryKeys_chat_all = [KStr ''chat'']"

definition queryKeys_chat_conversations :: query_key where
  "queryKeys_chat_conversations = [KStr ''chat'', KStr ''conversations'']"

definition queryKeys_chat_conversation :: "string \<Rightarrow> query_key" where
  "queryKeys_chat_conversation conversationId = [KStr ''chat'', KStr ''conversation'', KStr conversationId]"

definition queryKeys_chat_documents :: query_key where
  "queryKeys_chat_documents = [KStr ''chat'', KStr ''documents'']"

definition queryKeys_chat_documentsForProject :: "string option \<Rightarrow> query_key" where
  "queryKeys_chat_documentsForProject projectId = [KStr ''chat'', KStr ''documents'', KStr (nullish projectId ''_'')]"

definition queryKeys_chat_ingestionJobs :: query_key where
  "queryKeys_chat_ingestionJobs = [KStr ''chat'', KStr ''ingestion-jobs'']"

definition queryKeys_chat_ingestionJobsForProject :: "string option \<Rightarrow> query_key" where
  "queryKeys_chat_ingestionJobsForProject projectId = [KStr ''chat'', KStr ''ingestion-jobs'', KStr (nullish projectId ''_'')]"

section \<open>The query client\<close>

record 'c query_client =
  getQueryData :: "'c \<Rightarrow> query_key \<Rightarrow> json option"
  setQueryData :: "query_key \<Rightarrow> json option \<Rightarrow> 'c \<Rightarrow> 'c"
  cancelQueries :: "(query_key \<Rightarrow> bool) \<Rightarrow> 'c \<Rightarrow> 'c"
  removeQueries :: "(query_key \<Rightarrow> bool) \<Rightarrow> 'c \<Rightarrow> 'c"
  invalidateQueries :: "query_key \<Rightarrow> 'c \<Rightarrow> 'c"
  clearMutations :: "'c \<Rightarrow> 'c"

text \<open>
  Setting replaces the data of one key, removing drops the data of the keys a predicate
  selects, and cancelling, invalidating and clearing the mutations keep all data.
\<close>

definition query_client_laws :: "'c query_client \<Rightarrow> bool" where
  "query_client_laws qc \<longleftrightarrow>
     (\<forall>c k v k'. getQueryData qc (setQueryData qc k v c) k' = (if k' = k then v else getQueryData qc c k'))
     \<and> (\<forall>c P k. getQueryData qc (removeQueries qc P c) k = (if P k then None else getQueryData qc c k))
     \<and> (\<forall>c P k. getQueryData qc (cancelQueries qc P c) k = getQueryData qc c k)
     \<and> (\<forall>c q k. getQueryData qc (invalidateQueries qc q c) k = getQueryData qc c k)
     \<and> (\<forall>c k. getQueryData qc (clearMutations qc c) k = getQueryData qc c k)"

lemma query_client_lawsD:
  assumes "query_client_laws qc"
  shows "getQueryData qc (setQueryData qc k v c) k' = (if k' = k then v else getQueryData qc c k')"
    and "getQueryData qc (removeQueries qc P c) k = (if P k then None else getQueryData qc c k)"
    and "getQueryData qc (cancelQueries qc P c) k = getQueryData qc c k"
    and "getQueryData qc (invalidateQueries qc q c) k = getQueryData qc c k"
    and "getQueryData qc (clearMutations qc c) k = getQueryData qc c k"
  using assms by (simp_all add: query_client_laws_def)

text \<open>A cache that is just a map from keys to data keeps the laws.\<close>

definition map_client :: "(query_key \<Rightarrow> json option) query_client" where
  "map_client =
     \<lparr>getQueryData = (\<lambda>c k. c k), setQueryData = (\<lambda>k v c. c(k := v)), cancelQueries = (\<lambda>P c. c),
      removeQueries = (\<lambda>P c k. if P k then None else c k), invalidateQueries = (\<lambda>q c. c),
      clearMutations = (\<lambda>c. c)\<rparr>"

lemma map_client_laws: "query_client_laws map_client"
  by (simp add: query_client_laws_def map_client_def)

section \<open>User data\<close>

text \<open>query.queryKey[0] !== queryKeys.auth.all[0]; the first part of an empty key is undefined.\<close>

definition isUserScopedQuery :: "query_key \<Rightarrow> bool" where
  "isUserScopedQuery k \<longleftrightarrow> k = [] \<or> hd k \<noteq> hd queryKeys_auth_all"

text \<open>
  clearUserScopedQueryState: the argument meanwhile is what happens to the cache while the
  cancellation is awaited.
\<close>

definition clearUserScopedQueryState :: "'c query_client \<Rightarrow> ('c \<Rightarrow> 'c) \<Rightarrow> 'c \<Rightarrow> 'c" where
  "clearUserScopedQueryState qc meanwhile c =
     clearMutations qc (removeQueries qc isUserScopedQuery (meanwhile (cancelQueries qc isUserScopedQuery c)))"

definition invalidateUserIdentity :: "'c query_client \<Rightarrow> 'c \<Rightarrow> 'c" where
  "invalidateUserIdentity qc c =
     invalidateQueries qc queryKeys_users_me (invalidateQueries qc queryKeys_auth_me c)"

definition invalidateAiOverview :: "'c query_client \<Rightarrow> 'c \<Rightarrow> 'c" where
  "invalidateAiOverview qc c = invalidateQueries qc queryKeys_ai_overview c"

lemma getQueryData_cleared:
  assumes "query_client_laws qc"
  shows "getQueryData qc (clearUserScopedQueryState qc meanwhile c) k =
    (if isUserScopedQuery k then None
     else getQueryData qc (meanwhile (cancelQueries qc isUserScopedQuery c)) k)"
  by (simp add: clearUserScopedQueryState_def query_client_lawsD [OF assms])

lemma auth_keys_not_user_scoped: "\<not> isUserScopedQuery queryKeys_auth_me"
  by (simp add: isUserScopedQuery_def queryKeys_auth_me_def queryKeys_auth_all_def)

text \<open>
  Two query keys of the projects collide. The key of a project's detail is the key of
  the summary exactly for a project whose id is summary, and the documents of no project
  share their key with those of a project called _; all other pairs of these keys differ.
\<close>
theorem query_key_collisions:
  "(queryKeys_projects_detail p = queryKeys_projects_summary \<longleftrightarrow> p = ''summary'')
   \<and> (queryKeys_projects_detail p = queryKeys_projects_detail q \<longleftrightarrow> p = q)
   \<and> queryKeys_projects_detail p \<noteq> queryKeys_projects_tasks q
   \<and> queryKeys_projects_detail p \<noteq> queryKeys_projects_all
   \<and> (queryKeys_chat_documentsForProject a = queryKeys_chat_documentsForProject b
      \<longleftrightarrow> nullish a ''_'' = nullish b ''_'')
   \<and> queryKeys_chat_documentsForProject None = queryKeys_chat_documentsForProject (Some ''_'')"
  by (auto simp: queryKeys_projects_detail_def queryKeys_projects_summary_def queryKeys_projects_tasks_def
      queryKeys_projects_all_def queryKeys_chat_documentsForProject_def)

end
