(* ===== verification/Api_Endpoints.thy ===== *)
theory Api_Endpoints
  imports Api_Transport Api_Types
begin

text \<open>
  The endpoint functions of frontend/src/api/*.ts that call the client themselves, except
  the platform and AI modules: each gives the call it makes, with the payload type of the
  source and the JSON value of its body.
\<close>

section \<open>Authentication: api/auth.ts\<close>

record signUp_payload =
  signUp_payload_email :: string
  signUp_payload_password :: string
  signUp_payload_full_name :: "string option"
  signUp_payload_admin_invite_code :: "string option"

definition signUp_payload_json :: "signUp_payload \<Rightarrow> json" where
  "signUp_payload_json x = json_object
     [(''email'', Some (JStr (signUp_payload_email x))),
      (''password'', Some (JStr (signUp_payload_password x))),
      (''full_name'', map_option JStr (signUp_payload_full_name x)),
      (''admin_invite_code'', map_option JStr (signUp_payload_admin_invite_code x))]"

definition signUp :: "signUp_payload \<Rightarrow> api_call" where
  "signUp payload = Fetch ''/auth/sign-up'' (send ''POST'' (Some (JsonBody (signUp_payload_json payload))))"

record signIn_payload =
  signIn_payload_email :: string
  signIn_payload_password :: string
  signIn_payload_mfa_code :: "string option"

definition signIn_payload_json :: "signIn_payload \<Rightarrow> json" where
  "signIn_payload_json x = json_object
     [(''email'', Some (JStr (signIn_payload_email x))),
      (''password'', Some (JStr (signIn_payload_password x))),
      (''mfa_code'', map_option JStr (signIn_payload_mfa_code x))]"

definition signIn :: "signIn_payload \<Rightarrow> api_call" where
  "signIn payload = Fetch ''/auth/sign-in'' (send ''POST'' (Some (JsonBody (signIn_payload_json payload))))"

definition refresh :: api_call where
  "refresh = Fetch ''/auth/refresh'' (send ''POST'' None)"

definition me :: api_call where
  "me = Fetch ''/auth/me'' no_init"

definition logout :: api_call where
  "logout = Fetch ''/auth/logout'' (send ''POST'' None)"

record forgotPassword_payload =
  forgotPassword_payload_email :: string

definition forgotPassword_payload_json :: "forgotPassword_payload \<Rightarrow> json" where
  "forgotPassword_payload_json x = json_object
     [(''email'', Some (JStr (forgotPassword_payload_email x)))]"

definition forgotPassword :: "forgotPassword_payload \<Rightarrow> api_call" where
  "forgotPassword payload = Fetch ''/auth/forgot-password''
     (send ''POST'' (Some (JsonBody (forgotPassword_payload_json payload))))"

record resetPassword_payload =
  resetPassword_payload_token :: string
  resetPassword_payload_new_password :: string

definition resetPassword_payload_json :: "resetPassword_payload \<Rightarrow> json" where
  "resetPassword_payload_json x = json_object
     [(''token'', Some (JStr (resetPassword_payload_token x))),
      (''new_password'', Some (JStr (resetPassword_payload_new_password x)))]"

definition resetPassword :: "resetPassword_payload \<Rightarrow> api_call" where
  "resetPassword payload = Fetch ''/auth/reset-password''
     (send ''POST'' (Some (JsonBody (resetPassword_payload_json payload))))"

record verifyEmail_payload =
  verifyEmail_payload_token :: string

definition verifyEmail_payload_json :: "verifyEmail_payload \<Rightarrow> json" where
  "verifyEmail_payload_json x = json_object
     [(''token'', Some (JStr (verifyEmail_payload_token x)))]"

definition verifyEmail :: "verifyEmail_payload \<Rightarrow> api_call" where
  "verifyEmail payload = Fetch ''/auth/verify-email''
     (send ''POST'' (Some (JsonBody (verifyEmail_payload_json payload))))"

record resendVerification_payload =
  resendVerification_payload_email :: string

definition resendVerification_payload_json :: "resendVerification_payload \<Rightarrow> json" where
  "resendVerification_payload_json x = json_object
     [(''email'', Some (JStr (resendVerification_payload_email x)))]"

definition resendVerification :: "resendVerification_payload \<Rightarrow> api_call" where
  "resendVerification payload = Fetch ''/auth/resend-verification''
     (send ''POST'' (Some (JsonBody (resendVerification_payload_json payload))))"

definition enableMfa :: api_call where
  "enableMfa = Fetch ''/auth/mfa/enable'' (send ''POST'' None)"

definition verifyMfa :: "string \<Rightarrow> api_call" where
  "verifyMfa mfaCode = Fetch ''/auth/mfa/verify''
     (send ''POST'' (Some (JsonBody (json_object [(''code'', Some (JStr mfaCode))]))))"

definition disableMfa :: "string \<Rightarrow> api_call" where
  "disableMfa mfaCode = Fetch ''/auth/mfa/disable''
     (send ''POST'' (Some (JsonBody (json_object [(''code'', Some (JStr mfaCode))]))))"

section \<open>The signed-in user: api/users.ts\<close>

definition getMe :: api_call where
  "getMe = Fetch ''/users/me'' no_init"

record updateMe_payload =
  updateMe_payload_full_name :: "string option option"

definition updateMe_payload_json :: "updateMe_payload \<Rightarrow> json" where
  "updateMe_payload_json x = json_object
     [(''full_name'', map_option (json_nullable JStr) (updateMe_payload_full_name x))]"

definition updateMe :: "updateMe_payload \<Rightarrow> api_call" where
  "updateMe payload = Fetch ''/users/me'' (send ''PATCH'' (Some (JsonBody (updateMe_payload_json payload))))"

record changePassword_payload =
  changePassword_payload_current_password :: string
  changePassword_payload_new_password :: string

definition changePassword_payload_json :: "changePassword_payload \<Rightarrow> json" where
  "changePassword_payload_json x = json_object
     [(''current_password'', Some (JStr (changePassword_payload_current_password x))),
      (''new_password'', Some (JStr (changePassword_payload_new_password x)))]"

definition changePassword :: "changePassword_payload \<Rightarrow> api_call" where
  "changePassword payload = Fetch ''/users/me/password''
     (send ''PATCH'' (Some (JsonBody (changePassword_payload_json payload))))"

definition getSessions :: api_call where
  "getSessions = Fetch ''/users/me/sessions'' no_init"

definition revokeSession :: "string \<Rightarrow> api_call" where
  "revokeSession sessionId = Fetch (''/users/me/sessions/'' @ sessionId) (send ''DELETE'' None)"

definition listUserDirectory :: api_call where
  "listUserDirectory = FetchItems ''/users/directory'' no_init"

section \<open>Projects and tasks: api/projects.ts\<close>

definition listProjects :: "RequestInit \<Rightarrow> api_call" where
  "listProjects options = FetchItems ''/projects'' options"

definition getProjectSummary :: "RequestInit \<Rightarrow> api_call" where
  "getProjectSummary options = Fetch ''/projects/summary'' options"

definition getProject :: "string \<Rightarrow> api_call" where
  "getProject projectId = Fetch (''/projects/'' @ projectId) no_init"

record createProject_payload =
  createProject_payload_name :: string
  createProject_payload_description :: "string option"
  createProject_payload_organization_id :: "string option"

definition createProject_payload_json :: "createProject_payload \<Rightarrow> json" where
  "createProject_payload_json x = json_object
     [(''name'', Some (JStr (createProject_payload_name x))),
      (''description'', map_option JStr (createProject_payload_description x)),
      (''organization_id'', map_option JStr (createProject_payload_organization_id x))]"

definition createProject :: "createProject_payload \<Rightarrow> api_call" where
  "createProject payload = Fetch ''/projects'' (send ''POST'' (Some (JsonBody (createProject_payload_json payload))))"

definition listProjectTasks :: "string \<Rightarrow> api_call" where
  "listProjectTasks projectId = FetchItems (''/projects/'' @ projectId @ ''/tasks'') no_init"

record createProjectTask_payload =
  createProjectTask_payload_title :: string
  createProjectTask_payload_description :: "string option"
  createProjectTask_payload_status :: ProjectTaskStatus
  createProjectTask_payload_priority :: ProjectTaskPriority
  createProjectTask_payload_due_date :: "string option option"
  createProjectTask_payload_assignee_id :: "string option option"

definition createProjectTask_payload_json :: "createProjectTask_payload \<Rightarrow> json" where
  "createProjectTask_payload_json x = json_object
     [(''title'', Some (JStr (createProjectTask_payload_title x))),
      (''description'', map_option JStr (createProjectTask_payload_description x)),
      (''status'', Some (ProjectTaskStatus_json (createProjectTask_payload_status x))),
      (''priority'', Some (ProjectTaskPriority_json (createProjectTask_payload_priority x))),
      (''due_date'', map_option (json_nullable JStr) (createProjectTask_payload_due_date x)),
      (''assignee_id'', map_option (json_nullable JStr) (createProjectTask_payload_assignee_id x))]"

definition createProjectTask :: "string \<Rightarrow> createProjectTask_payload \<Rightarrow> api_call" where
  "createProjectTask projectId payload = Fetch (''/projects/'' @ projectId @ ''/tasks'')
     (send ''POST'' (Some (JsonBody (createProjectTask_payload_json payload))))"

record updateProjectTask_payload =
  updateProjectTask_payload_title :: "string option"
  updateProjectTask_payload_description :: "string option option"
  updateProjectTask_payload_status :: "ProjectTaskStatus option"
  updateProjectTask_payload_priority :: "ProjectTaskPriority option"
  updateProjectTask_payload_due_date :: "string option option"
  updateProjectTask_payload_assignee_id :: "string option option"

definition updateProjectTask_payload_json :: "updateProjectTask_payload \<Rightarrow> json" where
  "updateProjectTask_payload_json x = json_object
     [(''title'', map_option JStr (updateProjectTask_payload_title x)),
      (''description'', map_option (json_nullable JStr) (updateProjectTask_payload_description x)),
      (''status'', map_option ProjectTaskStatus_json (updateProjectTask_payload_status x)),
      (''priority'', map_option ProjectTaskPriority_json (updateProjectTask_payload_priority x)),
      (''due_date'', map_option (json_nullable JStr) (updateProjectTask_payload_due_date x)),
      (''assignee_id'', map_option (json_nullable JStr) (updateProjectTask_payload_assignee_id x))]"

definition updateProjectTask :: "string \<Rightarrow> string \<Rightarrow> updateProjectTask_payload \<Rightarrow> api_call" where
  "updateProjectTask projectId taskId payload = Fetch (''/projects/'' @ projectId @ ''/tasks/'' @ taskId)
     (send ''PATCH'' (Some (JsonBody (updateProjectTask_payload_json payload))))"

definition deleteProjectTask :: "string \<Rightarrow> string \<Rightarrow> api_call" where
  "deleteProjectTask projectId taskId = Fetch (''/projects/'' @ projectId @ ''/tasks/'' @ taskId)
     (send ''DELETE'' None)"

record reorderProjectTasks_payload_columns_item =
  reorderProjectTasks_payload_columns_item_status :: ProjectTaskStatus
  reorderProjectTasks_payload_columns_item_task_ids :: "string list"

record reorderProjectTasks_payload =
  reorderProjectTasks_payload_columns :: "reorderProjectTasks_payload_columns_item list"

definition reorderProjectTasks_payload_columns_item_json :: "reorderProjectTasks_payload_columns_item \<Rightarrow> json" where
  "reorderProjectTasks_payload_columns_item_json x = json_object
     [(''status'', Some (ProjectTaskStatus_json (reorderProjectTasks_payload_columns_item_status x))),
      (''task_ids'', Some (json_list JStr (reorderProjectTasks_payload_columns_item_task_ids x)))]"

definition reorderProjectTasks_payload_json :: "reorderProjectTasks_payload \<Rightarrow> json" where
  "reorderProjectTasks_payload_json x = json_object
     [(''columns'', Some (json_list reorderProjectTasks_payload_columns_item_json (reorderProjectTasks_payload_columns x)))]"

definition reorderProjectTasks :: "string \<Rightarrow> reorderProjectTasks_payload \<Rightarrow> api_call" where
  "reorderProjectTasks projectId payload = Fetch (''/projects/'' @ projectId @ ''/tasks/reorder'')
     (send ''PUT'' (Some (JsonBody (reorderProjectTasks_payload_json payload))))"

section \<open>The calendar: api/calendar.ts\<close>

definition listCalendarItems :: "string \<Rightarrow> string \<Rightarrow> RequestInit \<Rightarrow> api_call" where
  "listCalendarItems startDate endDate options =
     (let params = [(''start_date'', startDate), (''end_date'', endDate)]
      in Fetch (''/calendar/items?'' @ params_text params) options)"

record createCalendarItem_payload =
  createCalendarItem_payload_type :: CalendarItemType
  createCalendarItem_payload_title :: string
  createCalendarItem_payload_description :: "string option option"
  createCalendarItem_payload_date :: string
  createCalendarItem_payload_start_time :: "string option option"
  createCalendarItem_payload_end_time :: "string option option"
  createCalendarItem_payload_project_id :: "string option option"
  createCalendarItem_payload_priority :: "ProjectTaskPriority option option"
  createCalendarItem_payload_assignee_id :: "string option option"

definition createCalendarItem_payload_json :: "createCalendarItem_payload \<Rightarrow> json" where
  "createCalendarItem_payload_json x = json_object
     [(''type'', Some (CalendarItemType_json (createCalendarItem_payload_type x))),
      (''title'', Some (JStr (createCalendarItem_payload_title x))),
      (''description'', map_option (json_nullable JStr) (createCalendarItem_payload_description x)),
      (''date'', Some (JStr (createCalendarItem_payload_date x))),
      (''start_time'', map_option (json_nullable JStr) (createCalendarItem_payload_start_time x)),
      (''end_time'', map_option (json_nullable JStr) (createCalendarItem_payload_end_time x)),
      (''project_id'', map_option (json_nullable JStr) (createCalendarItem_payload_project_id x)),
      (''priority'', map_option (json_nullable ProjectTaskPriority_json) (createCalendarItem_payload_priority x)),
      (''assignee_id'', map_option (json_nullable JStr) (createCalendarItem_payload_assignee_id x))]"

definition createCalendarItem :: "createCalendarItem_payload \<Rightarrow> api_call" where
  "createCalendarItem payload = Fetch ''/calendar/items''
     (send ''POST'' (Some (JsonBody (createCalendarItem_payload_json payload))))"

section \<open>Notifications: api/notifications.ts\<close>

definition getNotifications :: "RequestInit \<Rightarrow> api_call" where
  "getNotifications options = FetchItems ''/notifications'' options"

definition markRead :: "string \<Rightarrow> api_call" where
  "markRead notificationId = Fetch (''/notifications/'' @ notificationId @ ''/read'') (send ''PATCH'' None)"

definition markAllRead :: api_call where
  "markAllRead = Fetch ''/notifications/read-all'' (send ''PATCH'' None)"

definition getUnreadCount :: "RequestInit \<Rightarrow> api_call" where
  "getUnreadCount options = Fetch ''/notifications/unread-count'' options"

definition getPreferences :: api_call where
  "getPreferences = Fetch ''/notifications/preferences'' no_init"

record updatePreferences_payload =
  updatePreferences_payload_email_enabled :: "bool option"
  updatePreferences_payload_push_enabled :: "bool option"
  updatePreferences_payload_marketing_enabled :: "bool option"

definition updatePreferences_payload_json :: "updatePreferences_payload \<Rightarrow> json" where
  "updatePreferences_payload_json x = json_object
     [(''email_enabled'', map_option JBool (updatePreferences_payload_email_enabled x)),
      (''push_enabled'', map_option JBool (updatePreferences_payload_push_enabled x)),
      (''marketing_enabled'', map_option JBool (updatePreferences_payload_marketing_enabled x))]"

definition updatePreferences :: "updatePreferences_payload \<Rightarrow> api_call" where
  "updatePreferences payload = Fetch ''/notifications/preferences''
     (send ''PUT'' (Some (JsonBody (updatePreferences_payload_json payload))))"

section \<open>Settings: api/settings.ts\<close>

definition getConfigSettings :: api_call where
  "getConfigSettings = Fetch ''/settings/config'' no_init"

definition ConfigSettingsUpdateRequest_items_item_json :: "ConfigSettingsUpdateRequest_items_item \<Rightarrow> json" where
  "ConfigSettingsUpdateRequest_items_item_json x = json_object
     [(''key'', Some (JStr (ConfigSettingsUpdateRequest_items_item_key x))),
      (''value'', Some (JStr (ConfigSettingsUpdateRequest_items_item_value x)))]"

definition ConfigSettingsUpdateRequest_json :: "ConfigSettingsUpdateRequest \<Rightarrow> json" where
  "ConfigSettingsUpdateRequest_json x = json_object
     [(''items'', Some (json_list ConfigSettingsUpdateRequest_items_item_json (ConfigSettingsUpdateRequest_items x)))]"

definition updateConfigSettings :: "ConfigSettingsUpdateRequest \<Rightarrow> api_call" where
  "updateConfigSettings payload = Fetch ''/settings/config''
     (send ''PUT'' (Some (JsonBody (ConfigSettingsUpdateRequest_json payload))))"

definition listDatabaseSettings :: api_call where
  "listDatabaseSettings = Fetch ''/settings/database'' no_init"

record createDatabaseSetting_payload =
  createDatabaseSetting_payload_key :: string
  createDatabaseSetting_payload_value :: string
  createDatabaseSetting_payload_description :: "string option"

definition createDatabaseSetting_payload_json :: "createDatabaseSetting_payload \<Rightarrow> json" where
  "createDatabaseSetting_payload_json x = json_object
     [(''key'', Some (JStr (createDatabaseSetting_payload_key x))),
      (''value'', Some (JStr (createDatabaseSetting_payload_value x))),
      (''description'', map_option JStr (createDatabaseSetting_payload_description x))]"

definition createDatabaseSetting :: "createDatabaseSetting_payload \<Rightarrow> api_call" where
  "createDatabaseSetting payload = Fetch ''/settings/database''
     (send ''POST'' (Some (JsonBody (createDatabaseSetting_payload_json payload))))"

record updateDatabaseSetting_payload =
  updateDatabaseSetting_payload_value :: "string option"
  updateDatabaseSetting_payload_description :: "string option option"

definition updateDatabaseSetting_payload_json :: "updateDatabaseSetting_payload \<Rightarrow> json" where
  "updateDatabaseSetting_payload_json x = json_object
     [(''value'', map_option JStr (updateDatabaseSetting_payload_value x)),
      (''description'', map_option (json_nullable JStr) (updateDatabaseSetting_payload_description x))]"

definition updateDatabaseSetting :: "string \<Rightarrow> updateDatabaseSetting_payload \<Rightarrow> api_call" where
  "updateDatabaseSetting settingId payload = Fetch (''/settings/database/'' @ settingId)
     (send ''PATCH'' (Some (JsonBody (updateDatabaseSetting_payload_json payload))))"

definition deleteDatabaseSetting :: "string \<Rightarrow> api_call" where
  "deleteDatabaseSetting settingId = Fetch (''/settings/database/'' @ settingId) (send ''DELETE'' None)"

section \<open>Diagnostics for developers: api/developerDiagnostics.ts\<close>

definition getDeveloperDiagnosticsStatus :: api_call where
  "getDeveloperDiagnosticsStatus = Fetch ''/developer/diagnostics/status'' no_init"

definition getDeveloperDiagnosticsRecent :: "number option \<Rightarrow> api_call" where
  "getDeveloperDiagnosticsRecent limit =
     Fetch (''/developer/diagnostics/recent?limit='' @ number_text (nullish limit 20)) no_init"

end
