(* ===== verification/Project_Tasks.thy ===== *)
theory Project_Tasks
  imports Js_Sort Query_Keys Api_Endpoints
begin

text \<open>
  The task board of a project: features/projects/projectTaskModel.ts and the mutations of
  features/projects/hooks/useProjectDetail.ts.  What localeCompare answers for two
  creation times is the parameter lc; the query client of TanStack Query is the record of
  Query_Keys.  The form and its schema are in Task_Editor.
\<close>

section \<open>The model of a task: projectTaskModel.ts\<close>

datatype TaskView = BoardView | ListView

record TaskDraft =
  draft_title :: string
  draft_description :: string
  draft_status :: ProjectTaskStatus
  draft_priority :: ProjectTaskPriority
  draft_due_date :: string
  draft_assignee_id :: string

definition EMPTY_TASK_DRAFT :: TaskDraft where
  "EMPTY_TASK_DRAFT =
     \<lparr>draft_title = [], draft_description = [], draft_status = Backlog, draft_priority = Medium,
      draft_due_date = [], draft_assignee_id = []\<rparr>"

definition TASK_STATUS_OPTIONS :: "(ProjectTaskStatus \<times> string) list" where
  "TASK_STATUS_OPTIONS =
     [(Backlog, ''Backlog''), (Todo, ''Todo''), (In_progress, ''In progress''), (Review, ''Review''), (Done, ''Done'')]"

text \<open>value[0].toUpperCase() + value.slice(1), on the ASCII words it is applied to.\<close>

definition capitalize :: "string \<Rightarrow> string" where
  "capitalize s = (case s of [] \<Rightarrow> [] | c # cs \<Rightarrow> upper_char c # cs)"

definition PROJECT_TASK_PRIORITIES :: "ProjectTaskPriority list" where
  "PROJECT_TASK_PRIORITIES = [Low, Medium, High, Urgent]"

definition TASK_PRIORITY_OPTIONS :: "(ProjectTaskPriority \<times> string) list" where
  "TASK_PRIORITY_OPTIONS =
     map (\<lambda>v. (v, capitalize (ProjectTaskPriority_text v))) PROJECT_TASK_PRIORITIES"

fun status_order :: "ProjectTaskStatus \<Rightarrow> int" where
  "status_order Backlog = 0"
| "status_order Todo = 1"
| "status_order In_progress = 2"
| "status_order Review = 3"
| "status_order Done = 4"

definition task_order :: "string comparator \<Rightarrow> ProjectTask comparator" where
  "task_order lc a b =
     then_by (status_order (ProjectTask_status a) - status_order (ProjectTask_status b))
       (then_by (num_sign (ProjectTask_position a - ProjectTask_position b))
          (lc (ProjectTask_created_at a) (ProjectTask_created_at b)))"

definition sortTasks :: "string comparator \<Rightarrow> ProjectTask list \<Rightarrow> ProjectTask list" where
  "sortTasks lc tasks = js_sort (task_order lc) tasks"

definition taskToDraft :: "ProjectTask \<Rightarrow> TaskDraft" where
  "taskToDraft task =
     \<lparr>draft_title = ProjectTask_title task,
      draft_description = nullish (ProjectTask_description task) [],
      draft_status = ProjectTask_status task, draft_priority = ProjectTask_priority task,
      draft_due_date = nullish (ProjectTask_due_date task) [],
      draft_assignee_id = nullish (map_option ProjectTaskAssignee_id (ProjectTask_assignee task)) []\<rparr>"

text \<open>The workflow order of the statuses, as a linear order.\<close>

instantiation ProjectTaskStatus :: linorder
begin

definition less_eq_ProjectTaskStatus :: "ProjectTaskStatus \<Rightarrow> ProjectTaskStatus \<Rightarrow> bool" where
  "less_eq_ProjectTaskStatus a b \<longleftrightarrow> status_order a \<le> status_order b"

definition less_ProjectTaskStatus :: "ProjectTaskStatus \<Rightarrow> ProjectTaskStatus \<Rightarrow> bool" where
  "less_ProjectTaskStatus a b \<longleftrightarrow> status_order a < status_order b"

instance
proof
  fix a b :: ProjectTaskStatus
  assume "a \<le> b" and "b \<le> a"
  then show "a = b"
    by (cases a; cases b) (simp_all add: less_eq_ProjectTaskStatus_def)
qed (auto simp: less_eq_ProjectTaskStatus_def less_ProjectTaskStatus_def)

end

section \<open>The cache of a project's tasks: useProjectDetail.ts\<close>

definition without_task :: "string \<Rightarrow> ProjectTask list \<Rightarrow> ProjectTask list" where
  "without_task i tasks = filter (\<lambda>t. ProjectTask_id t \<noteq> i) tasks"

definition saveCache :: "string comparator \<Rightarrow> ProjectTask \<Rightarrow> ProjectTask list option \<Rightarrow> ProjectTask list" where
  "saveCache lc task current =
     sortTasks lc (without_task (ProjectTask_id task) (nullish current []) @ [task])"

text \<open>The update of the cache when a deletion succeeds; selected is the selection at that time.\<close>

definition delete_onSuccess :: "string option \<Rightarrow> ProjectTask list option \<Rightarrow> ProjectTask list" where
  "delete_onSuccess selected current =
     filter (\<lambda>t. Some (ProjectTask_id t) \<noteq> selected) (nullish current [])"

text \<open>The payloads of the editor.\<close>

definition create_draft :: "TaskDraft \<Rightarrow> createProjectTask_payload" where
  "create_draft draft =
     \<lparr>createProjectTask_payload_title = trim (draft_title draft),
      createProjectTask_payload_description = or_none (trim (draft_description draft)),
      createProjectTask_payload_status = draft_status draft,
      createProjectTask_payload_priority = draft_priority draft,
      createProjectTask_payload_due_date = Some (or_none (draft_due_date draft)),
      createProjectTask_payload_assignee_id = Some (or_none (draft_assignee_id draft))\<rparr>"

definition update_draft :: "TaskDraft \<Rightarrow> updateProjectTask_payload" where
  "update_draft draft =
     \<lparr>updateProjectTask_payload_title = Some (trim (draft_title draft)),
      updateProjectTask_payload_description = Some (or_none (trim (draft_description draft))),
      updateProjectTask_payload_status = Some (draft_status draft),
      updateProjectTask_payload_priority = Some (draft_priority draft),
      updateProjectTask_payload_due_date = Some (or_none (draft_due_date draft)),
      updateProjectTask_payload_assignee_id = Some (or_none (draft_assignee_id draft))\<rparr>"

text \<open>What submit sends: an update of the selected task, or a new one.\<close>

definition submit_task :: "string \<Rightarrow> string option \<Rightarrow> TaskDraft \<Rightarrow> api_call" where
  "submit_task projectId selected draft =
     (if truthy selected
      then updateProjectTask projectId (nullish selected []) (update_draft draft)
      else createProjectTask projectId (create_draft draft))"

section \<open>Dragging a task\<close>

text \<open>The columns: one list of tasks per status, filled in the order of the tasks.\<close>

type_synonym task_columns = "ProjectTaskStatus \<Rightarrow> ProjectTask list"

definition fill_columns :: "string \<Rightarrow> ProjectTask list \<Rightarrow> task_columns" where
  "fill_columns activeId tasks =
     fold (\<lambda>t c. if ProjectTask_id t \<noteq> activeId
        then c(ProjectTask_status t := c (ProjectTask_status t) @ [t]) else c) tasks (\<lambda>_. [])"

text \<open>
  target.findIndex(...) and target.splice(...): the place of the first task with the id,
  or the end when there is none or no id is given.
\<close>

definition drop_index :: "string option \<Rightarrow> ProjectTask list \<Rightarrow> nat" where
  "drop_index beforeId target =
     (if truthy beforeId
      then length (takeWhile (\<lambda>t. Some (ProjectTask_id t) \<noteq> beforeId) target)
      else length target)"

definition insert_task :: "string option \<Rightarrow> ProjectTask \<Rightarrow> ProjectTask list \<Rightarrow> ProjectTask list" where
  "insert_task beforeId x target =
     (let i = drop_index beforeId target in take i target @ [x] @ drop i target)"

definition place_task :: "ProjectTaskStatus \<Rightarrow> nat \<times> ProjectTask \<Rightarrow> ProjectTask" where
  "place_task st p =
     (snd p)\<lparr>ProjectTask_status := st, ProjectTask_position := of_nat (fst p)\<rparr>"

definition drop_tasks ::
  "string comparator \<Rightarrow> ProjectTaskStatus \<Rightarrow> string option \<Rightarrow> ProjectTask \<Rightarrow> ProjectTask list \<Rightarrow> ProjectTask list"
where
  "drop_tasks lc st0 beforeId active tasks =
     (let columns = fill_columns (ProjectTask_id active) tasks;
          columns' = columns(st0 := insert_task beforeId (active\<lparr>ProjectTask_status := st0\<rparr>) (columns st0))
      in sortTasks lc (concat (map (\<lambda>(st, _). map (place_task st) (enumerate 0 (columns' st))) TASK_STATUS_OPTIONS)))"

definition payload_columns :: "ProjectTask list \<Rightarrow> reorderProjectTasks_payload_columns_item list" where
  "payload_columns next_tasks =
     map (\<lambda>(st, _).
        \<lparr>reorderProjectTasks_payload_columns_item_status = st,
         reorderProjectTasks_payload_columns_item_task_ids =
           map ProjectTask_id (js_sort (\<lambda>a b. num_sign (ProjectTask_position a - ProjectTask_position b))
             (filter (\<lambda>t. ProjectTask_status t = st) next_tasks))\<rparr>) TASK_STATUS_OPTIONS"

record task_board =
  board_tasks :: "ProjectTask list option"
  board_dragging :: "string option"
  board_reordering :: bool

record reorder_variables =
  reorder_columns :: "reorderProjectTasks_payload_columns_item list"
  optimisticTasks :: "ProjectTask list"

text \<open>
  drop(status, beforeId, overrideId), the status called st0 here: what it hands to the mutation, if anything, and the
  task that is still being dragged afterwards.
\<close>

definition drop_task ::
  "string comparator \<Rightarrow> ProjectTaskStatus \<Rightarrow> string option \<Rightarrow> string option \<Rightarrow> task_board
     \<Rightarrow> reorder_variables option \<times> string option"
where
  "drop_task lc st0 beforeId overrideId b =
     (let activeId = nullish_opt overrideId (board_dragging b)
      in case board_tasks b of
        None \<Rightarrow> (None, board_dragging b)
      | Some tasks \<Rightarrow>
          if \<not> truthy activeId \<or> board_reordering b then (None, board_dragging b)
          else if beforeId = activeId then (None, None)
          else case find (\<lambda>t. Some (ProjectTask_id t) = activeId) tasks of
            None \<Rightarrow> (None, board_dragging b)
          | Some active \<Rightarrow>
              (let next_tasks = drop_tasks lc st0 beforeId active tasks
               in (Some \<lparr>reorder_columns = payload_columns next_tasks, optimisticTasks = next_tasks\<rparr>, None)))"

text \<open>The mutation: what onMutate, onSuccess and onError do to the cached list.\<close>

definition reorder_onMutate ::
  "reorder_variables \<Rightarrow> ProjectTask list option \<Rightarrow> ProjectTask list option \<times> ProjectTask list option"
where
  "reorder_onMutate v cache = (cache, Some (optimisticTasks v))"

definition reorder_onSuccess :: "string comparator \<Rightarrow> ProjectTask list \<Rightarrow> ProjectTask list option" where
  "reorder_onSuccess lc tasks = Some (sortTasks lc tasks)"

definition reorder_onError :: "ProjectTask list option \<Rightarrow> ProjectTask list option \<Rightarrow> ProjectTask list option" where
  "reorder_onError previous cache = (case previous of Some p \<Rightarrow> Some p | None \<Rightarrow> cache)"

text \<open>One reordering: the request succeeds with the tasks of the server or fails.\<close>

definition reorder_round ::
  "string comparator \<Rightarrow> reorder_variables \<Rightarrow> ProjectTask list option \<Rightarrow> ProjectTask list option \<Rightarrow> ProjectTask list option"
where
  "reorder_round lc v answer cache =
     (let (previous, cache') = reorder_onMutate v cache
      in case answer of
        Some tasks \<Rightarrow> reorder_onSuccess lc tasks
      | None \<Rightarrow> reorder_onError previous cache')"

section \<open>What the operations do\<close>

lemma task_order_comparator: "js_comparator lc \<Longrightarrow> js_comparator (task_order lc)"
  unfolding task_order_def
  by (rule js_comparator_then_by [OF js_comparator_key
        js_comparator_then_by [OF js_comparator_num js_comparator_on]])

lemma sortTasks_set [simp]: "set (sortTasks lc ts) = set ts"
  and sortTasks_mset [simp]: "mset (sortTasks lc ts) = mset ts"
  by (simp_all add: sortTasks_def)

lemma fill_columns_fold:
  "fold (\<lambda>t c. if ProjectTask_id t \<noteq> i
        then c(ProjectTask_status t := c (ProjectTask_status t) @ [t]) else c) tasks c st
   = c st @ filter (\<lambda>t. ProjectTask_id t \<noteq> i \<and> ProjectTask_status t = st) tasks"
  by (induction tasks arbitrary: c) auto

lemma fill_columns_filter:
  "fill_columns i tasks st = filter (\<lambda>t. ProjectTask_id t \<noteq> i \<and> ProjectTask_status t = st) tasks"
  by (simp add: fill_columns_def fill_columns_fold)

lemma status_orders: "map fst TASK_STATUS_OPTIONS = [Backlog, Todo, In_progress, Review, Done]"
  by (simp add: TASK_STATUS_OPTIONS_def)

text \<open>Tasks placed column by column are in order already, whatever lc says about times.\<close>

lemma placed_status [simp]: "ProjectTask_status (place_task st p) = st"
  and placed_position [simp]: "ProjectTask_position (place_task st p) = of_nat (fst p)"
  and placed_id [simp]: "ProjectTask_id (place_task st p) = ProjectTask_id (snd p)"
  by (simp_all add: place_task_def)

lemma column_sorted:
  "sorted_wrt (\<lambda>a b. ProjectTask_position a < ProjectTask_position b)
     (map (place_task st) (enumerate n xs))"
proof (induction xs arbitrary: n)
  case (Cons x xs)
  then show ?case
    by (auto simp: in_set_enumerate_eq simp del: upt_Suc)
qed simp

lemma same_column_order:
  "ProjectTask_status x = ProjectTask_status y \<Longrightarrow> ProjectTask_position x < ProjectTask_position y
   \<Longrightarrow> task_order lc x y \<le> 0"
  by (simp add: task_order_def then_by_def num_sign_def)

lemma other_column_order:
  "ProjectTask_status x < ProjectTask_status y \<Longrightarrow> task_order lc x y \<le> 0"
  by (simp add: task_order_def then_by_def less_ProjectTaskStatus_def)

definition placed :: "task_columns \<Rightarrow> ProjectTaskStatus list \<Rightarrow> ProjectTask list" where
  "placed c sts = concat (map (\<lambda>st. map (place_task st) (enumerate 0 (c st))) sts)"

lemma placed_simps [simp]:
  "placed c [] = []"
  "placed c (st # sts) = map (place_task st) (enumerate 0 (c st)) @ placed c sts"
  by (simp_all add: placed_def)

lemma placed_status_in: "t \<in> set (placed c sts) \<Longrightarrow> ProjectTask_status t \<in> set sts"
  by (auto simp: placed_def)

lemma placed_in_order:
  "sorted_wrt (<) sts \<Longrightarrow> sorted_wrt (\<lambda>a b. task_order lc a b \<le> 0) (placed c sts)"
proof (induction sts)
  case (Cons st sts)
  have "sorted_wrt (\<lambda>a b. task_order lc a b \<le> 0) (map (place_task st) (enumerate 0 (c st)))"
    by (rule sorted_wrt_mono_rel [OF _ column_sorted]) (auto intro: same_column_order)
  moreover have "\<forall>y \<in> set (placed c sts). task_order lc x y \<le> 0"
    if "x \<in> set (map (place_task st) (enumerate 0 (c st)))" for x
    using that Cons.prems by (auto intro!: other_column_order dest!: placed_status_in)
  ultimately show ?case using Cons by (simp add: sorted_wrt_append)
qed simp

lemma map_place_id [simp]: "map ProjectTask_id (map (place_task st) (enumerate n xs)) = map ProjectTask_id xs"
  by (induction xs arbitrary: n) simp_all

lemma filter_placed:
  "sorted_wrt (<) sts \<Longrightarrow>
   filter (\<lambda>t. ProjectTask_status t = st) (placed c sts)
   = (if st \<in> set sts then map (place_task st) (enumerate 0 (c st)) else [])"
proof (induction sts)
  case (Cons s sts)
  have "filter (\<lambda>t. ProjectTask_status t = st) (map (place_task s) (enumerate 0 (c s)))
      = (if s = st then map (place_task s) (enumerate 0 (c s)) else [])"
    by (auto simp: filter_map o_def)
  with Cons show ?case by auto
qed simp

definition all_statuses :: "ProjectTaskStatus list" where
  "all_statuses = [Backlog, Todo, In_progress, Review, Done]"

lemma all_statuses_sorted: "sorted_wrt (<) all_statuses"
  by (simp add: all_statuses_def less_ProjectTaskStatus_def)

lemma all_statuses_all [simp]: "st \<in> set all_statuses"
  by (cases st) (simp_all add: all_statuses_def)

lemma options_map: "map (\<lambda>(st, _). g st) TASK_STATUS_OPTIONS = map g all_statuses"
  by (simp add: TASK_STATUS_OPTIONS_def all_statuses_def)

definition dropped_columns :: "ProjectTaskStatus \<Rightarrow> string option \<Rightarrow> ProjectTask \<Rightarrow> ProjectTask list \<Rightarrow> task_columns" where
  "dropped_columns st0 beforeId active tasks st =
     (let others = filter (\<lambda>t. ProjectTask_id t \<noteq> ProjectTask_id active \<and> ProjectTask_status t = st) tasks
      in if st = st0 then insert_task beforeId (active\<lparr>ProjectTask_status := st0\<rparr>) others else others)"

lemma drop_tasks_placed:
  "drop_tasks lc st0 beforeId active tasks = placed (dropped_columns st0 beforeId active tasks) all_statuses"
proof -
  have c: "(fill_columns (ProjectTask_id active) tasks)
      (st0 := insert_task beforeId (active\<lparr>ProjectTask_status := st0\<rparr>) (fill_columns (ProjectTask_id active) tasks st0))
    = dropped_columns st0 beforeId active tasks"
    by (rule ext) (simp add: dropped_columns_def fill_columns_filter)
  show ?thesis
    unfolding drop_tasks_def Let_def c options_map sortTasks_def
    by (simp add: placed_def [symmetric] js_sort_id placed_in_order all_statuses_sorted)
qed

lemma column_of_drop:
  "filter (\<lambda>t. ProjectTask_status t = st) (drop_tasks lc st0 beforeId active tasks)
   = map (place_task st) (enumerate 0 (dropped_columns st0 beforeId active tasks st))"
  by (simp add: drop_tasks_placed filter_placed all_statuses_sorted)

lemma payload_of_drop:
  "payload_columns (drop_tasks lc st0 beforeId active tasks) =
   map (\<lambda>st. \<lparr>reorderProjectTasks_payload_columns_item_status = st,
      reorderProjectTasks_payload_columns_item_task_ids =
        map ProjectTask_id (dropped_columns st0 beforeId active tasks st)\<rparr>) all_statuses"
proof -
  have "js_sort (\<lambda>a b. num_sign (ProjectTask_position a - ProjectTask_position b))
      (map (place_task st) (enumerate 0 xs)) = map (place_task st) (enumerate 0 xs)" for st xs
    by (rule js_sort_id, rule sorted_wrt_mono_rel [OF _ column_sorted]) (auto simp: num_sign_def)
  then show ?thesis
    by (simp add: payload_columns_def options_map column_of_drop del: map_map)
qed

lemma insert_task_while:
  "insert_task beforeId x target =
   (if truthy beforeId
    then takeWhile (\<lambda>t. Some (ProjectTask_id t) \<noteq> beforeId) target @ x
         # dropWhile (\<lambda>t. Some (ProjectTask_id t) \<noteq> beforeId) target
    else target @ [x])"
  by (simp add: insert_task_def drop_index_def Let_def takeWhile_eq_take [symmetric] dropWhile_eq_drop [symmetric])

lemma insert_task_split:
  "\<exists>xs ys. target = xs @ ys \<and> insert_task beforeId x target = xs @ x # ys
    \<and> (if truthy beforeId \<and> beforeId \<in> (Some \<circ> ProjectTask_id) ` set target
       then ys \<noteq> [] \<and> Some (ProjectTask_id (hd ys)) = beforeId else ys = [])"
proof (cases "truthy beforeId")
  case True
  let ?P = "\<lambda>t. Some (ProjectTask_id t) \<noteq> beforeId"
  have "Some (ProjectTask_id (hd (dropWhile ?P target))) = beforeId" if "dropWhile ?P target \<noteq> []"
    using hd_dropWhile [OF that] by simp
  moreover have "dropWhile ?P target = [] \<longleftrightarrow> beforeId \<notin> (Some \<circ> ProjectTask_id) ` set target"
    unfolding dropWhile_eq_Nil_conv by auto
  ultimately have "if truthy beforeId \<and> beforeId \<in> (Some \<circ> ProjectTask_id) ` set target
       then dropWhile ?P target \<noteq> [] \<and> Some (ProjectTask_id (hd (dropWhile ?P target))) = beforeId
       else dropWhile ?P target = []" using True by (auto split: if_splits)
  moreover have "target = takeWhile ?P target @ dropWhile ?P target" by simp
  moreover have "insert_task beforeId x target = takeWhile ?P target @ x # dropWhile ?P target"
    using True by (simp add: insert_task_while)
  ultimately show ?thesis by blast
qed (simp add: insert_task_while)

lemma mset_insert_task [simp]: "mset (insert_task beforeId x target) = add_mset x (mset target)"
  by (metis insert_task_split mset_append mset.simps(2) union_mset_add_mset_right)

lemma ids_of_columns:
  assumes "distinct (map ProjectTask_id tasks)" and "active \<in> set tasks"
  shows "mset (concat (map (\<lambda>st. map ProjectTask_id (dropped_columns st0 beforeId active tasks st)) all_statuses))
    = mset (map ProjectTask_id tasks)"
proof -
  let ?others = "filter (\<lambda>t. ProjectTask_id t \<noteq> ProjectTask_id active) tasks"
  have col: "mset (map ProjectTask_id (dropped_columns st0 beforeId active tasks st))
      = (if st = st0 then {#ProjectTask_id active#} else {#})
        + image_mset ProjectTask_id (filter_mset (\<lambda>t. ProjectTask_status t = st) (mset ?others))" for st
    by (simp add: dropped_columns_def Let_def filter_filter_mset conj_commute)
  have parts: "M = (\<Sum>st \<leftarrow> all_statuses. filter_mset (\<lambda>t. ProjectTask_status t = st) M)" for M
  proof (induction M)
    case (add t M)
    then show ?case by (cases "ProjectTask_status t") (simp_all add: all_statuses_def)
  qed (simp add: all_statuses_def)
  obtain us vs where tasks: "tasks = us @ active # vs" using assms(2) by (meson split_list)
  have "?others = us @ vs"
  proof -
    have "filter (\<lambda>t. ProjectTask_id t \<noteq> ProjectTask_id active) us = us"
      and "filter (\<lambda>t. ProjectTask_id t \<noteq> ProjectTask_id active) vs = vs"
      unfolding filter_id_conv using assms(1) by (auto simp: tasks image_iff)
    then show ?thesis by (simp add: tasks)
  qed
  then have all: "mset (map ProjectTask_id tasks) = add_mset (ProjectTask_id active) (image_mset ProjectTask_id (mset ?others))"
    by (simp add: tasks)
  have "mset (concat (map (\<lambda>st. map ProjectTask_id (dropped_columns st0 beforeId active tasks st)) all_statuses))
     = (\<Sum>st \<leftarrow> all_statuses. mset (map ProjectTask_id (dropped_columns st0 beforeId active tasks st)))"
    by (simp add: mset_concat o_def)
  also have "\<dots> = add_mset (ProjectTask_id active)
      (image_mset ProjectTask_id (\<Sum>st \<leftarrow> all_statuses. filter_mset (\<lambda>t. ProjectTask_status t = st) (mset ?others)))"
    unfolding col by (cases st0) (simp_all add: all_statuses_def)
  finally show ?thesis using all parts [of "mset ?others"] by metis
qed

lemma find_by_id:
  "distinct (map ProjectTask_id tasks) \<Longrightarrow> active \<in> set tasks \<Longrightarrow>
   find (\<lambda>t. Some (ProjectTask_id t) = Some (ProjectTask_id active)) tasks = Some active"
  by (induction tasks) auto

lemma drop_task_accepted:
  assumes "board_tasks b = Some tasks" "distinct (map ProjectTask_id tasks)" "active \<in> set tasks"
    and "nullish_opt overrideId (board_dragging b) = Some (ProjectTask_id active)" "ProjectTask_id active \<noteq> []"
    and "\<not> board_reordering b" "beforeId \<noteq> Some (ProjectTask_id active)"
  shows "drop_task lc st0 beforeId overrideId b =
    (Some \<lparr>reorder_columns = payload_columns (drop_tasks lc st0 beforeId active tasks),
       optimisticTasks = drop_tasks lc st0 beforeId active tasks\<rparr>, None)"
  using assms find_by_id [OF assms(2,3)] by (simp add: drop_task_def Let_def)

text \<open>
  C18: Dropping a task sends one complete order of the board. The request names the five
  columns in workflow order; every column but the target keeps its other tasks in their
  order; the moved task stands in the target column right before the task it was dropped
  on, or at the end if that task is not there; and the identifiers are those of the cached
  tasks, each once.
\<close>
theorem drop_sends_board:
  assumes "board_tasks b = Some tasks" and "distinct (map ProjectTask_id tasks)" and "active \<in> set tasks"
    and "nullish_opt overrideId (board_dragging b) = Some (ProjectTask_id active)" and "ProjectTask_id active \<noteq> []"
    and "\<not> board_reordering b" and "beforeId \<noteq> Some (ProjectTask_id active)"
  shows "\<exists>v ids. drop_task lc st0 beforeId overrideId b = (Some v, None)
    \<and> reorder_columns v = map (\<lambda>st. \<lparr>reorderProjectTasks_payload_columns_item_status = st,
         reorderProjectTasks_payload_columns_item_task_ids = ids st\<rparr>) [Backlog, Todo, In_progress, Review, Done]
    \<and> mset (concat (map ids [Backlog, Todo, In_progress, Review, Done])) = mset (map ProjectTask_id tasks)
    \<and> (\<forall>st. removeAll (ProjectTask_id active) (ids st)
         = map ProjectTask_id (filter (\<lambda>t. ProjectTask_id t \<noteq> ProjectTask_id active \<and> ProjectTask_status t = st) tasks))
    \<and> (\<exists>xs ys. ids st0 = xs @ ProjectTask_id active # ys
         \<and> (if truthy beforeId \<and> beforeId \<in> Some ` set (xs @ ys) then Some (hd ys) = beforeId \<and> ys \<noteq> [] else ys = []))"
proof -
  let ?c = "dropped_columns st0 beforeId active tasks"
  let ?ids = "\<lambda>st. map ProjectTask_id (?c st)"
  let ?others = "filter (\<lambda>t. ProjectTask_id t \<noteq> ProjectTask_id active \<and> ProjectTask_status t = st0) tasks"
  let ?a = "active\<lparr>ProjectTask_status := st0\<rparr>"
  obtain xs ys where xy: "?others = xs @ ys" "insert_task beforeId ?a ?others = xs @ ?a # ys"
    and place: "if truthy beforeId \<and> beforeId \<in> (Some \<circ> ProjectTask_id) ` set ?others
       then ys \<noteq> [] \<and> Some (ProjectTask_id (hd ys)) = beforeId else ys = []"
    using insert_task_split [of ?others beforeId ?a] by blast
  have target: "?ids st0 = map ProjectTask_id xs @ ProjectTask_id active # map ProjectTask_id ys"
    by (simp add: dropped_columns_def Let_def xy(2))
  have kept: "removeAll (ProjectTask_id active) (map ProjectTask_id us) = map ProjectTask_id us"
    if "set us \<subseteq> {t. ProjectTask_id t \<noteq> ProjectTask_id active}" for us
    using that by (intro removeAll_id) auto
  have "set (xs @ ys) \<subseteq> {t. ProjectTask_id t \<noteq> ProjectTask_id active}"
    by (simp only: xy(1) [symmetric]) auto
  then have "removeAll (ProjectTask_id active) (?ids st) = map ProjectTask_id
      (filter (\<lambda>t. ProjectTask_id t \<noteq> ProjectTask_id active \<and> ProjectTask_status t = st) tasks)" for st
    by (cases "st = st0") (auto simp: target xy(1) kept, auto simp: dropped_columns_def intro!: kept)
  moreover have "\<exists>us vs. ?ids st0 = us @ ProjectTask_id active # vs
      \<and> (if truthy beforeId \<and> beforeId \<in> Some ` set (us @ vs) then Some (hd vs) = beforeId \<and> vs \<noteq> [] else vs = [])"
  proof (intro exI conjI, rule target)
    have "(Some \<circ> ProjectTask_id) ` set ?others = Some ` set (map ProjectTask_id xs @ map ProjectTask_id ys)"
      by (simp only: xy(1)) (auto simp: image_Un image_image)
    with place show "if truthy beforeId \<and> beforeId \<in> Some ` set (map ProjectTask_id xs @ map ProjectTask_id ys)
      then Some (hd (map ProjectTask_id ys)) = beforeId \<and> map ProjectTask_id ys \<noteq> [] else map ProjectTask_id ys = []"
      by (auto simp: hd_map)
  qed
  ultimately show ?thesis
    using drop_task_accepted [OF assms, of lc st0] ids_of_columns [OF assms(2,3), of st0 beforeId]
    by (intro exI [of _ "\<lparr>reorder_columns = payload_columns (drop_tasks lc st0 beforeId active tasks),
       optimisticTasks = drop_tasks lc st0 beforeId active tasks\<rparr>"] exI [of _ ?ids])
      (simp add: payload_of_drop all_statuses_def)
qed

definition demo_task :: "string \<Rightarrow> ProjectTaskStatus \<Rightarrow> number \<Rightarrow> ProjectTask" where
  "demo_task i st pos =
     \<lparr>ProjectTask_id = i, ProjectTask_project_id = ''p1'', ProjectTask_title = ''Write docs'',
      ProjectTask_description = Some ''Short'', ProjectTask_status = st, ProjectTask_priority = High,
      ProjectTask_due_date = None, ProjectTask_position = pos, ProjectTask_assignee = None,
      ProjectTask_created_at = ''2024-01-01T00:00:00Z'', ProjectTask_updated_at = ''2024-01-01T00:00:00Z''\<rparr>"

definition demo_tasks :: "ProjectTask list" where
  "demo_tasks = [demo_task ''a'' Todo 0, demo_task ''b'' Todo 1, demo_task ''c'' Done 0, demo_task ''d'' Done 1]"

definition demo_board :: task_board where
  "demo_board = \<lparr>board_tasks = Some demo_tasks, board_dragging = Some ''a'', board_reordering = False\<rparr>"

theorem drop_sends_board_witness:
  "\<exists>v ids. drop_task (\<lambda>_ _. 0) Done (Some ''d'') None demo_board = (Some v, None)
    \<and> reorder_columns v = map (\<lambda>st. \<lparr>reorderProjectTasks_payload_columns_item_status = st,
         reorderProjectTasks_payload_columns_item_task_ids = ids st\<rparr>) [Backlog, Todo, In_progress, Review, Done]
    \<and> mset (concat (map ids [Backlog, Todo, In_progress, Review, Done])) = mset (map ProjectTask_id demo_tasks)"
  using drop_sends_board [of demo_board demo_tasks "demo_task ''a'' Todo 0" None "Some ''d''" "\<lambda>_ _. 0" Done]
  by (fastforce simp: demo_board_def demo_tasks_def demo_task_def)

lemma sorted_wrt_unique:
  "mset xs = mset ys \<Longrightarrow> sorted_wrt R xs \<Longrightarrow> sorted_wrt R ys
   \<Longrightarrow> \<forall>a \<in> set xs. \<forall>b \<in> set xs. R a b \<longrightarrow> R b a \<longrightarrow> a = b \<Longrightarrow> xs = ys"
proof (induction xs arbitrary: ys)
  case (Cons x xs)
  then obtain y ys' where ys: "ys = y # ys'" by (cases ys) auto
  have set: "set (x # xs) = set (y # ys')" by (metis Cons.prems(1) set_mset_mset ys)
  have "y = x"
  proof (rule ccontr)
    assume "y \<noteq> x"
    then have "y \<in> set xs" and "x \<in> set ys'" using set by auto
    then have "R x y" and "R y x" using Cons.prems(2,3) ys by auto
    with \<open>y \<noteq> x\<close> \<open>y \<in> set xs\<close> Cons.prems(4) show False by auto
  qed
  moreover have "xs = ys'" using Cons ys \<open>y = x\<close> by auto
  ultimately show ?case by (simp add: ys)
qed simp

lemma placed_strict:
  assumes "sorted_wrt (<) sts"
  shows "sorted_wrt (\<lambda>a b. task_order lc a b < 0) (placed c sts)"
  using assms
proof (induction sts)
  case (Cons st sts)
  have "sorted_wrt (\<lambda>a b. task_order lc a b < 0) (map (place_task st) (enumerate 0 (c st)))"
    by (rule sorted_wrt_mono_rel [OF _ column_sorted])
      (auto simp: task_order_def then_by_def num_sign_def)
  moreover have "\<forall>y \<in> set (placed c sts). task_order lc x y < 0"
    if "x \<in> set (map (place_task st) (enumerate 0 (c st)))" for x
  proof
    fix y assume "y \<in> set (placed c sts)"
    then have "st < ProjectTask_status y" using Cons.prems placed_status_in by fastforce
    then show "task_order lc x y < 0"
      using that by (auto simp: task_order_def then_by_def less_ProjectTaskStatus_def)
  qed
  ultimately show ?case using Cons by (simp add: sorted_wrt_append)
qed simp

lemma find_in: "find P xs = Some x \<Longrightarrow> x \<in> set xs"
  by (auto simp: find_Some_iff)

lemma placed_origin:
  assumes "t \<in> set (placed c sts)"
  obtains u st n where "u \<in> set (c st)" "t = place_task st (n, u)"
proof -
  from assms obtain st n u where "(n, u) \<in> set (enumerate 0 (c st))" "t = place_task st (n, u)"
    by (auto simp: placed_def)
  moreover from this(1) have "u \<in> set (c st)" by (auto simp: in_set_enumerate_eq)
  ultimately show thesis using that by blast
qed

lemma sorted_wrt_pair:
  "sorted_wrt R xs \<Longrightarrow> a \<in> set xs \<Longrightarrow> b \<in> set xs \<Longrightarrow> a = b \<or> R a b \<or> R b a"
  by (induction xs) auto

lemma sortTasks_placed:
  assumes lc: "js_comparator lc" and sts: "sorted_wrt (<) sts" and same: "mset ts = mset (placed c sts)"
  shows "sortTasks lc ts = placed c sts"
proof (rule sorted_wrt_unique)
  have cmp: "js_comparator (task_order lc)" by (rule task_order_comparator [OF lc])
  show "mset (sortTasks lc ts) = mset (placed c sts)" using same by simp
  show "sorted_wrt (\<lambda>a b. task_order lc a b \<le> 0) (sortTasks lc ts)"
    unfolding sortTasks_def by (rule js_comparator.sorted_js_sort [OF cmp])
  show "sorted_wrt (\<lambda>a b. task_order lc a b \<le> 0) (placed c sts)" by (rule placed_in_order [OF sts])
  have "set ts = set (placed c sts)" using same by (metis set_mset_mset)
  then show "\<forall>a \<in> set (sortTasks lc ts). \<forall>b \<in> set (sortTasks lc ts).
      task_order lc a b \<le> 0 \<longrightarrow> task_order lc b a \<le> 0 \<longrightarrow> a = b"
    using sorted_wrt_pair [OF placed_strict [OF sts, of lc c]] js_comparator.cmp_antisym [OF cmp]
    by (metis not_less sortTasks_set)
qed

text \<open>
  C19: The board shown while the request runs is the one that was sent. The optimistic
  tasks are the cached ones with new statuses and positions, each column in the order of
  the request at positions 0, 1, 2 and so on; sorting leaves them alone. If the request
  fails the cached list is restored, and if the server answers with these tasks, in any
  order, the cache keeps them as they are.
\<close>
theorem drop_optimistic:
  assumes "drop_task lc st0 beforeId overrideId b = (Some v, d)" and "js_comparator lc"
  shows "reorder_columns v = map (\<lambda>st. \<lparr>reorderProjectTasks_payload_columns_item_status = st,
         reorderProjectTasks_payload_columns_item_task_ids =
           map ProjectTask_id (filter (\<lambda>t. ProjectTask_status t = st) (optimisticTasks v))\<rparr>)
         [Backlog, Todo, In_progress, Review, Done]
    \<and> (\<forall>st. map ProjectTask_position (filter (\<lambda>t. ProjectTask_status t = st) (optimisticTasks v))
         = map of_nat [0..<length (filter (\<lambda>t. ProjectTask_status t = st) (optimisticTasks v))])
    \<and> (\<forall>t \<in> set (optimisticTasks v). \<exists>u \<in> set (nullish (board_tasks b) []).
         t = u\<lparr>ProjectTask_status := ProjectTask_status t, ProjectTask_position := ProjectTask_position t\<rparr>)
    \<and> sortTasks lc (optimisticTasks v) = optimisticTasks v
    \<and> reorder_round lc v None (board_tasks b) = board_tasks b
    \<and> (\<forall>ts. mset ts = mset (optimisticTasks v) \<longrightarrow> reorder_round lc v (Some ts) (board_tasks b) = Some (optimisticTasks v))"
proof -
  from assms(1) obtain tasks active where tasks: "board_tasks b = Some tasks" "active \<in> set tasks"
    and v: "v = \<lparr>reorder_columns = payload_columns (drop_tasks lc st0 beforeId active tasks),
       optimisticTasks = drop_tasks lc st0 beforeId active tasks\<rparr>"
    by (auto simp: drop_task_def Let_def split: option.splits if_splits dest!: find_in)
  let ?c = "dropped_columns st0 beforeId active tasks"
  have opt: "optimisticTasks v = placed ?c all_statuses" by (simp add: v drop_tasks_placed)
  have pos: "map ProjectTask_position (map (place_task st) (enumerate 0 xs)) = map of_nat [0..<length xs]" for st xs
    by (rule nth_equalityI) (simp_all add: nth_enumerate_eq)
  have src: "\<exists>u \<in> set tasks. t = u\<lparr>ProjectTask_status := ProjectTask_status t, ProjectTask_position := ProjectTask_position t\<rparr>"
    if "t \<in> set (optimisticTasks v)" for t
  proof -
    from that obtain st n u where u: "u \<in> set (?c st)" "t = place_task st (n, u)"
      unfolding opt by (rule placed_origin)
    have "set (?c st) \<subseteq> insert (active\<lparr>ProjectTask_status := st0\<rparr>) (set tasks)"
      by (auto simp: dropped_columns_def Let_def simp flip: set_mset_mset)
    with u(1) consider "u = active\<lparr>ProjectTask_status := st0\<rparr>" | "u \<in> set tasks" by blast
    then show ?thesis
    proof cases
      case 1
      then show ?thesis using u(2) by (intro bexI [OF _ tasks(2)]) (simp add: place_task_def)
    next
      case 2
      then show ?thesis using u(2) by (intro bexI [OF _ 2]) (simp add: place_task_def)
    qed
  qed
  have cols: "reorder_columns v = map (\<lambda>st. \<lparr>reorderProjectTasks_payload_columns_item_status = st,
      reorderProjectTasks_payload_columns_item_task_ids =
        map ProjectTask_id (filter (\<lambda>t. ProjectTask_status t = st) (optimisticTasks v))\<rparr>) all_statuses"
    by (simp add: v payload_of_drop column_of_drop del: map_map)
  show ?thesis
    using cols pos src sortTasks_placed [OF assms(2) all_statuses_sorted, of _ ?c]
    by (simp add: opt filter_placed all_statuses_sorted tasks all_statuses_def [symmetric]
        reorder_round_def reorder_onMutate_def reorder_onError_def reorder_onSuccess_def del: map_map)
qed

theorem drop_optimistic_witness:
  "\<exists>v. drop_task (\<lambda>_ _. 0) Done (Some ''d'') None demo_board = (Some v, None)
    \<and> sortTasks (\<lambda>_ _. 0) (optimisticTasks v) = optimisticTasks v
    \<and> reorder_round (\<lambda>_ _. 0) v None (board_tasks demo_board) = board_tasks demo_board"
proof -
  have "\<exists>v. drop_task (\<lambda>_ _. 0) Done (Some ''d'') None demo_board = (Some v, None)"
    by (simp add: drop_task_def demo_board_def demo_tasks_def demo_task_def Let_def)
  then obtain v where v: "drop_task (\<lambda>_ _. 0) Done (Some ''d'') None demo_board = (Some v, None)" ..
  have "js_comparator (\<lambda>(_ :: string) _. 0)" by unfold_locales auto
  with v drop_optimistic [OF v] show ?thesis by auto
qed

text \<open>
  The code units of two texts compared one by one, as an order of creation times; the
  witnesses use it for localeCompare on the ASCII timestamps of the server.
\<close>

fun compare_text :: "string comparator" where
  "compare_text [] [] = 0"
| "compare_text [] (y # ys) = - 1"
| "compare_text (x # xs) [] = 1"
| "compare_text (x # xs) (y # ys) = then_by (of_char x - of_char y) (compare_text xs ys)"

interpretation text_order: js_comparator compare_text
proof
  fix x y z :: string
  show "0 < compare_text x y \<longleftrightarrow> compare_text y x < 0"
    by (induction x y rule: compare_text.induct) (auto simp: then_by_def)
  show "compare_text x y \<le> 0 \<Longrightarrow> compare_text y z \<le> 0 \<Longrightarrow> compare_text x z \<le> 0"
  proof (induction x z arbitrary: y rule: compare_text.induct)
    case (3 x xs)
    then show ?case by (cases y) (auto simp: then_by_def split: if_splits)
  next
    case (4 x xs z zs)
    then obtain w ws where "y = w # ws" by (cases y) auto
    with 4 show ?case by (auto simp: then_by_def split: if_splits)
  qed auto
qed

text \<open>
  sortTasks orders a board. It returns the given tasks, sorted by status in workflow
  order and by position within a status; tasks that agree in status, position and
  creation time keep their order, and sorting twice changes nothing.
\<close>
theorem sortTasks_spec:
  assumes "js_comparator lc"
  shows "mset (sortTasks lc ts) = mset ts
    \<and> sorted (map ProjectTask_status (sortTasks lc ts))
    \<and> (\<forall>st. sorted (map ProjectTask_position (filter (\<lambda>t. ProjectTask_status t = st) (sortTasks lc ts))))
    \<and> filter (\<lambda>t. task_order lc k t = 0) (sortTasks lc ts) = filter (\<lambda>t. task_order lc k t = 0) ts
    \<and> sortTasks lc (sortTasks lc ts) = sortTasks lc ts"
proof -
  have cmp: "js_comparator (task_order lc)" by (rule task_order_comparator [OF assms])
  have srt: "sorted_wrt (\<lambda>a b. task_order lc a b \<le> 0) (sortTasks lc ts)"
    unfolding sortTasks_def by (rule js_comparator.sorted_js_sort [OF cmp])
  have st: "task_order lc a b \<le> 0 \<Longrightarrow> ProjectTask_status a \<le> ProjectTask_status b" for a b
    by (auto simp: task_order_def then_by_def less_eq_ProjectTaskStatus_def split: if_splits)
  have ps: "task_order lc a b \<le> 0 \<Longrightarrow> ProjectTask_status a = ProjectTask_status b
      \<Longrightarrow> ProjectTask_position a \<le> ProjectTask_position b" for a b
    by (auto simp: task_order_def then_by_def num_sign_def split: if_splits)
  have "sorted (map ProjectTask_status (sortTasks lc ts))"
    using sorted_wrt_mono_rel [OF _ srt] st by (simp add: sorted_map)
  moreover have "sorted (map ProjectTask_position (filter (\<lambda>t. ProjectTask_status t = st) (sortTasks lc ts)))" for st
  proof -
    have "sorted_wrt (\<lambda>a b. task_order lc a b \<le> 0) (filter (\<lambda>t. ProjectTask_status t = st) (sortTasks lc ts))"
      by (rule sorted_wrt_filter [OF srt])
    then show ?thesis
      unfolding sorted_map by (rule sorted_wrt_mono_rel [rotated]) (use ps in auto)
  qed
  ultimately show ?thesis
    by (simp add: sortTasks_def js_comparator.js_sort_stable [OF cmp] js_comparator.js_sort_idem [OF cmp])
qed

theorem sortTasks_spec_witness:
  "sorted (map ProjectTask_status (sortTasks compare_text (rev demo_tasks)))
   \<and> sortTasks compare_text (rev demo_tasks) = demo_tasks"
proof -
  have "sortTasks compare_text (rev demo_tasks) = demo_tasks"
    by (simp add: sortTasks_def demo_tasks_def demo_task_def task_order_def then_by_def num_sign_def)
  with sortTasks_spec [OF text_order.js_comparator_axioms, of "rev demo_tasks" undefined]
  show ?thesis by blast
qed

text \<open>The cached list of a project keeps one entry per task and stays sorted.\<close>

definition task_cache_ok :: "string comparator \<Rightarrow> ProjectTask list \<Rightarrow> bool" where
  "task_cache_ok lc ts \<longleftrightarrow>
     distinct (map ProjectTask_id ts) \<and> sorted_wrt (\<lambda>a b. task_order lc a b \<le> 0) ts"

lemma distinct_ids_perm:
  "mset (map ProjectTask_id xs) = mset (map ProjectTask_id ys) \<Longrightarrow>
   distinct (map ProjectTask_id xs) \<longleftrightarrow> distinct (map ProjectTask_id ys)"
  by (rule mset_eq_imp_distinct_iff)

lemma ids_of_drop:
  assumes "distinct (map ProjectTask_id tasks)" and "active \<in> set tasks"
  shows "mset (map ProjectTask_id (drop_tasks lc st0 beforeId active tasks)) = mset (map ProjectTask_id tasks)"
proof -
  have "map ProjectTask_id (placed c sts) = concat (map (\<lambda>st. map ProjectTask_id (c st)) sts)" for c sts
    by (induction sts) (simp_all del: map_map)
  then show ?thesis using ids_of_columns [OF assms] by (simp add: drop_tasks_placed)
qed

text \<open>
  C20: Every operation of the board keeps the cached list sorted and free of duplicates:
  saving a task that was created or updated, which leaves exactly one entry for it and
  every other entry as it is, deleting one, the optimistic order of a drop, and the
  server's answer to a reordering.
\<close>
theorem task_cache_invariant:
  assumes lc: "js_comparator lc" and ok: "task_cache_ok lc ts"
  shows "task_cache_ok lc (saveCache lc t (Some ts))
    \<and> mset (saveCache lc t (Some ts)) = add_mset t (filter_mset (\<lambda>u. ProjectTask_id u \<noteq> ProjectTask_id t) (mset ts))
    \<and> task_cache_ok lc (saveCache lc t None)
    \<and> task_cache_ok lc (delete_onSuccess selected (Some ts))
    \<and> (drop_task lc st0 beforeId overrideId \<lparr>board_tasks = Some ts, board_dragging = g, board_reordering = r\<rparr> = (Some v, d)
        \<longrightarrow> task_cache_ok lc (optimisticTasks v))
    \<and> (distinct (map ProjectTask_id answer) \<longrightarrow> task_cache_ok lc (sortTasks lc answer))"
proof -
  have srt: "sorted_wrt (\<lambda>a b. task_order lc a b \<le> 0) (sortTasks lc us)" for us
    unfolding sortTasks_def by (rule js_comparator.sorted_js_sort [OF task_order_comparator [OF lc]])
  have dst: "distinct (map ProjectTask_id (sortTasks lc us)) \<longleftrightarrow> distinct (map ProjectTask_id us)" for us
    by (rule distinct_ids_perm) simp
  have others: "distinct (map ProjectTask_id (filter P ts))" for P
    using ok by (simp add: task_cache_ok_def distinct_map_filter)
  have "task_cache_ok lc (delete_onSuccess selected (Some ts))"
    using ok others by (auto simp: task_cache_ok_def delete_onSuccess_def sorted_wrt_filter)
  moreover have "task_cache_ok lc (optimisticTasks v)"
    if "drop_task lc st0 beforeId overrideId \<lparr>board_tasks = Some ts, board_dragging = g, board_reordering = r\<rparr> = (Some v, d)"
  proof -
    from that obtain active where a: "active \<in> set ts" and v: "optimisticTasks v = drop_tasks lc st0 beforeId active ts"
      by (auto simp: drop_task_def Let_def split: option.splits if_splits dest!: find_in)
    have "distinct (map ProjectTask_id (optimisticTasks v))"
      using ok distinct_ids_perm [OF ids_of_drop [OF _ a, of lc st0 beforeId]]
      by (simp add: v task_cache_ok_def)
    then show ?thesis
      by (simp add: task_cache_ok_def v drop_tasks_placed placed_in_order all_statuses_sorted)
  qed
  moreover have "task_cache_ok lc (saveCache lc t (Some ts))"
    using others by (simp add: task_cache_ok_def saveCache_def srt dst without_task_def) auto
  moreover have "task_cache_ok lc (saveCache lc t None)"
    by (simp add: task_cache_ok_def saveCache_def srt dst without_task_def)
  ultimately show ?thesis
    by (simp add: saveCache_def without_task_def) (simp add: task_cache_ok_def srt dst)
qed

theorem task_cache_invariant_witness:
  "task_cache_ok compare_text (saveCache compare_text (demo_task ''b'' Done 7) (Some demo_tasks))
   \<and> task_cache_ok compare_text (delete_onSuccess (Some ''c'') (Some demo_tasks))"
proof -
  have "task_cache_ok compare_text demo_tasks"
    by (simp add: task_cache_ok_def demo_tasks_def demo_task_def task_order_def then_by_def num_sign_def)
  from task_cache_invariant [OF text_order.js_comparator_axioms this] show ?thesis by blast
qed

text \<open>
  Saving a task that was opened and not edited sends what it already has: for a task
  whose title and description carry no surrounding white space, and whose optional texts
  are absent rather than empty, the update names exactly the values of the task.
\<close>
theorem untouched_edit_sends_same:
  assumes "trim (ProjectTask_title t) = ProjectTask_title t"
    and "ProjectTask_description t = or_none (trim (nullish (ProjectTask_description t) []))"
    and "ProjectTask_due_date t \<noteq> Some []"
    and "map_option ProjectTaskAssignee_id (ProjectTask_assignee t) \<noteq> Some []"
  shows "update_draft (taskToDraft t) =
     \<lparr>updateProjectTask_payload_title = Some (ProjectTask_title t),
      updateProjectTask_payload_description = Some (ProjectTask_description t),
      updateProjectTask_payload_status = Some (ProjectTask_status t),
      updateProjectTask_payload_priority = Some (ProjectTask_priority t),
      updateProjectTask_payload_due_date = Some (ProjectTask_due_date t),
      updateProjectTask_payload_assignee_id = Some (map_option ProjectTaskAssignee_id (ProjectTask_assignee t))\<rparr>"
proof -
  have "or_none (nullish x []) = x" if "x \<noteq> Some []" for x :: "string option"
    using that by (cases x) auto
  with assms show ?thesis by (simp add: update_draft_def taskToDraft_def)
qed

theorem untouched_edit_sends_same_witness:
  "updateProjectTask_payload_description (update_draft (taskToDraft (demo_task ''a'' Todo 0))) = Some (Some ''Short'')"
proof -
  have "trim ''Write docs'' = ''Write docs''" and "trim ''Short'' = ''Short''" by code_simp+
  then show ?thesis
    using untouched_edit_sends_same [of "demo_task ''a'' Todo 0"] by (simp add: demo_task_def)
qed

end
