(* ===== verification/Auth_Context.thy ===== *)
theory Auth_Context
  imports Query_Keys Auth_Session
begin

text \<open>
  The identity of the user as the views see it: AuthProvider of
  features/auth/context/AuthContext.tsx over the query cache and the session machine.
  The arguments of logout are what other handlers do to the cache at its awaits.
\<close>

section \<open>The context value\<close>

record AuthContextValue =
  isReady :: bool
  isAuthenticated :: bool
  isAdmin :: bool
  isMfaEnabled :: bool
  currentUser :: "json option"

definition default_auth_context :: AuthContextValue where
  "default_auth_context =
     \<lparr>isReady = False, isAuthenticated = False, isAdmin = False, isMfaEnabled = False, currentUser = None\<rparr>"

text \<open>A boolean member of the user, false without a user.\<close>

definition user_flag :: "string \<Rightarrow> json option \<Rightarrow> bool" where
  "user_flag k u = (case u of None \<Rightarrow> False | Some v \<Rightarrow> get_prop k v = Some (JBool True))"

text \<open>
  What AuthProvider provides for the data of the query auth.me: missing and null data both
  mean that nobody is signed in.
\<close>

definition auth_value :: "json option \<Rightarrow> bool \<Rightarrow> bool \<Rightarrow> AuthContextValue" where
  "auth_value data isPending isError =
     (let user = (case data of Some JNull \<Rightarrow> None | u \<Rightarrow> u)
      in \<lparr>isReady = (\<not> isPending \<or> isError), isAuthenticated = (user \<noteq> None),
          isAdmin = user_flag ''is_admin'' user, isMfaEnabled = user_flag ''mfa_enabled'' user,
          currentUser = user\<rparr>)"

section \<open>Session changes\<close>

definition clearExpiredSession :: "'c query_client \<Rightarrow> ('c \<Rightarrow> 'c) \<Rightarrow> 'c \<Rightarrow> 'c" where
  "clearExpiredSession qc meanwhile c =
     clearUserScopedQueryState qc meanwhile (setQueryData qc queryKeys_auth_me (Some JNull) c)"

definition setAuthenticated :: "'c query_client \<Rightarrow> json \<Rightarrow> auth_session \<times> 'c \<Rightarrow> auth_session \<times> 'c" where
  "setAuthenticated qc user sc =
     (markAuthSessionActive (fst sc), setQueryData qc queryKeys_auth_me (Some user) (snd sc))"

text \<open>logout up to the request: what the screens show from then on.\<close>

definition logout_local :: "'c query_client \<Rightarrow> ('c \<Rightarrow> 'c) \<Rightarrow> auth_session \<times> 'c \<Rightarrow> auth_session \<times> 'c" where
  "logout_local qc cancelling sc =
     (beginAuthLogout (fst sc),
      setQueryData qc queryKeys_auth_me (Some JNull) (clearUserScopedQueryState qc cancelling (snd sc)))"

text \<open>The rest: the request, whose failure is ignored, and the second clearing.\<close>

definition logout_all :: "'c query_client \<Rightarrow> ('c \<Rightarrow> 'c) \<Rightarrow> ('c \<Rightarrow> 'c) \<Rightarrow> ('c \<Rightarrow> 'c) \<Rightarrow> auth_session \<times> 'c \<Rightarrow> auth_session \<times> 'c" where
  "logout_all qc cancelling requesting cancelling' sc =
     (let (s, c) = logout_local qc cancelling sc
      in (s, clearUserScopedQueryState qc cancelling' (requesting c)))"

section \<open>Properties\<close>


definition signed_in_cache :: "query_key \<Rightarrow> json option" where
  "signed_in_cache = Map.empty(queryKeys_auth_me := Some (JObj [(''id'', JStr ''u1'')]),
     queryKeys_projects_all := Some (JArr [JStr ''secret''])) "

definition late_projects :: "(query_key \<Rightarrow> json option) \<Rightarrow> (query_key \<Rightarrow> json option)" where
  "late_projects c = c(queryKeys_projects_all := Some (JArr [JStr ''late'']))"

lemma projects_user_scoped: "isUserScopedQuery queryKeys_projects_all"
  by (simp add: isUserScopedQuery_def queryKeys_projects_all_def queryKeys_auth_all_def)


text \<open>
  A racing identity request survives logout. The cancellation of logout skips the
  queries of auth: when an answer of auth.me is written while the logout request runs,
  logout ends with that user as the identity, and the views show them as signed in.
\<close>
theorem logout_identity_race:
  assumes "query_client_laws qc"
    and "requesting = setQueryData qc queryKeys_auth_me (Some user)" and "user \<noteq> JNull"
  shows "isAuthenticated (auth_value (getQueryData qc
      (snd (logout_all qc e1 requesting (\<lambda>c. c) sc)) queryKeys_auth_me) False False)"
  using assms auth_keys_not_user_scoped
  by (auto simp: logout_all_def logout_local_def getQueryData_cleared query_client_lawsD auth_value_def Let_def
      split: json.split)

theorem logout_identity_race_witness:
  "isAuthenticated (auth_value (getQueryData map_client
      (snd (logout_all map_client id (setQueryData map_client queryKeys_auth_me (Some (JObj [(''id'', JStr ''u1'')])))
        (\<lambda>c. c) (initial_auth_session, signed_in_cache))) queryKeys_auth_me) False False)"
  by (rule logout_identity_race [OF map_client_laws refl]) simp

end
