(* ===== verification/Platform_Types.thy ===== *)
theory Platform_Types
  imports Api_Types
begin

text \<open>
  The data of the platform module, as frontend/src/api/platform.ts declares it, with the
  conventions of Api_Types; an intersection type extends the record it starts from.
\<close>

section \<open>The platform: api/platform.ts\<close>

record ModuleCatalogItem =
  ModuleCatalogItem_key :: string
  ModuleCatalogItem_label :: string
  ModuleCatalogItem_description :: string
  ModuleCatalogItem_user_visible :: bool
  ModuleCatalogItem_enabled :: bool

record ModulePack =
  ModulePack_key :: string
  ModulePack_label :: string
  ModulePack_description :: string
  ModulePack_modules :: "string list"

record CapabilityProfileSummary =
  CapabilityProfileSummary_key :: string
  CapabilityProfileSummary_label :: string
  CapabilityProfileSummary_description :: string
  CapabilityProfileSummary_optional_modules :: "string list"
  CapabilityProfileSummary_selected_modules :: "string list option"
  CapabilityProfileSummary_active_modules :: "string list"
  CapabilityProfileSummary_backend_router_keys :: "string list"
  CapabilityProfileSummary_celery_queues :: "string list"
  CapabilityProfileSummary_scheduled_tasks :: "string list"
  CapabilityProfileSummary_settings_prefixes :: "string list"
  CapabilityProfileSummary_health_checks :: "string list"
  CapabilityProfileSummary_required_permissions :: "string list"
  CapabilityProfileSummary_database_requirements :: "string list"
  CapabilityProfileSummary_feature_flags :: "string list"
  CapabilityProfileSummary_recommended_feature_flags :: "string list"
  CapabilityProfileSummary_nav_entry_count :: number
  CapabilityProfileSummary_frontend_route_count :: number

record ModuleNavEntry =
  ModuleNavEntry_module_key :: string
  ModuleNavEntry_label :: string
  ModuleNavEntry_path :: string
  ModuleNavEntry_group :: string
  ModuleNavEntry_icon :: "string option"
  ModuleNavEntry_required_permission :: "string option"
  ModuleNavEntry_feature_flag :: "string option"

record ModuleFrontendRoute =
  ModuleFrontendRoute_module_key :: string
  ModuleFrontendRoute_path :: string
  ModuleFrontendRoute_page_key :: string
  ModuleFrontendRoute_required_permission :: "string option"
  ModuleFrontendRoute_feature_flag :: "string option"

record PlatformMetadata =
  PlatformMetadata_app_name :: string
  PlatformMetadata_core_domain_singular :: string
  PlatformMetadata_core_domain_plural :: string
  PlatformMetadata_module_pack :: string
  PlatformMetadata_capability_profile :: "string option option"
  PlatformMetadata_enabled_modules :: "string list"
  PlatformMetadata_active_modules :: "string list option"
  PlatformMetadata_module_catalog :: "ModuleCatalogItem list"
  PlatformMetadata_available_module_packs :: "ModulePack list"
  PlatformMetadata_available_capability_profiles :: "CapabilityProfileSummary list option"
  PlatformMetadata_active_profile :: "CapabilityProfileSummary option option"
  PlatformMetadata_module_nav :: "ModuleNavEntry list option"
  PlatformMetadata_module_routes :: "ModuleFrontendRoute list option"
  PlatformMetadata_mfa_enabled :: bool

record PlatformConfig = PlatformMetadata +
  PlatformConfig_module_overrides :: "(string \<times> bool) list"

record SubscriptionPlan =
  SubscriptionPlan_id :: string
  SubscriptionPlan_code :: string
  SubscriptionPlan_name :: string
  SubscriptionPlan_description :: "string option"
  SubscriptionPlan_price_cents :: number
  SubscriptionPlan_interval :: string
  SubscriptionPlan_is_active :: bool
  SubscriptionPlan_is_default :: bool
  SubscriptionPlan_features :: "string list"
  SubscriptionPlan_created_at :: string
  SubscriptionPlan_updated_at :: string

record UserSubscription =
  UserSubscription_id :: string
  UserSubscription_status :: string
  UserSubscription_cancel_at_period_end :: bool
  UserSubscription_started_at :: string
  UserSubscription_current_period_end :: "string option"
  UserSubscription_created_at :: string
  UserSubscription_updated_at :: string
  UserSubscription_plan :: SubscriptionPlan

record ApiKey =
  ApiKey_id :: string
  ApiKey_name :: string
  ApiKey_key_prefix :: string
  ApiKey_last_used_at :: "string option"
  ApiKey_revoked_at :: "string option"
  ApiKey_created_at :: string

record CreatedApiKey = ApiKey +
  CreatedApiKey_plaintext_key :: string

record WebhookEndpoint =
  WebhookEndpoint_id :: string
  WebhookEndpoint_target_url :: string
  WebhookEndpoint_description :: "string option"
  WebhookEndpoint_is_active :: bool
  WebhookEndpoint_events :: "string list"
  WebhookEndpoint_last_tested_at :: "string option"
  WebhookEndpoint_last_response_status :: "number option"
  WebhookEndpoint_created_at :: string
  WebhookEndpoint_updated_at :: string

record CreatedWebhookEndpoint = WebhookEndpoint +
  CreatedWebhookEndpoint_signing_secret :: string

record WebhookTestResult =
  WebhookTestResult_delivered :: bool
  WebhookTestResult_status_code :: "number option"
  WebhookTestResult_response_preview :: "string option"
  WebhookTestResult_error :: "string option"

record FeatureFlag =
  FeatureFlag_id :: string
  FeatureFlag_key :: string
  FeatureFlag_name :: string
  FeatureFlag_description :: "string option"
  FeatureFlag_module_key :: "string option"
  FeatureFlag_is_enabled :: bool
  FeatureFlag_rollout_percentage :: number
  FeatureFlag_updated_at :: string

record EffectiveFeatureFlag = FeatureFlag +
  EffectiveFeatureFlag_effective_enabled :: bool

record EmailTemplate =
  EmailTemplate_id :: string
  EmailTemplate_key :: string
  EmailTemplate_name :: string
  EmailTemplate_subject_template :: string
  EmailTemplate_html_template :: string
  EmailTemplate_text_template :: "string option"
  EmailTemplate_is_active :: bool
  EmailTemplate_updated_at :: string

end
