(* ===== verification/Pages.thy ===== *)
theory Pages
  imports Auth_Context Platform_Types Api_Errors
begin

text \<open>
  Which page a user gets: the registry of frontend/src/app/pageRegistry.ts, the guards
  ProtectedRoute and ModuleRouteGate, and the elements that AppRouter of app/router.tsx
  wraps around every page.  A component is named by the module its loader imports.  Which
  route a location matches is decided by React Router and is not modelled; the guards
  apply to whichever route it chose.
\<close>

section \<open>The registry\<close>

record PageRegistration =
  pageKey :: string
  page_path :: string
  page_component :: string
  page_public :: bool
  page_auth :: bool
  page_admin :: bool
  page_moduleKey :: "string option"
  page_shell :: bool

text \<open>The options of page(); a missing flag is false wherever the code tests it.\<close>

record page_options =
  opt_public :: bool
  opt_auth :: bool
  opt_admin :: bool
  opt_moduleKey :: "string option"
  opt_shell :: bool

definition page :: "string \<Rightarrow> string \<Rightarrow> string \<Rightarrow> page_options \<Rightarrow> PageRegistration" where
  "page key path loader opts =
     \<lparr>pageKey = key, page_path = path, page_component = loader,
      page_public = opt_public opts, page_auth = opt_auth opts, page_admin = opt_admin opts,
      page_moduleKey = opt_moduleKey opts, page_shell = opt_shell opts\<rparr>"

definition page_entries :: "PageRegistration list" where
  "page_entries =
     [page ''auth.home'' ''/'' ''../features/auth/views/AuthHomeView''
        \<lparr>opt_public = True, opt_auth = False, opt_admin = False, opt_moduleKey = None, opt_shell = False\<rparr>,
      page ''auth.reset_password'' ''/reset-password'' ''../features/auth/views/ResetPasswordView''
        \<lparr>opt_public = True, opt_auth = False, opt_admin = False, opt_moduleKey = None, opt_shell = False\<rparr>,
      page ''auth.verify_email'' ''/verify-email'' ''../features/auth/views/VerifyEmailView''
        \<lparr>opt_public = True, opt_auth = False, opt_admin = False, opt_moduleKey = None, opt_shell = False\<rparr>,
      page ''dashboard.main'' ''/dashboard'' ''../features/dashboard/views/DashboardView''
        \<lparr>opt_public = False, opt_auth = True, opt_admin = False, opt_moduleKey = None, opt_shell = True\<rparr>,
      page ''projects.list'' ''/projects'' ''../features/projects/views/ProjectsView''
        \<lparr>opt_public = False, opt_auth = True, opt_admin = False, opt_moduleKey = Some ''projects'', opt_shell = False\<rparr>,
      page ''projects.detail'' ''/projects/:projectId'' ''../features/projects/views/ProjectDetailView''
        \<lparr>opt_public = False, opt_auth = True, opt_admin = False, opt_moduleKey = Some ''projects'', opt_shell = False\<rparr>,
      page ''calendar.main'' ''/calendar'' ''../features/calendar/views/CalendarView''
        \<lparr>opt_public = False, opt_auth = True, opt_admin = False, opt_moduleKey = Some ''calendar'', opt_shell = False\<rparr>,
      page ''platform.workspace'' ''/platform'' ''../features/platform/views/PlatformView''
        \<lparr>opt_public = False, opt_auth = True, opt_admin = False, opt_moduleKey = Some ''platform'', opt_shell = False\<rparr>,
      page ''ai.studio'' ''/ai'' ''../features/ai/views/AiStudioView''
        \<lparr>opt_public = False, opt_auth = True, opt_admin = False, opt_moduleKey = Some ''ai'', opt_shell = False\<rparr>,
      page ''chat.knowledge'' ''/knowledge-chat'' ''../features/chat/views/KnowledgeChatView''
        \<lparr>opt_public = False, opt_auth = True, opt_admin = False, opt_moduleKey = Some ''chat'', opt_shell = False\<rparr>,
      page ''observability.main'' ''/observability'' ''../features/observability/views/ObservabilityView''
        \<lparr>opt_public = False, opt_auth = True, opt_admin = False, opt_moduleKey = Some ''observability'', opt_shell = False\<rparr>,
      page ''profile.settings'' ''/profile'' ''../features/profile/views/ProfileView''
        \<lparr>opt_public = False, opt_auth = True, opt_admin = False, opt_moduleKey = Some ''profile'', opt_shell = False\<rparr>,
      page ''notifications.inbox'' ''/notifications'' ''../features/notifications/views/NotificationsView''
        \<lparr>opt_public = False, opt_auth = True, opt_admin = False, opt_moduleKey = Some ''notifications'', opt_shell = False\<rparr>,
      page ''admin.users'' ''/admin/users'' ''../features/admin-users/views/AdminUsersView''
        \<lparr>opt_public = False, opt_auth = True, opt_admin = True, opt_moduleKey = Some ''admin'', opt_shell = False\<rparr>,
      page ''platform.admin'' ''/admin/platform'' ''../features/platform-admin/views/AdminPlatformView''
        \<lparr>opt_public = False, opt_auth = True, opt_admin = True, opt_moduleKey = Some ''platform'', opt_shell = False\<rparr>,
      page ''settings.admin'' ''/admin/settings'' ''../features/settings-admin/views/AdminSettingsView''
        \<lparr>opt_public = False, opt_auth = True, opt_admin = True, opt_moduleKey = Some ''settings'', opt_shell = False\<rparr>,
      page ''rag.admin.indexes'' ''/admin/rag-indexes'' ''../features/admin-rag/views/AdminRagIndexesView''
        \<lparr>opt_public = False, opt_auth = True, opt_admin = True, opt_moduleKey = Some ''rag'', opt_shell = False\<rparr>,
      page ''rag.admin.evaluation'' ''/admin/rag/evaluation'' ''../features/admin-rag/views/AdminRagEvaluationView''
        \<lparr>opt_public = False, opt_auth = True, opt_admin = True, opt_moduleKey = Some ''rag'', opt_shell = False\<rparr>,
      page ''jobs.admin.console'' ''/admin/jobs'' ''../features/admin-jobs/views/AdminJobsView''
        \<lparr>opt_public = False, opt_auth = True, opt_admin = True, opt_moduleKey = Some ''jobs'', opt_shell = False\<rparr>,
      page ''diagnostics.admin'' ''/admin/diagnostics'' ''../features/admin-diagnostics/views/AdminDiagnosticsView''
        \<lparr>opt_public = False, opt_auth = True, opt_admin = True, opt_moduleKey = Some ''diagnostics'', opt_shell = False\<rparr>,
      page ''not_found'' ''*'' ''../features/shell/views/NotFoundView''
        \<lparr>opt_public = True, opt_auth = False, opt_admin = False, opt_moduleKey = None, opt_shell = False\<rparr>]"

text \<open>Object.fromEntries: an entry replaces an earlier one of the same key.\<close>

definition from_entries :: "(string \<times> 'a) list \<Rightarrow> (string \<times> 'a) list" where
  "from_entries es = foldl (\<lambda>obj (k, v). put_entry k v obj) [] es"

definition PAGE_REGISTRY :: "(string \<times> PageRegistration) list" where
  "PAGE_REGISTRY = from_entries (map (\<lambda>p. (pageKey p, p)) page_entries)"

definition REGISTERED_PAGE_KEYS :: "string list" where
  "REGISTERED_PAGE_KEYS =
     [''auth.home'', ''auth.reset_password'', ''auth.verify_email'', ''dashboard.main'',
      ''projects.list'', ''projects.detail'', ''calendar.main'', ''platform.workspace'',
      ''platform.admin'', ''ai.studio'', ''chat.knowledge'', ''observability.main'',
      ''profile.settings'', ''notifications.inbox'', ''admin.users'', ''settings.admin'',
      ''rag.admin.indexes'', ''rag.admin.evaluation'', ''jobs.admin.console'',
      ''diagnostics.admin'', ''not_found'']"

text \<open>The operator in looks at the inherited members too.\<close>

definition key_in :: "string \<Rightarrow> (string \<times> 'a) list \<Rightarrow> bool" where
  "key_in k obj \<longleftrightarrow> k \<in> set (map fst obj) \<or> k \<in> set inherited_members"

text \<open>The text of the error that is thrown, or None.\<close>

definition registry_drift :: "string list \<Rightarrow> (string \<times> 'a) list \<Rightarrow> (string list \<times> string list) option" where
  "registry_drift keys registry =
     (let missing = filter (\<lambda>k. \<not> key_in k registry) keys;
          extra = filter (\<lambda>k. k \<notin> set keys) (map fst registry)
      in if missing \<noteq> [] \<or> extra \<noteq> [] then Some (missing, extra) else None)"

definition assertPageRegistryComplete :: "(string list \<times> string list) option" where
  "assertPageRegistryComplete = registry_drift REGISTERED_PAGE_KEYS PAGE_REGISTRY"

definition registered_pages :: "PageRegistration list" where
  "registered_pages = map (\<lambda>k. the (map_of PAGE_REGISTRY k)) REGISTERED_PAGE_KEYS"

definition publicPages :: "PageRegistration list" where
  "publicPages = filter (\<lambda>p. page_public p \<and> pageKey p \<noteq> ''not_found'') registered_pages"

definition authPages :: "PageRegistration list" where
  "authPages = filter page_auth registered_pages"

section \<open>Guards\<close>

text \<open>What a route element renders.\<close>

datatype view =
    Loading
  | Redirect string
  | NotFound string
  | ShowPage string

record guard_props =
  gp_isReady :: bool
  gp_isAuthenticated :: bool
  gp_isAdmin :: bool
  gp_isMfaEnabled :: bool
  gp_requireAdmin :: bool
  gp_requireMfa :: bool
  gp_redirectTo :: string

definition default_guard :: guard_props where
  "default_guard =
     \<lparr>gp_isReady = False, gp_isAuthenticated = False, gp_isAdmin = False, gp_isMfaEnabled = False,
      gp_requireAdmin = False, gp_requireMfa = False, gp_redirectTo = ''/''\<rparr>"

definition ProtectedRoute :: "guard_props \<Rightarrow> view \<Rightarrow> view" where
  "ProtectedRoute props children =
     (if \<not> gp_isReady props then Loading
      else if \<not> gp_isAuthenticated props then Redirect (gp_redirectTo props)
      else if gp_requireAdmin props \<and> \<not> gp_isAdmin props then Redirect ''/dashboard''
      else if gp_requireMfa props \<and> \<not> gp_isMfaEnabled props then Redirect ''/profile''
      else children)"

text \<open>The answer of usePlatformMetadata.\<close>

record metadata_query =
  mq_data :: "PlatformMetadata option"
  mq_isLoading :: bool
  mq_isError :: bool

definition module_active :: "PlatformMetadata \<Rightarrow> string \<Rightarrow> string option \<Rightarrow> bool" where
  "module_active data key moduleKey \<longleftrightarrow>
     list_ex (\<lambda>r. ModuleFrontendRoute_page_key r = key) (nullish (PlatformMetadata_module_routes data) [])
     \<or> (case moduleKey of
          None \<Rightarrow> False
        | Some m \<Rightarrow> m \<in> set (nullish (PlatformMetadata_active_modules data) []))"

definition ModuleRouteGate :: "metadata_query \<Rightarrow> string \<Rightarrow> string option \<Rightarrow> view \<Rightarrow> view" where
  "ModuleRouteGate mq key moduleKey children =
     (if mq_isLoading mq then Loading
      else if mq_isError mq then Redirect ''/dashboard''
      else case mq_data mq of
             None \<Rightarrow> Redirect ''/dashboard''
           | Some data \<Rightarrow>
               if \<not> module_active data key moduleKey
               then NotFound ''This area is not enabled for the current capability profile.''
               else children)"

section \<open>The routes\<close>

definition GatedPage :: "metadata_query \<Rightarrow> string \<Rightarrow> string option \<Rightarrow> view \<Rightarrow> view" where
  "GatedPage mq key moduleKey children = ModuleRouteGate mq key moduleKey children"

definition renderAuthPage :: "metadata_query \<Rightarrow> PageRegistration \<Rightarrow> view" where
  "renderAuthPage mq p =
     (if page_shell p then ShowPage (page_component p)
      else GatedPage mq (pageKey p) (page_moduleKey p) (ShowPage (page_component p)))"

definition shell_guard :: "AuthContextValue \<Rightarrow> guard_props" where
  "shell_guard auth =
     default_guard\<lparr>gp_isReady := isReady auth, gp_isAuthenticated := isAuthenticated auth\<rparr>"

definition admin_guard :: "AuthContextValue \<Rightarrow> guard_props" where
  "admin_guard auth =
     default_guard\<lparr>gp_isReady := isReady auth, gp_isAuthenticated := isAuthenticated auth,
       gp_isAdmin := isAdmin auth, gp_requireAdmin := True\<rparr>"

text \<open>
  The routes of AppRouter in their order, with what each renders inside the layout of its
  parent; the two redirects and the catch-all are routes like the others.
\<close>

definition app_routes :: "AuthContextValue \<Rightarrow> metadata_query \<Rightarrow> (string \<times> view) list" where
  "app_routes auth mq =
     map (\<lambda>p. (page_path p, ShowPage (page_component p))) publicPages
     @ map (\<lambda>(path, v). (path, ProtectedRoute (shell_guard auth) v))
         (map (\<lambda>p. (page_path p, renderAuthPage mq p)) (filter (\<lambda>p. \<not> page_admin p) authPages)
          @ [(''/knowledge'', Redirect ''/knowledge-chat'')]
          @ map (\<lambda>p. (page_path p, ProtectedRoute (admin_guard auth)
                  (GatedPage mq (pageKey p) (page_moduleKey p) (ShowPage (page_component p)))))
              (filter page_admin authPages)
          @ [(''/app'', Redirect ''/dashboard'')])
     @ [(''*'', ShowPage ''../features/shell/views/NotFoundView'')]"

section \<open>Properties\<close>

text \<open>The registered pages, as positions in the page list: the order of the keys moves one page.\<close>

lemma registered_pages_entries:
  "registered_pages = map ((!) page_entries) [0, 1, 2, 3, 4, 5, 6, 7, 14, 8, 9, 10, 11, 12, 13, 15, 16, 17, 18, 19, 20]"
  by code_simp

lemma protected_page:
  "ProtectedRoute props v = ShowPage c \<Longrightarrow>
     gp_isReady props \<and> gp_isAuthenticated props \<and> (gp_requireAdmin props \<longrightarrow> gp_isAdmin props) \<and> v = ShowPage c"
  by (auto simp: ProtectedRoute_def split: if_splits)

lemma gated_page:
  "GatedPage mq key m v = ShowPage c \<Longrightarrow>
     \<exists>data. mq_data mq = Some data \<and> module_active data key m \<and> v = ShowPage c"
  by (auto simp: GatedPage_def ModuleRouteGate_def split: if_splits option.splits)

text \<open>
  C13: Pages are guarded. When a route of the application shows a page, that page is one of
  the public pages, the not-found page, or a registered page that needs a login; then the
  user is signed in and the state of the session is known, is an administrator when the
  page is for administrators, and the module of the page is active unless the page belongs
  to the shell.
\<close>
theorem shown_pages_are_authorised:
  assumes "(path, ShowPage c) \<in> set (app_routes auth mq)"
  shows "(\<exists>p \<in> set publicPages. page_path p = path \<and> page_component p = c)
    \<or> (path = ''*'' \<and> c = ''../features/shell/views/NotFoundView'')
    \<or> (\<exists>p \<in> set authPages. page_path p = path \<and> page_component p = c
        \<and> isReady auth \<and> isAuthenticated auth
        \<and> (page_admin p \<longrightarrow> isAdmin auth)
        \<and> (page_admin p \<or> \<not> page_shell p \<longrightarrow>
            (\<exists>data. mq_data mq = Some data \<and> module_active data (pageKey p) (page_moduleKey p))))"
proof -
  have shell: "isReady auth \<and> isAuthenticated auth \<and> v = ShowPage c"
    if "ShowPage c = ProtectedRoute (shell_guard auth) v" for v
    using protected_page [OF that [symmetric]] by (simp add: shell_guard_def)
  have admin: "isAdmin auth \<and> (\<exists>data. mq_data mq = Some data \<and> module_active data key m) \<and> w = ShowPage c"
    if "ShowPage c = ProtectedRoute (admin_guard auth) (GatedPage mq key m w)" for key m w
    using protected_page [OF that [symmetric]] gated_page [of mq key m w c] by (auto simp: admin_guard_def)
  have plain: "page_component p = c \<and> (\<not> page_shell p \<longrightarrow>
      (\<exists>data. mq_data mq = Some data \<and> module_active data (pageKey p) (page_moduleKey p)))"
    if "renderAuthPage mq p = ShowPage c" for p
    using that by (auto simp: renderAuthPage_def split: if_splits dest: gated_page)
  from assms show ?thesis
    unfolding app_routes_def set_append set_map
    by (auto dest!: shell plain [OF sym] admin)
qed

definition admin_auth :: AuthContextValue where
  "admin_auth = auth_value (Some (JObj [(''id'', JStr ''u1''), (''is_admin'', JBool True)])) False False"

definition demo_metadata :: "string list \<Rightarrow> PlatformMetadata" where
  "demo_metadata modules =
     \<lparr>PlatformMetadata_app_name = ''App'', PlatformMetadata_core_domain_singular = ''Project'',
      PlatformMetadata_core_domain_plural = ''Projects'', PlatformMetadata_module_pack = ''full'',
      PlatformMetadata_capability_profile = None, PlatformMetadata_enabled_modules = modules,
      PlatformMetadata_active_modules = Some modules, PlatformMetadata_module_catalog = [],
      PlatformMetadata_available_module_packs = [], PlatformMetadata_available_capability_profiles = None,
      PlatformMetadata_active_profile = None, PlatformMetadata_module_nav = None,
      PlatformMetadata_module_routes = None, PlatformMetadata_mfa_enabled = False\<rparr>"

definition loaded_metadata :: "string list \<Rightarrow> metadata_query" where
  "loaded_metadata modules = \<lparr>mq_data = Some (demo_metadata modules), mq_isLoading = False, mq_isError = False\<rparr>"

theorem shown_pages_are_authorised_witness:
  "isAdmin admin_auth \<and> (''/admin/jobs'', ShowPage ''../features/admin-jobs/views/AdminJobsView'')
      \<in> set (app_routes admin_auth (loaded_metadata [''jobs'']))"
proof -
  have facts: "(''/admin/jobs'', ShowPage ''../features/admin-jobs/views/AdminJobsView'')
        \<in> set (app_routes admin_auth (loaded_metadata [''jobs'']))
      \<and> \<not> (\<exists>p \<in> set publicPages. page_path p = ''/admin/jobs'')
      \<and> (\<forall>p \<in> set authPages. page_path p = ''/admin/jobs'' \<longrightarrow> page_admin p)"
    by code_simp
  then show ?thesis using shown_pages_are_authorised [OF conjunct1 [OF facts]] by auto
qed

text \<open>
  The registry is complete and tidy. The check that runs when the router is loaded
  passes: the registered keys and the keys of the registry agree. Moreover no two pages
  share a path, every page is public or needs a login and not both, the pages for
  administrators are exactly those below /admin, and only the dashboard escapes the
  module gate.
\<close>
theorem page_registry_complete:
  "assertPageRegistryComplete = None
   \<and> distinct (map page_path registered_pages)
   \<and> list_all (\<lambda>p. page_public p \<noteq> page_auth p) registered_pages
   \<and> list_all (\<lambda>p. page_admin p = startsWith (page_path p) ''/admin/'') registered_pages
   \<and> map page_path (filter page_shell registered_pages) = [''/dashboard'']
   \<and> filter (\<lambda>p. \<not> page_shell p \<and> page_moduleKey p = None) authPages = []"
  by code_simp

end
