(* ===== verification/Navigation.thy ===== *)
theory Navigation
  imports Pages Js_Sort
begin

text \<open>
  What the layout offers for navigation: the settings tabs of hooks/useSettingsTabs.ts, the
  entries of hooks/useModuleNavigation.tsx, and the title and the selected entry of
  components/layout.
\<close>

section \<open>Settings tabs\<close>

record SettingsTab =
  tab_label :: string
  tab_path :: string

record SettingsTabDefinition = SettingsTab +
  requiresPlatformModule :: bool
  requiresAiModule :: bool
  requiresActiveModule :: "string option"
  adminOnly :: bool

definition plain_tab :: "string \<Rightarrow> string \<Rightarrow> SettingsTabDefinition" where
  "plain_tab l p =
     \<lparr>tab_label = l, tab_path = p, requiresPlatformModule = False, requiresAiModule = False,
      requiresActiveModule = None, adminOnly = False\<rparr>"

definition SETTINGS_TAB_DEFINITIONS :: "SettingsTabDefinition list" where
  "SETTINGS_TAB_DEFINITIONS =
     [plain_tab ''Profile'' ''/profile'',
      (plain_tab ''Platform'' ''/platform'')\<lparr>requiresPlatformModule := True\<rparr>,
      (plain_tab ''AI Studio'' ''/ai'')\<lparr>requiresAiModule := True\<rparr>,
      plain_tab ''Observability'' ''/observability'',
      (plain_tab ''Settings'' ''/admin/settings'')\<lparr>adminOnly := True\<rparr>,
      (plain_tab ''Users'' ''/admin/users'')\<lparr>adminOnly := True\<rparr>,
      (plain_tab ''RAG Indexes'' ''/admin/rag-indexes'')
        \<lparr>adminOnly := True, requiresActiveModule := Some ''rag''\<rparr>,
      (plain_tab ''RAG Evaluation'' ''/admin/rag/evaluation'')
        \<lparr>adminOnly := True, requiresActiveModule := Some ''rag''\<rparr>,
      (plain_tab ''Jobs'' ''/admin/jobs'')\<lparr>adminOnly := True, requiresActiveModule := Some ''jobs''\<rparr>,
      (plain_tab ''Diagnostics'' ''/admin/diagnostics'')
        \<lparr>adminOnly := True, requiresActiveModule := Some ''diagnostics''\<rparr>,
      (plain_tab ''Platform Admin'' ''/admin/platform'')\<lparr>adminOnly := True\<rparr>]"

definition tab_visible :: "bool \<Rightarrow> bool \<Rightarrow> bool \<Rightarrow> string set \<Rightarrow> SettingsTabDefinition \<Rightarrow> bool" where
  "tab_visible admin hasUserPlatformModule hasAiModule activeModules item \<longleftrightarrow>
     (if adminOnly item \<and> \<not> admin then False
      else if requiresPlatformModule item \<and> \<not> hasUserPlatformModule then False
      else if requiresAiModule item \<and> \<not> hasAiModule then False
      else if truthy (requiresActiveModule item) \<and> the (requiresActiveModule item) \<notin> activeModules then False
      else True)"

definition getVisibleSettingsTabs :: "bool \<Rightarrow> bool \<Rightarrow> bool \<Rightarrow> string set \<Rightarrow> SettingsTab list" where
  "getVisibleSettingsTabs admin hasUserPlatformModule hasAiModule activeModules =
     map SettingsTab.truncate
       (filter (tab_visible admin hasUserPlatformModule hasAiModule activeModules) SETTINGS_TAB_DEFINITIONS)"

text \<open>The set of the active modules is rebuilt from a key that joins them with commas.\<close>

definition activeModulesKey :: "PlatformMetadata option \<Rightarrow> string" where
  "activeModulesKey data =
     join '','' (case data of None \<Rightarrow> [] | Some d \<Rightarrow> nullish (PlatformMetadata_active_modules d) [])"

definition modules_of_key :: "string \<Rightarrow> string set" where
  "modules_of_key key = set (if key \<noteq> [] then split_char (CHR '','') key else [])"

definition useSettingsTabs :: "bool \<Rightarrow> PlatformMetadata option \<Rightarrow> SettingsTab list" where
  "useSettingsTabs admin data =
     getVisibleSettingsTabs admin
       (case data of
          None \<Rightarrow> False
        | Some d \<Rightarrow> list_ex (\<lambda>i. ModuleCatalogItem_user_visible i \<and> ModuleCatalogItem_enabled i)
                    (PlatformMetadata_module_catalog d))
       (''ai'' \<in> set (case data of None \<Rightarrow> [] | Some d \<Rightarrow> nullish (PlatformMetadata_active_modules d) []))
       (modules_of_key (activeModulesKey data))"

text \<open>The sort by descending length of the path, and the first tab that the path lies in.\<close>

definition longer_path :: "SettingsTab comparator" where
  "longer_path left right = int (js_length (tab_path right)) - int (js_length (tab_path left))"

definition in_tab :: "string \<Rightarrow> SettingsTab \<Rightarrow> bool" where
  "in_tab pathname item \<longleftrightarrow> pathname = tab_path item \<or> startsWith pathname (tab_path item @ ''/'')"

definition getActiveSettingsTab :: "string \<Rightarrow> SettingsTab list \<Rightarrow> SettingsTab option" where
  "getActiveSettingsTab pathname tabs = find (in_tab pathname) (js_sort longer_path tabs)"

definition isSettingsHubPath :: "string \<Rightarrow> SettingsTab list \<Rightarrow> bool" where
  "isSettingsHubPath pathname tabs \<longleftrightarrow> getActiveSettingsTab pathname tabs \<noteq> None"

definition getSettingsHubLabel :: "string \<Rightarrow> SettingsTab list \<Rightarrow> string option" where
  "getSettingsHubLabel pathname tabs = map_option tab_label (getActiveSettingsTab pathname tabs)"

text \<open>The tab that components/layout/SettingsTabs.tsx marks.\<close>

definition settings_tabs_value :: "string \<Rightarrow> SettingsTab list \<Rightarrow> string" where
  "settings_tabs_value pathname tabs =
     (case getActiveSettingsTab pathname tabs of
        Some t \<Rightarrow> tab_path t
      | None \<Rightarrow> (case tabs of [] \<Rightarrow> ''/profile'' | t # _ \<Rightarrow> tab_path t))"

section \<open>Module navigation\<close>

text \<open>The icon of a known name; a name like that of an inherited member gives that member.\<close>

datatype nav_icon = NamedIcon string | InheritedMember string

definition ICON_MAP :: "(string \<times> nav_icon) list" where
  "ICON_MAP =
     map (\<lambda>n. (n, NamedIcon n)) [''dashboard'', ''projects'', ''knowledge'', ''calendar'', ''settings'']"

definition iconFor :: "string option \<Rightarrow> nav_icon" where
  "iconFor name =
     (if \<not> truthy name then NamedIcon ''dashboard''
      else case map_of ICON_MAP (the name) of
             Some i \<Rightarrow> i
           | None \<Rightarrow> if the name \<in> set inherited_members then InheritedMember (the name)
                     else NamedIcon ''dashboard'')"

record NavItem =
  nav_label :: string
  nav_icon :: nav_icon
  nav_path :: string

definition dashboard_item :: NavItem where
  "dashboard_item = \<lparr>nav_label = ''Dashboard'', nav_icon = NamedIcon ''dashboard'', nav_path = ''/dashboard''\<rparr>"

text \<open>byPath.get: the last entry of a path, since each set replaces the one before.\<close>

definition entry_at :: "string \<Rightarrow> ModuleNavEntry list \<Rightarrow> ModuleNavEntry option" where
  "entry_at path entries = find (\<lambda>e. ModuleNavEntry_path e = path) (rev entries)"

definition projects_item :: "string \<Rightarrow> ModuleNavEntry list \<Rightarrow> NavItem" where
  "projects_item coreDomainPlural entries =
     (let projects = entry_at ''/projects'' entries
      in \<lparr>nav_label =
            (case projects of
               None \<Rightarrow> coreDomainPlural
             | Some p \<Rightarrow> if ModuleNavEntry_label p = ''Projects'' then coreDomainPlural else ModuleNavEntry_label p),
          nav_icon = iconFor (Some (nullish (case projects of None \<Rightarrow> None | Some p \<Rightarrow> ModuleNavEntry_icon p) ''projects'')),
          nav_path = ''/projects''\<rparr>)"

text \<open>The loop over the contributions, with the paths already taken.\<close>

fun contributed_items :: "ModuleNavEntry list \<Rightarrow> string list \<Rightarrow> NavItem list" where
  "contributed_items [] seen = []"
| "contributed_items (e # es) seen =
     (if ModuleNavEntry_path e = ''/projects'' \<or> ModuleNavEntry_path e \<in> set seen then contributed_items es seen
      else if ModuleNavEntry_group e \<noteq> [] \<and> ModuleNavEntry_group e \<noteq> ''workspace'' then contributed_items es seen
      else \<lparr>nav_label = ModuleNavEntry_label e, nav_icon = iconFor (ModuleNavEntry_icon e),
            nav_path = ModuleNavEntry_path e\<rparr>
           # contributed_items es (ModuleNavEntry_path e # seen))"

definition useModuleNavigation :: "string \<Rightarrow> PlatformMetadata option \<Rightarrow> NavItem list" where
  "useModuleNavigation coreDomainPlural data =
     (let entries = (case data of None \<Rightarrow> [] | Some d \<Rightarrow> nullish (PlatformMetadata_module_nav d) []);
          items = [dashboard_item, projects_item coreDomainPlural entries]
      in items @ contributed_items entries (map nav_path items))"

text \<open>The selection of NavBlock, and the title of AppLayout.\<close>

definition nav_selected :: "string \<Rightarrow> NavItem \<Rightarrow> bool" where
  "nav_selected currentPath item \<longleftrightarrow>
     (if nav_path item = ''/dashboard'' then currentPath = nav_path item
      else startsWith currentPath (nav_path item))"

definition pageTitle :: "string \<Rightarrow> SettingsTab list \<Rightarrow> NavItem list \<Rightarrow> string" where
  "pageTitle pathname tabs items =
     nullish (nullish_opt (getSettingsHubLabel pathname tabs)
       (nullish_opt
          (if isSettingsHubPath pathname tabs then Some ''Settings''
           else map_option nav_label (find (nav_selected pathname) items))
          (nullish_opt (if startsWith pathname ''/calendar'' then Some ''Calendar'' else None)
             (if startsWith pathname ''/notifications'' then Some ''Notifications'' else None))))
       ''Workspace''"

section \<open>Lemmas\<close>

interpretation longer: js_comparator longer_path
  by unfold_locales (auto simp: longer_path_def)

lemma find_first_sorted:
  assumes "sorted_wrt R xs" and "find P xs = Some x" and "y \<in> set xs" and "P y"
  shows "x = y \<or> R x y"
  using assms
proof (induction xs)
  case (Cons z zs)
  then show ?case by (cases "P z") auto
qed simp

lemma contributed_paths:
  "distinct (map nav_path (contributed_items es seen))
   \<and> set (map nav_path (contributed_items es seen)) \<inter> set seen = {}
   \<and> ''/projects'' \<notin> set (map nav_path (contributed_items es seen))"
proof (induction es seen rule: contributed_items.induct)
  case (2 e es seen)
  then show ?case by (auto simp: image_iff)
qed simp

lemma contributed_complete:
  "e \<in> set es \<Longrightarrow> ModuleNavEntry_group e \<in> {[], ''workspace''} \<Longrightarrow> ModuleNavEntry_path e \<noteq> ''/projects''
   \<Longrightarrow> ModuleNavEntry_path e \<in> set seen \<or> ModuleNavEntry_path e \<in> set (map nav_path (contributed_items es seen))"
proof (induction es seen rule: contributed_items.induct)
  case (2 f es seen)
  then show ?case by (cases "e = f") (auto split: if_splits)
qed simp

lemma contributed_allowed:
  "i \<in> set (contributed_items es seen) \<Longrightarrow>
     \<exists>e \<in> set es. nav_path i = ModuleNavEntry_path e \<and> ModuleNavEntry_group e \<in> {[], ''workspace''}"
proof (induction es seen rule: contributed_items.induct)
  case (2 f es seen)
  then show ?case by (auto split: if_splits)
qed simp

section \<open>Properties\<close>

text \<open>
  The active settings tab is the most specific one. The tab found for a path is one of
  the tabs, the path lies in it, and no other tab that the path lies in has a longer path;
  a tab is found exactly when the path lies in one of them.
\<close>
theorem active_tab_most_specific:
  "(case getActiveSettingsTab pathname tabs of
      None \<Rightarrow> \<not> (\<exists>t \<in> set tabs. in_tab pathname t)
    | Some t \<Rightarrow> t \<in> set tabs \<and> in_tab pathname t
        \<and> list_all (\<lambda>u. \<not> (in_tab pathname u \<and> js_length (tab_path t) < js_length (tab_path u))) tabs)"
proof (cases "getActiveSettingsTab pathname tabs")
  case None
  then have "\<forall>t \<in> set tabs. \<not> in_tab pathname t" by (auto simp: getActiveSettingsTab_def find_None_iff)
  with None show ?thesis by simp
next
  case (Some t)
  have "t \<in> set tabs \<and> in_tab pathname t"
    using Some by (auto simp: getActiveSettingsTab_def find_Some_iff) (metis nth_mem set_js_sort length_js_sort)
  moreover have "js_length (tab_path u) \<le> js_length (tab_path t)"
    if "u \<in> set tabs" and "in_tab pathname u" for u
    using find_first_sorted [OF longer.sorted_js_sort [of tabs], of "in_tab pathname" t u] Some that
    by (auto simp: getActiveSettingsTab_def longer_path_def)
  ultimately show ?thesis using Some by (auto simp: list_all_iff not_less)
qed

text \<open>
  Only administrators see administration tabs. Every tab below /admin that is visible
  is visible to an administrator, each tab leads to a registered page, and a tab for a
  module that can be switched off is shown only while that module is active.
\<close>
theorem settings_tabs_match_pages:
  "(admin \<or> filter (\<lambda>t. startsWith (tab_path t) ''/admin/'') (getVisibleSettingsTabs admin p ai ms) = [])
   \<and> list_all (\<lambda>t. tab_path t \<in> set (map page_path authPages)) (getVisibleSettingsTabs admin p ai ms)
   \<and> (''rag'' \<in> ms \<or> filter (\<lambda>t. tab_path t \<in> {''/admin/rag-indexes'', ''/admin/rag/evaluation''})
       (getVisibleSettingsTabs admin p ai ms) = [])"
proof -
  let ?tabs = "getVisibleSettingsTabs admin p ai ms"
  have definitions: "\<forall>u \<in> set SETTINGS_TAB_DEFINITIONS. (startsWith (tab_path u) ''/admin/'' \<longrightarrow> adminOnly u)
      \<and> tab_path u \<in> set (map page_path authPages)
      \<and> (tab_path u \<in> {''/admin/rag-indexes'', ''/admin/rag/evaluation''} \<longrightarrow> requiresActiveModule u = Some ''rag'')"
    by (simp add: SETTINGS_TAB_DEFINITIONS_def authPages_def registered_pages_entries page_entries_def page_def
      startsWith_def plain_tab_def)
  have visible: "adminOnly u \<longrightarrow> admin" "requiresActiveModule u = Some ''rag'' \<longrightarrow> ''rag'' \<in> ms"
    if "tab_visible admin p ai ms u" for u
    using that by (auto simp: tab_visible_def truthy_def split: if_splits)
  have shown: "P (tab_path t)"
    if "t \<in> set ?tabs" and "\<And>u. u \<in> set SETTINGS_TAB_DEFINITIONS \<Longrightarrow> tab_visible admin p ai ms u \<Longrightarrow> P (tab_path u)"
    for t P
    using that by (auto simp: getVisibleSettingsTabs_def SettingsTab.truncate_def)
  have "admin \<or> \<not> startsWith (tab_path t) ''/admin/''" if "t \<in> set ?tabs" for t
    by (rule shown [OF that, of "\<lambda>x. admin \<or> \<not> startsWith x ''/admin/''"]) (use definitions visible in blast)
  then have "admin \<or> filter (\<lambda>t. startsWith (tab_path t) ''/admin/'') ?tabs = []"
    by (simp only: filter_empty_conv) blast
  moreover have "tab_path t \<in> set (map page_path authPages)" if "t \<in> set ?tabs" for t
    by (rule shown [OF that, of "\<lambda>x. x \<in> set (map page_path authPages)"]) (use definitions in blast)
  then have "list_all (\<lambda>t. tab_path t \<in> set (map page_path authPages)) ?tabs"
    by (simp only: list_all_iff) blast
  moreover have "''rag'' \<in> ms \<or> tab_path t \<notin> {''/admin/rag-indexes'', ''/admin/rag/evaluation''}"
    if "t \<in> set ?tabs" for t
    by (rule shown [OF that, of "\<lambda>x. ''rag'' \<in> ms \<or> x \<notin> {''/admin/rag-indexes'', ''/admin/rag/evaluation''}"])
      (use definitions visible in blast)
  then have "''rag'' \<in> ms \<or> filter (\<lambda>t. tab_path t \<in> {''/admin/rag-indexes'', ''/admin/rag/evaluation''}) ?tabs = []"
    by (simp only: filter_empty_conv) blast
  ultimately show ?thesis by blast
qed

text \<open>
  The module set survives its key. The set of active modules that the tabs are computed
  from is the list the platform sent, when no module key is empty or contains a comma.
\<close>
theorem active_modules_key_roundtrip:
  assumes "data = Some d" and "PlatformMetadata_active_modules d = Some ms"
    and "\<forall>m \<in> set ms. m \<noteq> [] \<and> CHR '','' \<notin> set m"
  shows "modules_of_key (activeModulesKey data) = set ms"
proof (cases "ms = []")
  case False
  then have "join '','' ms \<noteq> []" using assms(3) by (cases ms; cases "tl ms") auto
  then show ?thesis
    using assms False split_join_char [of ms "CHR '',''"] by (simp add: modules_of_key_def activeModulesKey_def)
qed (use assms in \<open>simp add: modules_of_key_def activeModulesKey_def\<close>)

theorem active_modules_key_roundtrip_witness:
  "modules_of_key (activeModulesKey (Some (demo_metadata [''ai'', ''rag'']))) = {''ai'', ''rag''}"
proof -
  have "PlatformMetadata_active_modules (demo_metadata [''ai'', ''rag'']) = Some [''ai'', ''rag'']"
    by (simp add: demo_metadata_def)
  from active_modules_key_roundtrip [OF refl this] show ?thesis by simp
qed

text \<open>
  The navigation lists each place once. The entries start with the dashboard and the
  projects, their paths are pairwise different, every further entry was contributed for
  the workspace, and every workspace contribution of the platform is reachable.
\<close>
theorem module_navigation_spec:
  assumes "entries = (case data of None \<Rightarrow> [] | Some d \<Rightarrow> nullish (PlatformMetadata_module_nav d) [])"
    and "items = useModuleNavigation plural data"
  shows "take 2 (map nav_path items) = [''/dashboard'', ''/projects'']
    \<and> distinct (map nav_path items)
    \<and> (\<forall>i \<in> set (drop 2 items). \<exists>e \<in> set entries. nav_path i = ModuleNavEntry_path e
          \<and> ModuleNavEntry_group e \<in> {[], ''workspace''})
    \<and> (\<forall>e \<in> set entries. ModuleNavEntry_group e \<in> {[], ''workspace''}
          \<longrightarrow> ModuleNavEntry_path e \<in> set (map nav_path items))"
proof -
  let ?items = "[dashboard_item, projects_item plural entries]"
  have items: "items = ?items @ contributed_items entries (map nav_path ?items)"
    using assms by (simp add: useModuleNavigation_def Let_def)
  have paths: "map nav_path ?items = [''/dashboard'', ''/projects'']"
    by (simp add: dashboard_item_def projects_item_def Let_def)
  show ?thesis
    unfolding items map_append paths
    using contributed_paths [of entries "[''/dashboard'', ''/projects'']"]
      contributed_allowed [of _ entries "[''/dashboard'', ''/projects'']"]
      contributed_complete [of _ entries "[''/dashboard'', ''/projects'']"]
    by auto
qed

theorem module_navigation_spec_witness:
  "distinct (map nav_path (useModuleNavigation ''Projects'' (Some ((demo_metadata [])\<lparr>PlatformMetadata_module_nav :=
     Some [\<lparr>ModuleNavEntry_module_key = ''chat'', ModuleNavEntry_label = ''Chat'', ModuleNavEntry_path = ''/knowledge-chat'',
       ModuleNavEntry_group = ''workspace'', ModuleNavEntry_icon = None,
       ModuleNavEntry_required_permission = None, ModuleNavEntry_feature_flag = None\<rparr>]\<rparr>))))"
  using module_navigation_spec [OF refl refl] by blast

end
