(* ===== verification/Api_Client_Facts.thy ===== *)
theory Api_Client_Facts
  imports Api_Client
begin

text \<open>
  What the request functions of Api_Client guarantee: how often a request is sent, which
  headers it carries, how every outcome is reported, and when a call settles.
\<close>

section \<open>The world while a request is under way\<close>

lemma session_event_frame [simp]:
  "cw_sent (session_event e w) = cw_sent w"
  "cw_aborted (session_event e w) = cw_aborted w"
  "cw_api_base (session_event e w) = cw_api_base w"
  by (simp_all add: session_event_def)

lemma caller_aborts_frame [simp]:
  "cw_sent (caller_aborts signal w) = cw_sent w"
  "cw_session (caller_aborts signal w) = cw_session w"
  "cw_api_base (caller_aborts signal w) = cw_api_base w"
  "cw_aborted (caller_aborts signal w) = (signal \<or> cw_aborted w)"
  by (simp_all add: caller_aborts_def)

lemma while_idle_frame [simp]:
  "cw_sent (while_idle signal es w) = cw_sent w"
  "cw_api_base (while_idle signal es w) = cw_api_base w"
  by (induction es arbitrary: w) (simp_all split: client_event.split)

lemma while_fetching_world:
  "snd (while_fetching signal es rs w) = while_idle signal es w"
  by (induction es arbitrary: rs w) (auto split: client_event.split)

lemma while_fetching_Pair:
  "while_fetching signal es rs w = (rs', w') \<Longrightarrow> w' = while_idle signal es w"
  by (metis snd_conv while_fetching_world)

lemma while_idle_aborted:
  "is_aborted signal (while_idle signal es w) \<longleftrightarrow> is_aborted signal w \<or> signal \<and> CallerAborts \<in> set es"
  by (induction es arbitrary: w) (auto simp: is_aborted_def split: client_event.split)

lemma note_diagnostics_frame [simp]:
  "cw_sent (note_diagnostics r w) = cw_sent w"
  "cw_api_base (note_diagnostics r w) = cw_api_base w"
  "cw_session (note_diagnostics r w) = cw_session w"
  "is_aborted signal (note_diagnostics r w) = is_aborted signal w"
  by (simp_all add: note_diagnostics_def publishDeveloperDiagnostics_def is_aborted_def split: option.split)

lemma send_request_frame [simp]:
  "cw_sent (send_request q w) = cw_sent w @ [q]"
  "cw_api_base (send_request q w) = cw_api_base w"
  "cw_session (send_request q w) = cw_session w"
  "is_aborted signal (send_request q w) = is_aborted signal w"
  by (simp_all add: send_request_def is_aborted_def)

lemma waitForRefresh_frame:
  "waitForRefresh signal p es w = (r, w') \<Longrightarrow>
     cw_sent w' = cw_sent w \<and> cw_api_base w' = cw_api_base w"
proof (induction es arbitrary: w)
  case Nil
  then show ?case
    by (subst (asm) waitForRefresh.simps) (auto split: if_splits option.splits promise_state.splits)
next
  case (Cons e es)
  from Cons.prems show ?case
    by (subst (asm) waitForRefresh.simps)
      (auto split: if_splits option.splits promise_state.splits dest!: Cons.IH simp del: while_idle.simps)
qed

lemma await_refreshForRetry_frame:
  "await_refreshForRetry signal es w = (r, w') \<Longrightarrow>
     cw_sent w' = cw_sent w \<and> cw_api_base w' = cw_api_base w"
  by (auto simp: await_refreshForRetry_def Let_def split: prod.splits refresh_answer.splits
      dest: waitForRefresh_frame)

lemma API_BASE_cong: "cw_api_base w = cw_api_base w' \<Longrightarrow> API_BASE w = API_BASE w'"
  by (simp add: API_BASE_def)

section \<open>One request\<close>

text \<open>What apiFetch does with its first attempt, once the headers are there.\<close>

definition after_fetch :: "RequestInit \<Rightarrow> attempt \<Rightarrow> headers \<Rightarrow> string \<Rightarrow> client_world \<Rightarrow> client_world" where
  "after_fetch opts a hs path w =
     while_idle (init_signal opts) (at_events a) (send_request (fetch_request path opts hs w) w)"

lemma apiFetch_answered:
  assumes "fetch_headers opts (at_cookie a) = Inr hs" and "at_outcome a = Answered r"
    and "w3 = note_diagnostics r (after_fetch opts a hs path w)"
  shows "apiFetch path opts retry (a # as) w =
    (if resp_status r = 401 \<and> retry \<and> \<not> is_aborted (init_signal opts) w3
     then (case await_refreshForRetry (init_signal opts) (at_wait a) w3 of
             (Rejected e, w4) \<Rightarrow> (Rejected e, w4)
           | (Unsettled, w4) \<Rightarrow> (Unsettled, w4)
           | (Resolved refreshed, w4) \<Rightarrow>
               if \<not> refreshed then (Rejected (ApiFailure sessionExpiredError), w4)
               else if is_aborted (init_signal opts) w4
               then (Rejected (ApiFailure cancelledRequestError), w4)
               else apiFetch path opts False as w4)
     else (fetch_result r, w3))"
  using assms while_fetching_world
    [of "init_signal opts" "at_events a" "createRequestSignal (is_aborted (init_signal opts) w)"
      "send_request (fetch_request path opts hs w) w"]
  by (simp add: Let_def case_prod_beta after_fetch_def)

lemma after_fetch_frame [simp]:
  "cw_sent (after_fetch opts a hs path w) = cw_sent w @ [fetch_request path opts hs w]"
  "cw_api_base (after_fetch opts a hs path w) = cw_api_base w"
  by (simp_all add: after_fetch_def)

lemma apiFetch_no_headers:
  "fetch_headers opts (at_cookie a) = Inl e \<Longrightarrow> apiFetch path opts retry (a # as) w = (Rejected e, w)"
  by simp

lemma apiFetch_network:
  assumes "fetch_headers opts (at_cookie a) = Inr hs" and "at_outcome a = NetworkFailure"
  shows "\<exists>rs. apiFetch path opts retry (a # as) w =
     (Rejected (ApiFailure (fetch_failure (signal_cleanup rs)
        (is_aborted (init_signal opts) (after_fetch opts a hs path w)))), after_fetch opts a hs path w)
     \<and> rs = fst (while_fetching (init_signal opts) (at_events a)
          (createRequestSignal (is_aborted (init_signal opts) w))
          (send_request (fetch_request path opts hs w) w))"
  using assms while_fetching_world
    [of "init_signal opts" "at_events a" "createRequestSignal (is_aborted (init_signal opts) w)"
      "send_request (fetch_request path opts hs w) w"]
  by (simp add: Let_def case_prod_beta after_fetch_def)

definition same_request :: "string \<Rightarrow> RequestInit \<Rightarrow> client_world \<Rightarrow> sent_request \<Rightarrow> bool" where
  "same_request path opts w q \<longleftrightarrow>
     sent_url q = API_BASE w @ path \<and> sent_method q = nullish (init_method opts) ''GET''
     \<and> sent_body q = init_body opts \<and> sent_credentials q = ''include''"

lemma same_request_fetch: "same_request path opts w (fetch_request path opts hs w)"
  by (simp add: same_request_def fetch_request_def)

text \<open>A call that may not retry sends at most one request.\<close>

lemma apiFetch_no_retry_sent:
  assumes "apiFetch path opts False as w = (res, w')"
  shows "\<exists>qs. cw_sent w' = cw_sent w @ qs \<and> length qs \<le> 1 \<and> list_all (same_request path opts w) qs"
proof (cases as)
  case Nil
  with assms show ?thesis by simp
next
  case (Cons a as')
  show ?thesis
  proof (cases "fetch_headers opts (at_cookie a)")
    case (Inl e)
    with assms Cons show ?thesis by simp
  next
    case (Inr hs)
    have "cw_sent w' = cw_sent w @ [fetch_request path opts hs w]"
    proof (cases "at_outcome a")
      case NetworkFailure
      then show ?thesis using assms Cons apiFetch_network [OF Inr, of path False as' w] by auto
    next
      case (Answered r)
      then show ?thesis
        using assms Cons apiFetch_answered [OF Inr Answered refl, of path False as' w] by auto
    qed
    then show ?thesis using same_request_fetch by auto
  qed
qed


section \<open>Properties of apiFetch\<close>

text \<open>
  C3: At most one retry. A call of apiFetch sends its request at most twice, each time to
  the same URL with the same method, body and credentials mode; a second request is sent
  only when the first one was answered with 401 and the refresh succeeded.
\<close>
theorem fetch_sends_at_most_twice:
  assumes "apiFetch path opts retry as w = (res, w')"
  shows "\<exists>qs. cw_sent w' = cw_sent w @ qs \<and> length qs \<le> 2 \<and> list_all (same_request path opts w) qs
    \<and> (length qs = 2 \<longrightarrow> retry \<and> (\<exists>a as' r hs w3 w4. as = a # as' \<and> at_outcome a = Answered r
         \<and> resp_status r = 401 \<and> fetch_headers opts (at_cookie a) = Inr hs
         \<and> w3 = note_diagnostics r (after_fetch opts a hs path w)
         \<and> await_refreshForRetry (init_signal opts) (at_wait a) w3 = (Resolved True, w4)))"
proof (cases as)
  case Nil
  with assms show ?thesis by simp
next
  case (Cons a as')
  show ?thesis
  proof (cases "fetch_headers opts (at_cookie a)")
    case (Inl e)
    with assms Cons show ?thesis by simp
  next
    case (Inr hs)
    let ?q = "fetch_request path opts hs w"
    let ?goal = "\<exists>qs. cw_sent w' = cw_sent w @ qs \<and> length qs = 1 \<and> list_all (same_request path opts w) qs"
    show ?thesis
    proof (cases "at_outcome a")
      case NetworkFailure
      then have "cw_sent w' = cw_sent w @ [?q]"
        using assms Cons apiFetch_network [OF Inr, of path retry as' w] by auto
      then show ?thesis using same_request_fetch by (intro exI [of _ "[?q]"]) simp
    next
      case (Answered r)
      let ?w3 = "note_diagnostics r (after_fetch opts a hs path w)"
      note eq = apiFetch_answered [OF Inr Answered refl, of path retry as' w]
      obtain out w4 where wait: "await_refreshForRetry (init_signal opts) (at_wait a) ?w3 = (out, w4)"
        by fastforce
      note frame = await_refreshForRetry_frame [OF wait]
      show ?thesis
      proof (cases "resp_status r = 401 \<and> retry \<and> \<not> is_aborted (init_signal opts) ?w3
          \<and> out = Resolved True \<and> \<not> is_aborted (init_signal opts) w4")
        case True
        then have "apiFetch path opts False as' w4 = (res, w')"
          using assms Cons eq wait by simp
        from apiFetch_no_retry_sent [OF this] obtain qs where
          qs: "cw_sent w' = cw_sent w4 @ qs" "length qs \<le> 1" "list_all (same_request path opts w4) qs"
          by blast
        have "same_request path opts w4 = same_request path opts w"
          using frame API_BASE_cong [of w4 w] by (auto simp: same_request_def)
        then show ?thesis
          using qs frame same_request_fetch True Inr Answered Cons wait
          by (intro exI [of _ "?q # qs"]) auto
      next
        case False
        then have "cw_sent w' = cw_sent w @ [?q]"
          using assms Cons eq wait frame by (auto split: if_splits settled.splits)
        then show ?thesis using same_request_fetch by (intro exI [of _ "[?q]"]) simp
      qed
    qed
  qed
qed


definition ok_attempt :: attempt where
  "ok_attempt =
     \<lparr>at_cookie = ''theme=dark; csrf_token=abc'', at_events = [],
      at_outcome = Answered \<lparr>resp_status = 200, resp_headers = [], resp_body = BodyText ''[1]''\<rparr>,
      at_wait = []\<rparr>"

text \<open>A request answered with 401 whose refresh, the first of the session, succeeds.\<close>

definition expired_attempt :: attempt where
  "expired_attempt =
     \<lparr>at_cookie = ''theme=dark; csrf_token=old'', at_events = [],
      at_outcome = Answered \<lparr>resp_status = 401, resp_headers = [], resp_body = BodyText ''{}''\<rparr>,
      at_wait = [OfSession (RefreshResponse 0 True), OfSession (RefreshFinally 0)]\<rparr>"

definition fresh_world :: client_world where
  "fresh_world =
     \<lparr>cw_session = initial_auth_session, cw_aborted = False, cw_api_base = None, cw_sent = [],
      cw_diagnostics = [], cw_progress = []\<rparr>"

definition retried_call :: "json option settled \<times> client_world" where
  "retried_call = apiFetch ''/projects'' no_init True [expired_attempt, ok_attempt] fresh_world"

lemma retried_call_result:
  "fst retried_call = Resolved (Some (JArr [JNum 1]))"
  "map sent_headers (cw_sent (snd retried_call)) = [[(''x-csrf-token'', ''old'')], [(''x-csrf-token'', ''abc'')]]"
proof -
  have "(fst retried_call, map sent_headers (cw_sent (snd retried_call)))
      = (Resolved (Some (JArr [JNum 1])), [[(''x-csrf-token'', ''old'')], [(''x-csrf-token'', ''abc'')]])"
    by code_simp
  then show "fst retried_call = Resolved (Some (JArr [JNum 1]))"
    "map sent_headers (cw_sent (snd retried_call)) = [[(''x-csrf-token'', ''old'')], [(''x-csrf-token'', ''abc'')]]"
    by simp_all
qed

theorem fetch_sends_at_most_twice_witness:
  "\<exists>qs. cw_sent (snd retried_call) = qs \<and> length qs = 2 \<and> list_all (same_request ''/projects'' no_init fresh_world) qs"
proof -
  have "apiFetch ''/projects'' no_init True [expired_attempt, ok_attempt] fresh_world
      = (fst retried_call, snd retried_call)"
    by (simp add: retried_call_def)
  from fetch_sends_at_most_twice [OF this] obtain qs where
    "cw_sent (snd retried_call) = cw_sent fresh_world @ qs"
    "list_all (same_request ''/projects'' no_init fresh_world) qs"
    by blast
  moreover have "length (cw_sent (snd retried_call)) = 2"
    using arg_cong [OF retried_call_result(2), of length] by simp
  ultimately show ?thesis by (simp add: fresh_world_def)
qed

section \<open>Headers\<close>

lemma lower_case_names [simp]:
  "lower_case ''X-CSRF-Token'' = ''x-csrf-token''"
  "lower_case ''Content-Type'' = ''content-type''"
  by code_simp+

lemma header_get_put [simp]:
  "header_get name (put_entry key v hs) = (if lower_case name = key then Some v else header_get name hs)"
  by (simp add: header_get_def)

text \<open>
  C7: Every request carries the CSRF token. When the csrf_token cookie holds a token, the
  headers of apiFetch contain it as X-CSRF-Token unless the caller set that header, and a
  body that is not a form is declared as JSON unless the caller set a content type; a
  form body gets no content type, so that the browser can add the boundary.
\<close>
theorem fetch_headers_spec:
  assumes hs: "fetch_headers opts cookie = Inr hs" and given: "new_Headers (init_headers opts) [] = Inr hs0"
    and token: "readCookie ''csrf_token'' cookie = Inr (Some t)" "t \<noteq> []"
  shows "header_get ''X-CSRF-Token'' hs = Some (nullish (header_get ''X-CSRF-Token'' hs0) (normalize_value t))
    \<and> header_get ''Content-Type'' hs =
        (if init_body opts \<noteq> None \<and> \<not> is_form (init_body opts)
         then Some (nullish (header_get ''Content-Type'' hs0) ''application/json'')
         else header_get ''Content-Type'' hs0)"
proof -
  have json: "header_set ''Content-Type'' ''application/json'' hs0
      = Inr (put_entry (lower_case ''Content-Type'') ''application/json'' hs0)"
    unfolding header_set_def by (subst if_P; code_simp)
  show ?thesis
    using hs token json
    by (auto simp: fetch_headers_def given add_csrf_def header_has_def header_set_def [of "''X-CSRF-Token''"]
        split: if_splits)
qed

theorem fetch_headers_spec_witness:
  "header_get ''X-CSRF-Token'' [(''content-type'', ''application/json''), (''x-csrf-token'', ''abc'')] = Some ''abc''"
proof -
  let ?opts = "no_init\<lparr>init_body := Some (JsonBody JNull)\<rparr>"
  have hs: "fetch_headers ?opts ''csrf_token=abc'' =
      Inr [(''content-type'', ''application/json''), (''x-csrf-token'', ''abc'')]"
    by code_simp
  have given: "new_Headers (init_headers ?opts) [] = Inr []" by code_simp
  have token: "readCookie ''csrf_token'' ''csrf_token=abc'' = Inr (Some ''abc'')" by code_simp
  have abc: "normalize_value ''abc'' = ''abc''" "header_get ''X-CSRF-Token'' [] = None" by code_simp+
  from fetch_headers_spec [OF hs given token] abc show ?thesis by simp
qed


section \<open>How outcomes are reported\<close>

lemma while_fetching_timedOut:
  "rs_listening rs \<Longrightarrow>
     rs_timedOut (fst (while_fetching signal es rs w)) \<longleftrightarrow> rs_timedOut rs \<or> DeadlinePasses \<in> set es"
  by (induction es arbitrary: rs w)
    (auto simp: abortFromParent_def abortOnTimeout_def split: client_event.split)

lemma new_ApiError_simps [simp]:
  "message (new_ApiError msg opts) = msg"
  "status (new_ApiError msg opts) = nullish (o_status opts) 0"
  "code (new_ApiError msg opts) = o_code opts"
  "correlationId (new_ApiError msg opts) = o_correlationId opts"
  "details (new_ApiError msg opts) = o_details opts"
  "fieldErrors (new_ApiError msg opts) = nullish (o_fieldErrors opts) []"
  "retryAfterSeconds (new_ApiError msg opts) = o_retryAfterSeconds opts"
  "cancelled (new_ApiError msg opts) = nullish (o_cancelled opts) False"
  "retryable (new_ApiError msg opts) = nullish (o_retryable opts) False"
  by (simp_all add: new_ApiError_def)

lemma no_options_simps [simp]:
  "o_status no_options = None" "o_code no_options = None" "o_correlationId no_options = None"
  "o_details no_options = None" "o_fieldErrors no_options = None"
  "o_retryAfterSeconds no_options = None" "o_cancelled no_options = None" "o_retryable no_options = None"
  by (simp_all add: no_options_def)

text \<open>
  A request without an answer. When fetch fails, apiFetch rejects with an ApiError of
  status 0 that counts as cancelled exactly when the caller aborted its signal, before or
  during the request, as retryable exactly when the caller did not, and whose message
  says that the request timed out exactly when the deadline passed, whoever was first.
\<close>
theorem network_failure_reported:
  assumes "fetch_headers opts (at_cookie a) = Inr hs" and "at_outcome a = NetworkFailure"
  shows "\<exists>e. fst (apiFetch path opts retry (a # as) w) = Rejected (ApiFailure e)
    \<and> status e = 0
    \<and> cancelled e = (init_signal opts \<and> (cw_aborted w \<or> CallerAborts \<in> set (at_events a)))
    \<and> retryable e = (\<not> cancelled e)
    \<and> (message e = ''The request timed out. Please try again.'') = (DeadlinePasses \<in> set (at_events a))"
proof -
  let ?rs = "fst (while_fetching (init_signal opts) (at_events a)
          (createRequestSignal (is_aborted (init_signal opts) w))
          (send_request (fetch_request path opts hs w) w))"
  let ?e = "fetch_failure (signal_cleanup ?rs) (is_aborted (init_signal opts) (after_fetch opts a hs path w))"
  have out: "fst (apiFetch path opts retry (a # as) w) = Rejected (ApiFailure ?e)"
    using apiFetch_network [OF assms, of path retry as w] by auto
  have deadline: "rs_timedOut ?rs = (DeadlinePasses \<in> set (at_events a))"
    by (simp add: while_fetching_timedOut createRequestSignal_def)
  have aborted: "is_aborted (init_signal opts) (after_fetch opts a hs path w)
      = (init_signal opts \<and> (cw_aborted w \<or> CallerAborts \<in> set (at_events a)))"
    by (auto simp: after_fetch_def while_idle_aborted) (simp_all add: is_aborted_def)
  show ?thesis
    by (intro exI [of _ ?e] conjI out)
      (simp_all add: fetch_failure_def aborted signal_cleanup_def deadline)
qed

definition cut_off_attempt :: attempt where
  "cut_off_attempt = ok_attempt\<lparr>at_events := [CallerAborts, DeadlinePasses], at_outcome := NetworkFailure\<rparr>"

theorem network_failure_reported_witness:
  "\<exists>e. fst (apiFetch ''/x'' (no_init\<lparr>init_signal := True\<rparr>) True [cut_off_attempt] fresh_world) = Rejected (ApiFailure e)
    \<and> cancelled e \<and> \<not> retryable e \<and> message e = ''The request timed out. Please try again.''"
proof -
  have hs: "fetch_headers (no_init\<lparr>init_signal := True\<rparr>) (at_cookie cut_off_attempt)
      = Inr [(''x-csrf-token'', ''abc'')]"
    by code_simp
  have out: "at_outcome cut_off_attempt = NetworkFailure" by (simp add: cut_off_attempt_def)
  from network_failure_reported [OF hs out, of "''/x''" True "[]" fresh_world]
  show ?thesis by (auto simp: cut_off_attempt_def no_init_def)
qed


definition busy_response :: response where
  "busy_response =
     \<lparr>resp_status = 429, resp_headers = [(''retry-after'', ''7'')], resp_body = BodyText ''<html>''\<rparr>"



section \<open>Field errors\<close>

definition texts_of :: "string \<Rightarrow> field_errors \<Rightarrow> string list" where
  "texts_of field fe = nullish (map_of fe field) []"

text \<open>The items of a validation error that concern a field, in the order of the body.\<close>

definition items_for :: "string \<Rightarrow> json list \<Rightarrow> json list" where
  "items_for field items = filter (\<lambda>i. truthy_json i \<and> is_object i \<and> item_field i = Some field) items"

lemma add_field_error_texts:
  "add_field_error field t fe = Some fe' \<Longrightarrow>
     texts_of f fe' = (if f = field then texts_of f fe @ [t] else texts_of f fe)"
  by (auto simp: add_field_error_def texts_of_def split: option.splits if_splits)

lemma add_detail_items_texts:
  "add_detail_items items fe = Some fe' \<Longrightarrow>
     texts_of field fe' = texts_of field fe @ map item_text (items_for field items)"
proof (induction items fe rule: add_detail_items.induct)
  case (2 item items fe)
  then show ?case
    by (auto simp: items_for_def add_field_error_texts split: if_splits option.splits)
qed (simp add: items_for_def)

lemma add_detail_items_total:
  "\<forall>i \<in> set items. \<forall>f. item_field i = Some f \<longrightarrow> f \<notin> set inherited_members \<Longrightarrow>
     \<exists>fe'. add_detail_items items fe = Some fe'"
proof (induction items arbitrary: fe)
  case (Cons item items)
  then show ?case
    by (auto simp: add_field_error_def split: option.split)
qed simp

text \<open>
  C5: Field errors gather both formats. For a body whose detail is a list of validation
  items, none about a field named like an inherited member, the field errors of apiFetch
  give for every field the texts under errors followed by the texts of the items whose
  location ends in that field, in the order of the body; no other field appears.
\<close>
theorem field_errors_spec:
  assumes "get_prop ''detail'' err = Some (JArr items)"
    and "\<forall>i \<in> set items. \<forall>f. item_field i = Some f \<longrightarrow> f \<notin> set inherited_members"
  shows "\<exists>fe. responseFieldErrors err = Some fe
    \<and> (\<forall>field. texts_of field fe = texts_of field (getFieldErrors err) @ map item_text (items_for field items))"
proof -
  obtain fe where "add_detail_items items (getFieldErrors err) = Some fe"
    using add_detail_items_total [OF assms(2)] by blast
  then show ?thesis
    using assms(1) add_detail_items_texts by (auto simp: responseFieldErrors_def)
qed

definition validation_item :: "string \<Rightarrow> string \<Rightarrow> json" where
  "validation_item field msg =
     JObj [(''loc'', JArr [JStr ''body'', JStr field]), (''msg'', JStr msg)]"

definition validation_body :: json where
  "validation_body =
     JObj [(''detail'', JArr [validation_item ''name'' ''too long'', JNull,
              validation_item ''slug'' ''taken'', validation_item ''name'' ''odd'']),
           (''errors'', JObj [(''name'', JStr ''bad'')])]"

theorem field_errors_spec_witness:
  "\<exists>fe. responseFieldErrors validation_body = Some fe \<and> texts_of ''name'' fe = [''bad'', ''too long'', ''odd'']"
proof -
  let ?items = "[validation_item ''name'' ''too long'', JNull, validation_item ''slug'' ''taken'',
      validation_item ''name'' ''odd'']"
  have 1: "get_prop ''detail'' validation_body = Some (JArr ?items)" by code_simp
  have 2: "\<forall>i \<in> set ?items. \<forall>f. item_field i = Some f \<longrightarrow> f \<notin> set inherited_members"
    by (simp add: validation_item_def item_field_def inherited_members_def)
  have 3: "texts_of ''name'' (getFieldErrors validation_body)
      @ map item_text (items_for ''name'' ?items) = [''bad'', ''too long'', ''odd'']"
    by code_simp
  from field_errors_spec [OF 1 2] 3 show ?thesis by metis
qed

text \<open>
  A validation error can break the error handling. When an item of the list is about a
  field that every object inherits, such as constructor, and the body does not list that
  field under errors, apiFetch does not reject with an ApiError but with the TypeError of
  spreading the inherited member.
\<close>
theorem inherited_field_breaks:
  assumes "\<not> resp_ok r" and "response_json r = Inr err"
    and "get_prop ''detail'' err = Some (JArr (item # items))"
    and "truthy_json item" and "is_object item" and "item_field item = Some field"
    and "field \<in> set inherited_members" and "map_of (getFieldErrors err) field = None"
  shows "fetch_result r = Rejected TypeError"
  using assms
  by (simp add: fetch_result_def response_error_def response_json_or_empty_def Let_def
      responseFieldErrors_def add_field_error_def)

definition constructor_response :: response where
  "constructor_response =
     \<lparr>resp_status = 422, resp_headers = [],
      resp_body = BodyText (with_quotes ''{~detail~:[{~loc~:[~constructor~]}]}'')\<rparr>"

theorem inherited_field_breaks_witness: "fetch_result constructor_response = Rejected TypeError"
proof -
  let ?item = "JObj [(''loc'', JArr [JStr ''constructor''])]"
  let ?err = "JObj [(''detail'', JArr [?item])]"
  have "\<not> resp_ok constructor_response" by code_simp
  moreover have "response_json constructor_response = Inr ?err" by code_simp
  moreover have "get_prop ''detail'' ?err = Some (JArr [?item])" by simp
  moreover have "item_field ?item = Some ''constructor''" by code_simp
  moreover have "''constructor'' \<in> set inherited_members" by code_simp
  moreover have "map_of (getFieldErrors ?err) ''constructor'' = None" by code_simp
  ultimately show ?thesis by (intro inherited_field_breaks) simp_all
qed

section \<open>Requests and the session\<close>

text \<open>No other tab or handler signs in while these events happen.\<close>

definition no_sign_in :: "client_event list \<Rightarrow> bool" where
  "no_sign_in es \<longleftrightarrow> OfSession SessionMarkedActive \<notin> set es"

lemma no_sign_in_simps [simp]:
  "no_sign_in []"
  "no_sign_in (e # es) \<longleftrightarrow> e \<noteq> OfSession SessionMarkedActive \<and> no_sign_in es"
  by (auto simp: no_sign_in_def)

lemma inactive_auth_step:
  assumes "\<not> authSessionActive s" and "e \<noteq> SessionMarkedActive"
  shows "\<not> authSessionActive (auth_step s e)
    \<and> length (refresh_requests (auth_step s e)) = length (refresh_requests s)"
  using assms
  by (cases e) (simp_all add: settle_refresh_session settle_refresh_frame expireAuthSession_def)

lemma inactive_while_idle:
  assumes "\<not> authSessionActive (cw_session w)" and "no_sign_in es"
  shows "\<not> authSessionActive (cw_session (while_idle signal es w))
    \<and> length (refresh_requests (cw_session (while_idle signal es w))) = length (refresh_requests (cw_session w))"
  using assms
proof (induction es arbitrary: w)
  case (Cons e es)
  then show ?case
    by (cases e) (auto simp: session_event_def inactive_auth_step)
qed simp

lemma inactive_await:
  assumes "\<not> authSessionActive (cw_session w)" and "\<not> is_aborted signal w"
  shows "await_refreshForRetry signal es w = (Resolved False, while_idle signal es w)"
  using assms by (simp add: await_refreshForRetry_def refreshForRetry_def)

text \<open>
  After the end of a session. While no session is active and nobody signs in, a call
  of apiFetch sends its request once, starts no token refresh, and an answer 401 makes
  it reject with the error of an expired session, whatever the server wrote.
\<close>
theorem inactive_session_sends_once:
  assumes off: "\<not> authSessionActive (cw_session w)"
    and quiet: "no_sign_in (at_events a)" "no_sign_in (at_wait a)"
    and hs: "fetch_headers opts (at_cookie a) = Inr hs"
    and out: "apiFetch path opts True (a # as) w = (res, w')"
  shows "cw_sent w' = cw_sent w @ [fetch_request path opts hs w]
    \<and> length (refresh_requests (cw_session w')) = length (refresh_requests (cw_session w))
    \<and> (\<forall>r. at_outcome a = Answered r \<longrightarrow> resp_status r = 401
          \<longrightarrow> \<not> is_aborted (init_signal opts) (after_fetch opts a hs path w)
          \<longrightarrow> res = Rejected (ApiFailure sessionExpiredError))"
proof -
  let ?w2 = "after_fetch opts a hs path w"
  have w2: "\<not> authSessionActive (cw_session ?w2)"
      "length (refresh_requests (cw_session ?w2)) = length (refresh_requests (cw_session w))"
    using inactive_while_idle [of "send_request (fetch_request path opts hs w) w" "at_events a"] off quiet
    by (simp_all add: after_fetch_def)
  show ?thesis
  proof (cases "at_outcome a")
    case NetworkFailure
    then show ?thesis using out apiFetch_network [OF hs, of path True as w] w2 by auto
  next
    case (Answered r)
    let ?w3 = "note_diagnostics r ?w2"
    have w3: "\<not> authSessionActive (cw_session ?w3)" using w2 by simp
    show ?thesis
      using out apiFetch_answered [OF hs Answered refl, of path True as w] Answered w2
        inactive_await [OF w3] inactive_while_idle [OF w3 quiet(2)]
      by (auto split: if_splits)
  qed
qed

definition signed_out_world :: client_world where
  "signed_out_world = fresh_world\<lparr>cw_session := beginAuthLogout initial_auth_session\<rparr>"

theorem inactive_session_sends_once_witness:
  "fst (apiFetch ''/projects'' no_init True [expired_attempt, ok_attempt] signed_out_world)
     = Rejected (ApiFailure sessionExpiredError)
   \<and> length (cw_sent (snd (apiFetch ''/projects'' no_init True [expired_attempt, ok_attempt] signed_out_world))) = 1"
proof -
  have off: "\<not> authSessionActive (cw_session signed_out_world)" by code_simp
  have quiet: "no_sign_in (at_events expired_attempt)" "no_sign_in (at_wait expired_attempt)"
    by (simp_all add: expired_attempt_def)
  have hs: "fetch_headers no_init (at_cookie expired_attempt) = Inr [(''x-csrf-token'', ''old'')]" by code_simp
  have "at_outcome expired_attempt = Answered \<lparr>resp_status = 401, resp_headers = [], resp_body = BodyText ''{}''\<rparr>"
    by (simp add: expired_attempt_def)
  moreover have "\<not> is_aborted (init_signal no_init)
      (after_fetch no_init expired_attempt [(''x-csrf-token'', ''old'')] ''/projects'' signed_out_world)"
    by (simp add: is_aborted_def no_init_def)
  moreover have "cw_sent signed_out_world = []" by code_simp
  ultimately show ?thesis
    using inactive_session_sends_once [OF off quiet hs surjective_pairing, of "''/projects''" "[ok_attempt]"]
    by simp
qed

text \<open>
  A refused sign-in is reported as an expired session. When an active client without a
  refresh under way gets 401, as /auth/sign-in answers wrong credentials, and the refresh
  that follows is refused too, the caller is told that the session expired and the
  detail the server sent is lost; the expiry event is raised for the running session.
\<close>
theorem refused_credentials_hidden:
  assumes hs: "fetch_headers opts (at_cookie a) = Inr hs" and "init_signal opts = False"
    and "authSessionActive (cw_session w)" and "needs_refresh (cw_session w)"
    and ev: "at_events a = []" and ans: "at_outcome a = Answered r" and "resp_status r = 401"
    and wait: "at_wait a = [OfSession (RefreshResponse (length (refresh_requests (cw_session w))) False)]"
  shows "fst (apiFetch path opts True (a # as) w) = Rejected (ApiFailure sessionExpiredError)
    \<and> expired_events (cw_session (snd (apiFetch path opts True (a # as) w)))
        = expired_events (cw_session w) @ [authSessionGeneration (cw_session w)]"
proof -
  let ?s = "cw_session w" and ?n = "length (refresh_requests (cw_session w))"
  let ?w3 = "note_diagnostics r (after_fetch opts a hs path w)"
  let ?w4 = "while_idle False (at_wait a) (?w3\<lparr>cw_session := start_refresh ?s\<rparr>)"
  have s3: "cw_session ?w3 = ?s" by (simp add: after_fetch_def ev)
  have pending: "promise_of (start_refresh ?s) ?n = Some Pending"
    by (simp add: promise_of_def start_refresh_def)
  have w4: "cw_session ?w4 = settle_refresh ?n False (start_refresh ?s)"
    using pending wait by (simp add: session_event_def)
  have settled: "promise_of (cw_session ?w4) ?n = Some (Fulfilled False)"
    unfolding w4 by (simp add: promise_of_settle [OF pending])
  have "await_refreshForRetry False (at_wait a) ?w3 = waitForRefresh False ?n (at_wait a) (?w3\<lparr>cw_session := start_refresh ?s\<rparr>)"
    using assms(3,4) s3 by (simp add: await_refreshForRetry_def refreshForRetry_def start_refresh_def is_aborted_def)
  also have "\<dots> = waitForRefresh False ?n [] ?w4"
    by (subst waitForRefresh.simps) (use pending wait in \<open>simp add: is_aborted_def\<close>)
  also have "\<dots> = (Resolved False, ?w4)"
    by (subst waitForRefresh.simps) (use settled in \<open>simp add: is_aborted_def\<close>)
  finally have await: "await_refreshForRetry False (at_wait a) ?w3 = (Resolved False, ?w4)" .
  have events: "expired_events (cw_session ?w4) = expired_events ?s @ [authSessionGeneration ?s]"
    using assms(3) unfolding w4
    by (simp add: settle_refresh_session expireAuthSession_def start_refresh_def)
  show ?thesis
    using apiFetch_answered [OF hs ans refl, of path True as w] assms(2,7) events
    by (simp add: is_aborted_def await)
qed

definition unauthorized :: response where
  "unauthorized =
     \<lparr>resp_status = 401, resp_headers = [],
      resp_body = BodyText (with_quotes ''{~detail~:~Invalid email or password~}'')\<rparr>"

definition refused_sign_in :: attempt where
  "refused_sign_in =
     \<lparr>at_cookie = [], at_events = [], at_outcome = Answered unauthorized,
      at_wait = [OfSession (RefreshResponse 0 False)]\<rparr>"

theorem refused_credentials_hidden_witness:
  "fst (apiFetch ''/auth/sign-in'' no_init True [refused_sign_in] fresh_world)
     = Rejected (ApiFailure sessionExpiredError)"
proof -
  have "fetch_headers no_init (at_cookie refused_sign_in) = Inr []" by code_simp
  moreover have "init_signal no_init = False" "authSessionActive (cw_session fresh_world)"
    "needs_refresh (cw_session fresh_world)" "length (refresh_requests (cw_session fresh_world)) = 0"
    by code_simp+
  ultimately show ?thesis
    by (intro conjunct1 [OF refused_credentials_hidden [where r = unauthorized]])
      (simp_all add: refused_sign_in_def unauthorized_def)
qed

section \<open>Cookies\<close>

definition cookie_pair :: "string \<times> string \<Rightarrow> string" where
  "cookie_pair kv = fst kv @ CHR ''='' # encodeURIComponent (snd kv)"

definition cookie_text :: "(string \<times> string) list \<Rightarrow> string" where
  "cookie_text cs = join ''; '' (map cookie_pair cs)"

definition plain_name :: "string \<Rightarrow> bool" where
  "plain_name k \<longleftrightarrow> CHR '';'' \<notin> set k \<and> CHR ''='' \<notin> set k"

lemma cookie_tails_none: "CHR '';'' \<notin> set s \<Longrightarrow> cookie_tails s = []"
  by (induction s) (auto simp: startsWith_def)

lemma cookie_tails_sep:
  "CHR '';'' \<notin> set p \<Longrightarrow> cookie_tails (p @ CHR '';'' # CHR '' '' # s) = s # cookie_tails s"
  by (induction p) (auto simp: startsWith_def)

lemma cookie_pair_no_semicolon: "plain_name (fst kv) \<Longrightarrow> CHR '';'' \<notin> set (cookie_pair kv)"
  using encodeURIComponent_chars [of "CHR '';''" "snd kv"]
  by (auto simp: cookie_pair_def plain_name_def uri_unreserved_def is_alnum_def)

lemma takeWhile_all: "c \<notin> set s \<Longrightarrow> takeWhile (\<lambda>x. x \<noteq> c) (s @ c # t) = s"
  by (induction s) auto

lemma startsWith_name:
  assumes "CHR ''='' \<notin> set k" and "CHR ''='' \<notin> set n"
  shows "startsWith (k @ CHR ''='' # s) (n @ ''='') \<longleftrightarrow> k = n"
proof
  assume "startsWith (k @ CHR ''='' # s) (n @ ''='')"
  then obtain t where "k @ CHR ''='' # s = n @ CHR ''='' # t" by (auto simp: startsWith_iff)
  then show "k = n"
    using takeWhile_all [OF assms(1), of s] takeWhile_all [OF assms(2), of t] by (simp only:)
qed (auto simp: startsWith_iff)

lemma join_Cons: "xs \<noteq> [] \<Longrightarrow> join sep (x # xs) = x @ sep @ join sep xs"
  by (cases xs) auto

lemma encoded_no_semicolon: "CHR '';'' \<notin> set (encodeURIComponent v)"
  using encodeURIComponent_chars [of "CHR '';''" v] by (auto simp: uri_unreserved_def is_alnum_def)

lemma takeWhile_encoded:
  "rest = [] \<or> hd rest = CHR '';'' \<Longrightarrow>
     takeWhile (\<lambda>c. c \<noteq> CHR '';'') (encodeURIComponent v @ rest) = encodeURIComponent v"
proof (cases rest)
  case Nil
  have "\<forall>c \<in> set (encodeURIComponent v). c \<noteq> CHR '';''" using encoded_no_semicolon by blast
  with Nil show ?thesis by (simp add: takeWhile_eq_all_conv)
next
  case (Cons c cs)
  assume "rest = [] \<or> hd rest = CHR '';''"
  with Cons have c: "c = CHR '';''" by simp
  have "\<forall>c \<in> set (encodeURIComponent v). c \<noteq> CHR '';''" using encoded_no_semicolon by blast
  then have "takeWhile (\<lambda>c. c \<noteq> CHR '';'') (encodeURIComponent v) = encodeURIComponent v"
    by (simp add: takeWhile_eq_all_conv)
  with Cons c show ?thesis by (simp add: takeWhile_tail)
qed

lemma cookie_text_shape:
  "\<exists>rest. cookie_text ((k, v) # cs) = k @ CHR ''='' # encodeURIComponent v @ rest
     \<and> (rest = [] \<or> hd rest = CHR '';'')"
  by (cases "cs = []") (auto simp: cookie_text_def cookie_pair_def join_Cons)

lemma startsWith_cookie:
  "plain_name k \<Longrightarrow> plain_name name \<Longrightarrow>
     startsWith (cookie_text ((k, v) # cs)) (name @ ''='') \<longleftrightarrow> k = name"
  using cookie_text_shape [of k v cs] startsWith_name by (auto simp: plain_name_def)

lemma cookie_value:
  "takeWhile (\<lambda>c. c \<noteq> CHR '';'') (drop (length k + 1) (cookie_text ((k, v) # cs))) = encodeURIComponent v"
proof -
  from cookie_text_shape [of k v cs] obtain rest where
    "cookie_text ((k, v) # cs) = k @ CHR ''='' # encodeURIComponent v @ rest"
    and "rest = [] \<or> hd rest = CHR '';''"
    by blast
  then show ?thesis using takeWhile_encoded [of rest v] by simp
qed

lemma cookie_tails_text:
  assumes "plain_name k"
  shows "cookie_tails (cookie_text ((k, v) # cs)) =
     (if cs = [] then [] else cookie_text cs # cookie_tails (cookie_text cs))"
  using cookie_pair_no_semicolon [of "(k, v)"] assms
  by (auto simp: cookie_text_def join_Cons cookie_tails_none cookie_tails_sep)

text \<open>
  Cookies are read back. In a cookie text built from name and value pairs, with the
  values percent-encoded and the names free of semicolons and equals signs, readCookie
  finds exactly the first value of the name, and null for a name that is not there.
\<close>
theorem readCookie_spec:
  assumes "list_all (\<lambda>kv. plain_name (fst kv) \<and> valid_utf8 (char_codes (snd kv))) cs" and "plain_name name"
  shows "readCookie name (cookie_text cs) = Inr (map_of cs name)"
  using assms(1)
proof (induction cs)
  case Nil
  show ?case by (simp add: readCookie_def cookie_text_def startsWith_def)
next
  case (Cons kv cs)
  obtain k v where kv: "kv = (k, v)" by fastforce
  show ?case
  proof (cases "k = name")
    case True
    then show ?thesis
      using Cons.prems assms(2) cookie_value [of name v cs]
      by (simp add: kv readCookie_def startsWith_cookie decode_encodeURIComponent)
  next
    case False
    show ?thesis
    proof (cases "cs = []")
      case True
      then show ?thesis
        using Cons.prems assms(2) False by (simp add: kv readCookie_def startsWith_cookie cookie_tails_text)
    next
      case nonempty: False
      then have "readCookie name (cookie_text (kv # cs)) = readCookie name (cookie_text cs)"
        using Cons.prems assms(2) False by (simp add: kv readCookie_def startsWith_cookie cookie_tails_text)
      then show ?thesis using Cons False by (simp add: kv)
    qed
  qed
qed

theorem readCookie_spec_witness:
  "readCookie ''b'' (cookie_text [(''ab'', ''x''), (''b'', ''a;b=c''), (''b'', ''z'')]) = Inr (Some ''a;b=c'')"
proof -
  have "list_all (\<lambda>kv. plain_name (fst kv) \<and> valid_utf8 (char_codes (snd kv)))
      [(''ab'', ''x''), (''b'', ''a;b=c''), (''b'', ''z'')]"
    by code_simp
  moreover have "plain_name ''b''" by code_simp
  ultimately show ?thesis by (simp add: readCookie_spec)
qed

section \<open>Every call settles\<close>

lemma promise_of_step:
  assumes "auth_enabled s e" and "promise_of s p \<noteq> None"
  shows "promise_of (auth_step s e) p \<noteq> None"
proof (cases e)
  case (RefreshWanted b)
  then show ?thesis using assms
    by (auto simp: refreshForRetry_def start_refresh_def promise_of_def Let_def nth_append split: option.split if_splits)
qed (use assms in \<open>auto simp: promise_of_settle\<close>)

lemma promise_of_session_event:
  "promise_of (cw_session w) p \<noteq> None \<Longrightarrow> promise_of (cw_session (session_event e w)) p \<noteq> None"
  using promise_of_step by (auto simp: session_event_def)

lemma while_idle_one:
  "cw_session (while_idle signal [e] w) =
     (case e of OfSession a \<Rightarrow> cw_session (session_event a w) | _ \<Rightarrow> cw_session w)"
  by (cases e) simp_all

lemma waitForRefresh_settles:
  assumes "promise_of (cw_session w) p \<noteq> None" and "OfSession (RefreshResponse p ok) \<in> set es"
  shows "fst (waitForRefresh signal p es w) \<noteq> Unsettled"
  using assms
proof (induction es arbitrary: w)
  case (Cons e es)
  show ?case
  proof (cases "promise_of (cw_session w) p = Some Pending \<and> \<not> is_aborted signal w")
    case False
    then show ?thesis using Cons.prems(1)
      by (subst waitForRefresh.simps) (auto split: option.split promise_state.split)
  next
    case True
    let ?w = "while_idle signal [e] w"
    have eq: "waitForRefresh signal p (e # es) w = waitForRefresh signal p es ?w"
      using True by (subst waitForRefresh.simps) simp
    show ?thesis
    proof (cases "e = OfSession (RefreshResponse p ok)")
      case True
      with \<open>promise_of (cw_session w) p = Some Pending \<and> _\<close>
      have "promise_of (cw_session ?w) p \<notin> {None, Some Pending}"
        by (simp add: session_event_def promise_of_settle)
      then show ?thesis unfolding eq
        by (subst waitForRefresh.simps) (auto split: option.split promise_state.split)
    next
      case False
      have "promise_of (cw_session ?w) p \<noteq> None"
        unfolding while_idle_one using Cons.prems(1) promise_of_session_event
        by (auto split: client_event.split)
      then show ?thesis unfolding eq using Cons.IH Cons.prems(2) False by auto
    qed
  qed
qed simp

lemma auth_inv_session_event: "auth_inv (cw_session w) \<Longrightarrow> auth_inv (cw_session (session_event e w))"
  by (auto simp: session_event_def intro: auth_inv_step)

lemma auth_inv_while_idle: "auth_inv (cw_session w) \<Longrightarrow> auth_inv (cw_session (while_idle signal es w))"
  by (induction es arbitrary: w) (auto split: client_event.split intro: auth_inv_session_event)

lemma auth_step_requests: "length (refresh_requests (auth_step s e)) \<le> Suc (length (refresh_requests s))"
  by (cases e)
    (simp_all add: settle_refresh_frame markAuthSessionActive_def refreshForRetry_def start_refresh_def Let_def
      split: option.split)

lemma while_idle_requests:
  "length (refresh_requests (cw_session (while_idle signal es w))) \<le> length (refresh_requests (cw_session w)) + length es"
proof (induction es arbitrary: w)
  case (Cons e es)
  let ?w = "while_idle signal [e] w"
  have "length (refresh_requests (cw_session ?w)) \<le> Suc (length (refresh_requests (cw_session w)))"
    using auth_step_requests [of "cw_session w"]
    by (auto simp: while_idle_one session_event_def split: client_event.split)
  with Cons.IH [of ?w] show ?case by simp
qed simp

lemma await_settles:
  assumes inv: "auth_inv (cw_session w)"
    and answers: "\<forall>p \<le> length (refresh_requests (cw_session w)). \<exists>ok. OfSession (RefreshResponse p ok) \<in> set es"
  shows "fst (await_refreshForRetry signal es w) \<noteq> Unsettled"
proof (cases "is_aborted signal w \<or> \<not> authSessionActive (cw_session w)")
  case False
  let ?s = "if needs_refresh (cw_session w) then start_refresh (cw_session w) else cw_session w"
  have inv': "auth_inv ?s" using auth_inv_step [OF inv, of "RefreshWanted False"] False
    by (auto simp: refreshForRetry_def Let_def split: option.splits if_splits)
  show ?thesis
  proof (cases "refreshPromise ?s")
    case None
    then show ?thesis using False by (simp add: await_refreshForRetry_def refreshForRetry_def Let_def)
  next
    case (Some p)
    have p: "p < length (refresh_requests ?s)" by (rule auth_invD(1) [OF inv' Some])
    also have "\<dots> \<le> Suc (length (refresh_requests (cw_session w)))" by (simp add: start_refresh_def)
    finally have "p \<le> length (refresh_requests (cw_session w))" by simp
    with answers obtain ok where "OfSession (RefreshResponse p ok) \<in> set es" by blast
    moreover have "promise_of ?s p \<noteq> None" using p by (simp add: promise_of_def)
    ultimately have "fst (waitForRefresh signal p es (w\<lparr>cw_session := ?s\<rparr>)) \<noteq> Unsettled"
      by (intro waitForRefresh_settles) simp_all
    then show ?thesis using Some False by (simp add: await_refreshForRetry_def refreshForRetry_def Let_def)
  qed
qed (auto simp: await_refreshForRetry_def refreshForRetry_def)

lemma fetch_result_settles: "fetch_result r \<noteq> Unsettled"
  by (auto simp: fetch_result_def split: sum.split)

lemma apiFetch_no_retry_settles: "fst (apiFetch path opts False (a # as) w) \<noteq> Unsettled"
proof (cases "fetch_headers opts (at_cookie a)")
  case (Inr hs)
  show ?thesis
  proof (cases "at_outcome a")
    case NetworkFailure
    then show ?thesis using apiFetch_network [OF Inr, of path False as w] by auto
  next
    case (Answered r)
    then show ?thesis using apiFetch_answered [OF Inr Answered refl, of path False as w]
      by (simp add: fetch_result_settles)
  qed
qed simp

text \<open>
  C4: Every call settles. In a consistent session, when both requests that a call of
  apiFetch can send end in an answer or a network failure, and every refresh request that
  can be outstanding is answered one way or the other, the promise that apiFetch returns
  is settled: no sequence of logins, logouts, expiries and aborts leaves a caller hanging.
\<close>
theorem fetch_settles:
  assumes inv: "auth_inv (cw_session w)"
    and answers: "\<forall>p \<le> length (refresh_requests (cw_session w)) + length (at_events a).
      \<exists>ok. OfSession (RefreshResponse p ok) \<in> set (at_wait a)"
  shows "fst (apiFetch path opts retry (a # b # as) w) \<noteq> Unsettled"
proof (cases "fetch_headers opts (at_cookie a)")
  case (Inr hs)
  show ?thesis
  proof (cases "at_outcome a")
    case NetworkFailure
    then show ?thesis using apiFetch_network [OF Inr, of path retry "b # as" w] by auto
  next
    case (Answered r)
    let ?w3 = "note_diagnostics r (after_fetch opts a hs path w)"
    have "auth_inv (cw_session ?w3)"
      using inv by (simp add: after_fetch_def auth_inv_while_idle)
    moreover have "length (refresh_requests (cw_session ?w3))
        \<le> length (refresh_requests (cw_session w)) + length (at_events a)"
      using while_idle_requests [of "init_signal opts" "at_events a" "send_request (fetch_request path opts hs w) w"]
      by (simp add: after_fetch_def)
    ultimately have "fst (await_refreshForRetry (init_signal opts) (at_wait a) ?w3) \<noteq> Unsettled"
      using answers by (intro await_settles) auto
    then show ?thesis
      using apiFetch_answered [OF Inr Answered refl, of path retry "b # as" w] apiFetch_no_retry_settles
      by (auto simp: fetch_result_settles split: settled.split prod.split simp del: apiFetch.simps)
  qed
qed simp

theorem fetch_settles_witness:
  "fst (apiFetch ''/projects'' no_init True [expired_attempt, ok_attempt] fresh_world) \<noteq> Unsettled"
proof (rule fetch_settles)
  show "auth_inv (cw_session fresh_world)" using auth_inv_init by (simp add: fresh_world_def)
  show "\<forall>p \<le> length (refresh_requests (cw_session fresh_world)) + length (at_events expired_attempt).
      \<exists>ok. OfSession (RefreshResponse p ok) \<in> set (at_wait expired_attempt)"
    by (auto simp: fresh_world_def initial_auth_session_def expired_attempt_def)
qed

section \<open>Uploads\<close>

text \<open>
  The progress of an upload is a percentage. While at most the whole body has been
  sent, the percent reported is an integer between 0 and 100, it is 100 when everything
  is sent, and it never goes down as more of the same body is sent.
\<close>
theorem upload_percent_bounds:
  assumes "0 < n" and "l1 \<le> l2" and "l2 \<le> n"
  shows "\<exists>p q. upload_percent l1 n = Finite (of_int p) \<and> upload_percent l2 n = Finite (of_int q)
    \<and> 0 \<le> p \<and> p \<le> q \<and> q \<le> 100 \<and> (l2 = n \<longrightarrow> q = 100)"
proof -
  let ?f = "\<lambda>l. \<lfloor>of_nat l / of_nat n * 100 + 1 / 2 :: rat\<rfloor>"
  have n: "(0::rat) < of_nat n" using assms(1) by simp
  have "(of_nat l1 :: rat) / of_nat n \<le> of_nat l2 / of_nat n"
    using n assms(2) by (simp add: divide_right_mono)
  then have "?f l1 \<le> ?f l2" by (intro floor_mono add_right_mono mult_right_mono) simp_all
  moreover have "(0::rat) \<le> of_nat l1 / of_nat n" using n by simp
  then have "0 \<le> ?f l1" by (simp add: zero_le_floor)
  moreover have "(of_nat l2 :: rat) / of_nat n \<le> 1"
    using n assms(3) by (simp add: divide_le_eq)
  then have "(of_nat l2 :: rat) / of_nat n * 100 + 1 / 2 < 101" by linarith
  then have "?f l2 < 101" by (simp add: floor_less_iff)
  moreover have "l2 = n \<longrightarrow> ?f l2 = 100" using n by (auto simp: floor_eq_iff)
  ultimately show ?thesis using assms(1)
    by (intro exI [of _ "?f l1"] exI [of _ "?f l2"]) (simp add: upload_percent_def js_round_def)
qed

theorem upload_percent_bounds_witness:
  "\<exists>p q. upload_percent 1 3 = Finite (of_int p) \<and> upload_percent 2 3 = Finite (of_int q) \<and> p \<le> q \<and> q \<le> 100"
  using upload_percent_bounds [of 3 1 2] by auto

text \<open>
  An upload with an aborted signal never settles. When the caller's signal is aborted
  before apiUpload runs and the CSRF cookie is readable, nothing is sent, and the promise
  is neither resolved nor rejected, whatever happens later.
\<close>
theorem upload_aborted_never_settles:
  assumes "cw_aborted w" and "\<exists>hs. upload_headers (ua_cookie a) = Inr hs"
  shows "apiUpload path form True retry (a # as) w = (Unsettled, w)"
  using assms by (auto simp: is_aborted_def)

theorem upload_aborted_never_settles_witness:
  "apiUpload ''/documents'' [] True True
     [\<lparr>ua_cookie = ''csrf_token=abc'', ua_events = [XhrLoad 200 ''{}''], ua_wait = []\<rparr>]
     (fresh_world\<lparr>cw_aborted := True\<rparr>) = (Unsettled, fresh_world\<lparr>cw_aborted := True\<rparr>)"
proof (rule upload_aborted_never_settles)
  show "\<exists>hs. upload_headers (ua_cookie \<lparr>ua_cookie = ''csrf_token=abc'',
      ua_events = [XhrLoad 200 ''{}''], ua_wait = []\<rparr>) = Inr hs"
    by (rule exI [of _ "[(''x-csrf-token'', ''abc'')]"]) code_simp
qed simp

end
