(* ===== verification/Contract_Core.thy ===== *)
theory Contract_Core
  imports Api_Contract Api_Endpoints
begin

text \<open>
  Every call that the API modules outside platform and AI can make, and that each of them conforms to the contract.
\<close>

inductive api_call :: "api_call \<Rightarrow> bool" where
  api_signUp: "api_call (signUp payload)"
| api_signIn: "api_call (signIn payload)"
| api_refresh: "api_call refresh"
| api_me: "api_call me"
| api_logout: "api_call logout"
| api_forgotPassword: "api_call (forgotPassword payload)"
| api_resetPassword: "api_call (resetPassword payload)"
| api_verifyEmail: "api_call (verifyEmail payload)"
| api_resendVerification: "api_call (resendVerification payload)"
| api_enableMfa: "api_call enableMfa"
| api_verifyMfa: "api_call (verifyMfa mfaCode)"
| api_disableMfa: "api_call (disableMfa mfaCode)"
| api_getMe: "api_call getMe"
| api_updateMe: "api_call (updateMe payload)"
| api_changePassword: "api_call (changePassword payload)"
| api_getSessions: "api_call getSessions"
| api_revokeSession: "path_segment sessionId \<Longrightarrow> api_call (revokeSession sessionId)"
| api_listUserDirectory: "api_call listUserDirectory"
| api_listProjects: "is_get options \<Longrightarrow> api_call (listProjects options)"
| api_getProjectSummary: "is_get options \<Longrightarrow> api_call (getProjectSummary options)"
| api_getProject: "path_segment projectId \<Longrightarrow> api_call (getProject projectId)"
| api_createProject: "api_call (createProject payload)"
| api_listProjectTasks: "path_segment projectId \<Longrightarrow> api_call (listProjectTasks projectId)"
| api_createProjectTask: "path_segment projectId \<Longrightarrow> api_call (createProjectTask projectId payload)"
| api_updateProjectTask: "path_segment projectId \<Longrightarrow> path_segment taskId \<Longrightarrow> api_call (updateProjectTask projectId taskId payload)"
| api_deleteProjectTask: "path_segment projectId \<Longrightarrow> path_segment taskId \<Longrightarrow> api_call (deleteProjectTask projectId taskId)"
| api_reorderProjectTasks: "path_segment projectId \<Longrightarrow> api_call (reorderProjectTasks projectId payload)"
| api_listCalendarItems: "is_get options \<Longrightarrow> api_call (listCalendarItems startDate endDate options)"
| api_createCalendarItem: "api_call (createCalendarItem payload)"
| api_getNotifications: "is_get options \<Longrightarrow> api_call (getNotifications options)"
| api_markRead: "path_segment notificationId \<Longrightarrow> api_call (markRead notificationId)"
| api_markAllRead: "api_call markAllRead"
| api_getUnreadCount: "is_get options \<Longrightarrow> api_call (getUnreadCount options)"
| api_getPreferences: "api_call getPreferences"
| api_updatePreferences: "api_call (updatePreferences payload)"
| api_getConfigSettings: "api_call getConfigSettings"
| api_updateConfigSettings: "api_call (updateConfigSettings payload)"
| api_listDatabaseSettings: "api_call listDatabaseSettings"
| api_createDatabaseSetting: "api_call (createDatabaseSetting payload)"
| api_updateDatabaseSetting: "path_segment settingId \<Longrightarrow> api_call (updateDatabaseSetting settingId payload)"
| api_deleteDatabaseSetting: "path_segment settingId \<Longrightarrow> api_call (deleteDatabaseSetting settingId)"
| api_getDeveloperDiagnosticsStatus: "api_call getDeveloperDiagnosticsStatus"
| api_getDeveloperDiagnosticsRecent: "api_call (getDeveloperDiagnosticsRecent limit)"

text \<open>The endpoints and the values of their bodies.\<close>

lemmas api_endpoints =
  signUp_def signIn_def refresh_def me_def logout_def forgotPassword_def resetPassword_def
  verifyEmail_def resendVerification_def enableMfa_def verifyMfa_def disableMfa_def getMe_def
  updateMe_def changePassword_def getSessions_def revokeSession_def listUserDirectory_def
  listProjects_def getProjectSummary_def getProject_def createProject_def listProjectTasks_def
  createProjectTask_def updateProjectTask_def deleteProjectTask_def reorderProjectTasks_def
  listCalendarItems_def createCalendarItem_def getNotifications_def markRead_def markAllRead_def
  getUnreadCount_def getPreferences_def updatePreferences_def getConfigSettings_def
  updateConfigSettings_def listDatabaseSettings_def createDatabaseSetting_def
  updateDatabaseSetting_def deleteDatabaseSetting_def getDeveloperDiagnosticsStatus_def
  getDeveloperDiagnosticsRecent_def signUp_payload_json_def signIn_payload_json_def
  forgotPassword_payload_json_def resetPassword_payload_json_def verifyEmail_payload_json_def
  resendVerification_payload_json_def updateMe_payload_json_def changePassword_payload_json_def
  createProject_payload_json_def createProjectTask_payload_json_def
  updateProjectTask_payload_json_def reorderProjectTasks_payload_columns_item_json_def
  reorderProjectTasks_payload_json_def createCalendarItem_payload_json_def
  updatePreferences_payload_json_def ConfigSettingsUpdateRequest_items_item_json_def
  ConfigSettingsUpdateRequest_json_def createDatabaseSetting_payload_json_def
  updateDatabaseSetting_payload_json_def

lemma api_call_conforms: "api_call c \<Longrightarrow> conforms core_routes c"
  apply (induction rule: api_call.induct)
  apply (unfold api_endpoints Let_def)
  apply (rule conforms_rules, simp add: path_segments_def contract_simps,
      simp add: contract_simps, simp add: contract_simps,
      simp add: core_routes_def fits_def contract_simps)+
  done

end
