(* ===== verification/Platform_Endpoints.thy ===== *)
theory Platform_Endpoints
  imports Api_Transport Platform_Types
begin

text \<open>
  The endpoint functions of frontend/src/api/platform.ts, in the style of Api_Endpoints.
\<close>

section \<open>The platform: api/platform.ts\<close>

definition getPlatformMetadata :: api_call where
  "getPlatformMetadata = Fetch ''/platform/metadata'' no_init"

definition getPlatformConfig :: api_call where
  "getPlatformConfig = Fetch ''/platform/admin/config'' no_init"

record updatePlatformConfig_payload =
  updatePlatformConfig_payload_app_name :: "string option"
  updatePlatformConfig_payload_core_domain_singular :: "string option"
  updatePlatformConfig_payload_core_domain_plural :: "string option"
  updatePlatformConfig_payload_module_pack :: "string option"
  updatePlatformConfig_payload_module_overrides :: "(string \<times> bool) list option"
  updatePlatformConfig_payload_mfa_enabled :: "bool option"

definition updatePlatformConfig_payload_json :: "updatePlatformConfig_payload \<Rightarrow> json" where
  "updatePlatformConfig_payload_json x = json_object
     [(''app_name'', map_option JStr (updatePlatformConfig_payload_app_name x)),
      (''core_domain_singular'', map_option JStr (updatePlatformConfig_payload_core_domain_singular x)),
      (''core_domain_plural'', map_option JStr (updatePlatformConfig_payload_core_domain_plural x)),
      (''module_pack'', map_option JStr (updatePlatformConfig_payload_module_pack x)),
      (''module_overrides'', map_option (json_map JBool) (updatePlatformConfig_payload_module_overrides x)),
      (''mfa_enabled'', map_option JBool (updatePlatformConfig_payload_mfa_enabled x))]"

definition updatePlatformConfig :: "updatePlatformConfig_payload \<Rightarrow> api_call" where
  "updatePlatformConfig payload = Fetch ''/platform/admin/config''
     (send ''PUT'' (Some (JsonBody (updatePlatformConfig_payload_json payload))))"

definition listSubscriptionPlans :: api_call where
  "listSubscriptionPlans = Fetch ''/platform/billing/plans'' no_init"

definition getMySubscription :: api_call where
  "getMySubscription = Fetch ''/platform/billing/subscription'' no_init"

definition selectMyPlan :: "string \<Rightarrow> api_call" where
  "selectMyPlan plan_code = Fetch ''/platform/billing/subscription''
     (send ''PUT'' (Some (JsonBody (json_object [(''plan_code'', Some (JStr plan_code))]))))"

definition listAdminPlans :: api_call where
  "listAdminPlans = Fetch ''/platform/admin/plans'' no_init"

record createAdminPlan_payload =
  createAdminPlan_payload_code :: string
  createAdminPlan_payload_name :: string
  createAdminPlan_payload_description :: "string option"
  createAdminPlan_payload_price_cents :: number
  createAdminPlan_payload_interval :: string
  createAdminPlan_payload_is_default :: "bool option"
  createAdminPlan_payload_features :: "string list"

definition createAdminPlan_payload_json :: "createAdminPlan_payload \<Rightarrow> json" where
  "createAdminPlan_payload_json x = json_object
     [(''code'', Some (JStr (createAdminPlan_payload_code x))),
      (''name'', Some (JStr (createAdminPlan_payload_name x))),
      (''description'', map_option JStr (createAdminPlan_payload_description x)),
      (''price_cents'', Some (JNum (createAdminPlan_payload_price_cents x))),
      (''interval'', Some (JStr (createAdminPlan_payload_interval x))),
      (''is_default'', map_option JBool (createAdminPlan_payload_is_default x)),
      (''features'', Some (json_list JStr (createAdminPlan_payload_features x)))]"

definition createAdminPlan :: "createAdminPlan_payload \<Rightarrow> api_call" where
  "createAdminPlan payload = Fetch ''/platform/admin/plans''
     (send ''POST'' (Some (JsonBody (createAdminPlan_payload_json payload))))"

record updateAdminPlan_payload =
  updateAdminPlan_payload_name :: "string option"
  updateAdminPlan_payload_description :: "string option option"
  updateAdminPlan_payload_price_cents :: "number option"
  updateAdminPlan_payload_interval :: "string option"
  updateAdminPlan_payload_is_active :: "bool option"
  updateAdminPlan_payload_is_default :: "bool option"
  updateAdminPlan_payload_features :: "string list option"

definition updateAdminPlan_payload_json :: "updateAdminPlan_payload \<Rightarrow> json" where
  "updateAdminPlan_payload_json x = json_object
     [(''name'', map_option JStr (updateAdminPlan_payload_name x)),
      (''description'', map_option (json_nullable JStr) (updateAdminPlan_payload_description x)),
      (''price_cents'', map_option JNum (updateAdminPlan_payload_price_cents x)),
      (''interval'', map_option JStr (updateAdminPlan_payload_interval x)),
      (''is_active'', map_option JBool (updateAdminPlan_payload_is_active x)),
      (''is_default'', map_option JBool (updateAdminPlan_payload_is_default x)),
      (''features'', map_option (json_list JStr) (updateAdminPlan_payload_features x))]"

definition updateAdminPlan :: "string \<Rightarrow> updateAdminPlan_payload \<Rightarrow> api_call" where
  "updateAdminPlan planId payload = Fetch (''/platform/admin/plans/'' @ planId)
     (send ''PATCH'' (Some (JsonBody (updateAdminPlan_payload_json payload))))"

definition listApiKeys :: api_call where
  "listApiKeys = FetchItems ''/platform/api-keys'' no_init"

definition createApiKey :: "string \<Rightarrow> api_call" where
  "createApiKey name = Fetch ''/platform/api-keys''
     (send ''POST'' (Some (JsonBody (json_object [(''name'', Some (JStr name))]))))"

definition revokeApiKey :: "string \<Rightarrow> api_call" where
  "revokeApiKey apiKeyId = Fetch (''/platform/api-keys/'' @ apiKeyId) (send ''DELETE'' None)"

definition listWebhooks :: api_call where
  "listWebhooks = FetchItems ''/platform/webhooks'' no_init"

record createWebhook_payload =
  createWebhook_payload_target_url :: string
  createWebhook_payload_description :: "string option"
  createWebhook_payload_events :: "string list"

definition createWebhook_payload_json :: "createWebhook_payload \<Rightarrow> json" where
  "createWebhook_payload_json x = json_object
     [(''target_url'', Some (JStr (createWebhook_payload_target_url x))),
      (''description'', map_option JStr (createWebhook_payload_description x)),
      (''events'', Some (json_list JStr (createWebhook_payload_events x)))]"

definition createWebhook :: "createWebhook_payload \<Rightarrow> api_call" where
  "createWebhook payload = Fetch ''/platform/webhooks''
     (send ''POST'' (Some (JsonBody (createWebhook_payload_json payload))))"

record updateWebhook_payload =
  updateWebhook_payload_target_url :: "string option"
  updateWebhook_payload_description :: "string option option"
  updateWebhook_payload_events :: "string list option"
  updateWebhook_payload_is_active :: "bool option"

definition updateWebhook_payload_json :: "updateWebhook_payload \<Rightarrow> json" where
  "updateWebhook_payload_json x = json_object
     [(''target_url'', map_option JStr (updateWebhook_payload_target_url x)),
      (''description'', map_option (json_nullable JStr) (updateWebhook_payload_description x)),
      (''events'', map_option (json_list JStr) (updateWebhook_payload_events x)),
      (''is_active'', map_option JBool (updateWebhook_payload_is_active x))]"

definition updateWebhook :: "string \<Rightarrow> updateWebhook_payload \<Rightarrow> api_call" where
  "updateWebhook webhookId payload = Fetch (''/platform/webhooks/'' @ webhookId)
     (send ''PATCH'' (Some (JsonBody (updateWebhook_payload_json payload))))"

definition deleteWebhook :: "string \<Rightarrow> api_call" where
  "deleteWebhook webhookId = Fetch (''/platform/webhooks/'' @ webhookId) (send ''DELETE'' None)"

definition testWebhook :: "string \<Rightarrow> api_call" where
  "testWebhook webhookId = Fetch (''/platform/webhooks/'' @ webhookId @ ''/test'') (send ''POST'' None)"

definition listMyFeatureFlags :: api_call where
  "listMyFeatureFlags = Fetch ''/platform/feature-flags'' no_init"

definition listAdminFeatureFlags :: api_call where
  "listAdminFeatureFlags = Fetch ''/platform/admin/feature-flags'' no_init"

record createAdminFeatureFlag_payload =
  createAdminFeatureFlag_payload_key :: string
  createAdminFeatureFlag_payload_name :: string
  createAdminFeatureFlag_payload_description :: "string option"
  createAdminFeatureFlag_payload_module_key :: "string option option"
  createAdminFeatureFlag_payload_is_enabled :: "bool option"
  createAdminFeatureFlag_payload_rollout_percentage :: "number option"

definition createAdminFeatureFlag_payload_json :: "createAdminFeatureFlag_payload \<Rightarrow> json" where
  "createAdminFeatureFlag_payload_json x = json_object
     [(''key'', Some (JStr (createAdminFeatureFlag_payload_key x))),
      (''name'', Some (JStr (createAdminFeatureFlag_payload_name x))),
      (''description'', map_option JStr (createAdminFeatureFlag_payload_description x)),
      (''module_key'', map_option (json_nullable JStr) (createAdminFeatureFlag_payload_module_key x)),
      (''is_enabled'', map_option JBool (createAdminFeatureFlag_payload_is_enabled x)),
      (''rollout_percentage'', map_option JNum (createAdminFeatureFlag_payload_rollout_percentage x))]"

definition createAdminFeatureFlag :: "createAdminFeatureFlag_payload \<Rightarrow> api_call" where
  "createAdminFeatureFlag payload = Fetch ''/platform/admin/feature-flags''
     (send ''POST'' (Some (JsonBody (createAdminFeatureFlag_payload_json payload))))"

record updateAdminFeatureFlag_payload =
  updateAdminFeatureFlag_payload_name :: "string option"
  updateAdminFeatureFlag_payload_description :: "string option option"
  updateAdminFeatureFlag_payload_module_key :: "string option option"
  updateAdminFeatureFlag_payload_is_enabled :: "bool option"
  updateAdminFeatureFlag_payload_rollout_percentage :: "number option"

definition updateAdminFeatureFlag_payload_json :: "updateAdminFeatureFlag_payload \<Rightarrow> json" where
  "updateAdminFeatureFlag_payload_json x = json_object
     [(''name'', map_option JStr (updateAdminFeatureFlag_payload_name x)),
      (''description'', map_option (json_nullable JStr) (updateAdminFeatureFlag_payload_description x)),
      (''module_key'', map_option (json_nullable JStr) (updateAdminFeatureFlag_payload_module_key x)),
      (''is_enabled'', map_option JBool (updateAdminFeatureFlag_payload_is_enabled x)),
      (''rollout_percentage'', map_option JNum (updateAdminFeatureFlag_payload_rollout_percentage x))]"

definition updateAdminFeatureFlag :: "string \<Rightarrow> updateAdminFeatureFlag_payload \<Rightarrow> api_call" where
  "updateAdminFeatureFlag featureFlagId payload = Fetch (''/platform/admin/feature-flags/'' @ featureFlagId)
     (send ''PATCH'' (Some (JsonBody (updateAdminFeatureFlag_payload_json payload))))"

definition listAdminEmailTemplates :: api_call where
  "listAdminEmailTemplates = Fetch ''/platform/admin/email-templates'' no_init"

record createAdminEmailTemplate_payload =
  createAdminEmailTemplate_payload_key :: string
  createAdminEmailTemplate_payload_name :: string
  createAdminEmailTemplate_payload_subject_template :: string
  createAdminEmailTemplate_payload_html_template :: string
  createAdminEmailTemplate_payload_text_template :: "string option option"
  createAdminEmailTemplate_payload_is_active :: "bool option"

definition createAdminEmailTemplate_payload_json :: "createAdminEmailTemplate_payload \<Rightarrow> json" where
  "createAdminEmailTemplate_payload_json x = json_object
     [(''key'', Some (JStr (createAdminEmailTemplate_payload_key x))),
      (''name'', Some (JStr (createAdminEmailTemplate_payload_name x))),
      (''subject_template'', Some (JStr (createAdminEmailTemplate_payload_subject_template x))),
      (''html_template'', Some (JStr (createAdminEmailTemplate_payload_html_template x))),
      (''text_template'', map_option (json_nullable JStr) (createAdminEmailTemplate_payload_text_template x)),
      (''is_active'', map_option JBool (createAdminEmailTemplate_payload_is_active x))]"

definition createAdminEmailTemplate :: "createAdminEmailTemplate_payload \<Rightarrow> api_call" where
  "createAdminEmailTemplate payload = Fetch ''/platform/admin/email-templates''
     (send ''POST'' (Some (JsonBody (createAdminEmailTemplate_payload_json payload))))"

record updateAdminEmailTemplate_payload =
  updateAdminEmailTemplate_payload_name :: "string option"
  updateAdminEmailTemplate_payload_subject_template :: "string option"
  updateAdminEmailTemplate_payload_html_template :: "string option"
  updateAdminEmailTemplate_payload_text_template :: "string option option"
  updateAdminEmailTemplate_payload_is_active :: "bool option"

definition updateAdminEmailTemplate_payload_json :: "updateAdminEmailTemplate_payload \<Rightarrow> json" where
  "updateAdminEmailTemplate_payload_json x = json_object
     [(''name'', map_option JStr (updateAdminEmailTemplate_payload_name x)),
      (''subject_template'', map_option JStr (updateAdminEmailTemplate_payload_subject_template x)),
      (''html_template'', map_option JStr (updateAdminEmailTemplate_payload_html_template x)),
      (''text_template'', map_option (json_nullable JStr) (updateAdminEmailTemplate_payload_text_template x)),
      (''is_active'', map_option JBool (updateAdminEmailTemplate_payload_is_active x))]"

definition updateAdminEmailTemplate :: "string \<Rightarrow> updateAdminEmailTemplate_payload \<Rightarrow> api_call" where
  "updateAdminEmailTemplate templateId payload = Fetch (''/platform/admin/email-templates/'' @ templateId)
     (send ''PATCH'' (Some (JsonBody (updateAdminEmailTemplate_payload_json payload))))"

end
