(* ===== verification/Contract_Platform.thy ===== *)
theory Contract_Platform
  imports Api_Contract Platform_Endpoints
begin

text \<open>
  Every call that api/platform.ts can make, and that each of them conforms to the contract.
\<close>

inductive platform_call :: "api_call \<Rightarrow> bool" where
  platform_getPlatformMetadata: "platform_call getPlatformMetadata"
| platform_getPlatformConfig: "platform_call getPlatformConfig"
| platform_updatePlatformConfig: "platform_call (updatePlatformConfig payload)"
| platform_listSubscriptionPlans: "platform_call listSubscriptionPlans"
| platform_getMySubscription: "platform_call getMySubscription"
| platform_selectMyPlan: "platform_call (selectMyPlan plan_code)"
| platform_listAdminPlans: "platform_call listAdminPlans"
| platform_createAdminPlan: "platform_call (createAdminPlan payload)"
| platform_updateAdminPlan: "path_segment planId \<Longrightarrow> platform_call (updateAdminPlan planId payload)"
| platform_listApiKeys: "platform_call listApiKeys"
| platform_createApiKey: "platform_call (createApiKey name)"
| platform_revokeApiKey: "path_segment apiKeyId \<Longrightarrow> platform_call (revokeApiKey apiKeyId)"
| platform_listWebhooks: "platform_call listWebhooks"
| platform_createWebhook: "platform_call (createWebhook payload)"
| platform_updateWebhook: "path_segment webhookId \<Longrightarrow> platform_call (updateWebhook webhookId payload)"
| platform_deleteWebhook: "path_segment webhookId \<Longrightarrow> platform_call (deleteWebhook webhookId)"
| platform_testWebhook: "path_segment webhookId \<Longrightarrow> platform_call (testWebhook webhookId)"
| platform_listMyFeatureFlags: "platform_call listMyFeatureFlags"
| platform_listAdminFeatureFlags: "platform_call listAdminFeatureFlags"
| platform_createAdminFeatureFlag: "platform_call (createAdminFeatureFlag payload)"
| platform_updateAdminFeatureFlag: "path_segment featureFlagId \<Longrightarrow> platform_call (updateAdminFeatureFlag featureFlagId payload)"
| platform_listAdminEmailTemplates: "platform_call listAdminEmailTemplates"
| platform_createAdminEmailTemplate: "platform_call (createAdminEmailTemplate payload)"
| platform_updateAdminEmailTemplate: "path_segment templateId \<Longrightarrow> platform_call (updateAdminEmailTemplate templateId payload)"

text \<open>The endpoints and the values of their bodies.\<close>

lemmas platform_endpoints =
  getPlatformMetadata_def getPlatformConfig_def updatePlatformConfig_def listSubscriptionPlans_def
  getMySubscription_def selectMyPlan_def listAdminPlans_def createAdminPlan_def
  updateAdminPlan_def listApiKeys_def createApiKey_def revokeApiKey_def listWebhooks_def
  createWebhook_def updateWebhook_def deleteWebhook_def testWebhook_def listMyFeatureFlags_def
  listAdminFeatureFlags_def createAdminFeatureFlag_def updateAdminFeatureFlag_def
  listAdminEmailTemplates_def createAdminEmailTemplate_def updateAdminEmailTemplate_def
  updatePlatformConfig_payload_json_def createAdminPlan_payload_json_def
  updateAdminPlan_payload_json_def createWebhook_payload_json_def updateWebhook_payload_json_def
  createAdminFeatureFlag_payload_json_def updateAdminFeatureFlag_payload_json_def
  createAdminEmailTemplate_payload_json_def updateAdminEmailTemplate_payload_json_def

lemma platform_call_conforms: "platform_call c \<Longrightarrow> conforms platform_routes c"
  apply (induction rule: platform_call.induct)
  apply (unfold platform_endpoints Let_def)
  apply (rule conforms_rules, simp add: path_segments_def contract_simps,
      simp add: contract_simps, simp add: contract_simps,
      simp add: platform_routes_def fits_def contract_simps)+
  done

end
