(* ===== verification/Ai_Types.thy ===== *)
theory Ai_Types
  imports Api_Types
begin

text \<open>
  The data of the AI module, as frontend/src/api/ai.ts declares it, with the conventions
  of Api_Types.
\<close>

section \<open>Literals\<close>

datatype response_format = TextFormat | JsonFormat

datatype evaluation_type = Standard | Unanswerable | Injection | Contradiction

datatype review_decision = Approved | RejectedReview | ChangesRequested

datatype feedback_rating = RatedDown | RatedUp

fun response_format_json :: "response_format \<Rightarrow> json" where
  "response_format_json TextFormat = JStr ''text''"
| "response_format_json JsonFormat = JStr ''json''"

fun evaluation_type_json :: "evaluation_type \<Rightarrow> json" where
  "evaluation_type_json Standard = JStr ''standard''"
| "evaluation_type_json Unanswerable = JStr ''unanswerable''"
| "evaluation_type_json Injection = JStr ''injection''"
| "evaluation_type_json Contradiction = JStr ''contradiction''"

fun review_decision_json :: "review_decision \<Rightarrow> json" where
  "review_decision_json Approved = JStr ''approved''"
| "review_decision_json RejectedReview = JStr ''rejected''"
| "review_decision_json ChangesRequested = JStr ''changes_requested''"

fun feedback_rating_json :: "feedback_rating \<Rightarrow> json" where
  "feedback_rating_json RatedDown = JNum (- 1)"
| "feedback_rating_json RatedUp = JNum 1"

section \<open>The AI module: api/ai.ts\<close>

record AiProvider =
  AiProvider_key :: string
  AiProvider_label :: string
  AiProvider_supports_generation :: bool
  AiProvider_supports_embeddings :: bool

record AiPromptTemplate =
  AiPromptTemplate_id :: string
  AiPromptTemplate_key :: string
  AiPromptTemplate_name :: string
  AiPromptTemplate_description :: "string option"
  AiPromptTemplate_is_active :: bool
  AiPromptTemplate_active_version_id :: "string option"
  AiPromptTemplate_created_at :: string
  AiPromptTemplate_updated_at :: string

record AiVariableDefinition =
  AiVariableDefinition_name :: string
  AiVariableDefinition_description :: "string option"
  AiVariableDefinition_required :: bool

record AiPromptVersion =
  AiPromptVersion_id :: string
  AiPromptVersion_prompt_template_id :: string
  AiPromptVersion_version_number :: number
  AiPromptVersion_provider_key :: string
  AiPromptVersion_model_name :: string
  AiPromptVersion_system_prompt :: string
  AiPromptVersion_user_prompt_template :: string
  AiPromptVersion_variable_definitions :: "AiVariableDefinition list"
  AiPromptVersion_response_format :: response_format
  AiPromptVersion_temperature :: number
  AiPromptVersion_rollout_percentage :: number
  AiPromptVersion_is_published :: bool
  AiPromptVersion_input_cost_per_million :: number
  AiPromptVersion_output_cost_per_million :: number
  AiPromptVersion_created_by_user_id :: "string option"
  AiPromptVersion_created_at :: string

record AiDocument =
  AiDocument_id :: string
  AiDocument_title :: string
  AiDocument_description :: "string option"
  AiDocument_filename :: "string option"
  AiDocument_content_type :: string
  AiDocument_size_bytes :: number
  AiDocument_ingestion_status :: string
  AiDocument_metadata :: "(string \<times> json) list"
  AiDocument_chunk_count :: number
  AiDocument_created_at :: string
  AiDocument_updated_at :: string

record AiRun_input_messages_item =
  AiRun_input_messages_item_role :: string
  AiRun_input_messages_item_content :: string

record AiRun =
  AiRun_id :: string
  AiRun_prompt_template_id :: "string option"
  AiRun_prompt_version_id :: "string option"
  AiRun_provider_key :: string
  AiRun_model_name :: string
  AiRun_status :: string
  AiRun_response_format :: string
  AiRun_variables :: "(string \<times> json) list"
  AiRun_retrieval_query :: "string option"
  AiRun_retrieved_chunk_ids :: "string list"
  AiRun_retrieval_degraded :: bool
  AiRun_memory_degraded :: bool
  AiRun_degradation_reason :: "string option"
  AiRun_injection_chunks_filtered :: number
  AiRun_input_messages :: "AiRun_input_messages_item list"
  AiRun_output_text :: "string option"
  AiRun_output_json :: "(string \<times> json) list option"
  AiRun_latency_ms :: "number option"
  AiRun_input_tokens :: number
  AiRun_output_tokens :: number
  AiRun_total_tokens :: number
  AiRun_estimated_cost_micros :: number
  AiRun_error_message :: "string option"
  AiRun_review_status :: string
  AiRun_created_at :: string
  AiRun_completed_at :: "string option"

record AiReviewItem =
  AiReviewItem_id :: string
  AiReviewItem_run_id :: string
  AiReviewItem_requested_by_user_id :: string
  AiReviewItem_assigned_to_user_id :: "string option"
  AiReviewItem_reviewed_by_user_id :: "string option"
  AiReviewItem_status :: string
  AiReviewItem_reviewer_notes :: "string option"
  AiReviewItem_corrected_output :: "string option"
  AiReviewItem_created_at :: string
  AiReviewItem_updated_at :: string

record AiFeedback =
  AiFeedback_id :: string
  AiFeedback_run_id :: string
  AiFeedback_user_id :: string
  AiFeedback_rating :: number
  AiFeedback_comment :: "string option"
  AiFeedback_corrected_output :: "string option"
  AiFeedback_created_at :: string

record AiEvaluationDataset =
  AiEvaluationDataset_id :: string
  AiEvaluationDataset_name :: string
  AiEvaluationDataset_description :: "string option"
  AiEvaluationDataset_created_at :: string
  AiEvaluationDataset_updated_at :: string

record AiEvaluationCase =
  AiEvaluationCase_id :: string
  AiEvaluationCase_dataset_id :: string
  AiEvaluationCase_input_variables :: "(string \<times> json) list"
  AiEvaluationCase_retrieval_query :: "string option"
  AiEvaluationCase_document_ids :: "string list"
  AiEvaluationCase_expected_chunk_ids :: "string list"
  AiEvaluationCase_expected_output_text :: "string option"
  AiEvaluationCase_expected_output_json :: "(string \<times> json) list option"
  AiEvaluationCase_evaluation_type :: evaluation_type
  AiEvaluationCase_notes :: "string option"
  AiEvaluationCase_created_at :: string

record AiEvaluationRunItem =
  AiEvaluationRunItem_evaluation_case_id :: string
  AiEvaluationRunItem_ai_run_id :: string
  AiEvaluationRunItem_score :: number
  AiEvaluationRunItem_passed :: bool
  AiEvaluationRunItem_metrics :: "(string \<times> number) list"
  AiEvaluationRunItem_notes :: "string option"

record AiEvaluationRun =
  AiEvaluationRun_id :: string
  AiEvaluationRun_dataset_id :: string
  AiEvaluationRun_prompt_version_id :: string
  AiEvaluationRun_status :: string
  AiEvaluationRun_total_cases :: number
  AiEvaluationRun_passed_cases :: number
  AiEvaluationRun_average_score :: number
  AiEvaluationRun_metrics :: "(string \<times> number) list"
  AiEvaluationRun_created_at :: string
  AiEvaluationRun_completed_at :: "string option"
  AiEvaluationRun_items :: "AiEvaluationRunItem list"

record AiOverview =
  AiOverview_providers :: "AiProvider list"
  AiOverview_prompt_templates :: "AiPromptTemplate list"
  AiOverview_recent_runs :: "AiRun list"
  AiOverview_documents :: "AiDocument list"
  AiOverview_datasets :: "AiEvaluationDataset list"
  AiOverview_prompt_templates_count :: number
  AiOverview_recent_runs_count :: number
  AiOverview_documents_count :: number
  AiOverview_datasets_count :: number

record AiChunkMatch =
  AiChunkMatch_document_id :: string
  AiChunkMatch_chunk_id :: string
  AiChunkMatch_document_title :: string
  AiChunkMatch_chunk_index :: number
  AiChunkMatch_score :: number
  AiChunkMatch_content :: string

end
