(* ===== verification/Ai_Endpoints.thy ===== *)
theory Ai_Endpoints
  imports Api_Transport Ai_Types
begin

text \<open>
  The endpoint functions of frontend/src/api/ai.ts, in the style of Api_Endpoints.
\<close>

section \<open>The AI module: api/ai.ts\<close>

definition getAiOverview :: "RequestInit \<Rightarrow> api_call" where
  "getAiOverview options = Fetch ''/ai/overview'' options"

definition listPromptVersions :: "string \<Rightarrow> api_call" where
  "listPromptVersions templateId = FetchItems (''/ai/prompts/'' @ templateId @ ''/versions'') no_init"

record createPromptTemplate_payload =
  createPromptTemplate_payload_key :: string
  createPromptTemplate_payload_name :: string
  createPromptTemplate_payload_description :: "string option"

definition createPromptTemplate_payload_json :: "createPromptTemplate_payload \<Rightarrow> json" where
  "createPromptTemplate_payload_json x = json_object
     [(''key'', Some (JStr (createPromptTemplate_payload_key x))),
      (''name'', Some (JStr (createPromptTemplate_payload_name x))),
      (''description'', map_option JStr (createPromptTemplate_payload_description x))]"

definition createPromptTemplate :: "createPromptTemplate_payload \<Rightarrow> api_call" where
  "createPromptTemplate payload = Fetch ''/ai/prompts''
     (send ''POST'' (Some (JsonBody (createPromptTemplate_payload_json payload))))"

record updatePromptTemplate_payload =
  updatePromptTemplate_payload_name :: "string option"
  updatePromptTemplate_payload_description :: "string option option"
  updatePromptTemplate_payload_is_active :: "bool option"
  updatePromptTemplate_payload_active_version_id :: "string option option"

definition updatePromptTemplate_payload_json :: "updatePromptTemplate_payload \<Rightarrow> json" where
  "updatePromptTemplate_payload_json x = json_object
     [(''name'', map_option JStr (updatePromptTemplate_payload_name x)),
      (''description'', map_option (json_nullable JStr) (updatePromptTemplate_payload_description x)),
      (''is_active'', map_option JBool (updatePromptTemplate_payload_is_active x)),
      (''active_version_id'', map_option (json_nullable JStr) (updatePromptTemplate_payload_active_version_id x))]"

definition updatePromptTemplate :: "string \<Rightarrow> updatePromptTemplate_payload \<Rightarrow> api_call" where
  "updatePromptTemplate templateId payload = Fetch (''/ai/prompts/'' @ templateId)
     (send ''PATCH'' (Some (JsonBody (updatePromptTemplate_payload_json payload))))"

record createPromptVersion_payload =
  createPromptVersion_payload_provider_key :: string
  createPromptVersion_payload_model_name :: string
  createPromptVersion_payload_system_prompt :: string
  createPromptVersion_payload_user_prompt_template :: string
  createPromptVersion_payload_variable_definitions :: "AiVariableDefinition list"
  createPromptVersion_payload_response_format :: response_format
  createPromptVersion_payload_temperature :: number
  createPromptVersion_payload_rollout_percentage :: number
  createPromptVersion_payload_is_published :: bool
  createPromptVersion_payload_input_cost_per_million :: number
  createPromptVersion_payload_output_cost_per_million :: number

definition AiVariableDefinition_json :: "AiVariableDefinition \<Rightarrow> json" where
  "AiVariableDefinition_json x = json_object
     [(''name'', Some (JStr (AiVariableDefinition_name x))),
      (''description'', Some (json_nullable JStr (AiVariableDefinition_description x))),
      (''required'', Some (JBool (AiVariableDefinition_required x)))]"

definition createPromptVersion_payload_json :: "createPromptVersion_payload \<Rightarrow> json" where
  "createPromptVersion_payload_json x = json_object
     [(''provider_key'', Some (JStr (createPromptVersion_payload_provider_key x))),
      (''model_name'', Some (JStr (createPromptVersion_payload_model_name x))),
      (''system_prompt'', Some (JStr (createPromptVersion_payload_system_prompt x))),
      (''user_prompt_template'', Some (JStr (createPromptVersion_payload_user_prompt_template x))),
      (''variable_definitions'', Some (json_list AiVariableDefinition_json (createPromptVersion_payload_variable_definitions x))),
      (''response_format'', Some (response_format_json (createPromptVersion_payload_response_format x))),
      (''temperature'', Some (JNum (createPromptVersion_payload_temperature x))),
      (''rollout_percentage'', Some (JNum (createPromptVersion_payload_rollout_percentage x))),
      (''is_published'', Some (JBool (createPromptVersion_payload_is_published x))),
      (''input_cost_per_million'', Some (JNum (createPromptVersion_payload_input_cost_per_million x))),
      (''output_cost_per_million'', Some (JNum (createPromptVersion_payload_output_cost_per_million x)))]"

definition createPromptVersion :: "string \<Rightarrow> createPromptVersion_payload \<Rightarrow> api_call" where
  "createPromptVersion templateId payload = Fetch (''/ai/prompts/'' @ templateId @ ''/versions'')
     (send ''POST'' (Some (JsonBody (createPromptVersion_payload_json payload))))"

record updatePromptVersion_payload =
  updatePromptVersion_payload_is_published :: "bool option"
  updatePromptVersion_payload_rollout_percentage :: "number option"

definition updatePromptVersion_payload_json :: "updatePromptVersion_payload \<Rightarrow> json" where
  "updatePromptVersion_payload_json x = json_object
     [(''is_published'', map_option JBool (updatePromptVersion_payload_is_published x)),
      (''rollout_percentage'', map_option JNum (updatePromptVersion_payload_rollout_percentage x))]"

definition updatePromptVersion :: "string \<Rightarrow> string \<Rightarrow> updatePromptVersion_payload \<Rightarrow> api_call" where
  "updatePromptVersion templateId versionId payload = Fetch (''/ai/prompts/'' @ templateId @ ''/versions/'' @ versionId)
     (send ''PATCH'' (Some (JsonBody (updatePromptVersion_payload_json payload))))"

record createAiDocument_payload =
  createAiDocument_payload_title :: string
  createAiDocument_payload_description :: "string option"
  createAiDocument_payload_content :: string
  createAiDocument_payload_content_type :: "string option"
  createAiDocument_payload_metadata :: "(string \<times> json) list option"

definition createAiDocument_payload_json :: "createAiDocument_payload \<Rightarrow> json" where
  "createAiDocument_payload_json x = json_object
     [(''title'', Some (JStr (createAiDocument_payload_title x))),
      (''description'', map_option JStr (createAiDocument_payload_description x)),
      (''content'', Some (JStr (createAiDocument_payload_content x))),
      (''content_type'', map_option JStr (createAiDocument_payload_content_type x)),
      (''metadata'', map_option JObj (createAiDocument_payload_metadata x))]"

definition createAiDocument :: "createAiDocument_payload \<Rightarrow> api_call" where
  "createAiDocument payload = Fetch ''/ai/documents''
     (send ''POST'' (Some (JsonBody (createAiDocument_payload_json payload))))"

definition uploadAiDocument :: "upload_file \<Rightarrow> string option \<Rightarrow> api_call" where
  "uploadAiDocument file description =
     (let form = [(''file'', FormFile file)]
                 @ (if truthy description then [(''description'', FormText (the description))] else [])
      in Fetch ''/ai/documents/upload'' (send ''POST'' (Some (FormBody form))))"

record retrieveAiChunks_payload =
  retrieveAiChunks_payload_query :: string
  retrieveAiChunks_payload_document_ids :: "string list"
  retrieveAiChunks_payload_top_k :: number

definition retrieveAiChunks_payload_json :: "retrieveAiChunks_payload \<Rightarrow> json" where
  "retrieveAiChunks_payload_json x = json_object
     [(''query'', Some (JStr (retrieveAiChunks_payload_query x))),
      (''document_ids'', Some (json_list JStr (retrieveAiChunks_payload_document_ids x))),
      (''top_k'', Some (JNum (retrieveAiChunks_payload_top_k x)))]"

definition retrieveAiChunks :: "retrieveAiChunks_payload \<Rightarrow> api_call" where
  "retrieveAiChunks payload = Fetch ''/ai/retrieve''
     (send ''POST'' (Some (JsonBody (retrieveAiChunks_payload_json payload))))"

record createAiRun_payload =
  createAiRun_payload_prompt_template_key :: "string option"
  createAiRun_payload_prompt_version_id :: "string option"
  createAiRun_payload_variables :: "(string \<times> json) list"
  createAiRun_payload_retrieval_query :: "string option"
  createAiRun_payload_document_ids :: "string list"
  createAiRun_payload_top_k :: number
  createAiRun_payload_review_required :: bool

definition createAiRun_payload_json :: "createAiRun_payload \<Rightarrow> json" where
  "createAiRun_payload_json x = json_object
     [(''prompt_template_key'', map_option JStr (createAiRun_payload_prompt_template_key x)),
      (''prompt_version_id'', map_option JStr (createAiRun_payload_prompt_version_id x)),
      (''variables'', Some (JObj (createAiRun_payload_variables x))),
      (''retrieval_query'', map_option JStr (createAiRun_payload_retrieval_query x)),
      (''document_ids'', Some (json_list JStr (createAiRun_payload_document_ids x))),
      (''top_k'', Some (JNum (createAiRun_payload_top_k x))),
      (''review_required'', Some (JBool (createAiRun_payload_review_required x)))]"

definition createAiRun :: "createAiRun_payload \<Rightarrow> api_call" where
  "createAiRun payload = Fetch ''/ai/runs'' (send ''POST'' (Some (JsonBody (createAiRun_payload_json payload))))"

definition listAiReviews :: api_call where
  "listAiReviews = FetchItems ''/ai/reviews'' no_init"

record createAiReview_payload =
  createAiReview_payload_assigned_to_user_id :: "string option option"

definition createAiReview_payload_json :: "createAiReview_payload \<Rightarrow> json" where
  "createAiReview_payload_json x = json_object
     [(''assigned_to_user_id'', map_option (json_nullable JStr) (createAiReview_payload_assigned_to_user_id x))]"

definition createAiReview :: "string \<Rightarrow> createAiReview_payload \<Rightarrow> api_call" where
  "createAiReview runId payload = Fetch (''/ai/runs/'' @ runId @ ''/reviews'')
     (send ''POST'' (Some (JsonBody (createAiReview_payload_json payload))))"

record decideAiReview_payload =
  decideAiReview_payload_status :: review_decision
  decideAiReview_payload_reviewer_notes :: "string option"
  decideAiReview_payload_corrected_output :: "string option"

definition decideAiReview_payload_json :: "decideAiReview_payload \<Rightarrow> json" where
  "decideAiReview_payload_json x = json_object
     [(''status'', Some (review_decision_json (decideAiReview_payload_status x))),
      (''reviewer_notes'', map_option JStr (decideAiReview_payload_reviewer_notes x)),
      (''corrected_output'', map_option JStr (decideAiReview_payload_corrected_output x))]"

definition decideAiReview :: "string \<Rightarrow> decideAiReview_payload \<Rightarrow> api_call" where
  "decideAiReview reviewId payload = Fetch (''/ai/reviews/'' @ reviewId @ ''/decision'')
     (send ''POST'' (Some (JsonBody (decideAiReview_payload_json payload))))"

definition listAiFeedback :: "string \<Rightarrow> api_call" where
  "listAiFeedback runId = FetchItems (''/ai/runs/'' @ runId @ ''/feedback'') no_init"

record createAiFeedback_payload =
  createAiFeedback_payload_rating :: feedback_rating
  createAiFeedback_payload_comment :: "string option"
  createAiFeedback_payload_corrected_output :: "string option"

definition createAiFeedback_payload_json :: "createAiFeedback_payload \<Rightarrow> json" where
  "createAiFeedback_payload_json x = json_object
     [(''rating'', Some (feedback_rating_json (createAiFeedback_payload_rating x))),
      (''comment'', map_option JStr (createAiFeedback_payload_comment x)),
      (''corrected_output'', map_option JStr (createAiFeedback_payload_corrected_output x))]"

definition createAiFeedback :: "string \<Rightarrow> createAiFeedback_payload \<Rightarrow> api_call" where
  "createAiFeedback runId payload = Fetch (''/ai/runs/'' @ runId @ ''/feedback'')
     (send ''POST'' (Some (JsonBody (createAiFeedback_payload_json payload))))"

definition listAiDatasets :: api_call where
  "listAiDatasets = FetchItems ''/ai/evaluation-datasets'' no_init"

record createAiDataset_payload =
  createAiDataset_payload_name :: string
  createAiDataset_payload_description :: "string option"

definition createAiDataset_payload_json :: "createAiDataset_payload \<Rightarrow> json" where
  "createAiDataset_payload_json x = json_object
     [(''name'', Some (JStr (createAiDataset_payload_name x))),
      (''description'', map_option JStr (createAiDataset_payload_description x))]"

definition createAiDataset :: "createAiDataset_payload \<Rightarrow> api_call" where
  "createAiDataset payload = Fetch ''/ai/evaluation-datasets''
     (send ''POST'' (Some (JsonBody (createAiDataset_payload_json payload))))"

definition listAiDatasetCases :: "string \<Rightarrow> api_call" where
  "listAiDatasetCases datasetId = FetchItems (''/ai/evaluation-datasets/'' @ datasetId @ ''/cases'') no_init"

record createAiDatasetCase_payload =
  createAiDatasetCase_payload_input_variables :: "(string \<times> json) list"
  createAiDatasetCase_payload_retrieval_query :: "string option option"
  createAiDatasetCase_payload_document_ids :: "string list option"
  createAiDatasetCase_payload_expected_chunk_ids :: "string list option"
  createAiDatasetCase_payload_expected_output_text :: "string option option"
  createAiDatasetCase_payload_expected_output_json :: "(string \<times> json) list option option"
  createAiDatasetCase_payload_evaluation_type :: "evaluation_type option"
  createAiDatasetCase_payload_notes :: "string option option"

definition createAiDatasetCase_payload_json :: "createAiDatasetCase_payload \<Rightarrow> json" where
  "createAiDatasetCase_payload_json x = json_object
     [(''input_variables'', Some (JObj (createAiDatasetCase_payload_input_variables x))),
      (''retrieval_query'', map_option (json_nullable JStr) (createAiDatasetCase_payload_retrieval_query x)),
      (''document_ids'', map_option (json_list JStr) (createAiDatasetCase_payload_document_ids x)),
      (''expected_chunk_ids'', map_option (json_list JStr) (createAiDatasetCase_payload_expected_chunk_ids x)),
      (''expected_output_text'', map_option (json_nullable JStr) (createAiDatasetCase_payload_expected_output_text x)),
      (''expected_output_json'', map_option (json_nullable JObj) (createAiDatasetCase_payload_expected_output_json x)),
      (''evaluation_type'', map_option evaluation_type_json (createAiDatasetCase_payload_evaluation_type x)),
      (''notes'', map_option (json_nullable JStr) (createAiDatasetCase_payload_notes x))]"

definition createAiDatasetCase :: "string \<Rightarrow> createAiDatasetCase_payload \<Rightarrow> api_call" where
  "createAiDatasetCase datasetId payload = Fetch (''/ai/evaluation-datasets/'' @ datasetId @ ''/cases'')
     (send ''POST'' (Some (JsonBody (createAiDatasetCase_payload_json payload))))"

definition listAiEvaluationRuns :: api_call where
  "listAiEvaluationRuns = FetchItems ''/ai/evaluation-runs'' no_init"

definition runAiEvaluation :: "string \<Rightarrow> string \<Rightarrow> api_call" where
  "runAiEvaluation datasetId promptVersionId = Fetch (''/ai/evaluation-datasets/'' @ datasetId @ ''/run'')
     (send ''POST'' (Some (JsonBody (json_object [(''prompt_version_id'', Some (JStr promptVersionId))]))))"

end
