(* ===== verification/Contract_Ai.thy ===== *)
theory Contract_Ai
  imports Api_Contract Ai_Endpoints
begin

text \<open>
  Every call that api/ai.ts can make, and that each of them conforms to the contract.
\<close>

inductive ai_call :: "api_call \<Rightarrow> bool" where
  ai_getAiOverview: "is_get options \<Longrightarrow> ai_call (getAiOverview options)"
| ai_listPromptVersions: "path_segment templateId \<Longrightarrow> ai_call (listPromptVersions templateId)"
| ai_createPromptTemplate: "ai_call (createPromptTemplate payload)"
| ai_updatePromptTemplate: "path_segment templateId \<Longrightarrow> ai_call (updatePromptTemplate templateId payload)"
| ai_createPromptVersion: "path_segment templateId \<Longrightarrow> ai_call (createPromptVersion templateId payload)"
| ai_updatePromptVersion: "path_segment templateId \<Longrightarrow> path_segment versionId \<Longrightarrow> ai_call (updatePromptVersion templateId versionId payload)"
| ai_createAiDocument: "ai_call (createAiDocument payload)"
| ai_uploadAiDocument: "ai_call (uploadAiDocument file description)"
| ai_retrieveAiChunks: "ai_call (retrieveAiChunks payload)"
| ai_createAiRun: "ai_call (createAiRun payload)"
| ai_listAiReviews: "ai_call listAiReviews"
| ai_createAiReview: "path_segment runId \<Longrightarrow> ai_call (createAiReview runId payload)"
| ai_decideAiReview: "path_segment reviewId \<Longrightarrow> ai_call (decideAiReview reviewId payload)"
| ai_listAiFeedback: "path_segment runId \<Longrightarrow> ai_call (listAiFeedback runId)"
| ai_createAiFeedback: "path_segment runId \<Longrightarrow> ai_call (createAiFeedback runId payload)"
| ai_listAiDatasets: "ai_call listAiDatasets"
| ai_createAiDataset: "ai_call (createAiDataset payload)"
| ai_listAiDatasetCases: "path_segment datasetId \<Longrightarrow> ai_call (listAiDatasetCases datasetId)"
| ai_createAiDatasetCase: "path_segment datasetId \<Longrightarrow> ai_call (createAiDatasetCase datasetId payload)"
| ai_listAiEvaluationRuns: "ai_call listAiEvaluationRuns"
| ai_runAiEvaluation: "path_segment datasetId \<Longrightarrow> ai_call (runAiEvaluation datasetId promptVersionId)"

text \<open>The endpoints and the values of their bodies.\<close>

lemmas ai_endpoints =
  getAiOverview_def listPromptVersions_def createPromptTemplate_def updatePromptTemplate_def
  createPromptVersion_def updatePromptVersion_def createAiDocument_def uploadAiDocument_def
  retrieveAiChunks_def createAiRun_def listAiReviews_def createAiReview_def decideAiReview_def
  listAiFeedback_def createAiFeedback_def listAiDatasets_def createAiDataset_def
  listAiDatasetCases_def createAiDatasetCase_def listAiEvaluationRuns_def runAiEvaluation_def
  createPromptTemplate_payload_json_def updatePromptTemplate_payload_json_def
  AiVariableDefinition_json_def createPromptVersion_payload_json_def
  updatePromptVersion_payload_json_def createAiDocument_payload_json_def
  retrieveAiChunks_payload_json_def createAiRun_payload_json_def createAiReview_payload_json_def
  decideAiReview_payload_json_def createAiFeedback_payload_json_def
  createAiDataset_payload_json_def createAiDatasetCase_payload_json_def

lemma ai_call_conforms: "ai_call c \<Longrightarrow> conforms ai_routes c"
  apply (induction rule: ai_call.induct)
  apply (unfold ai_endpoints Let_def)
  apply (rule conforms_rules, simp add: path_segments_def contract_simps,
      simp add: contract_simps, simp add: contract_simps,
      simp add: ai_routes_def fits_def contract_simps)+
  done

end
