(* ===== verification/Generated_Calls.thy ===== *)
theory Generated_Calls
  imports Api_Transport Api_Types
begin

text \<open>
  The common shape of the endpoint functions that Orval generates from the OpenAPI document
  (frontend/src/generated/endpoints): how an object of query parameters becomes the query
  of the URL, and how the options of the caller are completed.
\<close>

section \<open>Query parameters\<close>

text \<open>
  An entry of the object of parameters: undefined (None), null (Some None), or a value with
  its toString.
\<close>

type_synonym query_entry = "string \<times> string option option"

definition bool_text :: "bool \<Rightarrow> string" where
  "bool_text b = (if b then ''true'' else ''false'')"

text \<open>normalizedParams: undefined is skipped and null becomes the text null.\<close>

fun normalized_params :: "query_entry list \<Rightarrow> (string \<times> string) list" where
  "normalized_params [] = []"
| "normalized_params ((k, None) # es) = normalized_params es"
| "normalized_params ((k, Some v) # es) = (k, nullish v ''null'') # normalized_params es"

section \<open>The request\<close>

text \<open>
  {...options, method, headers: {"Content-Type": ..., ...options?.headers}, body}; without
  a body the headers are those of the options.
\<close>

definition orval_request :: "RequestInit \<Rightarrow> string \<Rightarrow> json option \<Rightarrow> RequestInit" where
  "orval_request options meth body =
     (case body of
        None \<Rightarrow> options\<lparr>init_method := Some meth\<rparr>
      | Some b \<Rightarrow> options\<lparr>init_method := Some meth,
                    init_headers := foldl (\<lambda>hs (k, v). put_entry k v hs)
                      [(''Content-Type'', ''application/json'')] (init_headers options),
                    init_body := Some (JsonBody b)\<rparr>)"

section \<open>What the server reads\<close>

text \<open>The path and the query of a URL.\<close>

definition url_path :: "string \<Rightarrow> string" where
  "url_path url = takeWhile (\<lambda>c. c \<noteq> CHR ''?'') url"

definition url_query :: "string \<Rightarrow> string" where
  "url_query url = drop 1 (dropWhile (\<lambda>c. c \<noteq> CHR ''?'') url)"

lemma params_text_Nil [simp]: "params_text [] = []"
  by (simp add: params_text_def)

lemma params_text_ne: "ps \<noteq> [] \<Longrightarrow> params_text ps \<noteq> []"
  using read_params_text [of ps] by (auto simp: read_params_def split: if_splits)

lemma takeWhile_path: "CHR ''?'' \<notin> set p \<Longrightarrow> takeWhile (\<lambda>c. c \<noteq> CHR ''?'') (p @ q) = p @ takeWhile (\<lambda>c. c \<noteq> CHR ''?'') q"
  by (induction p) auto

lemma dropWhile_path: "CHR ''?'' \<notin> set p \<Longrightarrow> dropWhile (\<lambda>c. c \<noteq> CHR ''?'') (p @ q) = dropWhile (\<lambda>c. c \<noteq> CHR ''?'') q"
  by (induction p) auto

lemma orval_url_parts:
  assumes "CHR ''?'' \<notin> set path"
  shows "url_path (orval_url path ps) = path" and "url_query (orval_url path ps) = params_text ps"
proof -
  have "takeWhile (\<lambda>c. c \<noteq> CHR ''?'') path = path" "dropWhile (\<lambda>c. c \<noteq> CHR ''?'') path = []"
    using takeWhile_path [OF assms, of "[]"] dropWhile_path [OF assms, of "[]"] by simp_all
  then show "url_path (orval_url path ps) = path" "url_query (orval_url path ps) = params_text ps"
    by (simp_all del: takeWhile_eq_all_conv dropWhile_eq_Nil_conv
        add: orval_url_def url_path_def url_query_def Let_def takeWhile_path [OF assms] dropWhile_path [OF assms])
qed

lemma query_read:
  "CHR ''?'' \<notin> set path \<Longrightarrow>
   read_params (url_query (orval_url path ps)) = map (\<lambda>(k, v). (Some k, Some v)) ps"
  by (simp add: orval_url_parts read_params_text)

end
