(* ===== verification/Admin_Types.thy ===== *)
theory Admin_Types
  imports Generated_Calls
begin

text \<open>
  The data of the modules that wrap generated clients (frontend/src/api/admin.ts, jobs.ts,
  policy.ts, profile.ts, memory.ts, diagnostics.ts, ragIndexes.ts and ragEvaluation.ts),
  from the interfaces of frontend/src/generated/models that they use, with the conventions
  of Api_Types.  What is sent has its JSON value, and an object of query parameters its
  entries, in the order of the fields; a name for a union with null or for a dictionary is
  written out where it is used.
\<close>

text \<open>The strategies of an evaluation: features/admin-rag/hooks/useRagEvaluation.ts.\<close>

datatype RagEvalStrategy = VectorStrategy | LexicalStrategy | HybridRrfStrategy

fun RagEvalStrategy_text :: "RagEvalStrategy \<Rightarrow> string" where
  "RagEvalStrategy_text VectorStrategy = ''vector''"
| "RagEvalStrategy_text LexicalStrategy = ''lexical''"
| "RagEvalStrategy_text HybridRrfStrategy = ''hybrid_rrf''"

definition RagEvalStrategy_json :: "RagEvalStrategy \<Rightarrow> json" where
  "RagEvalStrategy_json s = JStr (RagEvalStrategy_text s)"

section \<open>What the server answers\<close>

record AdminUserResponse =
  AdminUserResponse_created_at :: string
  AdminUserResponse_email :: string
  AdminUserResponse_full_name :: "string option"
  AdminUserResponse_id :: string
  AdminUserResponse_is_active :: bool
  AdminUserResponse_is_admin :: bool
  AdminUserResponse_is_verified :: bool
  AdminUserResponse_mfa_enabled :: bool
  AdminUserResponse_roles :: "string list"

record AdminUserListResponse =
  AdminUserListResponse_items :: "AdminUserResponse list"
  AdminUserListResponse_page :: number
  AdminUserListResponse_page_size :: number
  AdminUserListResponse_total :: number

record JobConsoleItemResponse =
  JobConsoleItemResponse_attempts :: "number option"
  JobConsoleItemResponse_available_at :: "string option option"
  JobConsoleItemResponse_can_cancel :: "bool option"
  JobConsoleItemResponse_can_retry :: "bool option"
  JobConsoleItemResponse_cancel_blocked_reason :: "string option option"
  JobConsoleItemResponse_completed_at :: "string option option"
  JobConsoleItemResponse_correlation_id :: "string option option"
  JobConsoleItemResponse_created_at :: "string option option"
  JobConsoleItemResponse_duration_seconds :: "number option option"
  JobConsoleItemResponse_error_classification :: "string option option"
  JobConsoleItemResponse_id :: string
  JobConsoleItemResponse_job_type :: string
  JobConsoleItemResponse_max_attempts :: "number option"
  JobConsoleItemResponse_operation_id :: "string option option"
  JobConsoleItemResponse_payload_summary :: "(string \<times> json) list option"
  JobConsoleItemResponse_queue :: string
  JobConsoleItemResponse_raw_status :: string
  JobConsoleItemResponse_related_document_id :: "string option option"
  JobConsoleItemResponse_related_project_id :: "string option option"
  JobConsoleItemResponse_related_user_id :: "string option option"
  JobConsoleItemResponse_retries :: "number option"
  JobConsoleItemResponse_retry_blocked_reason :: "string option option"
  JobConsoleItemResponse_safe_error_summary :: "string option option"
  JobConsoleItemResponse_source :: string
  JobConsoleItemResponse_stale :: "bool option"
  JobConsoleItemResponse_started_at :: "string option option"
  JobConsoleItemResponse_state :: string
  JobConsoleItemResponse_task_id :: string
  JobConsoleItemResponse_trace_hints :: "((string \<times> json) list option) option"

record JobsConsoleListResponse =
  JobsConsoleListResponse_items :: "JobConsoleItemResponse list"
  JobsConsoleListResponse_limit :: number
  JobsConsoleListResponse_offset :: number
  JobsConsoleListResponse_total :: number

record PermissionResponse =
  PermissionResponse_description :: string
  PermissionResponse_key :: string

record RoleAssignmentResponse =
  RoleAssignmentResponse_created_at :: string
  RoleAssignmentResponse_id :: string
  RoleAssignmentResponse_organization_id :: "string option"
  RoleAssignmentResponse_project_id :: "string option"
  RoleAssignmentResponse_role_key :: string
  RoleAssignmentResponse_role_name :: string
  RoleAssignmentResponse_scope_type :: string
  RoleAssignmentResponse_user_id :: string

record RoleResponse =
  RoleResponse_description :: string
  RoleResponse_id :: string
  RoleResponse_is_system :: bool
  RoleResponse_key :: string
  RoleResponse_name :: string
  RoleResponse_permissions :: "string list option"
  RoleResponse_scope_type :: string

record ProfileResponse =
  ProfileResponse_avatar_url :: "string option"
  ProfileResponse_bio :: "string option"
  ProfileResponse_location :: "string option"
  ProfileResponse_user_id :: string
  ProfileResponse_website :: "string option"

record MemoryMetadataResponse =
  MemoryMetadataResponse_agent_id :: string
  MemoryMetadataResponse_confidence :: "number option"
  MemoryMetadataResponse_created_at :: "string option option"
  MemoryMetadataResponse_last_confirmed_at :: "string option option"
  MemoryMetadataResponse_last_seen_at :: "string option option"
  MemoryMetadataResponse_memory_level :: string
  MemoryMetadataResponse_memory_type :: string
  MemoryMetadataResponse_privacy :: "string option"
  MemoryMetadataResponse_project_id :: "string option option"
  MemoryMetadataResponse_run_id :: "string option option"
  MemoryMetadataResponse_source :: string
  MemoryMetadataResponse_source_ref :: "string option option"
  MemoryMetadataResponse_user_id :: string
  MemoryMetadataResponse_version :: "number option"

record MemoryItemResponse =
  MemoryItemResponse_content :: string
  MemoryItemResponse_created_at :: "string option option"
  MemoryItemResponse_id :: string
  MemoryItemResponse_metadata :: MemoryMetadataResponse
  MemoryItemResponse_score :: "number option option"
  MemoryItemResponse_updated_at :: "string option option"

record PaginatedResponseMemoryItemResponse =
  PaginatedResponseMemoryItemResponse_has_more :: "bool option"
  PaginatedResponseMemoryItemResponse_items :: "MemoryItemResponse list"
  PaginatedResponseMemoryItemResponse_limit :: number
  PaginatedResponseMemoryItemResponse_next_cursor :: "string option option"
  PaginatedResponseMemoryItemResponse_offset :: number
  PaginatedResponseMemoryItemResponse_total :: "number option option"

datatype AiProviderDiagnosticsState = AiProviderDiagnosticsState_healthy | AiProviderDiagnosticsState_degraded | AiProviderDiagnosticsState_unavailable | AiProviderDiagnosticsState_not_required | AiProviderDiagnosticsState_unknown

record AiProviderDiagnostics =
  AiProviderDiagnostics_configured :: bool
  AiProviderDiagnostics_detail :: string
  AiProviderDiagnostics_key :: string
  AiProviderDiagnostics_label :: string
  AiProviderDiagnostics_latency_summary_ms :: "number option option"
  AiProviderDiagnostics_state :: AiProviderDiagnosticsState
  AiProviderDiagnostics_supports_embeddings :: "bool option"
  AiProviderDiagnostics_supports_generation :: "bool option"

datatype DiagnosticsSectionState = DiagnosticsSectionState_healthy | DiagnosticsSectionState_degraded | DiagnosticsSectionState_unavailable | DiagnosticsSectionState_not_required | DiagnosticsSectionState_unknown

record DiagnosticsSection =
  DiagnosticsSection_detail :: "string option option"
  DiagnosticsSection_metrics :: "(string \<times> json) list option"
  DiagnosticsSection_state :: "DiagnosticsSectionState option"

datatype DiagnosticsResponseOverallState = DiagnosticsResponseOverallState_healthy | DiagnosticsResponseOverallState_degraded | DiagnosticsResponseOverallState_unavailable | DiagnosticsResponseOverallState_not_required | DiagnosticsResponseOverallState_unknown

record DiagnosticsResponse =
  DiagnosticsResponse_ai_providers :: "AiProviderDiagnostics list option"
  DiagnosticsResponse_application :: DiagnosticsSection
  DiagnosticsResponse_celery :: DiagnosticsSection
  DiagnosticsResponse_generated_at :: string
  DiagnosticsResponse_observability_hints :: "(string \<times> json) list option"
  DiagnosticsResponse_overall_state :: DiagnosticsResponseOverallState
  DiagnosticsResponse_postgresql :: DiagnosticsSection
  DiagnosticsResponse_rag :: DiagnosticsSection
  DiagnosticsResponse_redis :: DiagnosticsSection
  DiagnosticsResponse_storage :: DiagnosticsSection

record RagIndexReindexStaleResponse =
  RagIndexReindexStaleResponse_active_index_version :: string
  RagIndexReindexStaleResponse_enqueued :: number
  RagIndexReindexStaleResponse_job_ids :: "string list"
  RagIndexReindexStaleResponse_requested :: number
  RagIndexReindexStaleResponse_skipped :: number
  RagIndexReindexStaleResponse_target_index_version :: "string option option"
  RagIndexReindexStaleResponse_target_index_version_id :: "string option option"

record RagIndexVersionResponse =
  RagIndexVersionResponse_activated_at :: "string option option"
  RagIndexVersionResponse_chunker_version :: string
  RagIndexVersionResponse_created_at :: string
  RagIndexVersionResponse_embedding_dimensions :: number
  RagIndexVersionResponse_embedding_model :: string
  RagIndexVersionResponse_embedding_provider :: string
  RagIndexVersionResponse_embedding_schema_version :: string
  RagIndexVersionResponse_id :: string
  RagIndexVersionResponse_key :: string
  RagIndexVersionResponse_notes :: "string option option"
  RagIndexVersionResponse_parser_version :: string
  RagIndexVersionResponse_retired_at :: "string option option"
  RagIndexVersionResponse_status :: string
  RagIndexVersionResponse_validated_at :: "string option option"

record RagIndexStatusResponse =
  RagIndexStatusResponse_active_version :: RagIndexVersionResponse
  RagIndexStatusResponse_building_readiness :: "((string \<times> json) list option) option"
  RagIndexStatusResponse_building_version :: "RagIndexVersionResponse option option"
  RagIndexStatusResponse_desired_index_version :: "string option option"
  RagIndexStatusResponse_dimension_migration_required :: "bool option"
  RagIndexStatusResponse_documents_current :: number
  RagIndexStatusResponse_documents_incomplete :: "number option"
  RagIndexStatusResponse_documents_indexed :: number
  RagIndexStatusResponse_documents_stale :: number
  RagIndexStatusResponse_documents_total :: number
  RagIndexStatusResponse_jobs_active :: number
  RagIndexStatusResponse_jobs_failed :: number
  RagIndexStatusResponse_pipeline :: "(string \<times> json) list"
  RagIndexStatusResponse_schema_embedding_dimensions :: number
  RagIndexStatusResponse_versions :: "RagIndexVersionResponse list option"

record RagEvalCandidateResponse =
  RagEvalCandidateResponse_chunk_id :: string
  RagEvalCandidateResponse_chunk_index :: "number option"
  RagEvalCandidateResponse_content :: "string option"
  RagEvalCandidateResponse_document_id :: string
  RagEvalCandidateResponse_filename :: "string option"
  RagEvalCandidateResponse_fused_score :: "number option option"
  RagEvalCandidateResponse_included :: "bool option"
  RagEvalCandidateResponse_lexical_rank :: "number option option"
  RagEvalCandidateResponse_lexical_score :: "number option option"
  RagEvalCandidateResponse_metadata :: "(string \<times> json) list option"
  RagEvalCandidateResponse_page_number :: "number option option"
  RagEvalCandidateResponse_rank :: number
  RagEvalCandidateResponse_reranker_score :: "number option option"
  RagEvalCandidateResponse_section :: "string option option"
  RagEvalCandidateResponse_vector_rank :: "number option option"
  RagEvalCandidateResponse_vector_score :: "number option option"

record RagEvalCaseResponse =
  RagEvalCaseResponse_created_at :: string
  RagEvalCaseResponse_dataset_id :: string
  RagEvalCaseResponse_expected_chunk_ids :: "string list option"
  RagEvalCaseResponse_expected_document_ids :: "string list option"
  RagEvalCaseResponse_expected_facts :: "string list option"
  RagEvalCaseResponse_expected_sources :: "string list option"
  RagEvalCaseResponse_id :: string
  RagEvalCaseResponse_judgments :: "(string \<times> number) list option"
  RagEvalCaseResponse_notes :: "string option option"
  RagEvalCaseResponse_question :: string
  RagEvalCaseResponse_tags :: "string list option"

record RagEvalDatasetResponse =
  RagEvalDatasetResponse_created_at :: string
  RagEvalDatasetResponse_description :: "string option"
  RagEvalDatasetResponse_id :: string
  RagEvalDatasetResponse_name :: string
  RagEvalDatasetResponse_organization_id :: "string option"
  RagEvalDatasetResponse_tags :: "string list option"
  RagEvalDatasetResponse_updated_at :: string
  RagEvalDatasetResponse_user_id :: string

record RagEvalProbeGenerationResponse =
  RagEvalProbeGenerationResponse_answer :: "string option option"
  RagEvalProbeGenerationResponse_provider :: "string option option"
  RagEvalProbeGenerationResponse_scores :: "((string \<times> number) list option) option"

record RagEvalProbeResponse =
  RagEvalProbeResponse_assembled_context :: "string option"
  RagEvalProbeResponse_candidates :: "RagEvalCandidateResponse list option"
  RagEvalProbeResponse_context_chunks :: "RagEvalCandidateResponse list option"
  RagEvalProbeResponse_generation :: "RagEvalProbeGenerationResponse option option"
  RagEvalProbeResponse_latencies_ms :: "(string \<times> number) list option"
  RagEvalProbeResponse_strategy :: string
  RagEvalProbeResponse_top_k :: "number option"

record RagEvalRunComparisonResponse =
  RagEvalRunComparisonResponse_baseline_run_id :: string
  RagEvalRunComparisonResponse_deltas :: "(string \<times> number) list option"

record RagEvalRunItemResponse =
  RagEvalRunItemResponse_candidates :: "((string \<times> json) list list) option"
  RagEvalRunItemResponse_case_id :: string
  RagEvalRunItemResponse_id :: string
  RagEvalRunItemResponse_included_in_context :: "bool option"
  RagEvalRunItemResponse_latency :: "(string \<times> json) list option"
  RagEvalRunItemResponse_metrics :: "(string \<times> json) list option"
  RagEvalRunItemResponse_notes :: "string option option"
  RagEvalRunItemResponse_ranked_chunk_ids :: "string list option"
  RagEvalRunItemResponse_score :: "number option"

record RagEvalRunResponse =
  RagEvalRunResponse_baseline_run_id :: "string option option"
  RagEvalRunResponse_comparison :: "RagEvalRunComparisonResponse option option"
  RagEvalRunResponse_completed_at :: "string option option"
  RagEvalRunResponse_configuration :: "(string \<times> json) list option"
  RagEvalRunResponse_created_at :: string
  RagEvalRunResponse_dataset_id :: string
  RagEvalRunResponse_error_message :: "string option option"
  RagEvalRunResponse_id :: string
  RagEvalRunResponse_items :: "RagEvalRunItemResponse list option"
  RagEvalRunResponse_latency :: "(string \<times> json) list option"
  RagEvalRunResponse_metrics :: "(string \<times> json) list option"
  RagEvalRunResponse_name :: string
  RagEvalRunResponse_organization_id :: "string option"
  RagEvalRunResponse_status :: string
  RagEvalRunResponse_user_id :: string

section \<open>What is sent\<close>

record AdminUserStatusUpdate =
  AdminUserStatusUpdate_is_active :: bool

definition AdminUserStatusUpdate_json :: "AdminUserStatusUpdate \<Rightarrow> json" where
  "AdminUserStatusUpdate_json x = json_object
     [(''is_active'', Some (JBool (AdminUserStatusUpdate_is_active x)))]"

record RoleAssignmentCreate =
  RoleAssignmentCreate_organization_id :: "string option option"
  RoleAssignmentCreate_project_id :: "string option option"
  RoleAssignmentCreate_role_key :: string
  RoleAssignmentCreate_user_id :: string

definition RoleAssignmentCreate_json :: "RoleAssignmentCreate \<Rightarrow> json" where
  "RoleAssignmentCreate_json x = json_object
     [(''organization_id'', map_option (json_nullable JStr) (RoleAssignmentCreate_organization_id x)),
      (''project_id'', map_option (json_nullable JStr) (RoleAssignmentCreate_project_id x)),
      (''role_key'', Some (JStr (RoleAssignmentCreate_role_key x))),
      (''user_id'', Some (JStr (RoleAssignmentCreate_user_id x)))]"

record ProfileUpdate =
  ProfileUpdate_bio :: "string option option"
  ProfileUpdate_location :: "string option option"
  ProfileUpdate_website :: "string option option"

definition ProfileUpdate_json :: "ProfileUpdate \<Rightarrow> json" where
  "ProfileUpdate_json x = json_object
     [(''bio'', map_option (json_nullable JStr) (ProfileUpdate_bio x)),
      (''location'', map_option (json_nullable JStr) (ProfileUpdate_location x)),
      (''website'', map_option (json_nullable JStr) (ProfileUpdate_website x))]"

record RagIndexVersionCreateRequest =
  RagIndexVersionCreateRequest_notes :: "string option option"

definition RagIndexVersionCreateRequest_json :: "RagIndexVersionCreateRequest \<Rightarrow> json" where
  "RagIndexVersionCreateRequest_json x = json_object
     [(''notes'', map_option (json_nullable JStr) (RagIndexVersionCreateRequest_notes x))]"

record RagIndexReindexStaleRequest =
  RagIndexReindexStaleRequest_limit :: "number option"

definition RagIndexReindexStaleRequest_json :: "RagIndexReindexStaleRequest \<Rightarrow> json" where
  "RagIndexReindexStaleRequest_json x = json_object
     [(''limit'', map_option JNum (RagIndexReindexStaleRequest_limit x))]"

record RagEvalDatasetCreateRequest =
  RagEvalDatasetCreateRequest_description :: "string option option"
  RagEvalDatasetCreateRequest_name :: string
  RagEvalDatasetCreateRequest_organization_id :: "string option option"
  RagEvalDatasetCreateRequest_tags :: "string list option"

definition RagEvalDatasetCreateRequest_json :: "RagEvalDatasetCreateRequest \<Rightarrow> json" where
  "RagEvalDatasetCreateRequest_json x = json_object
     [(''description'', map_option (json_nullable JStr) (RagEvalDatasetCreateRequest_description x)),
      (''name'', Some (JStr (RagEvalDatasetCreateRequest_name x))),
      (''organization_id'', map_option (json_nullable JStr) (RagEvalDatasetCreateRequest_organization_id x)),
      (''tags'', map_option (json_list JStr) (RagEvalDatasetCreateRequest_tags x))]"

record RagEvalCaseCreateRequest =
  RagEvalCaseCreateRequest_expected_chunk_ids :: "string list option"
  RagEvalCaseCreateRequest_expected_document_ids :: "string list option"
  RagEvalCaseCreateRequest_expected_facts :: "string list option"
  RagEvalCaseCreateRequest_expected_sources :: "string list option"
  RagEvalCaseCreateRequest_judgments :: "(string \<times> number) list option"
  RagEvalCaseCreateRequest_notes :: "string option option"
  RagEvalCaseCreateRequest_question :: string
  RagEvalCaseCreateRequest_tags :: "string list option"

definition RagEvalCaseCreateRequest_json :: "RagEvalCaseCreateRequest \<Rightarrow> json" where
  "RagEvalCaseCreateRequest_json x = json_object
     [(''expected_chunk_ids'', map_option (json_list JStr) (RagEvalCaseCreateRequest_expected_chunk_ids x)),
      (''expected_document_ids'', map_option (json_list JStr) (RagEvalCaseCreateRequest_expected_document_ids x)),
      (''expected_facts'', map_option (json_list JStr) (RagEvalCaseCreateRequest_expected_facts x)),
      (''expected_sources'', map_option (json_list JStr) (RagEvalCaseCreateRequest_expected_sources x)),
      (''judgments'', map_option (json_map JNum) (RagEvalCaseCreateRequest_judgments x)),
      (''notes'', map_option (json_nullable JStr) (RagEvalCaseCreateRequest_notes x)),
      (''question'', Some (JStr (RagEvalCaseCreateRequest_question x))),
      (''tags'', map_option (json_list JStr) (RagEvalCaseCreateRequest_tags x))]"

record RagEvalProbeRequest =
  RagEvalProbeRequest_document_ids :: "string list option"
  RagEvalProbeRequest_include_generation_judges :: "bool option"
  RagEvalProbeRequest_organization_id :: "string option option"
  RagEvalProbeRequest_project_id :: "string option option"
  RagEvalProbeRequest_query :: string
  RagEvalProbeRequest_strategy :: "RagEvalStrategy option option"
  RagEvalProbeRequest_top_k :: "number option option"

definition RagEvalProbeRequest_json :: "RagEvalProbeRequest \<Rightarrow> json" where
  "RagEvalProbeRequest_json x = json_object
     [(''document_ids'', map_option (json_list JStr) (RagEvalProbeRequest_document_ids x)),
      (''include_generation_judges'', map_option JBool (RagEvalProbeRequest_include_generation_judges x)),
      (''organization_id'', map_option (json_nullable JStr) (RagEvalProbeRequest_organization_id x)),
      (''project_id'', map_option (json_nullable JStr) (RagEvalProbeRequest_project_id x)),
      (''query'', Some (JStr (RagEvalProbeRequest_query x))),
      (''strategy'', map_option (json_nullable RagEvalStrategy_json) (RagEvalProbeRequest_strategy x)),
      (''top_k'', map_option (json_nullable JNum) (RagEvalProbeRequest_top_k x))]"

record RagEvalRunRequest =
  RagEvalRunRequest_baseline_run_id :: "string option option"
  RagEvalRunRequest_include_generation_judges :: "bool option"
  RagEvalRunRequest_name :: "string option"
  RagEvalRunRequest_organization_id :: "string option option"
  RagEvalRunRequest_project_id :: "string option option"
  RagEvalRunRequest_strategy :: "RagEvalStrategy option option"
  RagEvalRunRequest_top_k :: "number option option"

definition RagEvalRunRequest_json :: "RagEvalRunRequest \<Rightarrow> json" where
  "RagEvalRunRequest_json x = json_object
     [(''baseline_run_id'', map_option (json_nullable JStr) (RagEvalRunRequest_baseline_run_id x)),
      (''include_generation_judges'', map_option JBool (RagEvalRunRequest_include_generation_judges x)),
      (''name'', map_option JStr (RagEvalRunRequest_name x)),
      (''organization_id'', map_option (json_nullable JStr) (RagEvalRunRequest_organization_id x)),
      (''project_id'', map_option (json_nullable JStr) (RagEvalRunRequest_project_id x)),
      (''strategy'', map_option (json_nullable RagEvalStrategy_json) (RagEvalRunRequest_strategy x)),
      (''top_k'', map_option (json_nullable JNum) (RagEvalRunRequest_top_k x))]"

section \<open>Query parameters\<close>

record ListUsersApiV1AdminUsersGetParams =
  listUsers_params_page :: "number option"
  listUsers_params_page_size :: "number option"
  listUsers_params_search :: "string option option"

definition listUsers_params_entries :: "ListUsersApiV1AdminUsersGetParams \<Rightarrow> query_entry list" where
  "listUsers_params_entries x =
     [(''page'', map_option (Some \<circ> number_text) (listUsers_params_page x)),
      (''page_size'', map_option (Some \<circ> number_text) (listUsers_params_page_size x)),
      (''search'', listUsers_params_search x)]"

record CancelConsoleJobApiV1AdminJobsJobIdCancelPostParams =
  cancelConsoleJob_params_source :: "string option option"

definition cancelConsoleJob_params_entries :: "CancelConsoleJobApiV1AdminJobsJobIdCancelPostParams \<Rightarrow> query_entry list" where
  "cancelConsoleJob_params_entries x =
     [(''source'', cancelConsoleJob_params_source x)]"

record GetConsoleJobApiV1AdminJobsJobIdGetParams =
  getConsoleJob_params_source :: "string option option"

definition getConsoleJob_params_entries :: "GetConsoleJobApiV1AdminJobsJobIdGetParams \<Rightarrow> query_entry list" where
  "getConsoleJob_params_entries x =
     [(''source'', getConsoleJob_params_source x)]"

record ListConsoleJobsApiV1AdminJobsGetParams =
  listConsoleJobs_params_status :: "string option option"
  listConsoleJobs_params_job_type :: "string option option"
  listConsoleJobs_params_queue :: "string option option"
  listConsoleJobs_params_project_id :: "string option option"
  listConsoleJobs_params_failed_only :: "bool option"
  listConsoleJobs_params_created_after :: "string option option"
  listConsoleJobs_params_created_before :: "string option option"
  listConsoleJobs_params_limit :: "number option"
  listConsoleJobs_params_offset :: "number option"

definition listConsoleJobs_params_entries :: "ListConsoleJobsApiV1AdminJobsGetParams \<Rightarrow> query_entry list" where
  "listConsoleJobs_params_entries x =
     [(''status'', listConsoleJobs_params_status x),
      (''job_type'', listConsoleJobs_params_job_type x),
      (''queue'', listConsoleJobs_params_queue x),
      (''project_id'', listConsoleJobs_params_project_id x),
      (''failed_only'', map_option (Some \<circ> bool_text) (listConsoleJobs_params_failed_only x)),
      (''created_after'', listConsoleJobs_params_created_after x),
      (''created_before'', listConsoleJobs_params_created_before x),
      (''limit'', map_option (Some \<circ> number_text) (listConsoleJobs_params_limit x)),
      (''offset'', map_option (Some \<circ> number_text) (listConsoleJobs_params_offset x))]"

record RetryConsoleJobApiV1AdminJobsJobIdRetryPostParams =
  retryConsoleJob_params_source :: "string option option"

definition retryConsoleJob_params_entries :: "RetryConsoleJobApiV1AdminJobsJobIdRetryPostParams \<Rightarrow> query_entry list" where
  "retryConsoleJob_params_entries x =
     [(''source'', retryConsoleJob_params_source x)]"

record RevokeRoleApiV1PolicyRoleAssignmentsDeleteParams =
  revokeRole_params_user_id :: string
  revokeRole_params_role_key :: string
  revokeRole_params_organization_id :: "string option option"
  revokeRole_params_project_id :: "string option option"

definition revokeRole_params_entries :: "RevokeRoleApiV1PolicyRoleAssignmentsDeleteParams \<Rightarrow> query_entry list" where
  "revokeRole_params_entries x =
     [(''user_id'', Some (Some (revokeRole_params_user_id x))),
      (''role_key'', Some (Some (revokeRole_params_role_key x))),
      (''organization_id'', revokeRole_params_organization_id x),
      (''project_id'', revokeRole_params_project_id x)]"

record ListMemoriesApiV1MemoryGetParams =
  listMemories_params_memory_level :: "string option option"
  listMemories_params_project_id :: "string option option"
  listMemories_params_agent_id :: "string option"
  listMemories_params_limit :: "number option"
  listMemories_params_offset :: "number option"
  listMemories_params_cursor :: "string option option"

definition listMemories_params_entries :: "ListMemoriesApiV1MemoryGetParams \<Rightarrow> query_entry list" where
  "listMemories_params_entries x =
     [(''memory_level'', listMemories_params_memory_level x),
      (''project_id'', listMemories_params_project_id x),
      (''agent_id'', map_option Some (listMemories_params_agent_id x)),
      (''limit'', map_option (Some \<circ> number_text) (listMemories_params_limit x)),
      (''offset'', map_option (Some \<circ> number_text) (listMemories_params_offset x)),
      (''cursor'', listMemories_params_cursor x)]"

record CreateCaseApiV1RagAdminEvaluationDatasetsDatasetIdCasesPostParams =
  createCase_params_organization_id :: "string option option"

definition createCase_params_entries :: "CreateCaseApiV1RagAdminEvaluationDatasetsDatasetIdCasesPostParams \<Rightarrow> query_entry list" where
  "createCase_params_entries x =
     [(''organization_id'', createCase_params_organization_id x)]"

record ExportRunApiV1RagAdminEvaluationRunsRunIdExportGetParams =
  exportRun_params_format :: "string option"
  exportRun_params_organization_id :: "string option option"

definition exportRun_params_entries :: "ExportRunApiV1RagAdminEvaluationRunsRunIdExportGetParams \<Rightarrow> query_entry list" where
  "exportRun_params_entries x =
     [(''format'', map_option Some (exportRun_params_format x)),
      (''organization_id'', exportRun_params_organization_id x)]"

record GetRunApiV1RagAdminEvaluationRunsRunIdGetParams =
  getRun_params_organization_id :: "string option option"

definition getRun_params_entries :: "GetRunApiV1RagAdminEvaluationRunsRunIdGetParams \<Rightarrow> query_entry list" where
  "getRun_params_entries x =
     [(''organization_id'', getRun_params_organization_id x)]"

record ImportGoldenDatasetApiV1RagAdminEvaluationDatasetsImportGoldenPostParams =
  importGoldenDataset_params_organization_id :: "string option option"

definition importGoldenDataset_params_entries :: "ImportGoldenDatasetApiV1RagAdminEvaluationDatasetsImportGoldenPostParams \<Rightarrow> query_entry list" where
  "importGoldenDataset_params_entries x =
     [(''organization_id'', importGoldenDataset_params_organization_id x)]"

record ListCasesApiV1RagAdminEvaluationDatasetsDatasetIdCasesGetParams =
  listCases_params_organization_id :: "string option option"

definition listCases_params_entries :: "ListCasesApiV1RagAdminEvaluationDatasetsDatasetIdCasesGetParams \<Rightarrow> query_entry list" where
  "listCases_params_entries x =
     [(''organization_id'', listCases_params_organization_id x)]"

record ListDatasetsApiV1RagAdminEvaluationDatasetsGetParams =
  listDatasets_params_organization_id :: "string option option"

definition listDatasets_params_entries :: "ListDatasetsApiV1RagAdminEvaluationDatasetsGetParams \<Rightarrow> query_entry list" where
  "listDatasets_params_entries x =
     [(''organization_id'', listDatasets_params_organization_id x)]"

record ListRunsApiV1RagAdminEvaluationRunsGetParams =
  listRuns_params_dataset_id :: "string option option"
  listRuns_params_organization_id :: "string option option"

definition listRuns_params_entries :: "ListRunsApiV1RagAdminEvaluationRunsGetParams \<Rightarrow> query_entry list" where
  "listRuns_params_entries x =
     [(''dataset_id'', listRuns_params_dataset_id x),
      (''organization_id'', listRuns_params_organization_id x)]"

end
