(* ===== verification/Admin_Endpoints.thy ===== *)
theory Admin_Endpoints
  imports Admin_Types
begin

text \<open>
  The generated endpoint functions that the program uses, from
  frontend/src/generated/endpoints, and the modules of frontend/src/api that wrap them.
  A generated function has its URL function, takes the options of fetch and goes through
  customFetch; the wrappers pass no options.
\<close>

section \<open>Administration of users: generated/endpoints/admin/admin.ts\<close>

definition getListUsersApiV1AdminUsersGetUrl :: "ListUsersApiV1AdminUsersGetParams option \<Rightarrow> string" where
  "getListUsersApiV1AdminUsersGetUrl params =
     orval_url ''/api/v1/admin/users''
       (normalized_params (case params of None \<Rightarrow> [] | Some p \<Rightarrow> listUsers_params_entries p))"

definition listUsersApiV1AdminUsersGet :: "ListUsersApiV1AdminUsersGetParams option \<Rightarrow> RequestInit \<Rightarrow> api_call" where
  "listUsersApiV1AdminUsersGet params options =
     Generated (getListUsersApiV1AdminUsersGetUrl params)
       (orval_request options ''GET'' None)"

definition getUpdateUserStatusApiV1AdminUsersUserIdStatusPatchUrl :: "string \<Rightarrow> string" where
  "getUpdateUserStatusApiV1AdminUsersUserIdStatusPatchUrl userId =
     ''/api/v1/admin/users/'' @ userId @ ''/status''"

definition updateUserStatusApiV1AdminUsersUserIdStatusPatch :: "string \<Rightarrow> AdminUserStatusUpdate \<Rightarrow> RequestInit \<Rightarrow> api_call" where
  "updateUserStatusApiV1AdminUsersUserIdStatusPatch userId adminUserStatusUpdate options =
     Generated (getUpdateUserStatusApiV1AdminUsersUserIdStatusPatchUrl userId)
       (orval_request options ''PATCH'' (Some (AdminUserStatusUpdate_json adminUserStatusUpdate)))"

section \<open>Jobs: generated/endpoints/jobs/jobs.ts\<close>

definition getCancelConsoleJobApiV1AdminJobsJobIdCancelPostUrl :: "string \<Rightarrow> CancelConsoleJobApiV1AdminJobsJobIdCancelPostParams option \<Rightarrow> string" where
  "getCancelConsoleJobApiV1AdminJobsJobIdCancelPostUrl jobId params =
     orval_url (''/api/v1/admin/jobs/'' @ jobId @ ''/cancel'')
       (normalized_params (case params of None \<Rightarrow> [] | Some p \<Rightarrow> cancelConsoleJob_params_entries p))"

definition cancelConsoleJobApiV1AdminJobsJobIdCancelPost :: "string \<Rightarrow> CancelConsoleJobApiV1AdminJobsJobIdCancelPostParams option \<Rightarrow> RequestInit \<Rightarrow> api_call" where
  "cancelConsoleJobApiV1AdminJobsJobIdCancelPost jobId params options =
     Generated (getCancelConsoleJobApiV1AdminJobsJobIdCancelPostUrl jobId params)
       (orval_request options ''POST'' None)"

definition getGetConsoleJobApiV1AdminJobsJobIdGetUrl :: "string \<Rightarrow> GetConsoleJobApiV1AdminJobsJobIdGetParams option \<Rightarrow> string" where
  "getGetConsoleJobApiV1AdminJobsJobIdGetUrl jobId params =
     orval_url (''/api/v1/admin/jobs/'' @ jobId)
       (normalized_params (case params of None \<Rightarrow> [] | Some p \<Rightarrow> getConsoleJob_params_entries p))"

definition getConsoleJobApiV1AdminJobsJobIdGet :: "string \<Rightarrow> GetConsoleJobApiV1AdminJobsJobIdGetParams option \<Rightarrow> RequestInit \<Rightarrow> api_call" where
  "getConsoleJobApiV1AdminJobsJobIdGet jobId params options =
     Generated (getGetConsoleJobApiV1AdminJobsJobIdGetUrl jobId params)
       (orval_request options ''GET'' None)"

definition getListConsoleJobsApiV1AdminJobsGetUrl :: "ListConsoleJobsApiV1AdminJobsGetParams option \<Rightarrow> string" where
  "getListConsoleJobsApiV1AdminJobsGetUrl params =
     orval_url ''/api/v1/admin/jobs''
       (normalized_params (case params of None \<Rightarrow> [] | Some p \<Rightarrow> listConsoleJobs_params_entries p))"

definition listConsoleJobsApiV1AdminJobsGet :: "ListConsoleJobsApiV1AdminJobsGetParams option \<Rightarrow> RequestInit \<Rightarrow> api_call" where
  "listConsoleJobsApiV1AdminJobsGet params options =
     Generated (getListConsoleJobsApiV1AdminJobsGetUrl params)
       (orval_request options ''GET'' None)"

definition getRetryConsoleJobApiV1AdminJobsJobIdRetryPostUrl :: "string \<Rightarrow> RetryConsoleJobApiV1AdminJobsJobIdRetryPostParams option \<Rightarrow> string" where
  "getRetryConsoleJobApiV1AdminJobsJobIdRetryPostUrl jobId params =
     orval_url (''/api/v1/admin/jobs/'' @ jobId @ ''/retry'')
       (normalized_params (case params of None \<Rightarrow> [] | Some p \<Rightarrow> retryConsoleJob_params_entries p))"

definition retryConsoleJobApiV1AdminJobsJobIdRetryPost :: "string \<Rightarrow> RetryConsoleJobApiV1AdminJobsJobIdRetryPostParams option \<Rightarrow> RequestInit \<Rightarrow> api_call" where
  "retryConsoleJobApiV1AdminJobsJobIdRetryPost jobId params options =
     Generated (getRetryConsoleJobApiV1AdminJobsJobIdRetryPostUrl jobId params)
       (orval_request options ''POST'' None)"

section \<open>Roles: generated/endpoints/policy/policy.ts\<close>

definition getAssignRoleApiV1PolicyRoleAssignmentsPostUrl :: string where
  "getAssignRoleApiV1PolicyRoleAssignmentsPostUrl =
     ''/api/v1/policy/role-assignments''"

definition assignRoleApiV1PolicyRoleAssignmentsPost :: "RoleAssignmentCreate \<Rightarrow> RequestInit \<Rightarrow> api_call" where
  "assignRoleApiV1PolicyRoleAssignmentsPost roleAssignmentCreate options =
     Generated getAssignRoleApiV1PolicyRoleAssignmentsPostUrl
       (orval_request options ''POST'' (Some (RoleAssignmentCreate_json roleAssignmentCreate)))"

definition getListPermissionsApiV1PolicyPermissionsGetUrl :: string where
  "getListPermissionsApiV1PolicyPermissionsGetUrl =
     ''/api/v1/policy/permissions''"

definition listPermissionsApiV1PolicyPermissionsGet :: "RequestInit \<Rightarrow> api_call" where
  "listPermissionsApiV1PolicyPermissionsGet options =
     Generated getListPermissionsApiV1PolicyPermissionsGetUrl
       (orval_request options ''GET'' None)"

definition getListRolesApiV1PolicyRolesGetUrl :: string where
  "getListRolesApiV1PolicyRolesGetUrl =
     ''/api/v1/policy/roles''"

definition listRolesApiV1PolicyRolesGet :: "RequestInit \<Rightarrow> api_call" where
  "listRolesApiV1PolicyRolesGet options =
     Generated getListRolesApiV1PolicyRolesGetUrl
       (orval_request options ''GET'' None)"

definition getListUserRoleAssignmentsApiV1PolicyUsersUserIdRoleAssignmentsGetUrl :: "string \<Rightarrow> string" where
  "getListUserRoleAssignmentsApiV1PolicyUsersUserIdRoleAssignmentsGetUrl userId =
     ''/api/v1/policy/users/'' @ userId @ ''/role-assignments''"

definition listUserRoleAssignmentsApiV1PolicyUsersUserIdRoleAssignmentsGet :: "string \<Rightarrow> RequestInit \<Rightarrow> api_call" where
  "listUserRoleAssignmentsApiV1PolicyUsersUserIdRoleAssignmentsGet userId options =
     Generated (getListUserRoleAssignmentsApiV1PolicyUsersUserIdRoleAssignmentsGetUrl userId)
       (orval_request options ''GET'' None)"

definition getRevokeRoleApiV1PolicyRoleAssignmentsDeleteUrl :: "RevokeRoleApiV1PolicyRoleAssignmentsDeleteParams \<Rightarrow> string" where
  "getRevokeRoleApiV1PolicyRoleAssignmentsDeleteUrl params =
     orval_url ''/api/v1/policy/role-assignments''
       (normalized_params (revokeRole_params_entries params))"

definition revokeRoleApiV1PolicyRoleAssignmentsDelete :: "RevokeRoleApiV1PolicyRoleAssignmentsDeleteParams \<Rightarrow> RequestInit \<Rightarrow> api_call" where
  "revokeRoleApiV1PolicyRoleAssignmentsDelete params options =
     Generated (getRevokeRoleApiV1PolicyRoleAssignmentsDeleteUrl params)
       (orval_request options ''DELETE'' None)"

section \<open>The profile: generated/endpoints/profile/profile.ts\<close>

definition getDeleteAvatarApiV1ProfileAvatarDeleteUrl :: string where
  "getDeleteAvatarApiV1ProfileAvatarDeleteUrl =
     ''/api/v1/profile/avatar''"

definition deleteAvatarApiV1ProfileAvatarDelete :: "RequestInit \<Rightarrow> api_call" where
  "deleteAvatarApiV1ProfileAvatarDelete options =
     Generated getDeleteAvatarApiV1ProfileAvatarDeleteUrl
       (orval_request options ''DELETE'' None)"

definition getGetProfileApiV1ProfileGetUrl :: string where
  "getGetProfileApiV1ProfileGetUrl =
     ''/api/v1/profile''"

definition getProfileApiV1ProfileGet :: "RequestInit \<Rightarrow> api_call" where
  "getProfileApiV1ProfileGet options =
     Generated getGetProfileApiV1ProfileGetUrl
       (orval_request options ''GET'' None)"

definition getUpdateProfileApiV1ProfilePutUrl :: string where
  "getUpdateProfileApiV1ProfilePutUrl =
     ''/api/v1/profile''"

definition updateProfileApiV1ProfilePut :: "ProfileUpdate \<Rightarrow> RequestInit \<Rightarrow> api_call" where
  "updateProfileApiV1ProfilePut profileUpdate options =
     Generated getUpdateProfileApiV1ProfilePutUrl
       (orval_request options ''PUT'' (Some (ProfileUpdate_json profileUpdate)))"

section \<open>Memories: generated/endpoints/memory/memory.ts\<close>

definition getDeleteMemoryApiV1MemoryMemoryIdDeleteUrl :: "string \<Rightarrow> string" where
  "getDeleteMemoryApiV1MemoryMemoryIdDeleteUrl memoryId =
     ''/api/v1/memory/'' @ memoryId"

definition deleteMemoryApiV1MemoryMemoryIdDelete :: "string \<Rightarrow> RequestInit \<Rightarrow> api_call" where
  "deleteMemoryApiV1MemoryMemoryIdDelete memoryId options =
     Generated (getDeleteMemoryApiV1MemoryMemoryIdDeleteUrl memoryId)
       (orval_request options ''DELETE'' None)"

definition getListMemoriesApiV1MemoryGetUrl :: "ListMemoriesApiV1MemoryGetParams option \<Rightarrow> string" where
  "getListMemoriesApiV1MemoryGetUrl params =
     orval_url ''/api/v1/memory''
       (normalized_params (case params of None \<Rightarrow> [] | Some p \<Rightarrow> listMemories_params_entries p))"

definition listMemoriesApiV1MemoryGet :: "ListMemoriesApiV1MemoryGetParams option \<Rightarrow> RequestInit \<Rightarrow> api_call" where
  "listMemoriesApiV1MemoryGet params options =
     Generated (getListMemoriesApiV1MemoryGetUrl params)
       (orval_request options ''GET'' None)"

section \<open>Diagnostics: generated/endpoints/diagnostics/diagnostics.ts\<close>

definition getGetDiagnosticsApiV1AdminDiagnosticsGetUrl :: string where
  "getGetDiagnosticsApiV1AdminDiagnosticsGetUrl =
     ''/api/v1/admin/diagnostics''"

definition getDiagnosticsApiV1AdminDiagnosticsGet :: "RequestInit \<Rightarrow> api_call" where
  "getDiagnosticsApiV1AdminDiagnosticsGet options =
     Generated getGetDiagnosticsApiV1AdminDiagnosticsGetUrl
       (orval_request options ''GET'' None)"

section \<open>Index versions: generated/endpoints/rag/rag.ts\<close>

definition getActivateIndexVersionApiV1RagAdminIndexVersionsVersionIdActivatePostUrl :: "string \<Rightarrow> string" where
  "getActivateIndexVersionApiV1RagAdminIndexVersionsVersionIdActivatePostUrl versionId =
     ''/api/v1/rag/admin/index-versions/'' @ versionId @ ''/activate''"

definition activateIndexVersionApiV1RagAdminIndexVersionsVersionIdActivatePost :: "string \<Rightarrow> RequestInit \<Rightarrow> api_call" where
  "activateIndexVersionApiV1RagAdminIndexVersionsVersionIdActivatePost versionId options =
     Generated (getActivateIndexVersionApiV1RagAdminIndexVersionsVersionIdActivatePostUrl versionId)
       (orval_request options ''POST'' None)"

definition getCreateIndexVersionApiV1RagAdminIndexVersionsPostUrl :: string where
  "getCreateIndexVersionApiV1RagAdminIndexVersionsPostUrl =
     ''/api/v1/rag/admin/index-versions''"

definition createIndexVersionApiV1RagAdminIndexVersionsPost :: "RagIndexVersionCreateRequest \<Rightarrow> RequestInit \<Rightarrow> api_call" where
  "createIndexVersionApiV1RagAdminIndexVersionsPost ragIndexVersionCreateRequest options =
     Generated getCreateIndexVersionApiV1RagAdminIndexVersionsPostUrl
       (orval_request options ''POST'' (Some (RagIndexVersionCreateRequest_json ragIndexVersionCreateRequest)))"

definition getGetIndexStatusApiV1RagAdminIndexStatusGetUrl :: string where
  "getGetIndexStatusApiV1RagAdminIndexStatusGetUrl =
     ''/api/v1/rag/admin/index-status''"

definition getIndexStatusApiV1RagAdminIndexStatusGet :: "RequestInit \<Rightarrow> api_call" where
  "getIndexStatusApiV1RagAdminIndexStatusGet options =
     Generated getGetIndexStatusApiV1RagAdminIndexStatusGetUrl
       (orval_request options ''GET'' None)"

definition getReindexStaleDocumentsApiV1RagAdminReindexStalePostUrl :: string where
  "getReindexStaleDocumentsApiV1RagAdminReindexStalePostUrl =
     ''/api/v1/rag/admin/reindex-stale''"

definition reindexStaleDocumentsApiV1RagAdminReindexStalePost :: "RagIndexReindexStaleRequest \<Rightarrow> RequestInit \<Rightarrow> api_call" where
  "reindexStaleDocumentsApiV1RagAdminReindexStalePost ragIndexReindexStaleRequest options =
     Generated getReindexStaleDocumentsApiV1RagAdminReindexStalePostUrl
       (orval_request options ''POST'' (Some (RagIndexReindexStaleRequest_json ragIndexReindexStaleRequest)))"

definition getRollbackIndexVersionApiV1RagAdminIndexVersionsVersionIdRollbackPostUrl :: "string \<Rightarrow> string" where
  "getRollbackIndexVersionApiV1RagAdminIndexVersionsVersionIdRollbackPostUrl versionId =
     ''/api/v1/rag/admin/index-versions/'' @ versionId @ ''/rollback''"

definition rollbackIndexVersionApiV1RagAdminIndexVersionsVersionIdRollbackPost :: "string \<Rightarrow> RequestInit \<Rightarrow> api_call" where
  "rollbackIndexVersionApiV1RagAdminIndexVersionsVersionIdRollbackPost versionId options =
     Generated (getRollbackIndexVersionApiV1RagAdminIndexVersionsVersionIdRollbackPostUrl versionId)
       (orval_request options ''POST'' None)"

definition getValidateIndexVersionApiV1RagAdminIndexVersionsVersionIdValidatePostUrl :: "string \<Rightarrow> string" where
  "getValidateIndexVersionApiV1RagAdminIndexVersionsVersionIdValidatePostUrl versionId =
     ''/api/v1/rag/admin/index-versions/'' @ versionId @ ''/validate''"

definition validateIndexVersionApiV1RagAdminIndexVersionsVersionIdValidatePost :: "string \<Rightarrow> RequestInit \<Rightarrow> api_call" where
  "validateIndexVersionApiV1RagAdminIndexVersionsVersionIdValidatePost versionId options =
     Generated (getValidateIndexVersionApiV1RagAdminIndexVersionsVersionIdValidatePostUrl versionId)
       (orval_request options ''POST'' None)"

section \<open>Evaluation: generated/endpoints/rag/rag.ts\<close>

definition getCreateCaseApiV1RagAdminEvaluationDatasetsDatasetIdCasesPostUrl :: "string \<Rightarrow> CreateCaseApiV1RagAdminEvaluationDatasetsDatasetIdCasesPostParams option \<Rightarrow> string" where
  "getCreateCaseApiV1RagAdminEvaluationDatasetsDatasetIdCasesPostUrl datasetId params =
     orval_url (''/api/v1/rag/admin/evaluation/datasets/'' @ datasetId @ ''/cases'')
       (normalized_params (case params of None \<Rightarrow> [] | Some p \<Rightarrow> createCase_params_entries p))"

definition createCaseApiV1RagAdminEvaluationDatasetsDatasetIdCasesPost :: "string \<Rightarrow> RagEvalCaseCreateRequest \<Rightarrow> CreateCaseApiV1RagAdminEvaluationDatasetsDatasetIdCasesPostParams option \<Rightarrow> RequestInit \<Rightarrow> api_call" where
  "createCaseApiV1RagAdminEvaluationDatasetsDatasetIdCasesPost datasetId ragEvalCaseCreateRequest params options =
     Generated (getCreateCaseApiV1RagAdminEvaluationDatasetsDatasetIdCasesPostUrl datasetId params)
       (orval_request options ''POST'' (Some (RagEvalCaseCreateRequest_json ragEvalCaseCreateRequest)))"

definition getCreateDatasetApiV1RagAdminEvaluationDatasetsPostUrl :: string where
  "getCreateDatasetApiV1RagAdminEvaluationDatasetsPostUrl =
     ''/api/v1/rag/admin/evaluation/datasets''"

definition createDatasetApiV1RagAdminEvaluationDatasetsPost :: "RagEvalDatasetCreateRequest \<Rightarrow> RequestInit \<Rightarrow> api_call" where
  "createDatasetApiV1RagAdminEvaluationDatasetsPost ragEvalDatasetCreateRequest options =
     Generated getCreateDatasetApiV1RagAdminEvaluationDatasetsPostUrl
       (orval_request options ''POST'' (Some (RagEvalDatasetCreateRequest_json ragEvalDatasetCreateRequest)))"

definition getExportRunApiV1RagAdminEvaluationRunsRunIdExportGetUrl :: "string \<Rightarrow> ExportRunApiV1RagAdminEvaluationRunsRunIdExportGetParams option \<Rightarrow> string" where
  "getExportRunApiV1RagAdminEvaluationRunsRunIdExportGetUrl runId params =
     orval_url (''/api/v1/rag/admin/evaluation/runs/'' @ runId @ ''/export'')
       (normalized_params (case params of None \<Rightarrow> [] | Some p \<Rightarrow> exportRun_params_entries p))"

definition getGetRunApiV1RagAdminEvaluationRunsRunIdGetUrl :: "string \<Rightarrow> GetRunApiV1RagAdminEvaluationRunsRunIdGetParams option \<Rightarrow> string" where
  "getGetRunApiV1RagAdminEvaluationRunsRunIdGetUrl runId params =
     orval_url (''/api/v1/rag/admin/evaluation/runs/'' @ runId)
       (normalized_params (case params of None \<Rightarrow> [] | Some p \<Rightarrow> getRun_params_entries p))"

definition getRunApiV1RagAdminEvaluationRunsRunIdGet :: "string \<Rightarrow> GetRunApiV1RagAdminEvaluationRunsRunIdGetParams option \<Rightarrow> RequestInit \<Rightarrow> api_call" where
  "getRunApiV1RagAdminEvaluationRunsRunIdGet runId params options =
     Generated (getGetRunApiV1RagAdminEvaluationRunsRunIdGetUrl runId params)
       (orval_request options ''GET'' None)"

definition getImportGoldenDatasetApiV1RagAdminEvaluationDatasetsImportGoldenPostUrl :: "ImportGoldenDatasetApiV1RagAdminEvaluationDatasetsImportGoldenPostParams option \<Rightarrow> string" where
  "getImportGoldenDatasetApiV1RagAdminEvaluationDatasetsImportGoldenPostUrl params =
     orval_url ''/api/v1/rag/admin/evaluation/datasets/import-golden''
       (normalized_params (case params of None \<Rightarrow> [] | Some p \<Rightarrow> importGoldenDataset_params_entries p))"

definition importGoldenDatasetApiV1RagAdminEvaluationDatasetsImportGoldenPost :: "ImportGoldenDatasetApiV1RagAdminEvaluationDatasetsImportGoldenPostParams option \<Rightarrow> RequestInit \<Rightarrow> api_call" where
  "importGoldenDatasetApiV1RagAdminEvaluationDatasetsImportGoldenPost params options =
     Generated (getImportGoldenDatasetApiV1RagAdminEvaluationDatasetsImportGoldenPostUrl params)
       (orval_request options ''POST'' None)"

definition getListCasesApiV1RagAdminEvaluationDatasetsDatasetIdCasesGetUrl :: "string \<Rightarrow> ListCasesApiV1RagAdminEvaluationDatasetsDatasetIdCasesGetParams option \<Rightarrow> string" where
  "getListCasesApiV1RagAdminEvaluationDatasetsDatasetIdCasesGetUrl datasetId params =
     orval_url (''/api/v1/rag/admin/evaluation/datasets/'' @ datasetId @ ''/cases'')
       (normalized_params (case params of None \<Rightarrow> [] | Some p \<Rightarrow> listCases_params_entries p))"

definition listCasesApiV1RagAdminEvaluationDatasetsDatasetIdCasesGet :: "string \<Rightarrow> ListCasesApiV1RagAdminEvaluationDatasetsDatasetIdCasesGetParams option \<Rightarrow> RequestInit \<Rightarrow> api_call" where
  "listCasesApiV1RagAdminEvaluationDatasetsDatasetIdCasesGet datasetId params options =
     Generated (getListCasesApiV1RagAdminEvaluationDatasetsDatasetIdCasesGetUrl datasetId params)
       (orval_request options ''GET'' None)"

definition getListDatasetsApiV1RagAdminEvaluationDatasetsGetUrl :: "ListDatasetsApiV1RagAdminEvaluationDatasetsGetParams option \<Rightarrow> string" where
  "getListDatasetsApiV1RagAdminEvaluationDatasetsGetUrl params =
     orval_url ''/api/v1/rag/admin/evaluation/datasets''
       (normalized_params (case params of None \<Rightarrow> [] | Some p \<Rightarrow> listDatasets_params_entries p))"

definition listDatasetsApiV1RagAdminEvaluationDatasetsGet :: "ListDatasetsApiV1RagAdminEvaluationDatasetsGetParams option \<Rightarrow> RequestInit \<Rightarrow> api_call" where
  "listDatasetsApiV1RagAdminEvaluationDatasetsGet params options =
     Generated (getListDatasetsApiV1RagAdminEvaluationDatasetsGetUrl params)
       (orval_request options ''GET'' None)"

definition getListRunsApiV1RagAdminEvaluationRunsGetUrl :: "ListRunsApiV1RagAdminEvaluationRunsGetParams option \<Rightarrow> string" where
  "getListRunsApiV1RagAdminEvaluationRunsGetUrl params =
     orval_url ''/api/v1/rag/admin/evaluation/runs''
       (normalized_params (case params of None \<Rightarrow> [] | Some p \<Rightarrow> listRuns_params_entries p))"

definition listRunsApiV1RagAdminEvaluationRunsGet :: "ListRunsApiV1RagAdminEvaluationRunsGetParams option \<Rightarrow> RequestInit \<Rightarrow> api_call" where
  "listRunsApiV1RagAdminEvaluationRunsGet params options =
     Generated (getListRunsApiV1RagAdminEvaluationRunsGetUrl params)
       (orval_request options ''GET'' None)"

definition getProbeRetrievalApiV1RagAdminEvaluationProbePostUrl :: string where
  "getProbeRetrievalApiV1RagAdminEvaluationProbePostUrl =
     ''/api/v1/rag/admin/evaluation/probe''"

definition probeRetrievalApiV1RagAdminEvaluationProbePost :: "RagEvalProbeRequest \<Rightarrow> RequestInit \<Rightarrow> api_call" where
  "probeRetrievalApiV1RagAdminEvaluationProbePost ragEvalProbeRequest options =
     Generated getProbeRetrievalApiV1RagAdminEvaluationProbePostUrl
       (orval_request options ''POST'' (Some (RagEvalProbeRequest_json ragEvalProbeRequest)))"

definition getRunDatasetApiV1RagAdminEvaluationDatasetsDatasetIdRunsPostUrl :: "string \<Rightarrow> string" where
  "getRunDatasetApiV1RagAdminEvaluationDatasetsDatasetIdRunsPostUrl datasetId =
     ''/api/v1/rag/admin/evaluation/datasets/'' @ datasetId @ ''/runs''"

definition runDatasetApiV1RagAdminEvaluationDatasetsDatasetIdRunsPost :: "string \<Rightarrow> RagEvalRunRequest \<Rightarrow> RequestInit \<Rightarrow> api_call" where
  "runDatasetApiV1RagAdminEvaluationDatasetsDatasetIdRunsPost datasetId ragEvalRunRequest options =
     Generated (getRunDatasetApiV1RagAdminEvaluationDatasetsDatasetIdRunsPostUrl datasetId)
       (orval_request options ''POST'' (Some (RagEvalRunRequest_json ragEvalRunRequest)))"

section \<open>The wrappers\<close>

subsection \<open>api/admin.ts\<close>

definition listAdminUsers :: "ListUsersApiV1AdminUsersGetParams option \<Rightarrow> api_call" where
  "listAdminUsers params = listUsersApiV1AdminUsersGet params no_init"

definition updateUserStatus :: "string \<Rightarrow> AdminUserStatusUpdate \<Rightarrow> api_call" where
  "updateUserStatus userId payload =
     updateUserStatusApiV1AdminUsersUserIdStatusPatch userId payload no_init"

subsection \<open>api/jobs.ts\<close>

definition listConsoleJobs :: "ListConsoleJobsApiV1AdminJobsGetParams option \<Rightarrow> api_call" where
  "listConsoleJobs params = listConsoleJobsApiV1AdminJobsGet params no_init"

definition getConsoleJob :: "string \<Rightarrow> string option \<Rightarrow> api_call" where
  "getConsoleJob jobId source =
     getConsoleJobApiV1AdminJobsJobIdGet jobId
       (if truthy source then Some \<lparr>getConsoleJob_params_source = Some source\<rparr> else None) no_init"

definition retryConsoleJob :: "string \<Rightarrow> string option \<Rightarrow> api_call" where
  "retryConsoleJob jobId source =
     retryConsoleJobApiV1AdminJobsJobIdRetryPost jobId
       (if truthy source then Some \<lparr>retryConsoleJob_params_source = Some source\<rparr> else None) no_init"

definition cancelConsoleJob :: "string \<Rightarrow> string option \<Rightarrow> api_call" where
  "cancelConsoleJob jobId source =
     cancelConsoleJobApiV1AdminJobsJobIdCancelPost jobId
       (if truthy source then Some \<lparr>cancelConsoleJob_params_source = Some source\<rparr> else None) no_init"

subsection \<open>api/policy.ts\<close>

definition listPolicyRoles :: api_call where
  "listPolicyRoles = listRolesApiV1PolicyRolesGet no_init"

definition listPolicyPermissions :: api_call where
  "listPolicyPermissions = listPermissionsApiV1PolicyPermissionsGet no_init"

definition listUserRoleAssignments :: "string \<Rightarrow> api_call" where
  "listUserRoleAssignments userId =
     listUserRoleAssignmentsApiV1PolicyUsersUserIdRoleAssignmentsGet userId no_init"

definition assignPolicyRole :: "RoleAssignmentCreate \<Rightarrow> api_call" where
  "assignPolicyRole payload = assignRoleApiV1PolicyRoleAssignmentsPost payload no_init"

definition revokePolicyRole :: "RevokeRoleApiV1PolicyRoleAssignmentsDeleteParams \<Rightarrow> api_call" where
  "revokePolicyRole params = revokeRoleApiV1PolicyRoleAssignmentsDelete params no_init"

subsection \<open>api/profile.ts\<close>

definition getProfile :: api_call where
  "getProfile = getProfileApiV1ProfileGet no_init"

definition updateProfile :: "ProfileUpdate \<Rightarrow> api_call" where
  "updateProfile payload = updateProfileApiV1ProfilePut payload no_init"

definition uploadAvatar :: "upload_file \<Rightarrow> api_call" where
  "uploadAvatar file = Fetch ''/profile/avatar'' (send ''POST'' (Some (FormBody [(''file'', FormFile file)])))"

definition deleteAvatar :: api_call where
  "deleteAvatar = deleteAvatarApiV1ProfileAvatarDelete no_init"

subsection \<open>api/memory.ts\<close>

definition listMyMemories :: "ListMemoriesApiV1MemoryGetParams option \<Rightarrow> api_call" where
  "listMyMemories params = listMemoriesApiV1MemoryGet params no_init"

definition deleteMyMemory :: "string \<Rightarrow> api_call" where
  "deleteMyMemory memoryId = deleteMemoryApiV1MemoryMemoryIdDelete memoryId no_init"

subsection \<open>api/diagnostics.ts\<close>

definition getDiagnostics :: api_call where
  "getDiagnostics = getDiagnosticsApiV1AdminDiagnosticsGet no_init"

subsection \<open>api/ragIndexes.ts\<close>

definition getRagIndexStatus :: api_call where
  "getRagIndexStatus = getIndexStatusApiV1RagAdminIndexStatusGet no_init"

definition createRagIndexVersion :: "string option \<Rightarrow> api_call" where
  "createRagIndexVersion notes =
     createIndexVersionApiV1RagAdminIndexVersionsPost \<lparr>RagIndexVersionCreateRequest_notes = Some notes\<rparr> no_init"

definition validateRagIndexVersion :: "string \<Rightarrow> api_call" where
  "validateRagIndexVersion versionId =
     validateIndexVersionApiV1RagAdminIndexVersionsVersionIdValidatePost versionId no_init"

definition activateRagIndexVersion :: "string \<Rightarrow> api_call" where
  "activateRagIndexVersion versionId =
     activateIndexVersionApiV1RagAdminIndexVersionsVersionIdActivatePost versionId no_init"

definition rollbackRagIndexVersion :: "string \<Rightarrow> api_call" where
  "rollbackRagIndexVersion versionId =
     rollbackIndexVersionApiV1RagAdminIndexVersionsVersionIdRollbackPost versionId no_init"

definition reindexStaleRagDocuments :: "number option \<Rightarrow> api_call" where
  "reindexStaleRagDocuments limit =
     reindexStaleDocumentsApiV1RagAdminReindexStalePost
       \<lparr>RagIndexReindexStaleRequest_limit = Some (nullish limit 50)\<rparr> no_init"

subsection \<open>api/ragEvaluation.ts\<close>

definition listRagEvalDatasets :: "string option \<Rightarrow> api_call" where
  "listRagEvalDatasets organizationId =
     listDatasetsApiV1RagAdminEvaluationDatasetsGet
       (if truthy organizationId then Some \<lparr>listDatasets_params_organization_id = Some organizationId\<rparr> else None)
       no_init"

definition createRagEvalDataset :: "RagEvalDatasetCreateRequest \<Rightarrow> api_call" where
  "createRagEvalDataset payload = createDatasetApiV1RagAdminEvaluationDatasetsPost payload no_init"

definition importGoldenRagEvalDataset :: "string option \<Rightarrow> api_call" where
  "importGoldenRagEvalDataset organizationId =
     importGoldenDatasetApiV1RagAdminEvaluationDatasetsImportGoldenPost
       (if truthy organizationId then Some \<lparr>importGoldenDataset_params_organization_id = Some organizationId\<rparr> else None)
       no_init"

definition listRagEvalCases :: "string \<Rightarrow> string option \<Rightarrow> api_call" where
  "listRagEvalCases datasetId organizationId =
     listCasesApiV1RagAdminEvaluationDatasetsDatasetIdCasesGet datasetId
       (if truthy organizationId then Some \<lparr>listCases_params_organization_id = Some organizationId\<rparr> else None)
       no_init"

definition createRagEvalCase :: "string \<Rightarrow> RagEvalCaseCreateRequest \<Rightarrow> string option \<Rightarrow> api_call" where
  "createRagEvalCase datasetId payload organizationId =
     createCaseApiV1RagAdminEvaluationDatasetsDatasetIdCasesPost datasetId payload
       (if truthy organizationId then Some \<lparr>createCase_params_organization_id = Some organizationId\<rparr> else None)
       no_init"

definition probeRagEvaluation :: "RagEvalProbeRequest \<Rightarrow> api_call" where
  "probeRagEvaluation payload = probeRetrievalApiV1RagAdminEvaluationProbePost payload no_init"

definition runRagEvalDataset :: "string \<Rightarrow> RagEvalRunRequest \<Rightarrow> api_call" where
  "runRagEvalDataset datasetId payload =
     runDatasetApiV1RagAdminEvaluationDatasetsDatasetIdRunsPost datasetId payload no_init"

definition listRagEvalRuns :: "string option \<Rightarrow> api_call" where
  "listRagEvalRuns datasetId =
     listRunsApiV1RagAdminEvaluationRunsGet
       (if truthy datasetId
        then Some \<lparr>listRuns_params_dataset_id = Some datasetId, listRuns_params_organization_id = None\<rparr> else None)
       no_init"

definition getRagEvalRun :: "string \<Rightarrow> api_call" where
  "getRagEvalRun runId = getRunApiV1RagAdminEvaluationRunsRunIdGet runId None no_init"

text \<open>A URL to open, not a call; format is "json" or "csv".\<close>

definition ragEvalExportUrl :: "string \<Rightarrow> string option \<Rightarrow> string" where
  "ragEvalExportUrl runId format =
     getExportRunApiV1RagAdminEvaluationRunsRunIdExportGetUrl runId
       (Some \<lparr>exportRun_params_format = Some (nullish format ''json''), exportRun_params_organization_id = None\<rparr>)"

end
