(* ===== verification/Contract_Admin.thy ===== *)
theory Contract_Admin
  imports Api_Contract Admin_Endpoints
begin

text \<open>
  The contract for the modules that wrap generated clients: the operations of openapi.json
  with their query parameters, every call the wrappers can make, and that each of them
  conforms, its query included.
\<close>

section \<open>Operations with a query\<close>

record query_route = api_route +
  rt_query :: "string list"
  rt_query_required :: "string list"

text \<open>The query as the server reads it, names and values.\<close>

definition call_query :: "api_call \<Rightarrow> (string option \<times> string option) list" where
  "call_query c = read_params (url_query (fst (call_parts c)))"

definition query_matches :: "(string option \<times> string option) list \<Rightarrow> query_route \<Rightarrow> bool" where
  "query_matches q r \<longleftrightarrow>
     list_all (\<lambda>(k, v). k \<in> Some ` set (rt_query r) \<and> v \<noteq> None) q
     \<and> list_all (\<lambda>k. Some k \<in> set (map fst q)) (rt_query_required r)"

definition conforms_query :: "query_route list \<Rightarrow> api_call \<Rightarrow> bool" where
  "conforms_query routes c \<longleftrightarrow>
     list_ex (\<lambda>r. route_matches c (api_route.truncate r) \<and> query_matches (call_query c) r) routes"

section \<open>Deciding conformance\<close>

definition fits_query :: "string \<Rightarrow> string list \<Rightarrow> query_entry list \<Rightarrow> request_body option \<Rightarrow> query_route \<Rightarrow> bool" where
  "fits_query m segs es body r =
     (if rt_method r = m
      then (if match_segments (rt_path r) segs
            then (if rt_paged r then False
                  else body_conforms (rt_body r) body
                    \<and> list_all (\<lambda>e. fst e \<in> set (rt_query r)) es
                    \<and> list_all (\<lambda>k. list_ex (\<lambda>e. fst e = k \<and> snd e \<noteq> None) es) (rt_query_required r))
            else False)
      else False)"

lemma normalized_subset: "fst ` set (normalized_params es) \<subseteq> fst ` set es"
  by (induction es rule: normalized_params.induct) auto

lemma normalized_some: "e \<in> set es \<Longrightarrow> snd e \<noteq> None \<Longrightarrow> fst e \<in> fst ` set (normalized_params es)"
  by (induction es rule: normalized_params.induct) auto

lemma query_fits:
  assumes "q = map (\<lambda>(k, v). (Some k, Some v)) (normalized_params es)"
    and names: "list_all (\<lambda>e. fst e \<in> set (rt_query r)) es"
    and required: "list_all (\<lambda>k. list_ex (\<lambda>e. fst e = k \<and> snd e \<noteq> None) es) (rt_query_required r)"
  shows "query_matches q r"
proof -
  have "k \<in> set (rt_query r)" if "(k, v) \<in> set (normalized_params es)" for k v
  proof -
    from that have "k \<in> fst ` set (normalized_params es)" by force
    then have "k \<in> fst ` set es" using normalized_subset [of es] by auto
    with names show ?thesis by (auto simp: list_all_iff)
  qed
  moreover have "k \<in> fst ` set (normalized_params es)" if "k \<in> set (rt_query_required r)" for k
  proof -
    from required that obtain e where "e \<in> set es" "fst e = k" "snd e \<noteq> None"
      by (auto simp: list_all_iff list_ex_iff)
    with normalized_some [of e es] show ?thesis by auto
  qed
  ultimately show ?thesis
    unfolding query_matches_def assms(1) by (fastforce simp: list_all_iff image_image split_beta)
qed

lemma generated_path:
  assumes "CHR ''?'' \<notin> set p"
  shows "url_path (or_slash (drop (length API_PREFIX) (orval_url (API_PREFIX @ CHR ''/'' # p) ps))) = CHR ''/'' # p"
    and "url_query (or_slash (drop (length API_PREFIX) (orval_url (API_PREFIX @ CHR ''/'' # p) ps))) = params_text ps"
proof -
  have drop: "or_slash (drop (length API_PREFIX) (orval_url (API_PREFIX @ CHR ''/'' # p) ps)) = orval_url (CHR ''/'' # p) ps"
    by (simp add: orval_url_def or_slash_def Let_def)
  have "CHR ''?'' \<notin> set (CHR ''/'' # p)" using assms by simp
  then show "url_path (or_slash (drop (length API_PREFIX) (orval_url (API_PREFIX @ CHR ''/'' # p) ps))) = CHR ''/'' # p"
    "url_query (or_slash (drop (length API_PREFIX) (orval_url (API_PREFIX @ CHR ''/'' # p) ps))) = params_text ps"
    unfolding drop by (rule orval_url_parts)+
qed

lemma conforms_Generated:
  assumes url: "url = orval_url (API_PREFIX @ CHR ''/'' # p) (normalized_params es)"
    and plain: "CHR ''?'' \<notin> set p"
    and segs: "split_char (CHR ''/'') p = segs"
    and opts: "init_method opts = Some m" "init_body opts = body"
    and fits: "list_ex (fits_query m segs es body) routes"
  shows "conforms_query routes (Generated url opts)"
proof -
  let ?c = "Generated url opts"
  have "path_segments (fst (call_parts ?c)) = [] # segs"
    using generated_path(1) [OF plain] segs by (simp add: url path_segments_def url_path_def [symmetric])
  moreover have "call_query ?c = map (\<lambda>(k, v). (Some k, Some v)) (normalized_params es)"
    by (simp add: call_query_def url generated_path(2) [OF plain] read_params_text)
  moreover from fits obtain r where "r \<in> set routes" "fits_query m segs es body r" by (auto simp: list_ex_iff)
  ultimately show ?thesis
    using opts query_fits [of "call_query ?c" es r]
    by (auto simp: conforms_query_def list_ex_iff route_matches_def match_path_def fits_query_def api_route.truncate_def
        nullish_def split: if_splits intro!: bexI [of _ r])
qed

lemma orval_request_simps [contract_simps]:
  "init_method (orval_request options m b) = Some m"
  "init_body (orval_request options m (Some v)) = Some (JsonBody v)"
  "init_body (orval_request no_init m None) = None"
  by (simp_all add: orval_request_def no_init_def split: option.splits)

lemma plain_url: "orval_url p (normalized_params []) = p"
  by (simp add: orval_url_def)

lemma optional_entries:
  "normalized_params (case p of None \<Rightarrow> [] | Some x \<Rightarrow> f x) = normalized_params (if p = None then [] else f (the p))"
  by (cases p) simp_all

section \<open>The operations in use\<close>

definition admin_routes :: "query_route list" where
  "admin_routes =
     [\<lparr>rt_method = ''GET'', rt_path = [Seg ''admin'', Seg ''users''],
       rt_body = NoBody, rt_paged = False,
       rt_query = [''page'', ''page_size'', ''search''], rt_query_required = []\<rparr>,
      \<lparr>rt_method = ''PATCH'', rt_path = [Seg ''admin'', Seg ''users'', Hole, Seg ''status''],
       rt_body = JsonSchema [''is_active''] [''is_active''], rt_paged = False,
       rt_query = [], rt_query_required = []\<rparr>,
      \<lparr>rt_method = ''POST'', rt_path = [Seg ''admin'', Seg ''jobs'', Hole, Seg ''cancel''],
       rt_body = NoBody, rt_paged = False,
       rt_query = [''source''], rt_query_required = []\<rparr>,
      \<lparr>rt_method = ''GET'', rt_path = [Seg ''admin'', Seg ''jobs'', Hole],
       rt_body = NoBody, rt_paged = False,
       rt_query = [''source''], rt_query_required = []\<rparr>,
      \<lparr>rt_method = ''GET'', rt_path = [Seg ''admin'', Seg ''jobs''],
       rt_body = NoBody, rt_paged = False,
       rt_query = [''status'', ''job_type'', ''queue'', ''project_id'', ''failed_only'', ''created_after'', ''created_before'', ''limit'', ''offset''], rt_query_required = []\<rparr>,
      \<lparr>rt_method = ''POST'', rt_path = [Seg ''admin'', Seg ''jobs'', Hole, Seg ''retry''],
       rt_body = NoBody, rt_paged = False,
       rt_query = [''source''], rt_query_required = []\<rparr>,
      \<lparr>rt_method = ''POST'', rt_path = [Seg ''policy'', Seg ''role-assignments''],
       rt_body = JsonSchema [''organization_id'', ''project_id'', ''role_key'', ''user_id''] [''user_id'', ''role_key''], rt_paged = False,
       rt_query = [], rt_query_required = []\<rparr>,
      \<lparr>rt_method = ''GET'', rt_path = [Seg ''policy'', Seg ''permissions''],
       rt_body = NoBody, rt_paged = False,
       rt_query = [], rt_query_required = []\<rparr>,
      \<lparr>rt_method = ''GET'', rt_path = [Seg ''policy'', Seg ''roles''],
       rt_body = NoBody, rt_paged = False,
       rt_query = [], rt_query_required = []\<rparr>,
      \<lparr>rt_method = ''GET'', rt_path = [Seg ''policy'', Seg ''users'', Hole, Seg ''role-assignments''],
       rt_body = NoBody, rt_paged = False,
       rt_query = [], rt_query_required = []\<rparr>,
      \<lparr>rt_method = ''DELETE'', rt_path = [Seg ''policy'', Seg ''role-assignments''],
       rt_body = NoBody, rt_paged = False,
       rt_query = [''user_id'', ''role_key'', ''organization_id'', ''project_id''], rt_query_required = [''user_id'', ''role_key'']\<rparr>,
      \<lparr>rt_method = ''DELETE'', rt_path = [Seg ''profile'', Seg ''avatar''],
       rt_body = NoBody, rt_paged = False,
       rt_query = [], rt_query_required = []\<rparr>,
      \<lparr>rt_method = ''GET'', rt_path = [Seg ''profile''],
       rt_body = NoBody, rt_paged = False,
       rt_query = [], rt_query_required = []\<rparr>,
      \<lparr>rt_method = ''PUT'', rt_path = [Seg ''profile''],
       rt_body = JsonSchema [''bio'', ''location'', ''website''] [], rt_paged = False,
       rt_query = [], rt_query_required = []\<rparr>,
      \<lparr>rt_method = ''DELETE'', rt_path = [Seg ''memory'', Hole],
       rt_body = NoBody, rt_paged = False,
       rt_query = [], rt_query_required = []\<rparr>,
      \<lparr>rt_method = ''GET'', rt_path = [Seg ''memory''],
       rt_body = NoBody, rt_paged = False,
       rt_query = [''memory_level'', ''project_id'', ''agent_id'', ''limit'', ''offset'', ''cursor''], rt_query_required = []\<rparr>,
      \<lparr>rt_method = ''GET'', rt_path = [Seg ''admin'', Seg ''diagnostics''],
       rt_body = NoBody, rt_paged = False,
       rt_query = [], rt_query_required = []\<rparr>,
      \<lparr>rt_method = ''POST'', rt_path = [Seg ''rag'', Seg ''admin'', Seg ''index-versions'', Hole, Seg ''activate''],
       rt_body = NoBody, rt_paged = False,
       rt_query = [], rt_query_required = []\<rparr>,
      \<lparr>rt_method = ''POST'', rt_path = [Seg ''rag'', Seg ''admin'', Seg ''index-versions''],
       rt_body = JsonSchema [''notes''] [], rt_paged = False,
       rt_query = [], rt_query_required = []\<rparr>,
      \<lparr>rt_method = ''GET'', rt_path = [Seg ''rag'', Seg ''admin'', Seg ''index-status''],
       rt_body = NoBody, rt_paged = False,
       rt_query = [], rt_query_required = []\<rparr>,
      \<lparr>rt_method = ''POST'', rt_path = [Seg ''rag'', Seg ''admin'', Seg ''reindex-stale''],
       rt_body = JsonSchema [''limit''] [], rt_paged = False,
       rt_query = [], rt_query_required = []\<rparr>,
      \<lparr>rt_method = ''POST'', rt_path = [Seg ''rag'', Seg ''admin'', Seg ''index-versions'', Hole, Seg ''rollback''],
       rt_body = NoBody, rt_paged = False,
       rt_query = [], rt_query_required = []\<rparr>,
      \<lparr>rt_method = ''POST'', rt_path = [Seg ''rag'', Seg ''admin'', Seg ''index-versions'', Hole, Seg ''validate''],
       rt_body = NoBody, rt_paged = False,
       rt_query = [], rt_query_required = []\<rparr>,
      \<lparr>rt_method = ''POST'', rt_path = [Seg ''rag'', Seg ''admin'', Seg ''evaluation'', Seg ''datasets'', Hole, Seg ''cases''],
       rt_body = JsonSchema [''expected_chunk_ids'', ''expected_document_ids'', ''expected_facts'', ''expected_sources'', ''judgments'', ''notes'', ''question'', ''tags''] [''question''], rt_paged = False,
       rt_query = [''organization_id''], rt_query_required = []\<rparr>,
      \<lparr>rt_method = ''POST'', rt_path = [Seg ''rag'', Seg ''admin'', Seg ''evaluation'', Seg ''datasets''],
       rt_body = JsonSchema [''description'', ''name'', ''organization_id'', ''tags''] [''name''], rt_paged = False,
       rt_query = [], rt_query_required = []\<rparr>,
      \<lparr>rt_method = ''GET'', rt_path = [Seg ''rag'', Seg ''admin'', Seg ''evaluation'', Seg ''runs'', Hole],
       rt_body = NoBody, rt_paged = False,
       rt_query = [''organization_id''], rt_query_required = []\<rparr>,
      \<lparr>rt_method = ''POST'', rt_path = [Seg ''rag'', Seg ''admin'', Seg ''evaluation'', Seg ''datasets'', Seg ''import-golden''],
       rt_body = NoBody, rt_paged = False,
       rt_query = [''organization_id''], rt_query_required = []\<rparr>,
      \<lparr>rt_method = ''GET'', rt_path = [Seg ''rag'', Seg ''admin'', Seg ''evaluation'', Seg ''datasets'', Hole, Seg ''cases''],
       rt_body = NoBody, rt_paged = False,
       rt_query = [''organization_id''], rt_query_required = []\<rparr>,
      \<lparr>rt_method = ''GET'', rt_path = [Seg ''rag'', Seg ''admin'', Seg ''evaluation'', Seg ''datasets''],
       rt_body = NoBody, rt_paged = False,
       rt_query = [''organization_id''], rt_query_required = []\<rparr>,
      \<lparr>rt_method = ''GET'', rt_path = [Seg ''rag'', Seg ''admin'', Seg ''evaluation'', Seg ''runs''],
       rt_body = NoBody, rt_paged = False,
       rt_query = [''dataset_id'', ''organization_id''], rt_query_required = []\<rparr>,
      \<lparr>rt_method = ''POST'', rt_path = [Seg ''rag'', Seg ''admin'', Seg ''evaluation'', Seg ''probe''],
       rt_body = JsonSchema [''document_ids'', ''include_generation_judges'', ''organization_id'', ''project_id'', ''query'', ''strategy'', ''top_k''] [''query''], rt_paged = False,
       rt_query = [], rt_query_required = []\<rparr>,
      \<lparr>rt_method = ''POST'', rt_path = [Seg ''rag'', Seg ''admin'', Seg ''evaluation'', Seg ''datasets'', Hole, Seg ''runs''],
       rt_body = JsonSchema [''baseline_run_id'', ''include_generation_judges'', ''name'', ''organization_id'', ''project_id'', ''strategy'', ''top_k''] [], rt_paged = False,
       rt_query = [], rt_query_required = []\<rparr>,
      \<lparr>rt_method = ''POST'', rt_path = [Seg ''profile'', Seg ''avatar''],
       rt_body = FormSchema [''file''] [''file''], rt_paged = False,
       rt_query = [], rt_query_required = []\<rparr>]"

section \<open>The calls\<close>

inductive admin_call :: "api_call \<Rightarrow> bool" where
  adm_listAdminUsers: "admin_call (listAdminUsers params)"
| adm_updateUserStatus: "path_segment userId \<Longrightarrow> admin_call (updateUserStatus userId payload)"
| adm_listConsoleJobs: "admin_call (listConsoleJobs params)"
| adm_getConsoleJob: "path_segment jobId \<Longrightarrow> admin_call (getConsoleJob jobId source)"
| adm_retryConsoleJob: "path_segment jobId \<Longrightarrow> admin_call (retryConsoleJob jobId source)"
| adm_cancelConsoleJob: "path_segment jobId \<Longrightarrow> admin_call (cancelConsoleJob jobId source)"
| adm_listPolicyRoles: "admin_call listPolicyRoles"
| adm_listPolicyPermissions: "admin_call listPolicyPermissions"
| adm_listUserRoleAssignments: "path_segment userId \<Longrightarrow> admin_call (listUserRoleAssignments userId)"
| adm_assignPolicyRole: "admin_call (assignPolicyRole payload)"
| adm_revokePolicyRole: "admin_call (revokePolicyRole params)"
| adm_getProfile: "admin_call getProfile"
| adm_updateProfile: "admin_call (updateProfile payload)"
| adm_uploadAvatar: "admin_call (uploadAvatar file)"
| adm_deleteAvatar: "admin_call deleteAvatar"
| adm_listMyMemories: "admin_call (listMyMemories params)"
| adm_deleteMyMemory: "path_segment memoryId \<Longrightarrow> admin_call (deleteMyMemory memoryId)"
| adm_getDiagnostics: "admin_call getDiagnostics"
| adm_getRagIndexStatus: "admin_call getRagIndexStatus"
| adm_createRagIndexVersion: "admin_call (createRagIndexVersion notes)"
| adm_validateRagIndexVersion: "path_segment versionId \<Longrightarrow> admin_call (validateRagIndexVersion versionId)"
| adm_activateRagIndexVersion: "path_segment versionId \<Longrightarrow> admin_call (activateRagIndexVersion versionId)"
| adm_rollbackRagIndexVersion: "path_segment versionId \<Longrightarrow> admin_call (rollbackRagIndexVersion versionId)"
| adm_reindexStaleRagDocuments: "admin_call (reindexStaleRagDocuments limit)"
| adm_listRagEvalDatasets: "admin_call (listRagEvalDatasets organizationId)"
| adm_createRagEvalDataset: "admin_call (createRagEvalDataset payload)"
| adm_importGoldenRagEvalDataset: "admin_call (importGoldenRagEvalDataset organizationId)"
| adm_listRagEvalCases: "path_segment datasetId \<Longrightarrow> admin_call (listRagEvalCases datasetId organizationId)"
| adm_createRagEvalCase: "path_segment datasetId \<Longrightarrow> admin_call (createRagEvalCase datasetId payload organizationId)"
| adm_probeRagEvaluation: "admin_call (probeRagEvaluation payload)"
| adm_runRagEvalDataset: "path_segment datasetId \<Longrightarrow> admin_call (runRagEvalDataset datasetId payload)"
| adm_listRagEvalRuns: "admin_call (listRagEvalRuns datasetId)"
| adm_getRagEvalRun: "path_segment runId \<Longrightarrow> admin_call (getRagEvalRun runId)"

lemmas admin_endpoints =
  listAdminUsers_def updateUserStatus_def listConsoleJobs_def getConsoleJob_def
  retryConsoleJob_def cancelConsoleJob_def listPolicyRoles_def listPolicyPermissions_def
  listUserRoleAssignments_def assignPolicyRole_def revokePolicyRole_def getProfile_def
  updateProfile_def uploadAvatar_def deleteAvatar_def listMyMemories_def deleteMyMemory_def
  getDiagnostics_def getRagIndexStatus_def createRagIndexVersion_def
  validateRagIndexVersion_def activateRagIndexVersion_def rollbackRagIndexVersion_def
  reindexStaleRagDocuments_def listRagEvalDatasets_def createRagEvalDataset_def
  importGoldenRagEvalDataset_def listRagEvalCases_def createRagEvalCase_def
  probeRagEvaluation_def runRagEvalDataset_def listRagEvalRuns_def getRagEvalRun_def
  getListUsersApiV1AdminUsersGetUrl_def listUsersApiV1AdminUsersGet_def
  getUpdateUserStatusApiV1AdminUsersUserIdStatusPatchUrl_def
  updateUserStatusApiV1AdminUsersUserIdStatusPatch_def
  getCancelConsoleJobApiV1AdminJobsJobIdCancelPostUrl_def
  cancelConsoleJobApiV1AdminJobsJobIdCancelPost_def
  getGetConsoleJobApiV1AdminJobsJobIdGetUrl_def getConsoleJobApiV1AdminJobsJobIdGet_def
  getListConsoleJobsApiV1AdminJobsGetUrl_def listConsoleJobsApiV1AdminJobsGet_def
  getRetryConsoleJobApiV1AdminJobsJobIdRetryPostUrl_def
  retryConsoleJobApiV1AdminJobsJobIdRetryPost_def
  getAssignRoleApiV1PolicyRoleAssignmentsPostUrl_def
  assignRoleApiV1PolicyRoleAssignmentsPost_def
  getListPermissionsApiV1PolicyPermissionsGetUrl_def
  listPermissionsApiV1PolicyPermissionsGet_def getListRolesApiV1PolicyRolesGetUrl_def
  listRolesApiV1PolicyRolesGet_def
  getListUserRoleAssignmentsApiV1PolicyUsersUserIdRoleAssignmentsGetUrl_def
  listUserRoleAssignmentsApiV1PolicyUsersUserIdRoleAssignmentsGet_def
  getRevokeRoleApiV1PolicyRoleAssignmentsDeleteUrl_def
  revokeRoleApiV1PolicyRoleAssignmentsDelete_def getDeleteAvatarApiV1ProfileAvatarDeleteUrl_def
  deleteAvatarApiV1ProfileAvatarDelete_def getGetProfileApiV1ProfileGetUrl_def
  getProfileApiV1ProfileGet_def getUpdateProfileApiV1ProfilePutUrl_def
  updateProfileApiV1ProfilePut_def getDeleteMemoryApiV1MemoryMemoryIdDeleteUrl_def
  deleteMemoryApiV1MemoryMemoryIdDelete_def getListMemoriesApiV1MemoryGetUrl_def
  listMemoriesApiV1MemoryGet_def getGetDiagnosticsApiV1AdminDiagnosticsGetUrl_def
  getDiagnosticsApiV1AdminDiagnosticsGet_def
  getActivateIndexVersionApiV1RagAdminIndexVersionsVersionIdActivatePostUrl_def
  activateIndexVersionApiV1RagAdminIndexVersionsVersionIdActivatePost_def
  getCreateIndexVersionApiV1RagAdminIndexVersionsPostUrl_def
  createIndexVersionApiV1RagAdminIndexVersionsPost_def
  getGetIndexStatusApiV1RagAdminIndexStatusGetUrl_def
  getIndexStatusApiV1RagAdminIndexStatusGet_def
  getReindexStaleDocumentsApiV1RagAdminReindexStalePostUrl_def
  reindexStaleDocumentsApiV1RagAdminReindexStalePost_def
  getRollbackIndexVersionApiV1RagAdminIndexVersionsVersionIdRollbackPostUrl_def
  rollbackIndexVersionApiV1RagAdminIndexVersionsVersionIdRollbackPost_def
  getValidateIndexVersionApiV1RagAdminIndexVersionsVersionIdValidatePostUrl_def
  validateIndexVersionApiV1RagAdminIndexVersionsVersionIdValidatePost_def
  getCreateCaseApiV1RagAdminEvaluationDatasetsDatasetIdCasesPostUrl_def
  createCaseApiV1RagAdminEvaluationDatasetsDatasetIdCasesPost_def
  getCreateDatasetApiV1RagAdminEvaluationDatasetsPostUrl_def
  createDatasetApiV1RagAdminEvaluationDatasetsPost_def
  getGetRunApiV1RagAdminEvaluationRunsRunIdGetUrl_def
  getRunApiV1RagAdminEvaluationRunsRunIdGet_def
  getImportGoldenDatasetApiV1RagAdminEvaluationDatasetsImportGoldenPostUrl_def
  importGoldenDatasetApiV1RagAdminEvaluationDatasetsImportGoldenPost_def
  getListCasesApiV1RagAdminEvaluationDatasetsDatasetIdCasesGetUrl_def
  listCasesApiV1RagAdminEvaluationDatasetsDatasetIdCasesGet_def
  getListDatasetsApiV1RagAdminEvaluationDatasetsGetUrl_def
  listDatasetsApiV1RagAdminEvaluationDatasetsGet_def
  getListRunsApiV1RagAdminEvaluationRunsGetUrl_def listRunsApiV1RagAdminEvaluationRunsGet_def
  getProbeRetrievalApiV1RagAdminEvaluationProbePostUrl_def
  probeRetrievalApiV1RagAdminEvaluationProbePost_def
  getRunDatasetApiV1RagAdminEvaluationDatasetsDatasetIdRunsPostUrl_def
  runDatasetApiV1RagAdminEvaluationDatasetsDatasetIdRunsPost_def AdminUserStatusUpdate_json_def
  RoleAssignmentCreate_json_def ProfileUpdate_json_def RagIndexVersionCreateRequest_json_def
  RagIndexReindexStaleRequest_json_def RagEvalDatasetCreateRequest_json_def
  RagEvalCaseCreateRequest_json_def RagEvalProbeRequest_json_def RagEvalRunRequest_json_def
  listUsers_params_entries_def cancelConsoleJob_params_entries_def
  getConsoleJob_params_entries_def listConsoleJobs_params_entries_def
  retryConsoleJob_params_entries_def revokeRole_params_entries_def
  listMemories_params_entries_def createCase_params_entries_def getRun_params_entries_def
  importGoldenDataset_params_entries_def listCases_params_entries_def
  listDatasets_params_entries_def listRuns_params_entries_def

text \<open>The rules that compute the request: one for a URL with a query, one for a plain URL.\<close>

lemma admin_path: "startsWith path ''/api/v1/'' \<Longrightarrow> drop 8 path = p \<Longrightarrow> path = API_PREFIX @ CHR ''/'' # p"
  by (auto simp: startsWith_iff API_PREFIX_def)

lemma conforms_with_query:
  assumes "startsWith path ''/api/v1/''" and "drop 8 path = p" and "CHR ''?'' \<notin> set p"
    and "split_char (CHR ''/'') p = segs" and "init_method opts = Some m" and "init_body opts = body"
    and "list_ex (fits_query m segs es body) routes"
  shows "conforms_query routes (Generated (orval_url path (normalized_params es)) opts)"
  by (rule conforms_Generated [OF _ assms(3-7)]) (simp add: admin_path [OF assms(1,2)])

lemma conforms_plain:
  assumes "startsWith path ''/api/v1/''" and "drop 8 path = p" and "CHR ''?'' \<notin> set p"
    and "split_char (CHR ''/'') p = segs" and "init_method opts = Some m" and "init_body opts = body"
    and "list_ex (fits_query m segs [] body) routes"
  shows "conforms_query routes (Generated path opts)"
  using conforms_with_query [OF assms] unfolding plain_url .

lemma upload_conforms: "conforms_query admin_routes (uploadAvatar file)"
proof -
  have "path_segments ''/profile/avatar'' = [[], ''profile'', ''avatar'']" by code_simp
  moreover have "call_query (uploadAvatar file) = []"
    by (simp add: call_query_def uploadAvatar_def url_query_def read_params_def)
  ultimately show ?thesis
    by (simp add: conforms_query_def admin_routes_def route_matches_def match_path_def uploadAvatar_def
        contract_simps query_matches_def api_route.truncate_def nullish_def keys_conform_def)
qed

lemma startsWith_api [contract_simps]: "startsWith (''/api/v1/'' @ x) ''/api/v1/''"
  by (simp add: startsWith_def)

lemma admin_call_conforms: "admin_call c \<Longrightarrow> conforms_query admin_routes c"
  apply (induction rule: admin_call.induct)
  apply (unfold admin_endpoints)
  apply (rule upload_conforms [unfolded uploadAvatar_def]
    | (rule conforms_with_query conforms_plain,
      simp add: startsWith_def, simp, simp add: contract_simps path_segment_D, simp add: contract_simps,
      simp add: contract_simps, simp add: contract_simps,
      simp add: admin_routes_def fits_query_def contract_simps split: option.splits))+
  done

text \<open>
  C26: The modules that wrap generated clients keep the contract of the server. Every call
  they make, whatever its identifiers, payload and parameters, addresses an operation of
  openapi.json with its method and body, and the query the server reads from the URL names
  only parameters of the operation, among them all the required ones, each with a value.
\<close>
theorem wrapped_calls_conform:
  assumes "admin_call c"
  shows "conforms_query admin_routes c"
  using assms by (rule admin_call_conforms)

theorem wrapped_calls_conform_witness:
  "call_query (revokePolicyRole \<lparr>revokeRole_params_user_id = ''u&1'', revokeRole_params_role_key = ''admin'',
       revokeRole_params_organization_id = Some None, revokeRole_params_project_id = None\<rparr>)
     = [(Some ''user_id'', Some ''u&1''), (Some ''role_key'', Some ''admin''), (Some ''organization_id'', Some ''null'')]
   \<and> conforms_query admin_routes
      (revokePolicyRole \<lparr>revokeRole_params_user_id = ''u&1'', revokeRole_params_role_key = ''admin'',
        revokeRole_params_organization_id = Some None, revokeRole_params_project_id = None\<rparr>)"
  by (rule conjI [OF _ wrapped_calls_conform [OF adm_revokePolicyRole]]) code_simp

end
