(* ===== verification/Calendar.thy ===== *)
theory Calendar
  imports Project_Tasks
begin

text \<open>
  The calendar: features/calendar (calendarRange.ts, calendarDisplay.ts,
  hooks/useDashboardCalendar.ts and the layout arithmetic of the day and week views), and
  the two checks of the server that the client has to pass,
  backend/modules/calendar/service.py.

  Dates come from the dayjs package.  The views only use the day of a Dayjs value, so a
  value is the number of its day, counted from any origin, and the operations the code
  calls are the members of the record dayjs; the locale dayjs_dates states what their
  documentation promises, and Gregorian dates satisfy it.
\<close>

section \<open>Dates\<close>

record dayjs =
  startOf_week :: "int \<Rightarrow> int"
  endOf_week :: "int \<Rightarrow> int"
  startOf_month :: "int \<Rightarrow> int"
  endOf_month :: "int \<Rightarrow> int"
  add_month :: "int \<Rightarrow> int \<Rightarrow> int"
  format_date :: "int \<Rightarrow> string"

text \<open>
  A week has seven days.  Months are numbered without gaps: month_of is the number of the
  month of a day, which only the laws mention.  Adding months moves that many months
  ahead, keeping the first day of a month the first.  A month has 28 to 31 days and twelve
  of them 365 or 366.
\<close>

locale dayjs_dates =
  fixes dj :: dayjs and month_of :: "int \<Rightarrow> int"
  assumes week_start: "startOf_week dj d \<le> d" "d < startOf_week dj d + 7"
    and week_end: "endOf_week dj d = startOf_week dj d + 6"
    and week_next: "startOf_week dj (d + 7) = startOf_week dj d + 7"
    and week_days: "startOf_week dj d \<le> x \<Longrightarrow> x < startOf_week dj d + 7 \<Longrightarrow> startOf_week dj x = startOf_week dj d"
    and month_bounds: "startOf_month dj d \<le> d" "d \<le> endOf_month dj d"
    and month_days: "month_of x = month_of d \<longleftrightarrow> startOf_month dj d \<le> x \<and> x \<le> endOf_month dj d"
    and month_length: "28 \<le> endOf_month dj d - startOf_month dj d + 1" "endOf_month dj d - startOf_month dj d + 1 \<le> 31"
    and month_next: "month_of (endOf_month dj d + 1) = month_of d + 1"
    and month_add: "month_of (add_month dj n d) = month_of d + n"
    and month_add_first: "startOf_month dj (add_month dj n (startOf_month dj d)) = add_month dj n (startOf_month dj d)"
    and year_length: "add_month dj 12 (startOf_month dj d) - startOf_month dj d \<in> {365, 366}"

section \<open>Ranges: calendarRange.ts\<close>

datatype CalendarViewMode = DayMode | WeekMode | MonthMode | TwelveMonthMode

definition CALENDAR_MAX_RANGE_DAYS :: int where
  "CALENDAR_MAX_RANGE_DAYS = 400"

definition month_of_view :: "dayjs \<Rightarrow> CalendarViewMode \<Rightarrow> int \<Rightarrow> int \<times> int" where
  "month_of_view dj viewMode anchorDate =
     (let startMonth = startOf_month dj anchorDate;
          endMonth = (if viewMode = TwelveMonthMode then add_month dj 11 startMonth else startMonth)
      in (startOf_week dj startMonth, endOf_week dj (endOf_month dj endMonth)))"

text \<open>The days of the range, and the range as the query sends it.\<close>

definition calendar_days :: "dayjs \<Rightarrow> CalendarViewMode \<Rightarrow> int \<Rightarrow> int \<times> int" where
  "calendar_days dj viewMode anchorDate =
     (if viewMode = DayMode then (anchorDate, anchorDate)
      else if viewMode = WeekMode then (startOf_week dj anchorDate, endOf_week dj anchorDate)
      else month_of_view dj viewMode anchorDate)"

definition getCalendarQueryRange :: "dayjs \<Rightarrow> CalendarViewMode \<Rightarrow> int \<Rightarrow> string \<times> string" where
  "getCalendarQueryRange dj viewMode anchorDate =
     (let (s, e) = calendar_days dj viewMode anchorDate in (format_date dj s, format_date dj e))"

text \<open>direction is 1 or -1.\<close>

definition shiftCalendarAnchor :: "dayjs \<Rightarrow> int \<Rightarrow> CalendarViewMode \<Rightarrow> int \<Rightarrow> int" where
  "shiftCalendarAnchor dj current viewMode direction =
     (if viewMode = DayMode then current + direction
      else if viewMode = WeekMode then current + 7 * direction
      else if viewMode = TwelveMonthMode then add_month dj (direction * 12) current
      else add_month dj direction current)"

definition visibleMonths :: "dayjs \<Rightarrow> CalendarViewMode \<Rightarrow> int \<Rightarrow> int list" where
  "visibleMonths dj viewMode anchorDate =
     (if viewMode = TwelveMonthMode
      then map (\<lambda>index. add_month dj index (startOf_month dj anchorDate)) [0, 1, 2, 3, 4, 5, 6, 7, 8, 9, 10, 11]
      else [startOf_month dj anchorDate])"

text \<open>The check of the server: CalendarService.list_items.\<close>

definition server_accepts_range :: "int \<Rightarrow> int \<Rightarrow> bool" where
  "server_accepts_range start_date end_date \<longleftrightarrow> \<not> start_date > end_date \<and> \<not> end_date - start_date > 400"

section \<open>Drafts: calendarDisplay.ts, useDashboardCalendar.ts\<close>

record CalendarDraft =
  cd_type :: CalendarItemType
  cd_title :: string
  cd_description :: string
  cd_start_time :: string
  cd_end_time :: string
  cd_project_id :: string
  cd_priority :: ProjectTaskPriority

record CalendarFieldErrors =
  cf_title :: "string option"
  cf_project_id :: "string option"
  cf_start_time :: "string option"
  cf_end_time :: "string option"
  cf_general :: "string option"

definition no_field_errors :: CalendarFieldErrors where
  "no_field_errors = \<lparr>cf_title = None, cf_project_id = None, cf_start_time = None, cf_end_time = None, cf_general = None\<rparr>"

definition first_project_id :: "Project list \<Rightarrow> string" where
  "first_project_id projects = (case projects of [] \<Rightarrow> [] | p # _ \<Rightarrow> Project_id p)"

definition buildEmptyDraft :: "Project list \<Rightarrow> CalendarItemType \<Rightarrow> CalendarDraft" where
  "buildEmptyDraft projects t =
     \<lparr>cd_type = t, cd_title = [], cd_description = [], cd_start_time = [], cd_end_time = [],
      cd_project_id = first_project_id projects, cd_priority = Medium\<rparr>"

text \<open>The change of the type in the drawer: CalendarItemDrawer.tsx.\<close>

definition change_type :: "Project list \<Rightarrow> CalendarItemType \<Rightarrow> CalendarDraft \<Rightarrow> CalendarDraft" where
  "change_type projects t d =
     d\<lparr>cd_type := t,
       cd_start_time := (if t = TaskItem then [] else cd_start_time d),
       cd_end_time := (if t = TaskItem then [] else cd_end_time d),
       cd_project_id := (if cd_project_id d \<noteq> [] then cd_project_id d else first_project_id projects)\<rparr>"

record dashboard_calendar =
  dc_viewMode :: CalendarViewMode
  dc_anchorDate :: int
  dc_selectedDateKey :: "string option"
  dc_drawerOpen :: bool
  dc_draft :: CalendarDraft
  dc_fieldErrors :: CalendarFieldErrors

definition openDay :: "dayjs \<Rightarrow> Project list \<Rightarrow> int \<Rightarrow> dashboard_calendar \<Rightarrow> dashboard_calendar" where
  "openDay dj projects day s =
     s\<lparr>dc_selectedDateKey := Some (format_date dj day), dc_anchorDate := day, dc_drawerOpen := True,
       dc_fieldErrors := no_field_errors,
       dc_draft := (dc_draft s)\<lparr>cd_project_id :=
         (if cd_project_id (dc_draft s) \<noteq> [] then cd_project_id (dc_draft s) else first_project_id projects)\<rparr>\<rparr>"

text \<open>The comparison of two times is that of their texts.\<close>

definition draft_errors :: "string option \<Rightarrow> CalendarDraft \<Rightarrow> CalendarFieldErrors" where
  "draft_errors selectedDateKey d =
     \<lparr>cf_title = (if js_length (trim (cd_title d)) < 2 then Some ''Title must be at least 2 characters.'' else None),
      cf_project_id = (if cd_type d = TaskItem \<and> cd_project_id d = [] then Some ''Select a project for this task.'' else None),
      cf_start_time = (if cd_type d \<noteq> TaskItem \<and> cd_end_time d \<noteq> [] \<and> cd_start_time d = []
         then Some ''Start time is required when end time is set.'' else None),
      cf_end_time = (if cd_type d \<noteq> TaskItem \<and> cd_start_time d \<noteq> [] \<and> cd_end_time d \<noteq> []
           \<and> compare_text (cd_end_time d) (cd_start_time d) \<le> 0
         then Some ''End time must be after start time.'' else None),
      cf_general = (if truthy selectedDateKey then None else Some ''Choose a day before adding a calendar item.'')\<rparr>"

definition calendar_payload :: "dayjs \<Rightarrow> dashboard_calendar \<Rightarrow> createCalendarItem_payload" where
  "calendar_payload dj s =
     (let d = dc_draft s in
      \<lparr>createCalendarItem_payload_type = cd_type d,
       createCalendarItem_payload_title = trim (cd_title d),
       createCalendarItem_payload_description = Some (or_none (trim (cd_description d))),
       createCalendarItem_payload_date = nullish (dc_selectedDateKey s) (format_date dj (dc_anchorDate s)),
       createCalendarItem_payload_start_time = Some (if cd_type d = TaskItem then None else or_none (cd_start_time d)),
       createCalendarItem_payload_end_time = Some (if cd_type d = TaskItem then None else or_none (cd_end_time d)),
       createCalendarItem_payload_project_id = Some (if cd_type d = TaskItem then or_none (cd_project_id d) else None),
       createCalendarItem_payload_priority = Some (if cd_type d = TaskItem then Some (cd_priority d) else None),
       createCalendarItem_payload_assignee_id = None\<rparr>)"

definition submitDraft :: "dayjs \<Rightarrow> dashboard_calendar \<Rightarrow> createCalendarItem_payload option \<times> dashboard_calendar" where
  "submitDraft dj s =
     (let errors = draft_errors (dc_selectedDateKey s) (dc_draft s)
      in if errors \<noteq> no_field_errors then (None, s\<lparr>dc_fieldErrors := errors\<rparr>)
         else (Some (calendar_payload dj s), s\<lparr>dc_fieldErrors := no_field_errors\<rparr>))"

text \<open>When the item is saved.\<close>

definition item_saved :: "Project list \<Rightarrow> dashboard_calendar \<Rightarrow> dashboard_calendar" where
  "item_saved projects s =
     s\<lparr>dc_draft := buildEmptyDraft projects (cd_type (dc_draft s)), dc_fieldErrors := no_field_errors\<rparr>"

text \<open>The checks of the server: CalendarService._create_entry_item and _create_task_item.\<close>

definition some_text :: "string option option \<Rightarrow> bool" where
  "some_text x \<longleftrightarrow> (case x of Some y \<Rightarrow> truthy y | None \<Rightarrow> False)"

definition server_accepts_item :: "createCalendarItem_payload \<Rightarrow> bool" where
  "server_accepts_item p =
     (if createCalendarItem_payload_type p = TaskItem then some_text (createCalendarItem_payload_project_id p)
      else \<not> some_text (createCalendarItem_payload_project_id p)
        \<and> \<not> some_text (createCalendarItem_payload_assignee_id p)
        \<and> createCalendarItem_payload_priority p \<in> {None, Some None, Some (Some Medium)}
        \<and> \<not> (some_text (createCalendarItem_payload_end_time p) \<and> \<not> some_text (createCalendarItem_payload_start_time p))
        \<and> \<not> (some_text (createCalendarItem_payload_start_time p) \<and> some_text (createCalendarItem_payload_end_time p)
             \<and> compare_text (the (the (createCalendarItem_payload_end_time p)))
                 (the (the (createCalendarItem_payload_start_time p))) \<le> 0))"

section \<open>Items on the grid\<close>

text \<open>
  itemsByDate: the items of every date, in the order of the query.  The dates are ISO
  dates, so none is the name of an inherited member of the object.
\<close>

definition itemsByDate :: "CalendarItem list \<Rightarrow> string \<Rightarrow> CalendarItem list option" where
  "itemsByDate items =
     fold (\<lambda>item grouped. grouped(CalendarItem_date item \<mapsto>
       nullish (grouped (CalendarItem_date item)) [] @ [item])) items (\<lambda>_. None)"

text \<open>Number(hours) * 60 + Number(minutes).\<close>

definition js_minutes :: "js_num \<Rightarrow> js_num \<Rightarrow> js_num" where
  "js_minutes h m =
     (case h of NaN \<Rightarrow> NaN
      | Infinite n \<Rightarrow> (case m of NaN \<Rightarrow> NaN | Infinite n' \<Rightarrow> if n = n' then Infinite n else NaN | Finite _ \<Rightarrow> Infinite n)
      | Finite a \<Rightarrow> (case m of NaN \<Rightarrow> NaN | Infinite n' \<Rightarrow> Infinite n' | Finite b \<Rightarrow> Finite (a * 60 + b)))"

definition getMinutesFromTimeString :: "string \<Rightarrow> js_num" where
  "getMinutesFromTimeString value =
     (case split_char (CHR '':'') value of
        [] \<Rightarrow> js_minutes (parse_number ''0'') (parse_number ''0'')
      | [hours] \<Rightarrow> js_minutes (parse_number hours) (parse_number ''0'')
      | hours # minutes # _ \<Rightarrow> js_minutes (parse_number hours) (parse_number minutes))"

text \<open>The items of a day with a time, and those without.\<close>

definition timed_items :: "CalendarItem list \<Rightarrow> CalendarItem list" where
  "timed_items items = filter (\<lambda>i. truthy (CalendarItem_start_time i)) items"

definition all_day_items :: "CalendarItem list \<Rightarrow> CalendarItem list" where
  "all_day_items items = filter (\<lambda>i. \<not> truthy (CalendarItem_start_time i)) items"

text \<open>
  CalendarDayView: the start and the end, in minutes, of the block of an item, and its
  offset and height in pixels.
\<close>

definition day_block :: "number \<Rightarrow> number option \<Rightarrow> number \<times> number" where
  "day_block startMinutes endTime =
     (let endMinutes = (case endTime of Some e \<Rightarrow> e | None \<Rightarrow> startMinutes + 60)
      in (startMinutes, max endMinutes (startMinutes + 30)))"

definition day_box :: "number \<times> number \<Rightarrow> number \<times> number" where
  "day_box b = (fst b / 60 * 56, max ((snd b - fst b) / 60 * 56) 44)"

text \<open>CalendarWeekView: the same on a grid of ten rows that starts at nine.\<close>

definition week_block :: "number \<Rightarrow> number option \<Rightarrow> number \<times> number" where
  "week_block startMinutes endTime =
     (let endMinutes = (case endTime of Some e \<Rightarrow> e | None \<Rightarrow> startMinutes + 60);
          clampedStart = max (9 * 60) startMinutes
      in (clampedStart, max (clampedStart + 30) endMinutes))"

definition week_box :: "number \<times> number \<Rightarrow> number \<times> number" where
  "week_box b = ((fst b - 9 * 60) / 60 * 88, max ((snd b - fst b) / 60 * 88) 44)"

definition week_grid_height :: number where
  "week_grid_height = 10 * 88"

section \<open>Facts about dates\<close>

context dayjs_dates
begin

lemma same_month_start: "month_of x = month_of d \<Longrightarrow> startOf_month dj x = startOf_month dj d"
proof -
  have own: "month_of (startOf_month dj y) = month_of y" for y
    using month_days [of "startOf_month dj y" y] month_bounds [of y] by auto
  assume same: "month_of x = month_of d"
  with own [of x] own [of d] show ?thesis
    using month_days [of "startOf_month dj x" d] month_days [of "startOf_month dj d" x] by simp
qed

lemma month_of_first: "month_of (startOf_month dj y) = month_of y"
  using month_days [of "startOf_month dj y" y] month_bounds [of y] by auto

lemma next_month_start:
  assumes "month_of x = month_of d + 1"
  shows "startOf_month dj x = endOf_month dj d + 1"
proof -
  have "month_of (endOf_month dj d + 1) = month_of x" using assms month_next by simp
  then have start: "startOf_month dj x = startOf_month dj (endOf_month dj d + 1)"
    by (rule same_month_start [symmetric])
  have "startOf_month dj (endOf_month dj d + 1) \<le> endOf_month dj d + 1" by (rule month_bounds)
  moreover have "\<not> startOf_month dj (endOf_month dj d + 1) \<le> endOf_month dj d"
  proof
    assume "startOf_month dj (endOf_month dj d + 1) \<le> endOf_month dj d"
    then have "month_of (endOf_month dj d) = month_of (endOf_month dj d + 1)"
      using month_days [of "endOf_month dj d" "endOf_month dj d + 1"] month_bounds(2) [of "endOf_month dj d + 1"] by linarith
    moreover have "month_of (endOf_month dj d) = month_of d"
      using month_days [of "endOf_month dj d" d] month_bounds [of d] by linarith
    ultimately show False using month_next [of d] by simp
  qed
  ultimately show ?thesis using start by linarith
qed

lemma first_is_first: "startOf_month dj (startOf_month dj d) = startOf_month dj d"
  by (rule same_month_start [OF month_of_first])

text \<open>The last day of the month eleven months on ends the year that starts with this month.\<close>

lemma year_end: "endOf_month dj (add_month dj 11 (startOf_month dj d)) + 1 = add_month dj 12 (startOf_month dj d)"
proof -
  have "month_of (add_month dj 12 (startOf_month dj d)) = month_of (add_month dj 11 (startOf_month dj d)) + 1"
    by (simp add: month_add)
  from next_month_start [OF this] show ?thesis by (simp add: month_add_first)
qed

lemma week_span: "endOf_week dj d = startOf_week dj d + 6" "startOf_week dj d \<le> d" "d \<le> endOf_week dj d"
  using week_start [of d] week_end [of d] by auto

lemma start_of_start: "startOf_week dj (startOf_week dj d) = startOf_week dj d"
  by (rule week_days) simp_all

lemma weeks_later: "startOf_week dj (startOf_week dj d + 7 * int n) = startOf_week dj d + 7 * int n"
proof (induction n)
  case (Suc n)
  have succ: "startOf_week dj d + 7 * int (Suc n) = (startOf_week dj d + 7 * int n) + 7" by simp
  show ?case unfolding succ week_next Suc ..
qed (simp add: start_of_start)

lemma whole_weeks:
  assumes "d \<le> x"
  shows "(endOf_week dj x - startOf_week dj d + 1) mod 7 = 0"
proof -
  define n where "n = nat ((x - startOf_week dj d) div 7)"
  have le: "startOf_week dj d \<le> x" using assms week_start(1) [of d] by linarith
  then have "startOf_week dj d + 7 * int n \<le> x" "x < startOf_week dj d + 7 * int n + 7"
    by (simp_all add: n_def) linarith+
  then have "startOf_week dj x = startOf_week dj d + 7 * int n"
    using week_days [of "startOf_week dj d + 7 * int n" x] weeks_later [of d n] by simp
  then show ?thesis by (simp add: week_end)
qed

lemma month_end_same: "month_of x = month_of d \<Longrightarrow> endOf_month dj x = endOf_month dj d"
  using next_month_start [of "endOf_month dj d + 1" d] next_month_start [of "endOf_month dj d + 1" x] month_next [of d]
  by simp

lemma range_days:
  assumes "calendar_days dj mode anchor = (s, e)"
  shows "s \<le> anchor \<and> anchor \<le> e \<and> e - s \<le> 377 \<and> (mode \<noteq> DayMode \<longrightarrow> (e - s + 1) mod 7 = 0)"
proof -
  let ?first = "startOf_month dj anchor"
  have first: "?first \<le> anchor" "anchor \<le> endOf_month dj anchor" by (rule month_bounds)+
  show ?thesis
  proof (cases mode)
    case WeekMode
    with assms week_span [of anchor] whole_weeks [of anchor anchor] show ?thesis
      by (auto simp: calendar_days_def)
  next
    case MonthMode
    then have se: "s = startOf_week dj ?first" "e = endOf_week dj (endOf_month dj ?first)"
      using assms by (auto simp: calendar_days_def month_of_view_def Let_def)
    have "?first = startOf_month dj ?first" by (rule first_is_first [symmetric])
    moreover have "endOf_month dj ?first = endOf_month dj anchor"
      by (rule month_end_same [OF month_of_first])
    ultimately show ?thesis
      using week_span [of ?first] week_span [of "endOf_month dj ?first"] month_length [of anchor] first
        whole_weeks [of ?first "endOf_month dj ?first"] unfolding se by linarith
  next
    case TwelveMonthMode
    let ?last = "endOf_month dj (add_month dj 11 ?first)"
    have se: "s = startOf_week dj ?first" "e = endOf_week dj ?last"
      using assms TwelveMonthMode by (auto simp: calendar_days_def month_of_view_def Let_def)
    have year: "?last - ?first = 364 \<or> ?last - ?first = 365"
      using year_end [of anchor] year_length [of anchor] by auto
    have "anchor \<le> ?last" using first month_length(2) [of anchor] year by linarith
    then show ?thesis
      using week_span [of ?first] week_span [of ?last] first year whole_weeks [of ?first ?last] unfolding se by linarith
  qed (use assms in \<open>simp add: calendar_days_def\<close>)
qed

end

end
