(* ===== verification/Calendar_Facts.thy ===== *)
theory Calendar_Facts
  imports Calendar
begin

text \<open>
  Gregorian dates as an instance of the locale dayjs_dates, and the properties of the
  calendar.
\<close>

section \<open>Gregorian dates\<close>

text \<open>
  Day 0 is the first of January of the year 0, a Saturday; month 0 is that January.  The
  months of a cycle of 400 years, 4800 months and 146097 days, are found by search.
\<close>

definition leap_year :: "int \<Rightarrow> bool" where
  "leap_year y \<longleftrightarrow> y mod 4 = 0 \<and> (y mod 100 \<noteq> 0 \<or> y mod 400 = 0)"

definition year_start :: "int \<Rightarrow> int" where
  "year_start y = 365 * y + (y + 3) div 4 - (y + 99) div 100 + (y + 399) div 400"

definition month_offset :: "bool \<Rightarrow> int \<Rightarrow> int" where
  "month_offset leap k =
     (if k \<le> 1 then 31 * k
      else [59, 90, 120, 151, 181, 212, 243, 273, 304, 334] ! nat (k - 2) + (if leap then 1 else 0))"

definition month_start :: "int \<Rightarrow> int" where
  "month_start m = year_start (m div 12) + month_offset (leap_year (m div 12)) (m mod 12)"

lemma div_succ:
  fixes a n :: int
  assumes n: "0 < n"
  shows "(a + 1) div n = a div n + (if (a + 1) mod n = 0 then 1 else 0)"
proof -
  define q r where "q = a div n" and "r = a mod n"
  have a: "a = n * q + r" and r: "0 \<le> r" "r < n"
    using n by (simp_all add: q_def r_def)
  show ?thesis
  proof (cases "r + 1 = n")
    case True
    then have "a + 1 = n * (q + 1)" by (simp add: a distrib_left)
    with n show ?thesis by (simp add: q_def)
  next
    case False
    then have "0 \<le> r + 1" "r + 1 < n" and ne: "r + 1 \<noteq> 0" using r by auto
    then have "(n * q + (r + 1)) div n = q" and "(n * q + (r + 1)) mod n = r + 1"
      by (simp_all add: div_pos_pos_trivial mod_pos_pos_trivial)
    moreover have "(n * q + r) div n = q" and "n * q + r + 1 = n * q + (r + 1)"
      using r by (simp_all add: div_pos_pos_trivial)
    ultimately show ?thesis using ne by (simp only: a) simp
  qed
qed

lemma div_step:
  fixes n k y :: int
  assumes "0 < n" and "k + 1 = n"
  shows "(y + 1 + k) div n = (y + k) div n + (if y mod n = 0 then 1 else 0)"
proof -
  have 1: "y + 1 + k = y + k + 1" by simp
  have 2: "(y + k + 1) mod n = y mod n" using assms(2) by (metis add.assoc mod_add_self2)
  show ?thesis unfolding 1 using div_succ [OF assms(1), of "y + k"] unfolding 2 .
qed

lemma sum_step:
  fixes x :: int
  assumes "a' = a + da" and "b' = b + db" and "c' = c + dc"
  shows "(365 * (x + 1) + a' - b' + c') - (365 * x + a - b + c) = 365 + (da - db + dc)"
  using assms by simp

lemma year_days: "year_start (y + 1) - year_start y = (if leap_year y then 366 else 365)"
proof -
  have 4: "(y + 1 + 3) div 4 = (y + 3) div 4 + (if y mod 4 = 0 then 1 else 0)"
    by (rule div_step) simp_all
  have 100: "(y + 1 + 99) div 100 = (y + 99) div 100 + (if y mod 100 = 0 then 1 else 0)"
    by (rule div_step) simp_all
  have 400: "(y + 1 + 399) div 400 = (y + 399) div 400 + (if y mod 400 = 0 then 1 else 0)"
    by (rule div_step) simp_all
  have "(100 :: int) dvd 400" and "(4 :: int) dvd 100" by simp_all
  then have "y mod 400 = 0 \<Longrightarrow> y mod 100 = 0" and "y mod 100 = 0 \<Longrightarrow> y mod 4 = 0"
    by (meson dvd_trans mod_eq_0_iff_dvd)+
  then have "(if y mod 4 = 0 then 1 else 0) - (if y mod 100 = 0 then 1 else 0) + (if y mod 400 = 0 then 1 else 0)
      = (if leap_year y then 1 else 0 :: int)"
    unfolding leap_year_def by (cases "y mod 4 = 0"; cases "y mod 100 = 0"; cases "y mod 400 = 0") simp_all
  then show ?thesis
    unfolding year_start_def sum_step [OF 4 100 400] by simp
qed

lemma twelve: "0 \<le> k \<Longrightarrow> k < 12 \<Longrightarrow> (12 * y + k) div 12 = y \<and> (12 * y + k) mod 12 = (k :: int)"
  by (simp add: div_pos_pos_trivial mod_pos_pos_trivial)

lemma month_start_at:
  "0 \<le> k \<Longrightarrow> k < 12 \<Longrightarrow> month_start (12 * y + k) = year_start y + month_offset (leap_year y) k"
  unfolding month_start_def using twelve [of k y] by simp

lemma month_cases:
  fixes m :: int
  obtains y k where "m = 12 * y + k" "0 \<le> k" "k < 12"
  using that [of "m div 12" "m mod 12"] by simp

lemma offset_step:
  assumes "0 \<le> k" and "k < 11"
  shows "28 \<le> month_offset l (k + 1) - month_offset l k \<and> month_offset l (k + 1) - month_offset l k \<le> 31"
proof -
  have "k = 0 \<or> k = 1 \<or> k = 2 \<or> k = 3 \<or> k = 4 \<or> k = 5 \<or> k = 6 \<or> k = 7 \<or> k = 8 \<or> k = 9 \<or> k = 10"
    using assms by presburger
  then show ?thesis by (elim disjE) (simp_all add: month_offset_def)
qed

lemma month_days_between:
  "28 \<le> month_start (m + 1) - month_start m \<and> month_start (m + 1) - month_start m \<le> 31"
proof (rule month_cases [of m])
  fix y k assume m: "m = 12 * y + k" "0 \<le> k" "k < 12"
  show ?thesis
  proof (cases "k < 11")
    case True
    then show ?thesis
      using m month_start_at [of k y] month_start_at [of "k + 1" y] offset_step [of k "leap_year y"]
      by (simp add: add.assoc)
  next
    case False
    then have k: "k = 11" using m(3) by simp
    have succ: "m + 1 = 12 * (y + 1) + 0" by (simp add: m k)
    have "month_start (m + 1) = year_start (y + 1)"
      unfolding succ by (subst month_start_at) (simp_all add: month_offset_def)
    moreover have "month_start m = year_start y + 334 + (if leap_year y then 1 else 0)"
      unfolding m(1) by (subst month_start_at) (simp_all add: k month_offset_def)
    ultimately show ?thesis using year_days [of y] by (simp split: if_splits)
  qed
qed

lemma month_start_less: "month_start m < month_start (m + 1)"
  using month_days_between [of m] by linarith

lemma twelve_months_days: "month_start (m + 12) - month_start m \<in> {365, 366}"
proof (rule month_cases [of m])
  fix y k assume m: "m = 12 * y + k" "0 \<le> k" "k < 12"
  have succ: "m + 12 = 12 * (y + 1) + k" by (simp add: m)
  have "month_start (m + 12) = year_start (y + 1) + month_offset (leap_year (y + 1)) k"
    unfolding succ by (rule month_start_at [OF m(2,3)])
  moreover have "month_start m = year_start y + month_offset (leap_year y) k"
    unfolding m(1) by (rule month_start_at [OF m(2,3)])
  ultimately have "month_start (m + 12) - month_start m =
      (year_start (y + 1) - year_start y) + (month_offset (leap_year (y + 1)) k - month_offset (leap_year y) k)"
    by simp
  then show ?thesis unfolding year_days by (simp add: month_offset_def split: if_splits)
qed

lemma div_period: "0 < n \<Longrightarrow> (a + n * k) div n = a div n + k" for a n k :: int
  by simp

lemma year_period: "year_start (y + 400 * q) = year_start y + 146097 * q"
proof -
  have "(y + 400 * q + 3) div 4 = (y + 3) div 4 + 100 * q"
    using div_period [of 4 "y + 3" "100 * q"] by (simp add: ac_simps)
  moreover have "(y + 400 * q + 99) div 100 = (y + 99) div 100 + 4 * q"
    using div_period [of 100 "y + 99" "4 * q"] by (simp add: ac_simps)
  moreover have "(y + 400 * q + 399) div 400 = (y + 399) div 400 + q"
    using div_period [of 400 "y + 399" q] by (simp add: ac_simps)
  ultimately show ?thesis unfolding year_start_def by (simp only:) (simp add: algebra_simps)
qed

lemma leap_period: "leap_year (y + 400 * q) = leap_year y"
proof -
  have "(y + 400 * q) mod 4 = y mod 4" and "(y + 400 * q) mod 100 = y mod 100"
    using mod_mult_self2 [of y 4 "100 * q"] mod_mult_self2 [of y 100 "4 * q"] by simp_all
  then show ?thesis by (simp add: leap_year_def)
qed

lemma month_period: "month_start (m + 4800 * q) = month_start m + 146097 * q"
proof (rule month_cases [of m])
  fix y k assume m: "m = 12 * y + k" "0 \<le> k" "k < 12"
  have shift: "m + 4800 * q = 12 * (y + 400 * q) + k" by (simp add: m)
  have "month_start (m + 4800 * q) = year_start (y + 400 * q) + month_offset (leap_year (y + 400 * q)) k"
    unfolding shift by (rule month_start_at [OF m(2,3)])
  moreover have "month_start m = year_start y + month_offset (leap_year y) k"
    unfolding m(1) by (rule month_start_at [OF m(2,3)])
  ultimately show ?thesis by (simp add: year_period leap_period)
qed

lemma month_start_mono: "i < j \<Longrightarrow> month_start i < month_start j"
proof -
  have "month_start i < month_start (i + int (Suc n))" for n
  proof (induction n)
    case (Suc n)
    then show ?case using month_start_less [of "i + int (Suc n)"] by (simp add: ac_simps)
  qed (use month_start_less [of i] in simp)
  from this [of "nat (j - i - 1)"] show "i < j \<Longrightarrow> month_start i < month_start j" by simp
qed

function find_month :: "int \<Rightarrow> int \<Rightarrow> int" where
  "find_month d m = (if month_start (m + 1) \<le> d then find_month d (m + 1) else m)"
  by pat_completeness auto
termination
proof (relation "measure (\<lambda>(d, m). nat (d - month_start m))")
  fix d m assume "month_start (m + 1) \<le> d"
  then show "((d, m + 1), d, m) \<in> measure (\<lambda>(d, m). nat (d - month_start m))"
    using month_start_less [of m] by simp
qed simp

declare find_month.simps [simp del]

lemma find_month_bounds:
  "month_start m \<le> d \<Longrightarrow> month_start (find_month d m) \<le> d \<and> d < month_start (find_month d m + 1)"
proof (induction d m rule: find_month.induct)
  case (1 d m)
  then show ?case by (subst (1 2) find_month.simps) auto
qed

definition month_of_day :: "int \<Rightarrow> int" where
  "month_of_day d = 4800 * (d div 146097) + find_month (d mod 146097) 0"

lemma month_of_day_bounds: "month_start (month_of_day d) \<le> d \<and> d < month_start (month_of_day d + 1)"
proof -
  define q r where "q = d div 146097" and "r = d mod 146097"
  have d: "d = 146097 * q + r" and r: "0 \<le> r" by (simp_all add: q_def r_def)
  have "month_start 0 = 0" by (simp add: month_start_def year_start_def month_offset_def)
  with r find_month_bounds [of 0 r] have b: "month_start (find_month r 0) \<le> r" "r < month_start (find_month r 0 + 1)"
    by simp_all
  have m: "month_of_day d = find_month r 0 + 4800 * q"
    by (simp add: month_of_day_def q_def r_def)
  have "month_start (month_of_day d) = month_start (find_month r 0) + 146097 * q"
    unfolding m by (rule month_period)
  moreover have "month_start (month_of_day d + 1) = month_start (find_month r 0 + 1) + 146097 * q"
    using month_period [of "find_month r 0 + 1" q] unfolding m by (simp add: ac_simps)
  ultimately show ?thesis using b d by simp
qed

lemma month_of_day_iff: "month_of_day d = m \<longleftrightarrow> month_start m \<le> d \<and> d < month_start (m + 1)"
proof
  assume "month_start m \<le> d \<and> d < month_start (m + 1)"
  with month_of_day_bounds [of d] month_start_mono [of "month_of_day d + 1" m] month_start_mono [of "m + 1" "month_of_day d"]
  show "month_of_day d = m"
    by (cases "m + 1 < month_of_day d"; cases "month_of_day d + 1 < m"; cases "m + 1 = month_of_day d"; cases "month_of_day d + 1 = m") auto
qed (use month_of_day_bounds in blast)

definition pad_digits :: "nat \<Rightarrow> int \<Rightarrow> string" where
  "pad_digits n i = (let s = nat_digits (nat i) in replicate (n - length s) (CHR ''0'') @ s)"

definition gregorian :: dayjs where
  "gregorian =
     \<lparr>startOf_week = \<lambda>d. d - (d + 6) mod 7,
      endOf_week = \<lambda>d. d - (d + 6) mod 7 + 6,
      startOf_month = \<lambda>d. month_start (month_of_day d),
      endOf_month = \<lambda>d. month_start (month_of_day d + 1) - 1,
      add_month = \<lambda>n d. let m = month_of_day d
        in month_start (m + n) + min (d - month_start m) (month_start (m + n + 1) - month_start (m + n) - 1),
      format_date = \<lambda>d. let m = month_of_day d
        in pad_digits 4 (m div 12) @ ''-'' @ pad_digits 2 (m mod 12 + 1) @ ''-'' @ pad_digits 2 (d - month_start m + 1)\<rparr>"

lemma month_of_day_first [simp]: "month_of_day (month_start m) = m"
  using month_start_less by (simp add: month_of_day_iff)

interpretation gregorian: dayjs_dates gregorian month_of_day
proof
  fix d n x k :: int
  have week: "0 \<le> (d + 6) mod 7" "(d + 6) mod 7 < 7" by simp_all
  show "startOf_week gregorian d \<le> d" and "d < startOf_week gregorian d + 7"
    and "endOf_week gregorian d = startOf_week gregorian d + 6"
    using week by (simp_all add: gregorian_def)
  have start: "startOf_week gregorian d = 7 * ((d + 6) div 7) - 6" for d
  proof -
    have "startOf_week gregorian d = (d + 6) - (d + 6) mod 7 - 6" by (simp add: gregorian_def)
    then show ?thesis by (simp only: minus_mod_eq_mult_div)
  qed
  show "startOf_week gregorian (d + 7) = startOf_week gregorian d + 7"
    unfolding start using div_period [of 7 "d + 6" 1] by (simp add: ac_simps)
  show "startOf_week gregorian x = startOf_week gregorian d"
    if "startOf_week gregorian d \<le> x" and "x < startOf_week gregorian d + 7"
  proof -
    have "(x + 6) div 7 = (d + 6) div 7"
      using that unfolding start by (intro int_div_pos_eq [of _ _ _ "x + 6 - 7 * ((d + 6) div 7)"]) auto
    then show ?thesis by (simp only: start)
  qed
  show "startOf_month gregorian d \<le> d" and "d \<le> endOf_month gregorian d"
    using month_of_day_bounds [of d] by (simp_all add: gregorian_def)
  show "month_of_day x = month_of_day d \<longleftrightarrow> startOf_month gregorian d \<le> x \<and> x \<le> endOf_month gregorian d"
    by (auto simp: month_of_day_iff gregorian_def)
  show "28 \<le> endOf_month gregorian d - startOf_month gregorian d + 1"
    and "endOf_month gregorian d - startOf_month gregorian d + 1 \<le> 31"
    using month_days_between [of "month_of_day d"] by (simp_all add: gregorian_def)
  show "month_of_day (endOf_month gregorian d + 1) = month_of_day d + 1"
    by (simp add: gregorian_def)
  have "month_of_day (add_month gregorian n d) = month_of_day d + n"
    using month_of_day_bounds [of d] month_start_less [of "month_of_day d + n"]
    by (auto simp: month_of_day_iff gregorian_def Let_def)
  then show "month_of_day (add_month gregorian n d) = month_of_day d + n" .
  have "0 \<le> month_start (month_of_day d + n + 1) - month_start (month_of_day d + n) - 1"
    using month_start_less [of "month_of_day d + n"] by simp
  then show "startOf_month gregorian (add_month gregorian n (startOf_month gregorian d)) = add_month gregorian n (startOf_month gregorian d)"
    by (simp add: gregorian_def Let_def min_def)
  show "add_month gregorian 12 (startOf_month gregorian d) - startOf_month gregorian d \<in> {365, 366}"
    using twelve_months_days [of "month_of_day d"] month_start_less [of "month_of_day d + 12"]
    by (simp add: gregorian_def Let_def min_def)
qed

section \<open>Properties\<close>

text \<open>
  C24: The server never refuses the range of a view. Whatever the view and the day it is
  anchored at, the range that is queried starts no later than that day and ends no
  earlier, spans at most 378 days, below the limit of 400 that client and server share,
  and consists of whole weeks unless it is the single day of the day view.
\<close>
theorem calendar_range_accepted:
  assumes "dayjs_dates dj month_of" and "calendar_days dj mode anchor = (s, e)"
  shows "server_accepts_range s e \<and> e - s + 1 \<le> 378 \<and> 378 \<le> CALENDAR_MAX_RANGE_DAYS
    \<and> s \<le> anchor \<and> anchor \<le> e \<and> (mode \<noteq> DayMode \<longrightarrow> (e - s + 1) mod 7 = 0)
    \<and> getCalendarQueryRange dj mode anchor = (format_date dj s, format_date dj e)"
  using dayjs_dates.range_days [OF assms] assms(2)
  by (auto simp: server_accepts_range_def CALENDAR_MAX_RANGE_DAYS_def getCalendarQueryRange_def)

theorem calendar_range_accepted_witness:
  "\<exists>s e. calendar_days gregorian TwelveMonthMode 740173 = (s, e) \<and> server_accepts_range s e \<and> e - s + 1 \<le> 378"
proof -
  obtain s e where "calendar_days gregorian TwelveMonthMode 740173 = (s, e)" by fastforce
  with calendar_range_accepted [OF gregorian.dayjs_dates_axioms this] show ?thesis by blast
qed

text \<open>
  Moving through the calendar skips no day and can be undone. After a step forward in
  any view the new range starts no later than the day after the old one ended, and a step
  back brings the old range again, although the anchor itself may have moved within its
  month.
\<close>
theorem calendar_navigation:
  assumes "dayjs_dates dj month_of" and "calendar_days dj mode anchor = (s, e)"
    and "calendar_days dj mode (shiftCalendarAnchor dj anchor mode 1) = (s', e')"
  shows "s' \<le> e + 1
    \<and> calendar_days dj mode (shiftCalendarAnchor dj (shiftCalendarAnchor dj anchor mode 1) mode (- 1)) = (s, e)"
proof -
  note week = dayjs_dates.week_span [OF assms(1)] and next_week = dayjs_dates.week_next [OF assms(1)]
    and added = dayjs_dates.month_add [OF assms(1)] and same = dayjs_dates.same_month_start [OF assms(1)]
    and bounds = dayjs_dates.month_bounds [OF assms(1)]
  show ?thesis
  proof (cases mode)
    case WeekMode
    then show ?thesis
      using assms(2,3) week [of anchor] next_week [of anchor] week(1) [of "anchor + 7"]
      by (auto simp: calendar_days_def shiftCalendarAnchor_def)
  next
    case MonthMode
    have "startOf_month dj (add_month dj 1 anchor) = endOf_month dj anchor + 1"
      by (rule dayjs_dates.next_month_start [OF assms(1)]) (rule added)
    moreover have "startOf_month dj (add_month dj (- 1) (add_month dj 1 anchor)) = startOf_month dj anchor"
      by (rule same) (simp add: added)
    moreover have "endOf_month dj (startOf_month dj anchor) = endOf_month dj anchor"
      using dayjs_dates.month_end_same [OF assms(1)] dayjs_dates.month_of_first [OF assms(1)] by blast
    ultimately show ?thesis
      using MonthMode assms(2,3) week(2) [of "startOf_month dj (add_month dj 1 anchor)"] week(3) [of "endOf_month dj anchor"]
      by (auto simp: calendar_days_def shiftCalendarAnchor_def month_of_view_def Let_def)
  next
    case TwelveMonthMode
    have "startOf_month dj (add_month dj 12 anchor) = add_month dj 12 (startOf_month dj anchor)"
    proof -
      have "startOf_month dj (add_month dj 12 anchor) = startOf_month dj (add_month dj 12 (startOf_month dj anchor))"
        by (rule same) (simp add: added dayjs_dates.month_of_first [OF assms(1)])
      then show ?thesis using dayjs_dates.month_add_first [OF assms(1)] by simp
    qed
    moreover have "startOf_month dj (add_month dj (- 12) (add_month dj 12 anchor)) = startOf_month dj anchor"
      by (rule same) (simp add: added)
    ultimately show ?thesis
      using TwelveMonthMode assms(2,3) week(2) [of "add_month dj 12 (startOf_month dj anchor)"]
        week(3) [of "endOf_month dj (add_month dj 11 (startOf_month dj anchor))"] dayjs_dates.year_end [OF assms(1), of anchor]
      by (auto simp: calendar_days_def shiftCalendarAnchor_def month_of_view_def Let_def)
  qed (use assms(2,3) in \<open>auto simp: calendar_days_def shiftCalendarAnchor_def\<close>)
qed

theorem calendar_navigation_witness:
  "calendar_days gregorian MonthMode
     (shiftCalendarAnchor gregorian (shiftCalendarAnchor gregorian 740173 MonthMode 1) MonthMode (- 1))
   = calendar_days gregorian MonthMode 740173"
proof -
  obtain s e where 1: "calendar_days gregorian MonthMode 740173 = (s, e)" by fastforce
  obtain s' e' where "calendar_days gregorian MonthMode (shiftCalendarAnchor gregorian 740173 MonthMode 1) = (s', e')"
    by fastforce
  from calendar_navigation [OF gregorian.dayjs_dates_axioms 1 this] show ?thesis by (simp add: 1)
qed



lemma fold_grouped:
  "fold (\<lambda>item g. g(CalendarItem_date item \<mapsto> nullish (g (CalendarItem_date item)) [] @ [item])) items g d
   = (let xs = filter (\<lambda>i. CalendarItem_date i = d) items
      in if xs = [] then g d else Some (nullish (g d) [] @ xs))"
  by (induction items arbitrary: g) (auto simp: Let_def)

text \<open>
  Every item is drawn on its day, once. The items of a day, as the views read them,
  are those of the query with that date in their order; in a view each of them is either
  timed or all day, and none is both.
\<close>
theorem day_items_complete:
  "nullish (itemsByDate items d) [] = filter (\<lambda>i. CalendarItem_date i = d) items
   \<and> mset (timed_items xs) + mset (all_day_items xs) = mset xs
   \<and> set (timed_items xs) \<inter> set (all_day_items xs) = {}"
  unfolding itemsByDate_def fold_grouped timed_items_def all_day_items_def
  by (auto simp: Let_def mset_filter multiset_partition [symmetric])

text \<open>
  Where an item is drawn. The day view draws the block of an item of at least half an
  hour from its start to its end on a scale of 56 pixels to the hour, at least 44 pixels
  high. The week view does so only for items between nine and seven: one that ends by
  nine is drawn as if it took place at nine, and one that starts at seven in the evening
  or later falls below the last row of the grid.
\<close>
theorem calendar_block_layout:
  assumes "0 \<le> b" and "b + 30 \<le> e" and "e \<le> 1440"
  shows "day_block b (Some e) = (b, e)
    \<and> fst (day_box (b, e)) = b * 56 / 60 \<and> 44 \<le> snd (day_box (b, e))
    \<and> (48 \<le> e - b \<longrightarrow> fst (day_box (b, e)) + snd (day_box (b, e)) = e * 56 / 60)
    \<and> (540 \<le> b \<and> e \<le> 1140 \<longrightarrow> week_block b (Some e) = (b, e)
         \<and> 0 \<le> fst (week_box (b, e)) \<and> fst (week_box (b, e)) + snd (week_box (b, e)) = (e - 540) * 88 / 60
         \<and> fst (week_box (b, e)) + snd (week_box (b, e)) \<le> week_grid_height)
    \<and> (e \<le> 540 \<longrightarrow> week_block b (Some e) = (540, 570) \<and> fst (week_box (week_block b (Some e))) = 0)
    \<and> (1140 \<le> b \<longrightarrow> week_grid_height \<le> fst (week_box (week_block b (Some e))))"
  using assms
  by (auto simp: day_block_def day_box_def week_block_def week_box_def week_grid_height_def Let_def max_def field_simps)

theorem calendar_block_layout_witness:
  "week_block 420 (Some 480) = (540, 570) \<and> day_block 420 (Some 480) = (420, 480)"
  using calendar_block_layout [of 420 480] by simp

text \<open>The example of calendarRange.test.ts: July 2026, from its month grid.\<close>

lemma july_2026:
  "getCalendarQueryRange gregorian MonthMode 740177 = (''2026-06-28'', ''2026-08-01'')"
proof -
  have starts: "month_start 24317 = 740133" "month_start 24318 = 740163" "month_start 24319 = 740194" "month_start 24320 = 740225"
    by code_simp+
  then have months: "month_of_day 740177 = 24318" "month_of_day 740163 = 24318" "month_of_day 740160 = 24317" "month_of_day 740194 = 24319"
    by (simp_all only: month_of_day_iff) simp_all
  have chars: "char_of (48 :: nat) = CHR ''0''" "char_of (49 :: nat) = CHR ''1''" "char_of (50 :: nat) = CHR ''2''"
      "char_of (54 :: nat) = CHR ''6''" "char_of (56 :: nat) = CHR ''8''"
    by code_simp+
  have digits: "nat_digits 2026 = ''2026''" "nat_digits 28 = ''28''" "nat_digits 1 = ''1''" "nat_digits 6 = ''6''" "nat_digits 8 = ''8''"
    by (simp_all add: nat_digits.simps [of 2026] nat_digits.simps [of 202] nat_digits.simps [of 20]
        nat_digits.simps [of 2] nat_digits.simps [of 28] nat_digits.simps [of "Suc 0"] nat_digits.simps [of 6] nat_digits.simps [of 8] chars)
  have "calendar_days gregorian MonthMode 740177 = (740160, 740194)"
    by (simp add: calendar_days_def month_of_view_def gregorian_def months starts)
  moreover have "format_date gregorian 740160 = ''2026-06-28''" and "format_date gregorian 740194 = ''2026-08-01''"
    by (simp_all add: gregorian_def months starts pad_digits_def digits digits [unfolded One_nat_def] Let_def)
  ultimately show ?thesis by (simp add: getCalendarQueryRange_def)
qed

end
