(* ===== verification/Optimistic.thy ===== *)
theory Optimistic
  imports Step_System
begin

text \<open>
  Optimistic updates of a cached query, the pattern that the mutations of the platform,
  user and notification views share: onMutate remembers the data of the query as the
  context of the mutation and applies the change to the cache at once, onError puts the
  remembered data back, and onSettled invalidates the query, so that a later refetch
  replaces the data by that of the server.  A mutation is known by a number; the
  cancellation of running fetches in onMutate means that no older answer arrives between.
\<close>

section \<open>The machine\<close>

record 'd optimistic_query =
  oq_cache :: "'d option"
  oq_contexts :: "(nat \<times> 'd option) list"

datatype ('v, 'd) optimistic_event =
    Mutate nat 'v
  | Succeeded nat
  | Failed nat
  | Refetched 'd

definition settled :: "nat \<Rightarrow> 'd optimistic_query \<Rightarrow> 'd optimistic_query" where
  "settled i s = s\<lparr>oq_contexts := filter (\<lambda>c. fst c \<noteq> i) (oq_contexts s)\<rparr>"

text \<open>onMutate: upd is the updater that the mutation hands to setQueryData.\<close>

definition on_mutate :: "('v \<Rightarrow> 'd option \<Rightarrow> 'd option) \<Rightarrow> nat \<Rightarrow> 'v \<Rightarrow> 'd optimistic_query \<Rightarrow> 'd optimistic_query" where
  "on_mutate upd i v s =
     s\<lparr>oq_cache := upd v (oq_cache s), oq_contexts := (i, oq_cache s) # oq_contexts s\<rparr>"

text \<open>onError: if (context?.previous) the remembered data is put back.\<close>

definition on_error :: "nat \<Rightarrow> 'd optimistic_query \<Rightarrow> 'd optimistic_query" where
  "on_error i s =
     (case map_of (oq_contexts s) i of
        Some (Some previous) \<Rightarrow> s\<lparr>oq_cache := Some previous\<rparr>
      | _ \<Rightarrow> s)"

fun optimistic_step :: "('v \<Rightarrow> 'd option \<Rightarrow> 'd option) \<Rightarrow> ('v, 'd) optimistic_event \<Rightarrow> 'd optimistic_query \<Rightarrow> 'd optimistic_query" where
  "optimistic_step upd (Mutate i v) s = on_mutate upd i v s"
| "optimistic_step upd (Succeeded i) s = settled i s"
| "optimistic_step upd (Failed i) s = settled i (on_error i s)"
| "optimistic_step upd (Refetched d) s = s\<lparr>oq_cache := Some d\<rparr>"

definition optimistic_run :: "('v \<Rightarrow> 'd option \<Rightarrow> 'd option) \<Rightarrow> ('v, 'd) optimistic_event list \<Rightarrow> 'd optimistic_query \<Rightarrow> 'd optimistic_query" where
  "optimistic_run upd es s = fold (optimistic_step upd) es s"

lemma optimistic_run_simps [simp]:
  "optimistic_run upd [] s = s"
  "optimistic_run upd (e # es) s = optimistic_run upd es (optimistic_step upd e s)"
  by (simp_all add: optimistic_run_def)

definition fresh :: "nat \<Rightarrow> 'd optimistic_query \<Rightarrow> bool" where
  "fresh i s \<longleftrightarrow> i \<notin> fst ` set (oq_contexts s)"

lemma fresh_filter: "fresh i s \<Longrightarrow> filter (\<lambda>c. fst c \<noteq> i) (oq_contexts s) = oq_contexts s"
  by (force simp: fresh_def intro!: filter_True)

text \<open>The query and every remembered context list the same things.\<close>

definition lists :: "('d \<Rightarrow> 'k) \<Rightarrow> 'k \<Rightarrow> 'd optimistic_query \<Rightarrow> bool" where
  "lists listed k s \<longleftrightarrow> (\<exists>d. oq_cache s = Some d \<and> listed d = k)
     \<and> (\<forall>(i, c) \<in> set (oq_contexts s). \<exists>d. c = Some d \<and> listed d = k)"

text \<open>An event other than a fetch of the query.\<close>

definition no_refetch :: "('v, 'd) optimistic_event \<Rightarrow> bool" where
  "no_refetch e \<longleftrightarrow> (case e of Refetched d \<Rightarrow> False | _ \<Rightarrow> True)"

text \<open>Mutations that each settle before the next one starts, with their outcomes.\<close>

definition one_by_one :: "(nat \<times> 'v \<times> bool) list \<Rightarrow> ('v, 'd) optimistic_event list" where
  "one_by_one ms = concat (map (\<lambda>(i, v, ok). [Mutate i v, if ok then Succeeded i else Failed i]) ms)"

section \<open>What every such query keeps\<close>

text \<open>
  The updater changes loaded data by a total function that keeps the identity of what is
  listed, and applying the same change twice is applying it once.
\<close>

locale optimistic =
  fixes upd :: "'v \<Rightarrow> 'd option \<Rightarrow> 'd option" and change :: "'v \<Rightarrow> 'd \<Rightarrow> 'd" and listed :: "'d \<Rightarrow> 'k"
  assumes loaded: "upd v (Some d) = Some (change v d)"
    and keeps: "listed (change v d) = listed d"
    and idem: "change v (change v d) = change v d"
begin

text \<open>A change that fails leaves no trace, and one that succeeds stays.\<close>

lemma failure_restores:
  "oq_cache s = Some d \<Longrightarrow> fresh i s \<Longrightarrow> optimistic_run upd [Mutate i v, Failed i] s = s"
  by (simp add: on_mutate_def on_error_def settled_def loaded fresh_filter)

lemma success_shown:
  "oq_cache s = Some d \<Longrightarrow> fresh i s \<Longrightarrow>
   oq_cache (optimistic_run upd [Mutate i v, Succeeded i] s) = Some (change v d)
   \<and> oq_contexts (optimistic_run upd [Mutate i v, Succeeded i] s) = oq_contexts s"
  by (simp add: on_mutate_def settled_def loaded fresh_filter)

text \<open>A change made twice, as by a double click, shows once.\<close>

lemma double_shown_once:
  "oq_cache s = Some d \<Longrightarrow>
   oq_cache (optimistic_run upd [Mutate i v, Mutate j v] s) = oq_cache (optimistic_run upd [Mutate i v] s)"
  by (simp add: on_mutate_def loaded idem)

text \<open>Failures in the reverse order of the changes restore the data.\<close>

lemma nested_failures_restore:
  "oq_cache s = Some d \<Longrightarrow> fresh i s \<Longrightarrow> fresh j s \<Longrightarrow> i \<noteq> j \<Longrightarrow>
   optimistic_run upd [Mutate i v, Mutate j w, Failed j, Failed i] s = s"
  by (simp add: on_mutate_def on_error_def settled_def loaded fresh_filter)

text \<open>
  When the earlier of two overlapping changes fails after the later one was made, the later
  one disappears from the cache although it was accepted, until the query is fetched again.
\<close>

lemma early_failure_hides_later:
  "oq_cache s = Some d \<Longrightarrow> fresh i s \<Longrightarrow> fresh j s \<Longrightarrow> i \<noteq> j \<Longrightarrow>
   oq_cache (optimistic_run upd [Mutate i v, Mutate j w, Succeeded j, Failed i] s) = Some d"
  by (simp add: on_mutate_def on_error_def settled_def loaded fresh_filter)

text \<open>
  And when the later one fails last, the refused earlier change comes back.
\<close>

lemma late_failure_revives_earlier:
  "oq_cache s = Some d \<Longrightarrow> fresh i s \<Longrightarrow> fresh j s \<Longrightarrow> i \<noteq> j \<Longrightarrow>
   oq_cache (optimistic_run upd [Mutate i v, Mutate j w, Failed i, Failed j] s) = Some (change v d)"
  by (simp add: on_mutate_def on_error_def settled_def loaded fresh_filter)

text \<open>
  Whatever mutations start, succeed and fail in whatever order, what is listed stays the
  same until the query is fetched again.
\<close>

lemma lists_step: "lists listed k s \<Longrightarrow> no_refetch e \<Longrightarrow> lists listed k (optimistic_step upd e s)"
proof (cases e)
  case (Failed i)
  assume s: "lists listed k s"
  have "\<exists>d. c = Some d \<and> listed d = k" if "map_of (oq_contexts s) i = Some c" for c
    using s map_of_SomeD [OF that] by (auto simp: lists_def)
  then show ?thesis
    using s unfolding Failed by (auto simp: lists_def on_error_def settled_def split: option.splits)
qed (auto simp: lists_def on_mutate_def settled_def loaded keeps no_refetch_def)

lemma lists_run: "lists listed k s \<Longrightarrow> list_all no_refetch es \<Longrightarrow> lists listed k (optimistic_run upd es s)"
  by (induction es arbitrary: s) (simp_all add: lists_step)

text \<open>
  Mutations one after the other: each settles before the next starts, and the outcome says
  whether it succeeded.  The cache shows exactly the successful changes.
\<close>

lemma one_by_one_shown:
  "oq_cache s = Some d \<Longrightarrow> oq_contexts s = [] \<Longrightarrow>
   oq_cache (optimistic_run upd (one_by_one ms) s)
     = Some (fold change (map (fst \<circ> snd) (filter (snd \<circ> snd) ms)) d)
   \<and> oq_contexts (optimistic_run upd (one_by_one ms) s) = []"
proof (induction ms arbitrary: s d)
  case (Cons m ms)
  obtain i v ok where m: "m = (i, v, ok)" by (cases m) auto
  let ?s = "optimistic_run upd [Mutate i v, if ok then Succeeded i else Failed i] s"
  have "oq_cache ?s = Some (if ok then change v d else d)" "oq_contexts ?s = []"
    using Cons.prems by (simp_all add: on_mutate_def on_error_def settled_def loaded)
  from Cons.IH [OF this] show ?case by (cases ok) (simp_all add: m one_by_one_def)
qed (simp add: one_by_one_def)

end

section \<open>Lists of records\<close>

text \<open>old.map((item) => item.id === id ? {...item, ...} : item)\<close>

definition map_item :: "('a \<Rightarrow> 'k) \<Rightarrow> 'k \<Rightarrow> ('a \<Rightarrow> 'a) \<Rightarrow> 'a list \<Rightarrow> 'a list" where
  "map_item key k f xs = map (\<lambda>x. if key x = k then f x else x) xs"

lemma map_item_simps [simp]:
  "map_item key k f [] = []"
  "map_item key k f (x # xs) = (if key x = k then f x else x) # map_item key k f xs"
  by (simp_all add: map_item_def)

lemma map_item_keys: "(\<And>x. key (f x) = key x) \<Longrightarrow> map key (map_item key k f xs) = map key xs"
  by (simp_all add: map_item_def)

lemma map_item_idem:
  "(\<And>x. key (f x) = key x) \<Longrightarrow> (\<And>x. f (f x) = f x) \<Longrightarrow> map_item key k f (map_item key k f xs) = map_item key k f xs"
  by (simp_all add: map_item_def)

lemma map_item_other: "k \<notin> set (map key xs) \<Longrightarrow> map_item key k f xs = xs"
  by (induction xs) (auto simp: map_item_def)

end
