(* ===== verification/Js_Numbers.thy ===== *)
theory Js_Numbers
  imports Js_Values
begin

text \<open>
  What passes through a text field: String(n) of a natural number is read back by Number,
  the JSON value of a number that may be NaN, and names separated by commas.
\<close>

text \<open>JSON.stringify writes NaN and the infinities as null.\<close>

fun js_num_json :: "js_num \<Rightarrow> json" where
  "js_num_json (Finite r) = JNum r"
| "js_num_json _ = JNull"

definition is_finite :: "js_num \<Rightarrow> bool" where
  "is_finite x \<longleftrightarrow> (case x of Finite r \<Rightarrow> True | _ \<Rightarrow> False)"

section \<open>The text of a natural number\<close>

definition digit_char :: "nat \<Rightarrow> char" where
  "digit_char d = char_of (48 + d)"

lemma digit_chars: "d < 10 \<Longrightarrow> digit_char d \<in> set ''0123456789''"
proof -
  have "list_all (\<lambda>d. digit_char d \<in> set ''0123456789'') [0..<10]" by code_simp
  then show "d < 10 \<Longrightarrow> digit_char d \<in> set ''0123456789''" by (simp add: list_all_iff)
qed

lemma digit_char_value: "d < 10 \<Longrightarrow> digit_value (digit_char d) = Some d"
proof -
  assume d: "d < 10"
  have "map digit_char [0..<10] = ''0123456789''" "map digit_value ''0123456789'' = map Some [0..<10]"
    by code_simp+
  then have "map digit_value (map digit_char [0..<10]) ! d = map Some [0..<10] ! d" by simp
  then show ?thesis using d by simp
qed

lemma nat_digits_small: "n < 10 \<Longrightarrow> nat_digits n = [digit_char n]"
  using nat_digits.simps [of n] by (simp add: digit_char_def)

lemma nat_digits_step: "\<not> n < 10 \<Longrightarrow> nat_digits n = nat_digits (n div 10) @ [digit_char (n mod 10)]"
  using nat_digits.simps [of n] by (simp add: digit_char_def)

lemma nat_digits_ne: "nat_digits n \<noteq> []"
  by (cases "n < 10") (simp_all add: nat_digits_small nat_digits_step)

lemma nat_digits_chars: "c \<in> set (nat_digits n) \<Longrightarrow> c \<in> set ''0123456789''"
proof (induction n rule: nat_digits.induct)
  case (1 n)
  show ?case
  proof (cases "n < 10")
    case True
    then have "c = digit_char n" using 1(2) by (simp add: nat_digits_small)
    then show ?thesis using digit_chars [OF True] by (simp only:)
  next
    case False
    then have "c \<in> set (nat_digits (n div 10)) \<or> c = digit_char (n mod 10)"
      using 1(2) by (auto simp: nat_digits_step)
    then show ?thesis
      using 1(1) [OF False] digit_chars [of "n mod 10"] by (auto simp del: set_simps)
  qed
qed

lemma digits_value_snoc: "digits_value b (ds @ [c]) = digits_value b ds * b + the (digit_value c)"
  by (simp add: digits_value_def)

lemma digits_value_nat_digits: "digits_value 10 (nat_digits n) = n"
proof (induction n rule: nat_digits.induct)
  case (1 n)
  show ?case
  proof (cases "n < 10")
    case True
    then show ?thesis by (simp add: nat_digits_small digits_value_def digit_char_value)
  next
    case False
    then show ?thesis
      using 1 [OF False] by (simp add: nat_digits_step digits_value_snoc digit_char_value)
  qed
qed

section \<open>Trimming\<close>

text \<open>A character that neither begins nor ends the encoding of a white space character.\<close>

definition solid :: "char \<Rightarrow> bool" where
  "solid c \<longleftrightarrow> of_char c \<notin> set (map hd whitespace_encodings) \<and> of_char c \<notin> set (map last whitespace_encodings)"

lemma encodings_ne: "w \<in> set whitespace_encodings \<Longrightarrow> w \<noteq> []"
proof -
  have "list_all (\<lambda>w. w \<noteq> []) whitespace_encodings" by code_simp
  then show "w \<in> set whitespace_encodings \<Longrightarrow> w \<noteq> []" by (auto simp: list_all_iff)
qed

lemma ws_front_solid: "solid c \<Longrightarrow> ws_front (c # cs) = 0"
proof -
  assume "solid c"
  have "take (length w) (char_codes (c # cs)) \<noteq> w" if w: "w \<in> set whitespace_encodings" for w
  proof
    assume "take (length w) (char_codes (c # cs)) = w"
    moreover obtain b bs where b: "w = b # bs" using encodings_ne [OF w] by (cases w) auto
    ultimately have "of_char c = hd w" by (simp add: char_codes_def)
    with w \<open>solid c\<close> show False by (force simp: solid_def)
  qed
  then show ?thesis
    using find_None_iff [of "\<lambda>w. take (length w) (char_codes (c # cs)) = w" whitespace_encodings]
    by (auto simp: ws_front_def)
qed

lemma ws_back_solid: "solid c \<Longrightarrow> ws_back (cs @ [c]) = 0"
proof -
  assume "solid c"
  have "take (length w) (char_codes (rev (cs @ [c]))) \<noteq> rev w" if w: "w \<in> set whitespace_encodings" for w
  proof
    assume "take (length w) (char_codes (rev (cs @ [c]))) = rev w"
    moreover obtain b bs where b: "rev w = b # bs" using encodings_ne [OF w] by (cases "rev w") auto
    moreover have "hd (rev w) = last w" by (rule hd_rev)
    moreover have "length w = Suc (length bs)" using b by (metis length_Cons length_rev)
    ultimately have "of_char c = last w" by (simp add: char_codes_def)
    with w \<open>solid c\<close> show False by (force simp: solid_def)
  qed
  then show ?thesis
    using find_None_iff [of "\<lambda>w. take (length w) (char_codes (rev (cs @ [c]))) = rev w" whitespace_encodings]
    by (auto simp: ws_back_def)
qed

lemma trim_solid:
  assumes "s = [] \<or> solid (hd s) \<and> solid (last s)"
  shows "trim s = s"
proof (cases "s = []")
  case True
  then show ?thesis by (simp add: trim_def trim_start.simps trim_end.simps)
next
  case False
  then obtain c cs where c: "s = c # cs" by (cases s) auto
  have "trim_start s = s" using assms False ws_front_solid [of c cs] by (subst trim_start.simps) (simp add: c)
  moreover have "ws_back s = 0" using assms False ws_back_solid [of "last s" "butlast s"] by simp
  then have "trim_end s = s" by (subst trim_end.simps) simp
  ultimately show ?thesis by (simp add: trim_def)
qed

lemma digits_solid: "c \<in> set ''0123456789'' \<Longrightarrow> solid c"
proof -
  have "list_all solid ''0123456789''" by code_simp
  then show "c \<in> set ''0123456789'' \<Longrightarrow> solid c" by (simp only: list_all_iff)
qed

section \<open>Number(String(n))\<close>

lemma decimals_nat: "decimals (of_nat n) = 0"
proof -
  have upt: "[0..<21] = (0::nat) # [1..<21]" by (subst upt_conv_Cons) simp_all
  have "of_int \<lfloor>(of_nat n :: rat) * 10 ^ 0\<rfloor> = (of_nat n :: rat) * 10 ^ 0" by simp
  then show ?thesis unfolding decimals_def upt find.simps by (simp only: refl if_True option.case)
qed

lemma number_text_nat: "number_text (of_nat n) = nat_digits n"
  by (simp add: number_text_def Let_def decimals_nat)

lemma digit_not_special:
  assumes "c \<in> set ''0123456789''"
  shows "is_digit_in 10 c" "c \<noteq> CHR ''-''" "c \<noteq> CHR ''+''" "c \<noteq> CHR ''I''"
    "c \<notin> {CHR ''x'', CHR ''X'', CHR ''o'', CHR ''O'', CHR ''b'', CHR ''B''}"
proof -
  have "list_all (\<lambda>c. is_digit_in 10 c \<and> c \<noteq> CHR ''-'' \<and> c \<noteq> CHR ''+'' \<and> c \<noteq> CHR ''I''
      \<and> c \<notin> {CHR ''x'', CHR ''X'', CHR ''o'', CHR ''O'', CHR ''b'', CHR ''B''}) ''0123456789''" by code_simp
  with assms show "is_digit_in 10 c" "c \<noteq> CHR ''-''" "c \<noteq> CHR ''+''" "c \<noteq> CHR ''I''"
    "c \<notin> {CHR ''x'', CHR ''X'', CHR ''o'', CHR ''O'', CHR ''b'', CHR ''B''}"
    unfolding list_all_iff by blast+
qed

lemma span_all_digits:
  assumes "\<forall>c \<in> set s. c \<in> set ''0123456789''"
  shows "span_digits 10 s = (s, [])"
proof -
  have "\<forall>c \<in> set s. is_digit_in 10 c" using assms digit_not_special(1) by blast
  then show ?thesis by (simp add: span_digits_def takeWhile_eq_all_conv dropWhile_eq_Nil_conv)
qed

theorem number_of_text: "parse_number (number_text (of_nat n)) = Finite (of_nat n)"
proof -
  let ?s = "nat_digits n"
  have digits: "\<forall>c \<in> set ?s. c \<in> set ''0123456789''" using nat_digits_chars by blast
  obtain c cs where s: "?s = c # cs" using nat_digits_ne [of n] by (cases ?s) auto
  have "trim ?s = ?s"
    using digits digits_solid by (intro trim_solid) (metis hd_in_set last_in_set)
  moreover have "radix_literal ?s = None"
    using digits digit_not_special(5) by (auto simp: radix_literal_def s Let_def split: list.splits)
  moreover have "c \<in> set ''0123456789''" using digits unfolding s by simp
  then have "take_sign ?s = (False, ?s)" "?s \<noteq> ''Infinity''"
    using digit_not_special(2-4) [of c] by (simp_all add: take_sign_def s)
  moreover have "unsigned_decimal ?s = Some (of_nat n)"
    by (simp add: unsigned_decimal_def span_all_digits [OF digits] nat_digits_ne exponent_value_def
        scale_ten_def digits_value_nat_digits)
  ultimately show ?thesis by (simp add: parse_number_def number_text_nat nat_digits_ne Let_def)
qed

section \<open>Lists of names in a text field\<close>

text \<open>text.split(",").map((item) => item.trim()).filter(Boolean)\<close>

definition comma_items :: "string \<Rightarrow> string list" where
  "comma_items line = filter (\<lambda>x. x \<noteq> []) (map trim (split_char (CHR '','') line))"

lemma trim_blank [simp]: "trim [] = []"
  by (rule trim_solid) simp

lemma blank_number [simp]: "parse_number [] = Finite 0"
  by (simp add: parse_number_def)

lemma comma_items_blank [simp]: "comma_items [] = []"
  by (simp add: comma_items_def)

lemma set_trim: "set (trim s) \<subseteq> set s"
  using trim_infix [of s] by (metis Un_subset_iff order_refl set_append)

lemma comma_items_names: "list_all (\<lambda>x. x \<noteq> [] \<and> CHR '','' \<notin> set x) (comma_items line)"
  using split_char_parts set_trim by (fastforce simp: comma_items_def list_all_iff)

end
