(* ===== verification/Platform_Admin.thy ===== *)
theory Platform_Admin
  imports Optimistic Js_Numbers Js_Json Platform_Endpoints
begin

text \<open>
  The administration of the platform: frontend/src/features/platform-admin.  The page keeps
  drafts of the configuration, the plans, the feature flags and the email templates; saving
  one of them sends a payload built from its draft, and the update of a flag is shown at
  once (Optimistic).  The key of the page decides when the drafts are thrown away.
\<close>

section \<open>Drafts: hooks/usePlatformAdminMutations.ts\<close>

record PlanDraft =
  pd_name :: string
  pd_description :: string
  pd_price_cents :: string
  pd_interval :: string
  pd_is_active :: bool
  pd_is_default :: bool
  pd_features :: string

record FlagDraft =
  fd_name :: string
  fd_description :: string
  fd_module_key :: string
  fd_is_enabled :: bool
  fd_rollout_percentage :: string

record TemplateDraft =
  td_name :: string
  td_subject_template :: string
  td_html_template :: string
  td_text_template :: string
  td_is_active :: bool

record NewPlanDraft =
  np_code :: string
  np_name :: string
  np_description :: string
  np_price_cents :: string
  np_interval :: string
  np_is_default :: bool
  np_features :: string

record NewFlagDraft = FlagDraft +
  nf_key :: string

record NewTemplateDraft = TemplateDraft +
  nt_key :: string

definition EMPTY_NEW_PLAN :: NewPlanDraft where
  "EMPTY_NEW_PLAN =
     \<lparr>np_code = [], np_name = [], np_description = [], np_price_cents = ''0'', np_interval = ''month'',
      np_is_default = False, np_features = []\<rparr>"

definition EMPTY_NEW_FLAG :: NewFlagDraft where
  "EMPTY_NEW_FLAG =
     \<lparr>fd_name = [], fd_description = [], fd_module_key = [], fd_is_enabled = False,
      fd_rollout_percentage = ''100'', nf_key = []\<rparr>"

definition EMPTY_NEW_TEMPLATE :: NewTemplateDraft where
  "EMPTY_NEW_TEMPLATE =
     \<lparr>td_name = [], td_subject_template = [], td_html_template = [], td_text_template = [],
      td_is_active = True, nt_key = []\<rparr>"

section \<open>Drafts from data: platformAdminModel.ts\<close>

record ConfigDraft =
  cg_app_name :: string
  cg_core_domain_singular :: string
  cg_core_domain_plural :: string
  cg_module_pack :: string
  cg_module_states :: "(string \<times> bool) list"
  cg_mfa_enabled :: bool

text \<open>Object.fromEntries; the keys here are not the names of array indices.\<close>

definition fromEntries :: "('k \<times> 'v) list \<Rightarrow> ('k \<times> 'v) list" where
  "fromEntries es = foldl (\<lambda>m (k, v). put_entry k v m) [] es"

definition buildConfigDraft :: "PlatformConfig \<Rightarrow> ConfigDraft" where
  "buildConfigDraft config =
     \<lparr>cg_app_name = PlatformMetadata_app_name config,
      cg_core_domain_singular = PlatformMetadata_core_domain_singular config,
      cg_core_domain_plural = PlatformMetadata_core_domain_plural config,
      cg_module_pack = PlatformMetadata_module_pack config,
      cg_module_states = fromEntries (map (\<lambda>item. (ModuleCatalogItem_key item, ModuleCatalogItem_enabled item))
        (PlatformMetadata_module_catalog config)),
      cg_mfa_enabled = PlatformMetadata_mfa_enabled config\<rparr>"

definition plan_draft :: "SubscriptionPlan \<Rightarrow> PlanDraft" where
  "plan_draft plan =
     \<lparr>pd_name = SubscriptionPlan_name plan, pd_description = nullish (SubscriptionPlan_description plan) [],
      pd_price_cents = number_text (SubscriptionPlan_price_cents plan),
      pd_interval = SubscriptionPlan_interval plan, pd_is_active = SubscriptionPlan_is_active plan,
      pd_is_default = SubscriptionPlan_is_default plan,
      pd_features = join '', '' (SubscriptionPlan_features plan)\<rparr>"

definition buildPlanDrafts :: "SubscriptionPlan list \<Rightarrow> (string \<times> PlanDraft) list" where
  "buildPlanDrafts plans = fromEntries (map (\<lambda>plan. (SubscriptionPlan_id plan, plan_draft plan)) plans)"

definition flag_draft :: "FeatureFlag \<Rightarrow> FlagDraft" where
  "flag_draft flag =
     \<lparr>fd_name = FeatureFlag_name flag, fd_description = nullish (FeatureFlag_description flag) [],
      fd_module_key = nullish (FeatureFlag_module_key flag) [], fd_is_enabled = FeatureFlag_is_enabled flag,
      fd_rollout_percentage = number_text (FeatureFlag_rollout_percentage flag)\<rparr>"

definition buildFlagDrafts :: "FeatureFlag list \<Rightarrow> (string \<times> FlagDraft) list" where
  "buildFlagDrafts flags = fromEntries (map (\<lambda>flag. (FeatureFlag_id flag, flag_draft flag)) flags)"

definition template_draft :: "EmailTemplate \<Rightarrow> TemplateDraft" where
  "template_draft t =
     \<lparr>td_name = EmailTemplate_name t, td_subject_template = EmailTemplate_subject_template t,
      td_html_template = EmailTemplate_html_template t,
      td_text_template = nullish (EmailTemplate_text_template t) [], td_is_active = EmailTemplate_is_active t\<rparr>"

definition buildTemplateDrafts :: "EmailTemplate list \<Rightarrow> (string \<times> TemplateDraft) list" where
  "buildTemplateDrafts templates = fromEntries (map (\<lambda>t. (EmailTemplate_id t, template_draft t)) templates)"

text \<open>The key of the page; a boolean in a template literal is true or false.\<close>

definition key_of_parts :: "string \<Rightarrow> string \<Rightarrow> string" where
  "key_of_parts a b = a @ '':'' @ b"

definition platformAdminKey :: "PlatformConfig \<Rightarrow> SubscriptionPlan list \<Rightarrow> FeatureFlag list \<Rightarrow> EmailTemplate list \<Rightarrow> string" where
  "platformAdminKey config plans flags templates =
     join ''::''
       [PlatformMetadata_app_name config, PlatformMetadata_module_pack config,
        join ''|'' (map (\<lambda>item. key_of_parts (ModuleCatalogItem_key item)
            (if ModuleCatalogItem_enabled item then ''true'' else ''false''))
          (PlatformMetadata_module_catalog config)),
        join ''|'' (map (\<lambda>p. key_of_parts (SubscriptionPlan_id p) (SubscriptionPlan_updated_at p)) plans),
        join ''|'' (map (\<lambda>f. key_of_parts (FeatureFlag_id f) (FeatureFlag_updated_at f)) flags),
        join ''|'' (map (\<lambda>t. key_of_parts (EmailTemplate_id t) (EmailTemplate_updated_at t)) templates)]"

section \<open>Payloads\<close>

text \<open>text || null\<close>

definition text_or_null :: "string \<Rightarrow> string option" where
  "text_or_null t = (if t = [] then None else Some t)"

text \<open>
  The body of a plan update.  Number(price) may be NaN, which JSON.stringify writes as
  null, so the body is given as JSON.
\<close>

definition update_plan_body :: "PlanDraft \<Rightarrow> json" where
  "update_plan_body d = json_object
     [(''name'', Some (JStr (pd_name d))),
      (''description'', Some (json_nullable JStr (text_or_null (pd_description d)))),
      (''price_cents'', Some (js_num_json (parse_number (pd_price_cents d)))),
      (''interval'', Some (JStr (pd_interval d))),
      (''is_active'', Some (JBool (pd_is_active d))),
      (''is_default'', Some (JBool (pd_is_default d))),
      (''features'', Some (json_list JStr (comma_items (pd_features d))))]"

definition update_plan :: "string \<Rightarrow> PlanDraft \<Rightarrow> api_call" where
  "update_plan planId d = Fetch (''/platform/admin/plans/'' @ planId)
     (send ''PATCH'' (Some (JsonBody (update_plan_body d))))"

definition update_flag_body :: "FlagDraft \<Rightarrow> json" where
  "update_flag_body d = json_object
     [(''name'', Some (JStr (fd_name d))),
      (''description'', Some (json_nullable JStr (text_or_null (fd_description d)))),
      (''module_key'', Some (json_nullable JStr (text_or_null (fd_module_key d)))),
      (''is_enabled'', Some (JBool (fd_is_enabled d))),
      (''rollout_percentage'', Some (js_num_json (parse_number (fd_rollout_percentage d))))]"

definition update_flag :: "string \<Rightarrow> FlagDraft \<Rightarrow> api_call" where
  "update_flag flagId d = Fetch (''/platform/admin/feature-flags/'' @ flagId)
     (send ''PATCH'' (Some (JsonBody (update_flag_body d))))"

definition update_template_payload :: "TemplateDraft \<Rightarrow> updateAdminEmailTemplate_payload" where
  "update_template_payload d =
     \<lparr>updateAdminEmailTemplate_payload_name = Some (td_name d),
      updateAdminEmailTemplate_payload_subject_template = Some (td_subject_template d),
      updateAdminEmailTemplate_payload_html_template = Some (td_html_template d),
      updateAdminEmailTemplate_payload_text_template = Some (text_or_null (td_text_template d)),
      updateAdminEmailTemplate_payload_is_active = Some (td_is_active d)\<rparr>"

text \<open>The create buttons: disabled while the code or key is shorter than two characters.\<close>

definition create_plan :: "NewPlanDraft \<Rightarrow> api_call option" where
  "create_plan d =
     (if js_length (trim (np_code d)) < 2 then None
      else Some (Fetch ''/platform/admin/plans'' (send ''POST'' (Some (JsonBody (json_object
        [(''code'', Some (JStr (trim (np_code d)))), (''name'', Some (JStr (trim (np_name d)))),
         (''description'', map_option JStr (text_or_null (trim (np_description d)))),
         (''price_cents'', Some (js_num_json (parse_number (np_price_cents d)))),
         (''interval'', Some (JStr (trim (np_interval d)))), (''is_default'', Some (JBool (np_is_default d))),
         (''features'', Some (json_list JStr (comma_items (np_features d))))]))))))"

definition create_flag :: "NewFlagDraft \<Rightarrow> api_call option" where
  "create_flag d =
     (if js_length (trim (nf_key d)) < 2 then None
      else Some (Fetch ''/platform/admin/feature-flags'' (send ''POST'' (Some (JsonBody (json_object
        [(''key'', Some (JStr (trim (nf_key d)))), (''name'', Some (JStr (trim (fd_name d)))),
         (''description'', map_option JStr (text_or_null (trim (fd_description d)))),
         (''module_key'', Some (json_nullable JStr (text_or_null (trim (fd_module_key d))))),
         (''is_enabled'', Some (JBool (fd_is_enabled d))),
         (''rollout_percentage'', Some (js_num_json (parse_number (fd_rollout_percentage d))))]))))))"

definition create_template :: "NewTemplateDraft \<Rightarrow> createAdminEmailTemplate_payload option" where
  "create_template d =
     (if js_length (trim (nt_key d)) < 2 then None
      else Some
        \<lparr>createAdminEmailTemplate_payload_key = trim (nt_key d),
         createAdminEmailTemplate_payload_name = trim (td_name d),
         createAdminEmailTemplate_payload_subject_template = td_subject_template d,
         createAdminEmailTemplate_payload_html_template = td_html_template d,
         createAdminEmailTemplate_payload_text_template = Some (text_or_null (td_text_template d)),
         createAdminEmailTemplate_payload_is_active = Some (td_is_active d)\<rparr>)"

section \<open>The configuration: components/CloneConfigSection.tsx\<close>

definition save_config_payload :: "ConfigDraft \<Rightarrow> updatePlatformConfig_payload" where
  "save_config_payload d =
     \<lparr>updatePlatformConfig_payload_app_name = Some (cg_app_name d),
      updatePlatformConfig_payload_core_domain_singular = Some (cg_core_domain_singular d),
      updatePlatformConfig_payload_core_domain_plural = Some (cg_core_domain_plural d),
      updatePlatformConfig_payload_module_pack = Some (cg_module_pack d),
      updatePlatformConfig_payload_module_overrides = Some (cg_module_states d),
      updatePlatformConfig_payload_mfa_enabled = Some (cg_mfa_enabled d)\<rparr>"

text \<open>The capability profile is selected: the states become those of its modules.\<close>

definition select_pack :: "PlatformConfig \<Rightarrow> string \<Rightarrow> ConfigDraft \<Rightarrow> ConfigDraft" where
  "select_pack source module_pack d =
     (let defaults = (case find (\<lambda>p. ModulePack_key p = module_pack) (PlatformMetadata_available_module_packs source) of
                        None \<Rightarrow> [] | Some p \<Rightarrow> ModulePack_modules p)
      in d\<lparr>cg_module_pack := module_pack,
           cg_module_states := fromEntries (map (\<lambda>item. (ModuleCatalogItem_key item, ModuleCatalogItem_key item \<in> set defaults))
             (PlatformMetadata_module_catalog source))\<rparr>)"

definition switch_module :: "string \<Rightarrow> bool \<Rightarrow> ConfigDraft \<Rightarrow> ConfigDraft" where
  "switch_module k on d = d\<lparr>cg_module_states := put_entry k on (cg_module_states d)\<rparr>"

definition module_switch :: "ConfigDraft \<Rightarrow> string \<Rightarrow> bool" where
  "module_switch d k = nullish (map_of (cg_module_states d) k) False"

definition enabled_module_count :: "ConfigDraft \<Rightarrow> nat" where
  "enabled_module_count d = length (filter snd (cg_module_states d))"

section \<open>The page: components/AdminPlatformContent.tsx, hooks/usePlatformAdminContent.ts\<close>

text \<open>The drafts the page keeps, together with the key it was mounted with.\<close>

record platform_page =
  pp_key :: string
  pp_configDraft :: ConfigDraft
  pp_planDrafts :: "(string \<times> PlanDraft) list"
  pp_flagDrafts :: "(string \<times> FlagDraft) list"
  pp_templateDrafts :: "(string \<times> TemplateDraft) list"
  pp_newPlan :: NewPlanDraft
  pp_newFlag :: NewFlagDraft
  pp_newTemplate :: NewTemplateDraft

definition mount_page :: "PlatformConfig \<Rightarrow> SubscriptionPlan list \<Rightarrow> FeatureFlag list \<Rightarrow> EmailTemplate list \<Rightarrow> platform_page" where
  "mount_page config plans flags templates =
     \<lparr>pp_key = platformAdminKey config plans flags templates,
      pp_configDraft = buildConfigDraft config, pp_planDrafts = buildPlanDrafts plans,
      pp_flagDrafts = buildFlagDrafts flags, pp_templateDrafts = buildTemplateDrafts templates,
      pp_newPlan = EMPTY_NEW_PLAN, pp_newFlag = EMPTY_NEW_FLAG, pp_newTemplate = EMPTY_NEW_TEMPLATE\<rparr>"

text \<open>A component with the same key keeps its state; with another one it is mounted anew.\<close>

definition render_page :: "PlatformConfig \<Rightarrow> SubscriptionPlan list \<Rightarrow> FeatureFlag list \<Rightarrow> EmailTemplate list \<Rightarrow> platform_page \<Rightarrow> platform_page" where
  "render_page config plans flags templates page =
     (if platformAdminKey config plans flags templates = pp_key page then page
      else mount_page config plans flags templates)"

definition edit_plan :: "string \<Rightarrow> PlanDraft \<Rightarrow> platform_page \<Rightarrow> platform_page" where
  "edit_plan planId d page = page\<lparr>pp_planDrafts := put_entry planId d (pp_planDrafts page)\<rparr>"

definition edit_flag :: "string \<Rightarrow> FlagDraft \<Rightarrow> platform_page \<Rightarrow> platform_page" where
  "edit_flag flagId d page = page\<lparr>pp_flagDrafts := put_entry flagId d (pp_flagDrafts page)\<rparr>"

definition edit_template :: "string \<Rightarrow> TemplateDraft \<Rightarrow> platform_page \<Rightarrow> platform_page" where
  "edit_template templateId d page = page\<lparr>pp_templateDrafts := put_entry templateId d (pp_templateDrafts page)\<rparr>"

text \<open>onSuccess of the create mutations: the form is emptied.\<close>

definition plan_created :: "platform_page \<Rightarrow> platform_page" where
  "plan_created page = page\<lparr>pp_newPlan := EMPTY_NEW_PLAN\<rparr>"

definition flag_created :: "platform_page \<Rightarrow> platform_page" where
  "flag_created page = page\<lparr>pp_newFlag := EMPTY_NEW_FLAG\<rparr>"

definition template_created :: "platform_page \<Rightarrow> platform_page" where
  "template_created page = page\<lparr>pp_newTemplate := EMPTY_NEW_TEMPLATE\<rparr>"

section \<open>The update of a flag in the cache\<close>

text \<open>A flag as the cache holds it: after an update its percentage may be NaN.\<close>

record cached_flag =
  cf_id :: string
  cf_key :: string
  cf_name :: string
  cf_description :: "string option"
  cf_module_key :: "string option"
  cf_is_enabled :: bool
  cf_rollout_percentage :: js_num
  cf_updated_at :: string

definition cached :: "FeatureFlag \<Rightarrow> cached_flag" where
  "cached f =
     \<lparr>cf_id = FeatureFlag_id f, cf_key = FeatureFlag_key f, cf_name = FeatureFlag_name f,
      cf_description = FeatureFlag_description f, cf_module_key = FeatureFlag_module_key f,
      cf_is_enabled = FeatureFlag_is_enabled f,
      cf_rollout_percentage = Finite (FeatureFlag_rollout_percentage f),
      cf_updated_at = FeatureFlag_updated_at f\<rparr>"

definition apply_flag_draft :: "FlagDraft \<Rightarrow> cached_flag \<Rightarrow> cached_flag" where
  "apply_flag_draft d flag =
     flag\<lparr>cf_name := fd_name d, cf_description := text_or_null (fd_description d),
          cf_module_key := text_or_null (fd_module_key d), cf_is_enabled := fd_is_enabled d,
          cf_rollout_percentage := parse_number (fd_rollout_percentage d)\<rparr>"

definition change_flag :: "string \<times> FlagDraft \<Rightarrow> cached_flag list \<Rightarrow> cached_flag list" where
  "change_flag v flags = map_item cf_id (fst v) (apply_flag_draft (snd v)) flags"

definition update_flag_cache :: "string \<times> FlagDraft \<Rightarrow> cached_flag list option \<Rightarrow> cached_flag list option" where
  "update_flag_cache v current = map_option (change_flag v) current"

text \<open>What the update leaves alone: identity, key and time of the last update.\<close>

definition platform_flag_stamp :: "cached_flag \<Rightarrow> string \<times> string \<times> string" where
  "platform_flag_stamp f = (cf_id f, cf_key f, cf_updated_at f)"

text \<open>What the server does with the fields of a flag update: setattr for each of them.\<close>

definition server_update_flag :: "updateAdminFeatureFlag_payload \<Rightarrow> FeatureFlag \<Rightarrow> FeatureFlag" where
  "server_update_flag p f =
     f\<lparr>FeatureFlag_name := nullish (updateAdminFeatureFlag_payload_name p) (FeatureFlag_name f),
       FeatureFlag_description := nullish (updateAdminFeatureFlag_payload_description p) (FeatureFlag_description f),
       FeatureFlag_module_key := nullish (updateAdminFeatureFlag_payload_module_key p) (FeatureFlag_module_key f),
       FeatureFlag_is_enabled := nullish (updateAdminFeatureFlag_payload_is_enabled p) (FeatureFlag_is_enabled f),
       FeatureFlag_rollout_percentage :=
         nullish (updateAdminFeatureFlag_payload_rollout_percentage p) (FeatureFlag_rollout_percentage f)\<rparr>"

interpretation flag_updates: optimistic update_flag_cache change_flag "map platform_flag_stamp"
proof
  fix v :: "string \<times> FlagDraft" and d :: "cached_flag list"
  show "update_flag_cache v (Some d) = Some (change_flag v d)" by (simp add: update_flag_cache_def)
  show "map platform_flag_stamp (change_flag v d) = map platform_flag_stamp d"
    by (simp add: change_flag_def map_item_def apply_flag_draft_def platform_flag_stamp_def)
  show "change_flag v (change_flag v d) = change_flag v d"
    unfolding change_flag_def by (rule map_item_idem) (simp_all add: apply_flag_draft_def)
qed

end
