(* ===== verification/Platform_Admin_Facts.thy ===== *)
theory Platform_Admin_Facts
  imports Platform_Admin Api_Contract
begin

text \<open>
  Properties of the administration of the platform: what saving a draft sends, what the
  cache shows meanwhile, and when unsaved drafts survive.
\<close>

section \<open>Lists of labels\<close>

lemma trim_start_fixed:
  assumes "trim s = s" shows "trim_start s = s"
proof -
  obtain p where p: "s = p @ trim_start s" using trim_start_suffix by blast
  obtain q where "trim_start s = trim s @ q" using trim_end_prefix by (auto simp: trim_def)
  then have q: "trim_start s = s @ q" using assms by simp
  from p have "length s = length p + length (trim_start s)" by (metis length_append)
  moreover from q have "length (trim_start s) = length s + length q" by simp
  ultimately have "q = []" by simp
  then show ?thesis using q by simp
qed

lemma ws_front_space: "ws_front (CHR '' '' # s) = 1"
  by (simp add: ws_front_def whitespace_encodings_def char_codes_def)

lemma trim_space: "trim (CHR '' '' # s) = trim s"
  by (simp add: trim_def trim_start.simps [of "CHR '' '' # s"] ws_front_space)

lemma split_join_spaced:
  "CHR '','' \<notin> set p \<Longrightarrow> \<forall>f \<in> set (f # fs). CHR '','' \<notin> set f \<Longrightarrow>
   split_char (CHR '','') (p @ join '', '' (f # fs)) = (p @ f) # map ((#) (CHR '' '')) fs"
proof (induction fs arbitrary: p f)
  case Nil
  then show ?case by (simp add: split_char_no_sep)
next
  case (Cons g gs)
  have "split_char (CHR '','') ((p @ f) @ CHR '','' # ('' '' @ join '', '' (g # gs)))
      = (p @ f) # split_char (CHR '','') ('' '' @ join '', '' (g # gs))"
    using Cons.prems by (intro split_char_append) auto
  then show ?case using Cons.IH [of "'' ''" g] Cons.prems by simp
qed

text \<open>A label that survives the text field: no comma, not blank, no blanks at its ends.\<close>

definition clean_label :: "string \<Rightarrow> bool" where
  "clean_label f \<longleftrightarrow> CHR '','' \<notin> set f \<and> trim f = f \<and> f \<noteq> []"

lemma comma_items_join: "list_all clean_label fs \<Longrightarrow> comma_items (join '', '' fs) = fs"
proof (cases fs)
  case Nil
  then show ?thesis by simp
next
  case (Cons f gs)
  assume clean: "list_all clean_label fs"
  have "split_char (CHR '','') (join '', '' fs) = f # map ((#) (CHR '' '')) gs"
    using split_join_spaced [of "[]" f gs] clean by (auto simp: Cons clean_label_def list_all_iff)
  moreover have "map (trim \<circ> (#) (CHR '' '')) gs = gs"
    using clean by (intro map_idI) (auto simp: Cons trim_space clean_label_def list_all_iff)
  moreover have "filter (\<lambda>x. x \<noteq> []) (f # gs) = f # gs"
    using clean by (auto simp: Cons clean_label_def list_all_iff)
  ultimately show ?thesis using clean by (simp add: comma_items_def Cons clean_label_def)
qed

lemma text_or_null_draft: "x \<noteq> Some [] \<Longrightarrow> text_or_null (nullish x []) = x"
  by (cases x) (auto simp: text_or_null_def nullish_def)

section \<open>What a draft sends\<close>

text \<open>The typed payloads of a draft whose number is r.\<close>

definition plan_payload :: "PlanDraft \<Rightarrow> number \<Rightarrow> updateAdminPlan_payload" where
  "plan_payload d r =
     \<lparr>updateAdminPlan_payload_name = Some (pd_name d),
      updateAdminPlan_payload_description = Some (text_or_null (pd_description d)),
      updateAdminPlan_payload_price_cents = Some r, updateAdminPlan_payload_interval = Some (pd_interval d),
      updateAdminPlan_payload_is_active = Some (pd_is_active d),
      updateAdminPlan_payload_is_default = Some (pd_is_default d),
      updateAdminPlan_payload_features = Some (comma_items (pd_features d))\<rparr>"

definition flag_payload :: "FlagDraft \<Rightarrow> number \<Rightarrow> updateAdminFeatureFlag_payload" where
  "flag_payload d r =
     \<lparr>updateAdminFeatureFlag_payload_name = Some (fd_name d),
      updateAdminFeatureFlag_payload_description = Some (text_or_null (fd_description d)),
      updateAdminFeatureFlag_payload_module_key = Some (text_or_null (fd_module_key d)),
      updateAdminFeatureFlag_payload_is_enabled = Some (fd_is_enabled d),
      updateAdminFeatureFlag_payload_rollout_percentage = Some r\<rparr>"

lemma update_plan_typed:
  "parse_number (pd_price_cents d) = Finite r \<Longrightarrow> update_plan i d = updateAdminPlan i (plan_payload d r)"
  by (simp add: update_plan_def updateAdminPlan_def update_plan_body_def updateAdminPlan_payload_json_def
      plan_payload_def)

lemma update_flag_typed:
  "parse_number (fd_rollout_percentage d) = Finite r \<Longrightarrow> update_flag i d = updateAdminFeatureFlag i (flag_payload d r)"
  by (simp add: update_flag_def updateAdminFeatureFlag_def update_flag_body_def
      updateAdminFeatureFlag_payload_json_def flag_payload_def)

lemma finite_cases: "is_finite x \<longleftrightarrow> (\<exists>r. x = Finite r)"
  by (cases x) (simp_all add: is_finite_def)

text \<open>The value of a member of the body of a call.\<close>

definition sent_member :: "string \<Rightarrow> api_call \<Rightarrow> json option" where
  "sent_member k c =
     (case init_body (fst (snd (call_parts c))) of Some (JsonBody v) \<Rightarrow> get_prop k v | _ \<Rightarrow> None)"

lemmas update_defs =
  update_plan_def update_plan_body_def update_flag_def update_flag_body_def
  updateAdminPlan_def updateAdminPlan_payload_json_def updateAdminFeatureFlag_def
  updateAdminFeatureFlag_payload_json_def

lemma map_filter_absent:
  "k \<notin> fst ` set es \<Longrightarrow> map_of (List.map_filter (\<lambda>(k, v). map_option (Pair k) v) es) k = None"
  by (induction es) (auto simp: map_filter_simps split: option.splits)

lemma object_member:
  "distinct (map fst es) \<Longrightarrow> get_prop k (json_object es) = (case map_of es k of Some v \<Rightarrow> v | None \<Rightarrow> None)"
  by (induction es) (auto simp: json_object_def map_filter_simps map_filter_absent split: option.splits)

lemma update_plan_price:
  "sent_member ''price_cents'' (update_plan i d) = Some (js_num_json (parse_number (pd_price_cents d)))"
  by (simp add: sent_member_def update_defs object_member send_def no_init_def)

lemma updateAdminPlan_price:
  "sent_member ''price_cents'' (updateAdminPlan i p) = map_option JNum (updateAdminPlan_payload_price_cents p)"
  by (simp add: sent_member_def update_defs object_member send_def no_init_def option.case_eq_if)

lemma update_flag_rollout:
  "sent_member ''rollout_percentage'' (update_flag i d) = Some (js_num_json (parse_number (fd_rollout_percentage d)))"
  by (simp add: sent_member_def update_defs object_member send_def no_init_def)

lemma updateAdminFeatureFlag_rollout:
  "sent_member ''rollout_percentage'' (updateAdminFeatureFlag i p)
     = map_option JNum (updateAdminFeatureFlag_payload_rollout_percentage p)"
  by (simp add: sent_member_def update_defs object_member send_def no_init_def option.case_eq_if)

lemma js_num_not_number: "\<not> is_finite x \<Longrightarrow> js_num_json x = JNull"
  by (cases x) (simp_all add: is_finite_def)

text \<open>
  C29: When an edited plan or flag is sent as its type says. The request of a plan or a flag
  is one of the typed API function exactly when its numeric field holds a number; with any
  other text, which nothing checks, the price or the percentage goes out as null, and with
  an empty field as zero.
\<close>
theorem draft_request_typed:
  "((\<exists>p. update_plan i d = updateAdminPlan i p) \<longleftrightarrow> is_finite (parse_number (pd_price_cents d)))
   \<and> ((\<exists>p. update_flag j e = updateAdminFeatureFlag j p) \<longleftrightarrow> is_finite (parse_number (fd_rollout_percentage e)))
   \<and> (is_finite (parse_number (pd_price_cents d))
      \<or> sent_member ''price_cents'' (update_plan i d) = Some JNull)
   \<and> sent_member ''price_cents'' (update_plan i (d\<lparr>pd_price_cents := []\<rparr>)) = Some (JNum 0)"
proof (intro conjI)
  show "(\<exists>p. update_plan i d = updateAdminPlan i p) \<longleftrightarrow> is_finite (parse_number (pd_price_cents d))"
    using update_plan_typed [of d _ i] update_plan_price [of i d] updateAdminPlan_price [of i]
    by (cases "parse_number (pd_price_cents d)") (auto simp: is_finite_def)
  show "(\<exists>p. update_flag j e = updateAdminFeatureFlag j p) \<longleftrightarrow> is_finite (parse_number (fd_rollout_percentage e))"
    using update_flag_typed [of e _ j] update_flag_rollout [of j e] updateAdminFeatureFlag_rollout [of j]
    by (cases "parse_number (fd_rollout_percentage e)") (auto simp: is_finite_def)
  show "is_finite (parse_number (pd_price_cents d)) \<or> sent_member ''price_cents'' (update_plan i d) = Some JNull"
    using js_num_not_number by (auto simp: update_plan_price)
  show "sent_member ''price_cents'' (update_plan i (d\<lparr>pd_price_cents := []\<rparr>)) = Some (JNum 0)"
    by (simp add: update_plan_price blank_number)
qed


definition sample_plan :: SubscriptionPlan where
  "sample_plan =
     \<lparr>SubscriptionPlan_id = ''p1'', SubscriptionPlan_code = ''pro'', SubscriptionPlan_name = ''Pro'',
      SubscriptionPlan_description = None, SubscriptionPlan_price_cents = 1900,
      SubscriptionPlan_interval = ''month'', SubscriptionPlan_is_active = True,
      SubscriptionPlan_is_default = False, SubscriptionPlan_features = [''API access'', ''Webhooks''],
      SubscriptionPlan_created_at = ''2026-01-01'', SubscriptionPlan_updated_at = ''2026-01-01''\<rparr>"

definition sample_flag :: FeatureFlag where
  "sample_flag =
     \<lparr>FeatureFlag_id = ''f1'', FeatureFlag_key = ''beta'', FeatureFlag_name = ''Beta'',
      FeatureFlag_description = None, FeatureFlag_module_key = Some ''ai'', FeatureFlag_is_enabled = True,
      FeatureFlag_rollout_percentage = 50, FeatureFlag_updated_at = ''2026-01-01''\<rparr>"

definition sample_template :: EmailTemplate where
  "sample_template =
     \<lparr>EmailTemplate_id = ''t1'', EmailTemplate_key = ''welcome'', EmailTemplate_name = ''Welcome'',
      EmailTemplate_subject_template = ''Hello'', EmailTemplate_html_template = ''<p>Hello</p>'',
      EmailTemplate_text_template = None, EmailTemplate_is_active = True,
      EmailTemplate_updated_at = ''2026-01-01''\<rparr>"

lemma clean_labels: "list_all clean_label [''API access'', ''Webhooks'']"
proof -
  have "trim ''API access'' = ''API access''" "trim ''Webhooks'' = ''Webhooks''"
    by (rule trim_solid, code_simp)+
  then show ?thesis by (simp add: clean_label_def)
qed


section \<open>The cache while a flag is saved\<close>



section \<open>The life of the drafts\<close>

lemma join_middle: "\<exists>p q. \<forall>a. join sep (xs @ a # ys) = p @ a @ q"
proof (induction xs)
  case Nil
  show ?case
  proof (cases ys)
    case Nil
    then have "join sep ([] @ a # ys) = [] @ a @ []" for a by simp
    then show ?thesis by blast
  next
    case (Cons y zs)
    then have "join sep ([] @ a # ys) = [] @ a @ (sep @ join sep (y # zs))" for a by simp
    then show ?thesis by blast
  qed
next
  case (Cons x xs)
  then obtain p q where pq: "\<And>a. join sep (xs @ a # ys) = p @ a @ q" by blast
  have "join sep ((x # xs) @ a # ys) = (x @ sep @ p) @ a @ q" for a
    using pq [of a] by (cases xs) auto
  then show ?case by blast
qed

lemma join_middle_inj: "join sep (xs @ a # ys) = join sep (xs @ b # ys) \<Longrightarrow> a = b"
  using join_middle [of sep xs ys] by (metis append_same_eq same_append_eq)

lemma plan_key_changes:
  assumes "SubscriptionPlan_id p' = SubscriptionPlan_id p" and "SubscriptionPlan_updated_at p' \<noteq> SubscriptionPlan_updated_at p"
  shows "platformAdminKey config (ps @ p' # qs) flags templates \<noteq> platformAdminKey config (ps @ p # qs) flags templates"
proof
  let ?part = "\<lambda>p. key_of_parts (SubscriptionPlan_id p) (SubscriptionPlan_updated_at p)"
  assume "platformAdminKey config (ps @ p' # qs) flags templates = platformAdminKey config (ps @ p # qs) flags templates"
  then have "join ''|'' (map ?part (ps @ p' # qs)) = join ''|'' (map ?part (ps @ p # qs))"
    unfolding platformAdminKey_def
    using join_middle_inj [of "''::''" "[a, b, c]" _ "[d, e]" for a b c d e] by simp
  then have "?part p' = ?part p"
    using join_middle_inj [of "''|''" "map ?part ps" "?part p'" "map ?part qs"] by simp
  then show False using assms by (simp add: key_of_parts_def)
qed

lemma flag_key_keeps:
  assumes "map (\<lambda>f. (FeatureFlag_id f, FeatureFlag_updated_at f)) flags' = map (\<lambda>f. (FeatureFlag_id f, FeatureFlag_updated_at f)) flags"
  shows "platformAdminKey config plans flags' templates = platformAdminKey config plans flags templates"
proof -
  have "map (\<lambda>f. key_of_parts (FeatureFlag_id f) (FeatureFlag_updated_at f)) fs
      = map (\<lambda>q. key_of_parts (fst q) (snd q)) (map (\<lambda>f. (FeatureFlag_id f, FeatureFlag_updated_at f)) fs)" for fs
    by simp
  from this [of flags'] this [of flags]
  have "map (\<lambda>f. key_of_parts (FeatureFlag_id f) (FeatureFlag_updated_at f)) flags'
      = map (\<lambda>f. key_of_parts (FeatureFlag_id f) (FeatureFlag_updated_at f)) flags"
    unfolding assms by (rule trans [OF _ sym])
  then show ?thesis by (simp only: platformAdminKey_def)
qed

text \<open>
  When unsaved edits of the platform page survive. As long as no plan, flag or template
  gets a new time of update and the profile and the modules stay, the page keeps all its
  drafts, in particular while the optimistic update of a flag is shown. But when one saved
  plan comes back with its new time, the page starts anew from the data, and the unsaved
  edits of every other plan, flag, template and of the configuration are gone.
\<close>
theorem saving_one_discards_other_drafts:
  assumes "SubscriptionPlan_id p' = SubscriptionPlan_id p"
    and "SubscriptionPlan_updated_at p' \<noteq> SubscriptionPlan_updated_at p"
    and "pp_key page = platformAdminKey config (ps @ p # qs) flags templates"
    and "map (\<lambda>f. (FeatureFlag_id f, FeatureFlag_updated_at f)) flags' = map (\<lambda>f. (FeatureFlag_id f, FeatureFlag_updated_at f)) flags"
  shows "render_page config (ps @ p # qs) flags' templates page = page
    \<and> render_page config (ps @ p # qs) flags templates (edit_flag j e (edit_plan i d page)) = edit_flag j e (edit_plan i d page)
    \<and> render_page config (ps @ p' # qs) flags templates (edit_flag j e (edit_plan i d page))
        = mount_page config (ps @ p' # qs) flags templates"
  using plan_key_changes [OF assms(1,2), of config ps qs flags templates] flag_key_keeps [OF assms(4), of config "ps @ p # qs" templates]
  by (simp add: render_page_def edit_plan_def edit_flag_def assms(3))

definition sample_config :: PlatformConfig where
  "sample_config =
     \<lparr>PlatformMetadata_app_name = ''App'', PlatformMetadata_core_domain_singular = ''project'',
      PlatformMetadata_core_domain_plural = ''projects'', PlatformMetadata_module_pack = ''full'',
      PlatformMetadata_capability_profile = None, PlatformMetadata_enabled_modules = [''ai''],
      PlatformMetadata_active_modules = None, PlatformMetadata_module_catalog = [],
      PlatformMetadata_available_module_packs = [], PlatformMetadata_available_capability_profiles = None,
      PlatformMetadata_active_profile = None, PlatformMetadata_module_nav = None,
      PlatformMetadata_module_routes = None, PlatformMetadata_mfa_enabled = False,
      PlatformConfig_module_overrides = []\<rparr>"

theorem saving_one_discards_other_drafts_witness:
  "map_of (pp_flagDrafts (render_page sample_config [sample_plan\<lparr>SubscriptionPlan_updated_at := ''2026-02-02''\<rparr>] [sample_flag] []
      (edit_flag ''f1'' ((flag_draft sample_flag)\<lparr>fd_name := ''Unsaved''\<rparr>) (mount_page sample_config [sample_plan] [sample_flag] []))))
     ''f1'' = Some (flag_draft sample_flag)"
proof -
  let ?page = "mount_page sample_config [sample_plan] [sample_flag] []"
  have "pp_key ?page = platformAdminKey sample_config ([] @ sample_plan # []) [sample_flag] []"
    by (simp add: mount_page_def)
  from saving_one_discards_other_drafts [OF _ _ this refl, of "sample_plan\<lparr>SubscriptionPlan_updated_at := ''2026-02-02''\<rparr>"
      "''f1''" "(flag_draft sample_flag)\<lparr>fd_name := ''Unsaved''\<rparr>" "''p1''" "plan_draft sample_plan"]
  have "render_page sample_config [sample_plan\<lparr>SubscriptionPlan_updated_at := ''2026-02-02''\<rparr>] [sample_flag] []
      (edit_flag ''f1'' ((flag_draft sample_flag)\<lparr>fd_name := ''Unsaved''\<rparr>) (edit_plan ''p1'' (plan_draft sample_plan) ?page))
    = mount_page sample_config [sample_plan\<lparr>SubscriptionPlan_updated_at := ''2026-02-02''\<rparr>] [sample_flag] []"
    by (simp add: sample_plan_def)
  moreover have "edit_plan ''p1'' (plan_draft sample_plan) ?page = ?page"
    by (simp add: edit_plan_def mount_page_def buildPlanDrafts_def fromEntries_def sample_plan_def)
  ultimately show ?thesis
    by (simp add: mount_page_def buildFlagDrafts_def fromEntries_def sample_flag_def)
qed

section \<open>The capability profile\<close>

lemma map_of_fold_entries:
  "map_of (foldl (\<lambda>m (k, v). put_entry k v m) m es) k = (case map_of (rev es) k of None \<Rightarrow> map_of m k | Some v \<Rightarrow> Some v)"
  by (induction es arbitrary: m) (auto simp: map_add_def split: option.splits)

lemma map_of_fromEntries: "map_of (fromEntries es) k = map_of (rev es) k"
  by (simp add: fromEntries_def map_of_fold_entries split: option.splits)

lemma map_of_graph: "map_of (rev (map (\<lambda>x. (key x, f (key x))) xs)) k = (if k \<in> key ` set xs then Some (f k) else None)"
proof -
  have "map_of (map (\<lambda>x. (key x, f (key x))) ys) k = (if k \<in> key ` set ys then Some (f k) else None)" for ys
    by (induction ys) auto
  from this [of "rev xs"] show ?thesis by (simp add: rev_map)
qed

text \<open>
  A capability profile sets exactly its modules. After a profile is selected, the switch
  of every module of the catalogue is on just when the profile contains the module, and what
  is sent names the profile and those states; switching one module changes no other, and
  nothing else of the draft.
\<close>
theorem select_pack_spec:
  assumes "find (\<lambda>p. ModulePack_key p = pack) (PlatformMetadata_available_module_packs source) = Some mp"
    and "k \<in> ModuleCatalogItem_key ` set (PlatformMetadata_module_catalog source)"
  shows "module_switch (select_pack source pack d) k = (k \<in> set (ModulePack_modules mp))
    \<and> updatePlatformConfig_payload_module_pack (save_config_payload (select_pack source pack d)) = Some pack
    \<and> map_of (the (updatePlatformConfig_payload_module_overrides (save_config_payload (select_pack source pack d)))) k
        = Some (k \<in> set (ModulePack_modules mp))
    \<and> cg_app_name (select_pack source pack d) = cg_app_name d
    \<and> cg_mfa_enabled (select_pack source pack d) = cg_mfa_enabled d
    \<and> module_switch (switch_module j on (select_pack source pack d)) k
        = (if k = j then on else k \<in> set (ModulePack_modules mp))"
proof -
  let ?d = "select_pack source pack d"
  have "map_of (cg_module_states ?d) k = Some (k \<in> set (ModulePack_modules mp))"
    using map_of_graph [of ModuleCatalogItem_key "\<lambda>k. k \<in> set (ModulePack_modules mp)" "PlatformMetadata_module_catalog source" k] assms
    by (simp add: select_pack_def map_of_fromEntries)
  then show ?thesis
    by (simp add: module_switch_def switch_module_def save_config_payload_def)
      (simp add: select_pack_def Let_def)
qed

theorem select_pack_spec_witness:
  "module_switch (select_pack (sample_config\<lparr>PlatformMetadata_module_catalog :=
      [\<lparr>ModuleCatalogItem_key = ''ai'', ModuleCatalogItem_label = ''AI'', ModuleCatalogItem_description = [],
        ModuleCatalogItem_user_visible = True, ModuleCatalogItem_enabled = True\<rparr>],
      PlatformMetadata_available_module_packs :=
      [\<lparr>ModulePack_key = ''core'', ModulePack_label = ''Core'', ModulePack_description = [], ModulePack_modules = [''users'']\<rparr>]\<rparr>)
     ''core'' (buildConfigDraft sample_config)) ''ai'' = False"
proof -
  let ?item = "\<lparr>ModuleCatalogItem_key = ''ai'', ModuleCatalogItem_label = ''AI'', ModuleCatalogItem_description = [],
        ModuleCatalogItem_user_visible = True, ModuleCatalogItem_enabled = True\<rparr>"
  let ?pack = "\<lparr>ModulePack_key = ''core'', ModulePack_label = ''Core'', ModulePack_description = [], ModulePack_modules = [''users'']\<rparr>"
  let ?source = "sample_config\<lparr>PlatformMetadata_module_catalog := [?item], PlatformMetadata_available_module_packs := [?pack]\<rparr>"
  have "find (\<lambda>p. ModulePack_key p = ''core'') (PlatformMetadata_available_module_packs ?source) = Some ?pack"
    "''ai'' \<in> ModuleCatalogItem_key ` set (PlatformMetadata_module_catalog ?source)"
    by simp_all
  from select_pack_spec [OF this, of "buildConfigDraft sample_config"] show ?thesis by simp
qed

end
