(* ===== verification/Admin_Users.thy ===== *)
theory Admin_Users
  imports Optimistic Admin_Endpoints Query_Keys
begin

text \<open>
  The directory of users for administrators: frontend/src/features/admin-users.  The list is
  a paged search with a debounced text, the status of a user is switched optimistically,
  and system roles are granted and revoked in a dialog.
\<close>

section \<open>The list: hooks/useAdminUsers.ts\<close>

definition PAGE_SIZE :: number where
  "PAGE_SIZE = 20"

datatype DirectoryTab = UsersTab | AccessTab

record admin_users =
  au_tab :: DirectoryTab
  au_search :: string
  au_debouncedSearch :: string
  au_page :: number
  au_rolesUser :: "AdminUserResponse option"

definition initial_admin_users :: admin_users where
  "initial_admin_users =
     \<lparr>au_tab = UsersTab, au_search = [], au_debouncedSearch = [], au_page = 0, au_rolesUser = None\<rparr>"

definition usersQueryKey :: "admin_users \<Rightarrow> query_key" where
  "usersQueryKey s = queryKeys_admin_users (au_page s) (au_debouncedSearch s)"

definition users_params :: "admin_users \<Rightarrow> ListUsersApiV1AdminUsersGetParams" where
  "users_params s =
     \<lparr>listUsers_params_page = Some (au_page s + 1), listUsers_params_page_size = Some PAGE_SIZE,
      listUsers_params_search = (if au_debouncedSearch s = [] then None else Some (Some (au_debouncedSearch s)))\<rparr>"

text \<open>The query runs while the tab of the users is shown.\<close>

definition users_request :: "admin_users \<Rightarrow> api_call option" where
  "users_request s = (if au_tab s = UsersTab then Some (listAdminUsers (Some (users_params s))) else None)"

definition updateSearch :: "string \<Rightarrow> admin_users \<Rightarrow> admin_users" where
  "updateSearch value s = s\<lparr>au_search := value, au_page := 0\<rparr>"

text \<open>hooks/useDebounce.ts: the timer of the last text fires.\<close>

definition debounce_fires :: "admin_users \<Rightarrow> admin_users" where
  "debounce_fires s = s\<lparr>au_debouncedSearch := au_search s\<rparr>"

definition setPage :: "number \<Rightarrow> admin_users \<Rightarrow> admin_users" where
  "setPage p s = s\<lparr>au_page := p\<rparr>"

definition activeCount :: "AdminUserResponse list \<Rightarrow> nat" where
  "activeCount users = length (filter AdminUserResponse_is_active users)"

definition verifiedCount :: "AdminUserResponse list \<Rightarrow> nat" where
  "verifiedCount users = length (filter AdminUserResponse_is_verified users)"

section \<open>The status of a user\<close>

definition status_request :: "string \<Rightarrow> bool \<Rightarrow> api_call" where
  "status_request userId is_active = updateUserStatus userId \<lparr>AdminUserStatusUpdate_is_active = is_active\<rparr>"

definition change_status :: "string \<times> bool \<Rightarrow> AdminUserListResponse \<Rightarrow> AdminUserListResponse" where
  "change_status v old =
     old\<lparr>AdminUserListResponse_items :=
       map_item AdminUserResponse_id (fst v) (\<lambda>u. u\<lparr>AdminUserResponse_is_active := snd v\<rparr>) (AdminUserListResponse_items old)\<rparr>"

definition update_status_cache :: "string \<times> bool \<Rightarrow> AdminUserListResponse option \<Rightarrow> AdminUserListResponse option" where
  "update_status_cache v old = map_option (change_status v) old"

text \<open>What is listed: the users in their order without their status, and the page.\<close>

definition listed_users :: "AdminUserListResponse \<Rightarrow> AdminUserResponse list \<times> number \<times> number" where
  "listed_users r =
     (map (\<lambda>u. u\<lparr>AdminUserResponse_is_active := True\<rparr>) (AdminUserListResponse_items r),
      AdminUserListResponse_page r, AdminUserListResponse_total r)"

interpretation status_updates: optimistic update_status_cache change_status listed_users
proof
  fix v :: "string \<times> bool" and d :: AdminUserListResponse
  show "update_status_cache v (Some d) = Some (change_status v d)" by (simp add: update_status_cache_def)
  show "listed_users (change_status v d) = listed_users d"
    by (auto simp: listed_users_def change_status_def map_item_def)
  show "change_status v (change_status v d) = change_status v d"
    unfolding change_status_def by (simp add: map_item_idem)
qed

section \<open>Roles: components/UserRolesDialog.tsx\<close>

definition systemRoles :: "RoleResponse list option \<Rightarrow> RoleResponse list" where
  "systemRoles roles = filter (\<lambda>r. RoleResponse_scope_type r = ''system'') (nullish roles [])"

definition assignedKeys :: "RoleAssignmentResponse list option \<Rightarrow> string set" where
  "assignedKeys assignments = RoleAssignmentResponse_role_key ` set (nullish assignments [])"

definition assign_role :: "string \<Rightarrow> string \<Rightarrow> api_call" where
  "assign_role userId roleKey = assignPolicyRole
     \<lparr>RoleAssignmentCreate_organization_id = None, RoleAssignmentCreate_project_id = None,
      RoleAssignmentCreate_role_key = roleKey, RoleAssignmentCreate_user_id = userId\<rparr>"

definition revoke_role :: "string \<Rightarrow> string \<Rightarrow> api_call" where
  "revoke_role userId roleKey = revokePolicyRole
     \<lparr>revokeRole_params_user_id = userId, revokeRole_params_role_key = roleKey,
      revokeRole_params_organization_id = None, revokeRole_params_project_id = None\<rparr>"

text \<open>The button of a role; busy is whether one of the two mutations is pending.\<close>

definition role_button :: "string \<Rightarrow> RoleAssignmentResponse list option \<Rightarrow> bool \<Rightarrow> RoleResponse \<Rightarrow> api_call option" where
  "role_button userId assignments busy r =
     (if busy then None
      else Some (if RoleResponse_key r \<in> assignedKeys assignments then revoke_role userId (RoleResponse_key r)
                 else assign_role userId (RoleResponse_key r)))"

section \<open>Permissions: components/AccessControlPanels.tsx\<close>

definition permissionHelp :: "PermissionResponse list option \<Rightarrow> string \<Rightarrow> string option" where
  "permissionHelp permissions k =
     map_of (rev (map (\<lambda>p. (PermissionResponse_key p, PermissionResponse_description p)) (nullish permissions []))) k"

section \<open>Properties\<close>

text \<open>
  The cached page of users is the page that was asked for. Two states of the view share
  a query key exactly when they ask the server for the same page and search, so a cached
  answer is never shown for another request; typing goes back to the first page at once,
  and once the timer has fired the request carries the text of the search field.
\<close>
theorem users_key_is_request:
  "(usersQueryKey s = usersQueryKey t \<longleftrightarrow> users_params s = users_params t)
   \<and> au_page (updateSearch value s) = 0
   \<and> listUsers_params_search (users_params (debounce_fires (updateSearch value s)))
       = (if value = [] then None else Some (Some value))
   \<and> listUsers_params_page (users_params (debounce_fires (updateSearch value s))) = Some 1"
  by (auto simp: usersQueryKey_def queryKeys_admin_users_def users_params_def updateSearch_def debounce_fires_def
      split: if_splits)

text \<open>
  Switching the status of users one after the other. When each switch settles before the
  next, the page shows exactly the switches that the server accepted; in any interleaving of
  switches, successes and failures the users listed, their order and the counts of the page
  stay those of the server until the list is fetched again.
\<close>
theorem status_switches_shown:
  assumes "oq_cache s = Some r" and "oq_contexts s = []"
  shows "oq_cache (optimistic_run update_status_cache (one_by_one ms) s)
      = Some (fold change_status (map (fst \<circ> snd) (filter (snd \<circ> snd) ms)) r)
    \<and> (list_all no_refetch es \<longrightarrow>
        map_option listed_users (oq_cache (optimistic_run update_status_cache es s)) = Some (listed_users r))"
proof -
  have "lists listed_users (listed_users r) s" using assms by (simp add: lists_def)
  then have "list_all no_refetch es \<Longrightarrow>
      map_option listed_users (oq_cache (optimistic_run update_status_cache es s)) = Some (listed_users r)"
    using status_updates.lists_run [of "listed_users r" s es] by (auto simp: lists_def)
  then show ?thesis using status_updates.one_by_one_shown [OF assms, of ms] by blast
qed

definition sample_users :: AdminUserListResponse where
  "sample_users =
     \<lparr>AdminUserListResponse_items =
        [\<lparr>AdminUserResponse_created_at = ''2026'', AdminUserResponse_email = ''a@x'', AdminUserResponse_full_name = None,
          AdminUserResponse_id = ''u1'', AdminUserResponse_is_active = True, AdminUserResponse_is_admin = False,
          AdminUserResponse_is_verified = True, AdminUserResponse_mfa_enabled = False, AdminUserResponse_roles = []\<rparr>],
      AdminUserListResponse_page = 1, AdminUserListResponse_page_size = 20, AdminUserListResponse_total = 1\<rparr>"

theorem status_switches_shown_witness:
  "map_option (\<lambda>r. map AdminUserResponse_is_active (AdminUserListResponse_items r))
     (oq_cache (optimistic_run update_status_cache
        (one_by_one [(1, (''u1'', False), True), (2, (''u1'', True), False)])
        \<lparr>oq_cache = Some sample_users, oq_contexts = []\<rparr>)) = Some [False]"
proof -
  let ?s = "\<lparr>oq_cache = Some sample_users, oq_contexts = []\<rparr>"
  from status_switches_shown [of ?s sample_users "[(1, (''u1'', False), True), (2, (''u1'', True), False)]" "[]"]
  show ?thesis by (simp add: change_status_def map_item_def sample_users_def)
qed

text \<open>
  Overlapping switches: when the first fails after the second was accepted, the page shows
  neither until it is fetched again.
\<close>
theorem overlapping_switch_hidden:
  "oq_cache (optimistic_run update_status_cache
      [Mutate 1 (''u1'', False), Mutate 2 (''u2'', True), Succeeded 2, Failed 1] \<lparr>oq_cache = Some r, oq_contexts = []\<rparr>)
   = Some r"
  by (rule status_updates.early_failure_hides_later) (simp_all add: fresh_def)

end
