(* ===== verification/Admin_Jobs.thy ===== *)
theory Admin_Jobs
  imports Admin_Endpoints Query_Keys
begin

text \<open>
  The console of background jobs: frontend/src/features/admin-jobs.  A filtered list, the
  detail of one job, and retrying and cancelling it; the server says in the job which of
  the two it allows, and cancelling is confirmed in a dialog.
\<close>

section \<open>The list: hooks/useAdminJobs.ts\<close>

record admin_jobs =
  aj_filters :: job_filters
  aj_selected :: "JobConsoleItemResponse option"
  aj_cancelTarget :: "JobConsoleItemResponse option"

definition initial_admin_jobs :: admin_jobs where
  "initial_admin_jobs =
     \<lparr>aj_filters = \<lparr>jf_status = [], jf_jobType = [], jf_queue = [], jf_projectId = [], jf_failedOnly = False\<rparr>,
      aj_selected = None, aj_cancelTarget = None\<rparr>"

text \<open>value || undefined\<close>

definition text_or_undefined :: "string \<Rightarrow> string option option" where
  "text_or_undefined t = (if t = [] then None else Some (Some t))"

definition jobs_params :: "job_filters \<Rightarrow> ListConsoleJobsApiV1AdminJobsGetParams" where
  "jobs_params f =
     \<lparr>listConsoleJobs_params_status = text_or_undefined (jf_status f),
      listConsoleJobs_params_job_type = text_or_undefined (jf_jobType f),
      listConsoleJobs_params_queue = text_or_undefined (jf_queue f),
      listConsoleJobs_params_project_id = text_or_undefined (jf_projectId f),
      listConsoleJobs_params_failed_only = (if jf_failedOnly f then Some True else None),
      listConsoleJobs_params_created_after = None, listConsoleJobs_params_created_before = None,
      listConsoleJobs_params_limit = Some 100, listConsoleJobs_params_offset = None\<rparr>"

definition jobs_query :: "admin_jobs \<Rightarrow> query_key \<times> api_call" where
  "jobs_query s = (queryKeys_admin_jobs (aj_filters s), listConsoleJobs (Some (jobs_params (aj_filters s))))"

section \<open>One job\<close>

definition detail_request :: "JobConsoleItemResponse \<Rightarrow> api_call" where
  "detail_request job = getConsoleJob (JobConsoleItemResponse_id job) (Some (JobConsoleItemResponse_source job))"

definition retry_request :: "JobConsoleItemResponse \<Rightarrow> api_call" where
  "retry_request job = retryConsoleJob (JobConsoleItemResponse_id job) (Some (JobConsoleItemResponse_source job))"

definition cancel_request :: "JobConsoleItemResponse \<Rightarrow> api_call" where
  "cancel_request job = cancelConsoleJob (JobConsoleItemResponse_id job) (Some (JobConsoleItemResponse_source job))"

definition detail_loaded :: "JobConsoleItemResponse \<Rightarrow> admin_jobs \<Rightarrow> admin_jobs" where
  "detail_loaded job s = s\<lparr>aj_selected := Some job\<rparr>"

definition job_retried :: "JobConsoleItemResponse \<Rightarrow> admin_jobs \<Rightarrow> admin_jobs" where
  "job_retried job s = s\<lparr>aj_selected := Some job\<rparr>"

definition job_cancelled :: "JobConsoleItemResponse \<Rightarrow> admin_jobs \<Rightarrow> admin_jobs" where
  "job_cancelled job s = s\<lparr>aj_selected := Some job, aj_cancelTarget := None\<rparr>"

text \<open>
  The buttons of components/JobDetailDrawer.tsx: disabled unless the job allows it, or while
  the mutation is pending. Retry sends at once, cancel opens the dialog.
\<close>

definition press_retry :: "bool \<Rightarrow> admin_jobs \<Rightarrow> api_call option" where
  "press_retry pending s =
     (case aj_selected s of None \<Rightarrow> None
      | Some job \<Rightarrow> if \<not> nullish (JobConsoleItemResponse_can_retry job) False \<or> pending then None
                    else Some (retry_request job))"

definition press_cancel :: "bool \<Rightarrow> admin_jobs \<Rightarrow> admin_jobs" where
  "press_cancel pending s =
     (case aj_selected s of None \<Rightarrow> s
      | Some job \<Rightarrow> if \<not> nullish (JobConsoleItemResponse_can_cancel job) False \<or> pending then s
                    else s\<lparr>aj_cancelTarget := Some job\<rparr>)"

text \<open>The dialog of views/AdminJobsView.tsx.\<close>

definition confirm_cancel :: "bool \<Rightarrow> admin_jobs \<Rightarrow> api_call option" where
  "confirm_cancel pending s = (if pending then None else map_option cancel_request (aj_cancelTarget s))"

definition close_cancel :: "bool \<Rightarrow> admin_jobs \<Rightarrow> admin_jobs" where
  "close_cancel pending s = (if pending then s else s\<lparr>aj_cancelTarget := None\<rparr>)"

definition jobStateColor :: "string \<Rightarrow> string" where
  "jobStateColor state =
     (if state = ''succeeded'' then ''success''
      else if state = ''failed'' \<or> state = ''stale'' then ''error''
      else if state = ''running'' \<or> state = ''retrying'' then ''warning''
      else if state = ''cancelled'' then ''default''
      else ''info'')"

section \<open>Events of the view\<close>

text \<open>
  What can happen: a detail arrives, a retry or a cancellation succeeds, the drawer is
  closed, a button is pressed, the dialog confirmed or closed; the flag says whether the
  cancellation is pending. A step gives the cancellation that is sent.
\<close>

datatype jobs_event =
    DetailArrives JobConsoleItemResponse
  | RetrySucceeds JobConsoleItemResponse
  | CancelSucceeds JobConsoleItemResponse
  | DrawerClosed
  | PressCancel bool
  | ConfirmCancel bool
  | CloseDialog bool
  | SetFilters job_filters

fun jobs_step :: "jobs_event \<Rightarrow> admin_jobs \<Rightarrow> api_call option \<times> admin_jobs" where
  "jobs_step (DetailArrives job) s = (None, detail_loaded job s)"
| "jobs_step (RetrySucceeds job) s = (None, job_retried job s)"
| "jobs_step (CancelSucceeds job) s = (None, job_cancelled job s)"
| "jobs_step DrawerClosed s = (None, s\<lparr>aj_selected := None\<rparr>)"
| "jobs_step (PressCancel pending) s = (None, press_cancel pending s)"
| "jobs_step (ConfirmCancel pending) s = (confirm_cancel pending s, s)"
| "jobs_step (CloseDialog pending) s = (None, close_cancel pending s)"
| "jobs_step (SetFilters f) s = (None, s\<lparr>aj_filters := f\<rparr>)"

inductive jobs_reachable :: "admin_jobs \<Rightarrow> bool" where
  jobs_start: "jobs_reachable initial_admin_jobs"
| jobs_next: "jobs_reachable s \<Longrightarrow> jobs_reachable (snd (jobs_step e s))"

lemma cancel_target_allowed:
  "jobs_reachable s \<Longrightarrow> aj_cancelTarget s = Some job \<Longrightarrow> JobConsoleItemResponse_can_cancel job = Some True"
proof (induction rule: jobs_reachable.induct)
  case (jobs_next s e)
  then show ?case
    by (cases e) (auto simp: detail_loaded_def job_retried_def job_cancelled_def press_cancel_def close_cancel_def
        nullish_def split: option.splits if_splits)
qed (simp add: initial_admin_jobs_def)

section \<open>Properties\<close>

text \<open>
  The list of jobs that is cached under a key is the one that was asked for: two filters
  share a query key exactly when they send the same parameters.
\<close>
theorem jobs_key_is_request:
  "fst (jobs_query s) = fst (jobs_query t) \<longleftrightarrow> jobs_params (aj_filters s) = jobs_params (aj_filters t)"
  by (auto simp: jobs_query_def queryKeys_admin_jobs_def jobs_params_def text_or_undefined_def
      intro: job_filters.equality split: if_splits)

text \<open>
  C32: A job is cancelled only when the server allows it and after a confirmation. In every
  reachable state of the view, the only event that sends a cancellation is the confirmation
  of the dialog, and the job it is sent for said it can be cancelled when the dialog was
  opened; likewise a retry is sent only for a shown job that can be retried.
\<close>
theorem job_actions_allowed:
  assumes "jobs_reachable s"
  shows "(fst (jobs_step e s) = Some call \<longrightarrow>
      (\<exists>job. e = ConfirmCancel False \<and> aj_cancelTarget s = Some job \<and> call = cancel_request job
        \<and> JobConsoleItemResponse_can_cancel job = Some True))
    \<and> (press_retry pending s = Some retry \<longrightarrow>
      (\<exists>job. \<not> pending \<and> aj_selected s = Some job \<and> retry = retry_request job
        \<and> JobConsoleItemResponse_can_retry job = Some True))"
proof (intro conjI impI)
  assume "fst (jobs_step e s) = Some call"
  then obtain job where "e = ConfirmCancel False" "aj_cancelTarget s = Some job" "call = cancel_request job"
    by (cases e) (auto simp: confirm_cancel_def split: if_splits)
  then show "\<exists>job. e = ConfirmCancel False \<and> aj_cancelTarget s = Some job \<and> call = cancel_request job
        \<and> JobConsoleItemResponse_can_cancel job = Some True"
    using cancel_target_allowed [OF assms] by blast
next
  assume "press_retry pending s = Some retry"
  then show "\<exists>job. \<not> pending \<and> aj_selected s = Some job \<and> retry = retry_request job
        \<and> JobConsoleItemResponse_can_retry job = Some True"
    by (auto simp: press_retry_def nullish_def split: option.splits if_splits)
qed

definition sample_job :: JobConsoleItemResponse where
  "sample_job =
     \<lparr>JobConsoleItemResponse_attempts = None, JobConsoleItemResponse_available_at = None,
      JobConsoleItemResponse_can_cancel = Some True, JobConsoleItemResponse_can_retry = Some False,
      JobConsoleItemResponse_cancel_blocked_reason = None, JobConsoleItemResponse_completed_at = None,
      JobConsoleItemResponse_correlation_id = None, JobConsoleItemResponse_created_at = None,
      JobConsoleItemResponse_duration_seconds = None, JobConsoleItemResponse_error_classification = None,
      JobConsoleItemResponse_id = ''j1'', JobConsoleItemResponse_job_type = ''rag_ingest'',
      JobConsoleItemResponse_max_attempts = None, JobConsoleItemResponse_operation_id = None,
      JobConsoleItemResponse_payload_summary = None, JobConsoleItemResponse_queue = ''default'',
      JobConsoleItemResponse_raw_status = ''queued'', JobConsoleItemResponse_related_document_id = None,
      JobConsoleItemResponse_related_project_id = None, JobConsoleItemResponse_related_user_id = None,
      JobConsoleItemResponse_retries = None, JobConsoleItemResponse_retry_blocked_reason = None,
      JobConsoleItemResponse_safe_error_summary = None, JobConsoleItemResponse_source = ''rag'',
      JobConsoleItemResponse_stale = None, JobConsoleItemResponse_started_at = None,
      JobConsoleItemResponse_state = ''queued'', JobConsoleItemResponse_task_id = ''t1'',
      JobConsoleItemResponse_trace_hints = None\<rparr>"

theorem job_actions_allowed_witness:
  "\<exists>s. jobs_reachable s \<and> fst (jobs_step (ConfirmCancel False) s) = Some (cancel_request sample_job)
     \<and> press_retry False s = None"
proof -
  let ?s = "snd (jobs_step (PressCancel False) (snd (jobs_step (DetailArrives sample_job) initial_admin_jobs)))"
  have reach: "jobs_reachable ?s" by (intro jobs_next jobs_start)
  have sent: "fst (jobs_step (ConfirmCancel False) ?s) = Some (cancel_request sample_job)"
    by (simp add: detail_loaded_def press_cancel_def confirm_cancel_def sample_job_def)
  have "press_retry False ?s = None"
  proof (cases "press_retry False ?s")
    case (Some call)
    then have "\<exists>job. aj_selected ?s = Some job \<and> JobConsoleItemResponse_can_retry job = Some True"
      using job_actions_allowed [OF reach] by blast
    then show ?thesis by (simp add: detail_loaded_def press_cancel_def sample_job_def)
  qed
  with reach sent show ?thesis by blast
qed

end
