(* ===== verification/Admin_Rag.thy ===== *)
theory Admin_Rag
  imports Admin_Endpoints Query_Keys Js_Numbers
begin

text \<open>
  The administration of retrieval: frontend/src/features/admin-rag.  Index versions move
  through a life cycle by actions that are confirmed in a dialog; retrieval is probed and
  evaluated on datasets.
\<close>

section \<open>Index versions: hooks/useRagIndexes.ts\<close>

datatype VersionAction = Activate | Rollback | Validate

record pending_action =
  pa_type :: VersionAction
  pa_versionId :: string
  pa_versionKey :: string

record rag_indexes =
  ri_pendingAction :: "pending_action option"
  ri_busy :: "VersionAction option"

definition requestAction :: "VersionAction \<Rightarrow> string \<Rightarrow> string \<Rightarrow> rag_indexes \<Rightarrow> rag_indexes" where
  "requestAction t versionId versionKey s =
     s\<lparr>ri_pendingAction := Some \<lparr>pa_type = t, pa_versionId = versionId, pa_versionKey = versionKey\<rparr>\<rparr>"

definition version_request :: "VersionAction \<Rightarrow> string \<Rightarrow> api_call" where
  "version_request t versionId =
     (case t of Validate \<Rightarrow> validateRagIndexVersion versionId
      | Activate \<Rightarrow> activateRagIndexVersion versionId
      | Rollback \<Rightarrow> rollbackRagIndexVersion versionId)"

text \<open>The dialog confirms only while no action is pending.\<close>

definition confirmPendingAction :: "rag_indexes \<Rightarrow> api_call option \<times> rag_indexes" where
  "confirmPendingAction s =
     (case ri_pendingAction s of
        Some p \<Rightarrow> if ri_busy s \<noteq> None then (None, s)
                  else (Some (version_request (pa_type p) (pa_versionId p)), s\<lparr>ri_busy := Some (pa_type p)\<rparr>)
      | None \<Rightarrow> (None, s))"

text \<open>onSuccess and onError of the three mutations, and closing the dialog.\<close>

definition action_succeeded :: "rag_indexes \<Rightarrow> rag_indexes" where
  "action_succeeded s = s\<lparr>ri_pendingAction := None, ri_busy := None\<rparr>"

definition action_failed :: "rag_indexes \<Rightarrow> rag_indexes" where
  "action_failed s = s\<lparr>ri_busy := None\<rparr>"

definition close_dialog :: "rag_indexes \<Rightarrow> rag_indexes" where
  "close_dialog s = (if ri_busy s \<noteq> None then s else s\<lparr>ri_pendingAction := None\<rparr>)"

definition create_version_request :: api_call where
  "create_version_request = createRagIndexVersion (Some ''Created from admin UI'')"

definition reindex_request :: api_call where
  "reindex_request = reindexStaleRagDocuments (Some 50)"

text \<open>components/indexes/VersionsPanel.tsx: the button of a version.\<close>

definition offered_action :: "string \<Rightarrow> VersionAction option" where
  "offered_action st =
     (if st = ''building'' then Some Validate
      else if st = ''validated'' then Some Activate
      else if st = ''retired'' then Some Rollback
      else None)"

text \<open>components/indexes/OverviewPanel.tsx: whether Build missing is enabled.\<close>

definition build_missing_enabled :: "bool \<Rightarrow> RagIndexStatusResponse \<Rightarrow> bool" where
  "build_missing_enabled pending d \<longleftrightarrow>
     \<not> (pending \<or> nullish (RagIndexStatusResponse_documents_incomplete d) (RagIndexStatusResponse_documents_stale d) = 0)"

definition shows_desired_version :: "RagIndexStatusResponse \<Rightarrow> bool" where
  "shows_desired_version d \<longleftrightarrow>
     (case RagIndexStatusResponse_desired_index_version d of
        Some (Some v) \<Rightarrow> v \<noteq> [] \<and> v \<noteq> RagIndexVersionResponse_key (RagIndexStatusResponse_active_version d)
      | _ \<Rightarrow> False)"

section \<open>The life cycle on the server\<close>

text \<open>
  What the checks on the status say in IndexVersionService: validating needs a building
  version, activating a validated one, rolling back a retired one, and each leaves a version
  alone that is already there. None stands for the answer 422.
\<close>

definition allowed_transitions :: "(string \<times> string) set" where
  "allowed_transitions =
     {(''building'', ''validated''), (''validated'', ''active''), (''active'', ''retired''), (''retired'', ''active'')}"

definition server_status :: "VersionAction \<Rightarrow> string \<Rightarrow> string option" where
  "server_status t st =
     (case t of
        Validate \<Rightarrow> if st = ''validated'' then Some st
                    else if (st, ''validated'') \<notin> allowed_transitions then None else Some ''validated''
      | Activate \<Rightarrow> if st = ''active'' then Some st
                    else if (st, ''active'') \<notin> allowed_transitions then None
                    else if st \<noteq> ''validated'' then None else Some ''active''
      | Rollback \<Rightarrow> if st = ''active'' then Some st
                    else if st \<noteq> ''retired'' then None else Some ''active'')"

section \<open>Evaluation: hooks/useRagEvaluation.ts\<close>

record rag_evaluation =
  re_datasetId :: string
  re_query :: string
  re_strategy :: RagEvalStrategy
  re_topK :: js_num
  re_projectId :: string
  re_caseQuestion :: string
  re_caseChunks :: string
  re_baselineRunId :: string

definition initial_rag_evaluation :: rag_evaluation where
  "initial_rag_evaluation =
     \<lparr>re_datasetId = [], re_query = ''What does error ZX-204 mean?'', re_strategy = HybridRrfStrategy,
      re_topK = Finite 5, re_projectId = [], re_caseQuestion = [], re_caseChunks = [], re_baselineRunId = []\<rparr>"

text \<open>The queries of the cases and the runs, with their keys; they wait for a dataset.\<close>

definition cases_query :: "rag_evaluation \<Rightarrow> (query_key \<times> api_call) option" where
  "cases_query s =
     (if re_datasetId s = [] then None
      else Some (queryKeys_admin_ragEvalCases (re_datasetId s), listRagEvalCases (re_datasetId s) None))"

definition runs_query :: "rag_evaluation \<Rightarrow> (query_key \<times> api_call) option" where
  "runs_query s =
     (if re_datasetId s = [] then None
      else Some (queryKeys_admin_ragEvalRuns (re_datasetId s), listRagEvalRuns (Some (re_datasetId s))))"

definition selectedDataset :: "RagEvalDatasetResponse list option \<Rightarrow> rag_evaluation \<Rightarrow> RagEvalDatasetResponse option" where
  "selectedDataset datasets s =
     (case datasets of None \<Rightarrow> None | Some ds \<Rightarrow> find (\<lambda>d. RagEvalDatasetResponse_id d = re_datasetId s) ds)"

definition setDatasetId :: "string \<Rightarrow> rag_evaluation \<Rightarrow> rag_evaluation" where
  "setDatasetId d s = s\<lparr>re_datasetId := d\<rparr>"

text \<open>onSuccess of creating and of importing a dataset: the new one is selected.\<close>

definition dataset_created :: "RagEvalDatasetResponse \<Rightarrow> rag_evaluation \<Rightarrow> rag_evaluation" where
  "dataset_created d s = setDatasetId (RagEvalDatasetResponse_id d) s"

definition case_created :: "rag_evaluation \<Rightarrow> rag_evaluation" where
  "case_created s = s\<lparr>re_caseQuestion := [], re_caseChunks := []\<rparr>"

text \<open>components/evaluation/ProbePanel.tsx: Number(text) || 5.\<close>

definition setTopK :: "string \<Rightarrow> rag_evaluation \<Rightarrow> rag_evaluation" where
  "setTopK text s = s\<lparr>re_topK := nullish (number_or_none text) (Finite 5)\<rparr>"

text \<open>components/evaluation/DatasetsCasesPanel.tsx: the form needs a dataset and the button a question.\<close>

definition create_case_request :: "bool \<Rightarrow> rag_evaluation \<Rightarrow> api_call option" where
  "create_case_request pending s =
     (if pending \<or> re_datasetId s = [] \<or> trim (re_caseQuestion s) = [] then None
      else Some (createRagEvalCase (re_datasetId s)
        \<lparr>RagEvalCaseCreateRequest_expected_chunk_ids = Some (comma_items (re_caseChunks s)),
         RagEvalCaseCreateRequest_expected_document_ids = None, RagEvalCaseCreateRequest_expected_facts = None,
         RagEvalCaseCreateRequest_expected_sources = None, RagEvalCaseCreateRequest_judgments = None,
         RagEvalCaseCreateRequest_notes = None, RagEvalCaseCreateRequest_question = re_caseQuestion s,
         RagEvalCaseCreateRequest_tags = Some [''manual'']\<rparr> None))"

definition undefined_if_empty :: "string \<Rightarrow> string option option" where
  "undefined_if_empty t = (if t = [] then None else Some (Some t))"

text \<open>A number in a request: an infinite one is written as null.\<close>

definition request_number :: "js_num \<Rightarrow> number option option" where
  "request_number n = Some (case n of Finite r \<Rightarrow> Some r | _ \<Rightarrow> None)"

definition probe_request :: "bool \<Rightarrow> rag_evaluation \<Rightarrow> api_call option" where
  "probe_request pending s =
     (if pending \<or> trim (re_query s) = [] then None
      else Some (probeRagEvaluation
        \<lparr>RagEvalProbeRequest_document_ids = None, RagEvalProbeRequest_include_generation_judges = Some False,
         RagEvalProbeRequest_organization_id = None,
         RagEvalProbeRequest_project_id = undefined_if_empty (re_projectId s),
         RagEvalProbeRequest_query = re_query s, RagEvalProbeRequest_strategy = Some (Some (re_strategy s)),
         RagEvalProbeRequest_top_k = request_number (re_topK s)\<rparr>))"

text \<open>`${strategy}-k${topK}`\<close>

definition js_num_text :: "js_num \<Rightarrow> string" where
  "js_num_text n = (case n of NaN \<Rightarrow> ''NaN'' | Infinite neg \<Rightarrow> (if neg then ''-Infinity'' else ''Infinity'')
      | Finite r \<Rightarrow> number_text r)"

definition run_payload :: "rag_evaluation \<Rightarrow> RagEvalRunRequest" where
  "run_payload s =
     \<lparr>RagEvalRunRequest_baseline_run_id = undefined_if_empty (re_baselineRunId s),
      RagEvalRunRequest_include_generation_judges = None,
      RagEvalRunRequest_name = Some (RagEvalStrategy_text (re_strategy s) @ ''-k'' @ js_num_text (re_topK s)),
      RagEvalRunRequest_organization_id = None,
      RagEvalRunRequest_project_id = undefined_if_empty (re_projectId s),
      RagEvalRunRequest_strategy = Some (Some (re_strategy s)),
      RagEvalRunRequest_top_k = request_number (re_topK s)\<rparr>"

text \<open>components/evaluation/RunsPanel.tsx: the button is there once a dataset is selected.\<close>

definition run_request :: "bool \<Rightarrow> rag_evaluation \<Rightarrow> api_call option" where
  "run_request pending s =
     (if pending \<or> re_datasetId s = [] then None else Some (runRagEvalDataset (re_datasetId s) (run_payload s)))"

section \<open>The dialog\<close>

datatype index_event =
    Request VersionAction string string
  | Confirm
  | ActionSucceeds
  | ActionFails
  | CloseConfirm

text \<open>The dialog is modal: a new action is requested only while none is shown.\<close>

fun index_step :: "index_event \<Rightarrow> rag_indexes \<Rightarrow> api_call option \<times> rag_indexes" where
  "index_step (Request t i k) s = (None, if ri_pendingAction s = None then requestAction t i k s else s)"
| "index_step Confirm s = confirmPendingAction s"
| "index_step ActionSucceeds s = (None, if ri_busy s = None then s else action_succeeded s)"
| "index_step ActionFails s = (None, if ri_busy s = None then s else action_failed s)"
| "index_step CloseConfirm s = (None, close_dialog s)"

inductive index_reachable :: "rag_indexes \<Rightarrow> bool" where
  index_start: "index_reachable \<lparr>ri_pendingAction = None, ri_busy = None\<rparr>"
| index_next: "index_reachable s \<Longrightarrow> index_reachable (snd (index_step e s))"

definition busy_matches :: "rag_indexes \<Rightarrow> bool" where
  "busy_matches s \<longleftrightarrow>
     (case ri_busy s of None \<Rightarrow> True
      | Some t \<Rightarrow> (case ri_pendingAction s of None \<Rightarrow> False | Some p \<Rightarrow> pa_type p = t))"

lemmas dialog_defs =
  requestAction_def confirmPendingAction_def action_succeeded_def action_failed_def close_dialog_def

lemma busy_matches_reachable: "index_reachable s \<Longrightarrow> busy_matches s"
proof (induction rule: index_reachable.induct)
  case (index_next s e)
  then show ?case
    by (cases e) (auto simp: busy_matches_def dialog_defs split: option.splits)
qed (simp add: busy_matches_def)

section \<open>Properties\<close>

text \<open>
  The view offers exactly the steps of the life cycle. A version in a given status has
  the button of an action just when the server would move it with that action, to another
  status; and the move is one of the allowed transitions.
\<close>
theorem offered_actions_are_transitions:
  "(offered_action st = Some a) = (\<exists>st'. server_status a st = Some st' \<and> st' \<noteq> st)
   \<and> (case offered_action st of None \<Rightarrow> True
      | Some b \<Rightarrow> (\<exists>st'. server_status b st = Some st' \<and> (st, st') \<in> allowed_transitions))"
  by (cases a) (auto simp: offered_action_def server_status_def allowed_transitions_def)

text \<open>
  One confirmed action at a time. In every reachable state of the view, a request is
  sent only by confirming the dialog, for the version and the action the dialog shows and
  while no other action is pending; until it settles the dialog cannot be closed, changed or
  confirmed again, and a failure leaves it open for another try.
\<close>
theorem confirmed_action_once:
  assumes "index_reachable s"
  shows "(fst (index_step e s) = Some call \<longrightarrow>
      (\<exists>p. e = Confirm \<and> ri_pendingAction s = Some p \<and> ri_busy s = None
        \<and> call = version_request (pa_type p) (pa_versionId p)
        \<and> fst (index_step Confirm (snd (index_step e s))) = None
        \<and> ri_pendingAction (snd (index_step CloseConfirm (snd (index_step e s)))) = Some p
        \<and> snd (index_step ActionFails (snd (index_step e s))) = s))
    \<and> busy_matches s"
  using busy_matches_reachable [OF assms]
  by (cases e) (auto simp: dialog_defs split: option.splits if_splits)

theorem confirmed_action_once_witness:
  "\<exists>s. index_reachable s \<and> fst (index_step Confirm s) = Some (activateRagIndexVersion ''v2'')
     \<and> snd (index_step ActionFails (snd (index_step Confirm s))) = s"
proof -
  let ?s = "snd (index_step (Request Activate ''v2'' ''key2'') \<lparr>ri_pendingAction = None, ri_busy = None\<rparr>)"
  have reach: "index_reachable ?s" by (intro index_next index_start)
  have sent: "fst (index_step Confirm ?s) = Some (activateRagIndexVersion ''v2'')"
    by (simp add: dialog_defs version_request_def)
  from confirmed_action_once [OF reach, of Confirm] sent
  have "snd (index_step ActionFails (snd (index_step Confirm ?s))) = ?s" by blast
  with reach sent show ?thesis by blast
qed

text \<open>
  What an evaluation sends. A run goes to the selected dataset with the strategy and the
  number of results of the form, a number field that is emptied or holds zero counting as
  five; the ids of the chunks of a case never contain a comma or an empty id. Selecting
  another dataset keeps the baseline, so that a run is then compared with a run of the
  dataset before.
\<close>
theorem evaluation_request_spec:
  "RagEvalRunRequest_baseline_run_id (run_payload (setDatasetId d s)) = RagEvalRunRequest_baseline_run_id (run_payload s)
   \<and> run_request False (setDatasetId (CHR ''d'' # d) s) = Some (runRagEvalDataset (CHR ''d'' # d) (run_payload s))
   \<and> re_topK (setTopK '''' s) = Finite 5 \<and> re_topK (setTopK (number_text (of_nat n)) s) = Finite (if n = 0 then 5 else of_nat n)
   \<and> list_all (\<lambda>c. c \<noteq> [] \<and> CHR '','' \<notin> set c) (comma_items text)
   \<and> comma_items '''' = []"
  using comma_items_names
  by (simp add: run_payload_def setDatasetId_def setTopK_def number_or_none_def number_of_text
      nullish_def run_request_def)

text \<open>
  The export of a run is a link relative to the site. The URL of the link always lies
  under /api/v1 of the page's own origin; unlike every request of the client it does not
  start with the configured base of the API unless that is itself such a path, and with the
  default base it never does.
\<close>
theorem export_link_ignores_base:
  "startsWith (ragEvalExportUrl runId format) ''/api/v1/rag/admin/evaluation/runs/''
   \<and> (cw_api_base w = None \<longrightarrow> \<not> startsWith (ragEvalExportUrl runId format) (API_BASE w))
   \<and> sent_url (fetch_request ''/x'' opts hs w) = API_BASE w @ ''/x''"
  by (simp add: ragEvalExportUrl_def getExportRunApiV1RagAdminEvaluationRunsRunIdExportGetUrl_def orval_url_def Let_def
      startsWith_def API_BASE_def default_api_base_def fetch_request_def nullish_def)

theorem export_link_ignores_base_witness:
  "\<not> startsWith (ragEvalExportUrl ''r1'' None)
      (API_BASE \<lparr>cw_session = initial_auth_session, cw_aborted = False, cw_api_base = None, cw_sent = [],
        cw_diagnostics = [], cw_progress = []\<rparr>)"
  using export_link_ignores_base [of "''r1''" None
      "\<lparr>cw_session = initial_auth_session, cw_aborted = False, cw_api_base = None, cw_sent = [],
        cw_diagnostics = [], cw_progress = []\<rparr>"] by simp

end
