(* ===== verification/Notifications.thy ===== *)
theory Notifications
  imports Optimistic Api_Endpoints Query_Keys
begin

text \<open>
  The page of notifications: frontend/src/features/notifications.  Three optimistic
  mutations work on three cached queries: marking one notification read and marking all
  read change the list and the count of unread ones together, and the preferences are
  switched one by one.
\<close>

section \<open>Reading: views/NotificationsView.tsx\<close>

record inbox =
  ib_list :: "Notification list option"
  ib_unread :: "NotificationUnreadCount option"

text \<open>The context that onMutate returns is the inbox it found: previous and previousUnread.\<close>

definition read_item :: "Notification \<Rightarrow> Notification" where
  "read_item n = n\<lparr>Notification_is_read := True\<rparr>"

definition mark_one_list :: "string \<Rightarrow> Notification list option \<Rightarrow> Notification list option" where
  "mark_one_list notificationId old =
     Some (case old of None \<Rightarrow> [] | Some ns \<Rightarrow> map_item Notification_id notificationId read_item ns)"

definition was_unread :: "string \<Rightarrow> Notification list option \<Rightarrow> bool" where
  "was_unread notificationId previous \<longleftrightarrow>
     (case previous of None \<Rightarrow> False
      | Some ns \<Rightarrow> list_ex (\<lambda>n. Notification_id n = notificationId \<and> \<not> Notification_is_read n) ns)"

definition unread_count :: "NotificationUnreadCount option \<Rightarrow> number" where
  "unread_count u = (case u of None \<Rightarrow> 0 | Some c \<Rightarrow> NotificationUnreadCount_count c)"

definition mark_one :: "string \<Rightarrow> inbox \<Rightarrow> inbox" where
  "mark_one notificationId s =
     s\<lparr>ib_list := mark_one_list notificationId (ib_list s),
       ib_unread := (if was_unread notificationId (ib_list s)
         then Some \<lparr>NotificationUnreadCount_count = max 0 (unread_count (ib_unread s) - 1)\<rparr> else ib_unread s)\<rparr>"

definition mark_all :: "inbox \<Rightarrow> inbox" where
  "mark_all s =
     s\<lparr>ib_list := Some (case ib_list s of None \<Rightarrow> [] | Some ns \<Rightarrow> map read_item ns),
       ib_unread := Some \<lparr>NotificationUnreadCount_count = 0\<rparr>\<rparr>"

text \<open>onError: each of the two is put back when there was one.\<close>

definition restore_inbox :: "inbox \<Rightarrow> inbox \<Rightarrow> inbox" where
  "restore_inbox context s =
     s\<lparr>ib_list := (case ib_list context of None \<Rightarrow> ib_list s | Some ns \<Rightarrow> Some ns),
       ib_unread := (case ib_unread context of None \<Rightarrow> ib_unread s | Some c \<Rightarrow> Some c)\<rparr>"

text \<open>What the page shows: the number of unread notifications, and of all.\<close>

definition shown_unread :: "inbox \<Rightarrow> number" where
  "shown_unread s =
     (case ib_unread s of Some c \<Rightarrow> NotificationUnreadCount_count c
      | None \<Rightarrow> (case ib_list s of Some ns \<Rightarrow> of_nat (length (filter (\<lambda>n. \<not> Notification_is_read n) ns)) | None \<Rightarrow> 0))"

definition shown_total :: "inbox \<Rightarrow> nat" where
  "shown_total s = (case ib_list s of None \<Rightarrow> 0 | Some ns \<Rightarrow> length ns)"

definition mark_all_shown :: "inbox \<Rightarrow> bool" where
  "mark_all_shown s \<longleftrightarrow> 0 < shown_unread s"

text \<open>components/notifications/NotificationListItem.tsx: the button Mark as read.\<close>

definition can_mark_read :: "Notification \<Rightarrow> bool" where
  "can_mark_read n \<longleftrightarrow> \<not> Notification_is_read n"

section \<open>Preferences\<close>

text \<open>A change of one channel; the other two are left out of the payload.\<close>

datatype channel = EmailChannel | PushChannel | MarketingChannel

definition preferences_of :: "NotificationPreferences option \<Rightarrow> NotificationPreferences" where
  "preferences_of old =
     (case old of Some p \<Rightarrow> p
      | None \<Rightarrow> \<lparr>NotificationPreferences_email_enabled = True, NotificationPreferences_push_enabled = True,
                 NotificationPreferences_marketing_enabled = False\<rparr>)"

fun set_channel :: "channel \<times> bool \<Rightarrow> NotificationPreferences \<Rightarrow> NotificationPreferences" where
  "set_channel (EmailChannel, b) p = p\<lparr>NotificationPreferences_email_enabled := b\<rparr>"
| "set_channel (PushChannel, b) p = p\<lparr>NotificationPreferences_push_enabled := b\<rparr>"
| "set_channel (MarketingChannel, b) p = p\<lparr>NotificationPreferences_marketing_enabled := b\<rparr>"

definition update_preferences_cache :: "channel \<times> bool \<Rightarrow> NotificationPreferences option \<Rightarrow> NotificationPreferences option" where
  "update_preferences_cache v old = Some (set_channel v (preferences_of old))"

text \<open>The request of a switch.\<close>

definition channel_payload :: "channel \<times> bool \<Rightarrow> updatePreferences_payload" where
  "channel_payload v =
     \<lparr>updatePreferences_payload_email_enabled = (if fst v = EmailChannel then Some (snd v) else None),
      updatePreferences_payload_push_enabled = (if fst v = PushChannel then Some (snd v) else None),
      updatePreferences_payload_marketing_enabled = (if fst v = MarketingChannel then Some (snd v) else None)\<rparr>"

definition enabledChannels :: "NotificationPreferences option \<Rightarrow> nat" where
  "enabledChannels prefs =
     (case prefs of None \<Rightarrow> 0
      | Some p \<Rightarrow> length (filter id [NotificationPreferences_email_enabled p, NotificationPreferences_push_enabled p,
                   NotificationPreferences_marketing_enabled p]))"

lemma set_channel_idem: "set_channel v (set_channel v p) = set_channel v p"
proof (cases v)
  case (Pair c b)
  show ?thesis unfolding Pair by (cases c) simp_all
qed

interpretation preference_updates: optimistic update_preferences_cache set_channel "\<lambda>p. ()"
  by unfold_locales (simp_all add: update_preferences_cache_def preferences_of_def set_channel_idem)

section \<open>Properties\<close>

definition unread_items :: "Notification list \<Rightarrow> nat" where
  "unread_items ns = length (filter (\<lambda>n. \<not> Notification_is_read n) ns)"

lemma unread_items_simps [simp]:
  "unread_items [] = 0"
  "unread_items (n # ns) = (if Notification_is_read n then 0 else 1) + unread_items ns"
  by (simp_all add: unread_items_def)

lemma was_unread_simps [simp]:
  "\<not> was_unread i (Some [])"
  "was_unread i (Some (n # ns)) = ((Notification_id n = i \<and> \<not> Notification_is_read n) \<or> was_unread i (Some ns))"
  by (simp_all add: was_unread_def)

lemma absent_read: "i \<notin> set (map Notification_id ns) \<Longrightarrow> \<not> was_unread i (Some ns)"
  by (induction ns) auto

lemma read_item_simps [simp]:
  "Notification_is_read (read_item n)" "Notification_id (read_item n) = Notification_id n"
  "read_item (read_item n) = read_item n"
  by (simp_all add: read_item_def)

lemma read_after_one: "\<not> was_unread i (Some (map_item Notification_id i read_item ns))"
  by (induction ns) auto

lemma unread_after_one:
  "distinct (map Notification_id ns) \<Longrightarrow>
   unread_items (map_item Notification_id i read_item ns) + (if was_unread i (Some ns) then 1 else 0) = unread_items ns"
proof (induction ns)
  case (Cons n ns)
  show ?case
  proof (cases "Notification_id n = i")
    case True
    then have "i \<notin> set (map Notification_id ns)" using Cons.prems by auto
    then show ?thesis using True absent_read [of i ns] map_item_other [of i Notification_id ns read_item]
      by simp
  next
    case False
    then show ?thesis using Cons by simp
  qed
qed simp

lemma mark_list_ids: "map Notification_id (map_item Notification_id i read_item ns) = map Notification_id ns"
  by (rule map_item_keys) simp


definition sample_notification :: Notification where
  "sample_notification =
     \<lparr>Notification_id = ''n1'', Notification_type = ''info'', Notification_title = ''Hello'',
      Notification_body = None, Notification_is_read = False, Notification_created_at = ''2026''\<rparr>"


text \<open>
  Marking all read before the list has come. The button appears as soon as the count is
  loaded; when it is pressed while the list is still loading, the list is taken to be empty,
  and the failure of the request does not take that back.
\<close>
theorem mark_all_unloaded_empties:
  "ib_list s = None \<Longrightarrow> ib_unread s = Some c \<Longrightarrow> 0 < NotificationUnreadCount_count c
   \<Longrightarrow> mark_all_shown s \<and> ib_list (mark_all s) = Some [] \<and> ib_list (restore_inbox s (mark_all s)) = Some []
     \<and> ib_unread (restore_inbox s (mark_all s)) = Some c"
  by (simp add: mark_all_shown_def shown_unread_def mark_all_def restore_inbox_def)

theorem mark_all_unloaded_empties_witness:
  "ib_list (restore_inbox \<lparr>ib_list = None, ib_unread = Some \<lparr>NotificationUnreadCount_count = 3\<rparr>\<rparr>
      (mark_all \<lparr>ib_list = None, ib_unread = Some \<lparr>NotificationUnreadCount_count = 3\<rparr>\<rparr>)) = Some []"
  using mark_all_unloaded_empties [of "\<lparr>ib_list = None, ib_unread = Some \<lparr>NotificationUnreadCount_count = 3\<rparr>\<rparr>"] by simp

end
