(* ===== verification/Platform_View.thy ===== *)
theory Platform_View
  imports Optimistic Js_Numbers Platform_Endpoints Query_Keys
begin

text \<open>
  The platform page of a user: frontend/src/features/platform.  Billing, API keys, webhooks
  and feature flags, each shown while its module is enabled; keys and webhooks are created
  from small forms and a webhook is switched optimistically.  The schema that checks a URL
  belongs to the library zod and is a parameter: None for a valid URL, else its message.
\<close>

section \<open>State: hooks/usePlatformView.ts\<close>

record webhook_draft =
  wd_target_url :: string
  wd_description :: string
  wd_events :: string

definition empty_webhook_draft :: webhook_draft where
  "empty_webhook_draft = \<lparr>wd_target_url = [], wd_description = [], wd_events = ''platform.test''\<rparr>"

record platform_view =
  pv_apiKeyName :: string
  pv_apiKeyNameError :: "string option"
  pv_revealedKey :: "string option"
  pv_webhookDraft :: webhook_draft
  pv_webhookUrlError :: "string option"
  pv_revealedWebhookSecret :: "string option"
  pv_lastWebhookResult :: string

definition initial_platform_view :: platform_view where
  "initial_platform_view =
     \<lparr>pv_apiKeyName = [], pv_apiKeyNameError = None, pv_revealedKey = None,
      pv_webhookDraft = empty_webhook_draft, pv_webhookUrlError = None,
      pv_revealedWebhookSecret = None, pv_lastWebhookResult = []\<rparr>"

text \<open>The queries that run: those of the enabled modules.\<close>

definition platform_queries :: "PlatformMetadata option \<Rightarrow> (query_key \<times> api_call) list" where
  "platform_queries metadata =
     (let modules = (case metadata of None \<Rightarrow> [] | Some m \<Rightarrow> PlatformMetadata_enabled_modules m)
      in (if ''billing'' \<in> set modules
          then [(queryKeys_platform_plans, listSubscriptionPlans), (queryKeys_platform_subscription, getMySubscription)]
          else [])
         @ (if ''api_keys'' \<in> set modules then [(queryKeys_platform_apiKeys, listApiKeys)] else [])
         @ (if ''webhooks'' \<in> set modules then [(queryKeys_platform_webhooks, listWebhooks)] else [])
         @ (if ''feature_flags'' \<in> set modules then [(queryKeys_platform_featureFlags, listMyFeatureFlags)] else []))"

section \<open>API keys\<close>

definition type_key_name :: "string \<Rightarrow> platform_view \<Rightarrow> platform_view" where
  "type_key_name t s = s\<lparr>pv_apiKeyName := t, pv_apiKeyNameError := None\<rparr>"

text \<open>The button of components/PlatformSections.tsx; a disabled button does nothing.\<close>

definition create_key :: "bool \<Rightarrow> platform_view \<Rightarrow> api_call option \<times> platform_view" where
  "create_key pending s =
     (let name = trim (pv_apiKeyName s)
      in if pending \<or> js_length name < 2 then (None, s)
         else if js_length name < 2
         then (None, s\<lparr>pv_apiKeyNameError := Some ''Key name must be at least 2 characters.''\<rparr>)
         else (Some (createApiKey name), s))"

definition key_created :: "CreatedApiKey \<Rightarrow> platform_view \<Rightarrow> platform_view" where
  "key_created key s = s\<lparr>pv_apiKeyName := [], pv_revealedKey := Some (CreatedApiKey_plaintext_key key)\<rparr>"

definition can_revoke :: "bool \<Rightarrow> ApiKey \<Rightarrow> bool" where
  "can_revoke pending key \<longleftrightarrow> \<not> (truthy (ApiKey_revoked_at key) \<or> pending)"

section \<open>Webhooks\<close>

definition type_webhook_url :: "string \<Rightarrow> platform_view \<Rightarrow> platform_view" where
  "type_webhook_url t s =
     s\<lparr>pv_webhookUrlError := None, pv_webhookDraft := (pv_webhookDraft s)\<lparr>wd_target_url := t\<rparr>\<rparr>"

definition webhook_payload :: "webhook_draft \<Rightarrow> createWebhook_payload" where
  "webhook_payload d =
     \<lparr>createWebhook_payload_target_url = trim (wd_target_url d),
      createWebhook_payload_description = (if trim (wd_description d) = [] then None else Some (trim (wd_description d))),
      createWebhook_payload_events = comma_items (wd_events d)\<rparr>"

text \<open>submitWebhook behind its button, which needs a URL of at least eight characters.\<close>

definition submitWebhook :: "(string \<Rightarrow> string option) \<Rightarrow> bool \<Rightarrow> platform_view \<Rightarrow> api_call option \<times> platform_view" where
  "submitWebhook url_error pending s =
     (let target_url = trim (wd_target_url (pv_webhookDraft s))
      in if pending \<or> js_length target_url < 8 then (None, s)
         else case url_error target_url of
                Some text \<Rightarrow> (None, s\<lparr>pv_webhookUrlError := Some text\<rparr>)
              | None \<Rightarrow> (Some (createWebhook (webhook_payload (pv_webhookDraft s))), s))"

definition webhook_created :: "CreatedWebhookEndpoint \<Rightarrow> platform_view \<Rightarrow> platform_view" where
  "webhook_created w s =
     s\<lparr>pv_webhookDraft := empty_webhook_draft,
       pv_revealedWebhookSecret := Some (CreatedWebhookEndpoint_signing_secret w)\<rparr>"

text \<open>A number or null in a template literal.\<close>

definition number_or_null_text :: "number option \<Rightarrow> string" where
  "number_or_null_text n = (case n of None \<Rightarrow> ''null'' | Some r \<Rightarrow> number_text r)"

definition webhook_tested :: "WebhookTestResult \<Rightarrow> platform_view \<Rightarrow> platform_view" where
  "webhook_tested r s =
     s\<lparr>pv_lastWebhookResult :=
       (if WebhookTestResult_delivered r
        then ''Delivered with status '' @ number_or_null_text (WebhookTestResult_status_code r) @ ''.''
        else if truthy (WebhookTestResult_error r)
        then ''Delivery failed: '' @ the (WebhookTestResult_error r)
        else ''Received status '' @ number_or_null_text (WebhookTestResult_status_code r) @ ''.'')\<rparr>"

definition toggle_request :: "string \<times> bool \<Rightarrow> api_call" where
  "toggle_request v = updateWebhook (fst v)
     \<lparr>updateWebhook_payload_target_url = None, updateWebhook_payload_description = None,
      updateWebhook_payload_events = None, updateWebhook_payload_is_active = Some (snd v)\<rparr>"

definition change_webhook :: "string \<times> bool \<Rightarrow> WebhookEndpoint list \<Rightarrow> WebhookEndpoint list" where
  "change_webhook v ws =
     map_item WebhookEndpoint_id (fst v) (\<lambda>w. w\<lparr>WebhookEndpoint_is_active := snd v\<rparr>) ws"

definition toggle_webhook_cache :: "string \<times> bool \<Rightarrow> WebhookEndpoint list option \<Rightarrow> WebhookEndpoint list option" where
  "toggle_webhook_cache v old = map_option (change_webhook v) old"

text \<open>Everything of a webhook but its switch.\<close>

definition webhook_rest :: "WebhookEndpoint \<Rightarrow> WebhookEndpoint" where
  "webhook_rest w = w\<lparr>WebhookEndpoint_is_active := True\<rparr>"

interpretation webhook_updates: optimistic toggle_webhook_cache change_webhook "map webhook_rest"
proof
  fix v :: "string \<times> bool" and d :: "WebhookEndpoint list"
  show "toggle_webhook_cache v (Some d) = Some (change_webhook v d)" by (simp add: toggle_webhook_cache_def)
  show "map webhook_rest (change_webhook v d) = map webhook_rest d"
    by (simp add: change_webhook_def map_item_def webhook_rest_def)
  show "change_webhook v (change_webhook v d) = change_webhook v d"
    unfolding change_webhook_def by (rule map_item_idem) simp_all
qed

section \<open>Properties\<close>

text \<open>
  A webhook is created only with a checked URL. When the form sends, the URL without its
  outer blanks has at least eight characters and passed the check, the events are names
  without commas or blanks only, and the form is left as it is until the server answers; a
  refused URL sends nothing and its message stands until the URL is edited.
\<close>
theorem webhook_submitted_valid:
  "(case submitWebhook url_error pending s of
      (Some call, s') \<Rightarrow> s' = s \<and> \<not> pending
        \<and> call = createWebhook (webhook_payload (pv_webhookDraft s))
        \<and> url_error (createWebhook_payload_target_url (webhook_payload (pv_webhookDraft s))) = None
        \<and> 8 \<le> js_length (createWebhook_payload_target_url (webhook_payload (pv_webhookDraft s)))
        \<and> list_all (\<lambda>e. e \<noteq> [] \<and> CHR '','' \<notin> set e) (createWebhook_payload_events (webhook_payload (pv_webhookDraft s)))
    | (None, s') \<Rightarrow> pv_webhookDraft s' = pv_webhookDraft s
        \<and> (s' = s \<or> (\<exists>m. url_error (trim (wd_target_url (pv_webhookDraft s))) = Some m \<and> pv_webhookUrlError s' = Some m))
        \<and> pv_webhookUrlError (type_webhook_url t s') = None)"
  using comma_items_names
  by (auto simp: submitWebhook_def webhook_payload_def type_webhook_url_def Let_def split: option.splits)

text \<open>
  A page asks only for what its modules offer. Every query of the page belongs to an
  enabled module, and nothing is asked while the metadata has not come; a switch that fails
  leaves the webhooks as they were.
\<close>
theorem platform_queries_enabled:
  assumes "oq_cache c = Some ws" and "fresh i c"
  shows "platform_queries None = []
    \<and> list_all (\<lambda>q. fst q \<in> {queryKeys_platform_plans, queryKeys_platform_subscription, queryKeys_platform_apiKeys,
         queryKeys_platform_webhooks, queryKeys_platform_featureFlags}) (platform_queries metadata)
    \<and> distinct (map fst (platform_queries metadata))
    \<and> ((queryKeys_platform_webhooks, listWebhooks) \<in> set (platform_queries (Some m)) \<longleftrightarrow>
         ''webhooks'' \<in> set (PlatformMetadata_enabled_modules m))
    \<and> optimistic_run toggle_webhook_cache [Mutate i v, Failed i] c = c"
proof -
  have keys: "distinct [queryKeys_platform_plans, queryKeys_platform_subscription, queryKeys_platform_apiKeys,
      queryKeys_platform_webhooks, queryKeys_platform_featureFlags]"
    by (simp add: queryKeys_platform_plans_def queryKeys_platform_subscription_def queryKeys_platform_apiKeys_def
        queryKeys_platform_webhooks_def queryKeys_platform_featureFlags_def)
  then show ?thesis
    using webhook_updates.failure_restores [OF assms]
    by (auto simp: platform_queries_def Let_def split: option.splits)
qed

theorem platform_queries_enabled_witness:
  "optimistic_run toggle_webhook_cache [Mutate 0 (''w1'', False), Failed 0] \<lparr>oq_cache = Some [], oq_contexts = []\<rparr>
   = \<lparr>oq_cache = Some [], oq_contexts = []\<rparr>"
  using platform_queries_enabled [of "\<lparr>oq_cache = Some [], oq_contexts = []\<rparr>" "[]" 0 None] by (simp add: fresh_def)

end
