(* ===== verification/Auth_Forms.thy ===== *)
theory Auth_Forms
  imports Auth_Context Api_Endpoints Js_Numbers Api_Client_Facts
begin

text \<open>
  The forms of frontend/src/features/auth: their schemas (schemas.ts), signing in, asking
  for a new password and signing up (views/AuthHomeView.tsx), choosing a new password
  (views/ResetPasswordView.tsx) and confirming an address (views/VerifyEmailView.tsx).
  The library Zod decides what an e-mail address is and an engine error has a text of its
  own; both are parameters.  A form either reports errors per field or submits the values
  its schema returns; a request ends as the outcome of apiFetch, given by the caller.
\<close>

section \<open>Schemas: schemas.ts\<close>

type_synonym form_errors = "(string \<times> string) list"

definition email_errors :: "(string \<Rightarrow> bool) \<Rightarrow> string \<Rightarrow> form_errors" where
  "email_errors is_email e = (if is_email e then [] else [(''email'', ''Enter a valid email'')])"

record SignInValues =
  si_email :: string
  si_password :: string
  si_mfa_code :: "string option"

text \<open>A text of exactly six decimal digits.\<close>

definition six_digits :: "string \<Rightarrow> bool" where
  "six_digits t \<longleftrightarrow> length t = 6 \<and> list_all (\<lambda>c. c \<in> set ''0123456789'') t"

text \<open>
  The code may be missing; otherwise its trimmed text must be six digits, and of the texts
  that are not only the empty one is let through.
\<close>

definition mfa_code_field :: "string option \<Rightarrow> form_errors + string option" where
  "mfa_code_field v =
     (case v of None \<Rightarrow> Inr None
      | Some t \<Rightarrow> if six_digits (trim t) then Inr (Some (trim t))
                 else if t = [] then Inr (Some [])
                 else Inl [(''mfa_code'', ''Enter the 6-digit code from your authenticator app'')])"

definition signInSchema :: "(string \<Rightarrow> bool) \<Rightarrow> SignInValues \<Rightarrow> form_errors + SignInValues" where
  "signInSchema is_email v =
     (let own = email_errors is_email (si_email v)
          @ (if js_length (si_password v) < 1 then [(''password'', ''Password is required'')] else [])
      in case mfa_code_field (si_mfa_code v) of
           Inl es \<Rightarrow> Inl (own @ es)
         | Inr m \<Rightarrow> if own = [] then Inr (v\<lparr>si_mfa_code := m\<rparr>) else Inl own)"

definition forgotPasswordSchema :: "(string \<Rightarrow> bool) \<Rightarrow> string \<Rightarrow> form_errors + string" where
  "forgotPasswordSchema is_email e = (if email_errors is_email e = [] then Inr e else Inl (email_errors is_email e))"

definition resendVerificationSchema :: "(string \<Rightarrow> bool) \<Rightarrow> string \<Rightarrow> form_errors + string" where
  "resendVerificationSchema = forgotPasswordSchema"

record SignUpValues =
  su_full_name :: "string option"
  su_email :: string
  su_password :: string
  su_admin_invite_code :: "string option"

definition signUpSchema :: "(string \<Rightarrow> bool) \<Rightarrow> SignUpValues \<Rightarrow> form_errors + SignUpValues" where
  "signUpSchema is_email v =
     (let es = email_errors is_email (su_email v)
          @ (if js_length (su_password v) < 8 then [(''password'', ''Password must be at least 8 characters'')] else [])
      in if es = [] then Inr v else Inl es)"

text \<open>The schema of ResetPasswordView.tsx: refine runs only on values of the right shape.\<close>

record ResetValues =
  rp_password :: string
  rp_confirm_password :: string

definition resetSchema :: "ResetValues \<Rightarrow> form_errors + ResetValues" where
  "resetSchema v =
     (let es = (if js_length (rp_password v) < 8 then [(''password'', ''At least 8 characters'')] else [])
          @ (if rp_password v \<noteq> rp_confirm_password v then [(''confirm_password'', ''Passwords do not match'')] else [])
      in if es = [] then Inr v else Inl es)"

section \<open>What an error reads like: utils/queryErrors.ts\<close>

text \<open>Everything apiFetch rejects with is an Error; texts gives those of the engine's own.\<close>

definition getQueryErrorMessage :: "(js_error \<Rightarrow> string) \<Rightarrow> js_error \<Rightarrow> string" where
  "getQueryErrorMessage texts e = (case e of ApiFailure a \<Rightarrow> message a | _ \<Rightarrow> texts e)"

section \<open>Signing in: views/AuthHomeView.tsx\<close>

record sign_in_form =
  sf_errors :: form_errors
  sf_serverError :: string
  sf_forgotOpen :: bool
  sf_forgotDone :: bool
  sf_forgotError :: string
  sf_forgotEmail :: string

definition initial_sign_in :: sign_in_form where
  "initial_sign_in =
     \<lparr>sf_errors = [], sf_serverError = [], sf_forgotOpen = False, sf_forgotDone = False, sf_forgotError = [],
      sf_forgotEmail = []\<rparr>"

text \<open>The field of the code is registered only while the platform has the second factor on.\<close>

definition entered_values :: "bool \<Rightarrow> string \<Rightarrow> string \<Rightarrow> string \<Rightarrow> SignInValues" where
  "entered_values mfaEnabled email password mfa =
     \<lparr>si_email = email, si_password = password, si_mfa_code = (if mfaEnabled then Some mfa else None)\<rparr>"

text \<open>const mfaCode = values.mfa_code?.trim(); signIn({...values, mfa_code: mfaCode || undefined})\<close>

definition sign_in_request :: "SignInValues \<Rightarrow> signIn_payload" where
  "sign_in_request v =
     \<lparr>signIn_payload_email = si_email v, signIn_payload_password = si_password v,
      signIn_payload_mfa_code = (case si_mfa_code v of None \<Rightarrow> None | Some t \<Rightarrow> or_none (trim t))\<rparr>"

text \<open>handleSubmit(onSubmit) up to the request.\<close>

definition submit_sign_in :: "(string \<Rightarrow> bool) \<Rightarrow> SignInValues \<Rightarrow> sign_in_form \<Rightarrow> api_call option \<times> sign_in_form" where
  "submit_sign_in is_email v f =
     (case signInSchema is_email v of
        Inl es \<Rightarrow> (None, f\<lparr>sf_errors := es\<rparr>)
      | Inr w \<Rightarrow> (Some (signIn (sign_in_request w)), f\<lparr>sf_errors := [], sf_serverError := []\<rparr>))"

text \<open>
  The rest of onSubmit: a response sets the user and leaves for the dashboard, a failure is
  shown. The last component is the path that is navigated to.
\<close>

definition sign_in_settled ::
    "'c query_client \<Rightarrow> (js_error \<Rightarrow> string) \<Rightarrow> json option settled \<Rightarrow> sign_in_form \<times> auth_session \<times> 'c
      \<Rightarrow> (sign_in_form \<times> auth_session \<times> 'c) \<times> string option" where
  "sign_in_settled qc texts answer fs =
     (let (f, sc) = fs
      in case answer of
           Unsettled \<Rightarrow> (fs, None)
         | Rejected e \<Rightarrow> ((f\<lparr>sf_serverError := getQueryErrorMessage texts e\<rparr>, sc), None)
         | Resolved data \<Rightarrow>
             (case data of
                None \<Rightarrow> ((f\<lparr>sf_serverError := texts TypeError\<rparr>, sc), None)
              | Some JNull \<Rightarrow> ((f\<lparr>sf_serverError := texts TypeError\<rparr>, sc), None)
              | Some d \<Rightarrow>
                  ((f, case get_prop ''user'' d of
                         Some u \<Rightarrow> setAuthenticated qc u sc
                       | None \<Rightarrow> (markAuthSessionActive (fst sc), snd sc)),
                   Some ''/dashboard'')))"

definition toggleForgotPassword :: "string \<Rightarrow> sign_in_form \<Rightarrow> sign_in_form" where
  "toggleForgotPassword email f =
     (let nextVisible = (\<not> sf_forgotOpen f)
      in f\<lparr>sf_forgotOpen := nextVisible, sf_forgotError := [], sf_forgotDone := False,
           sf_forgotEmail := (if nextVisible then email else sf_forgotEmail f)\<rparr>)"

definition submit_forgot :: "(string \<Rightarrow> bool) \<Rightarrow> sign_in_form \<Rightarrow> api_call option \<times> sign_in_form" where
  "submit_forgot is_email f =
     (case forgotPasswordSchema is_email (sf_forgotEmail f) of
        Inl es \<Rightarrow> (None, f)
      | Inr e \<Rightarrow> (Some (forgotPassword \<lparr>forgotPassword_payload_email = e\<rparr>), f\<lparr>sf_forgotError := []\<rparr>))"

definition forgot_settled :: "(js_error \<Rightarrow> string) \<Rightarrow> json option settled \<Rightarrow> sign_in_form \<Rightarrow> sign_in_form" where
  "forgot_settled texts answer f =
     (case answer of Unsettled \<Rightarrow> f | Resolved d \<Rightarrow> f\<lparr>sf_forgotDone := True\<rparr>
      | Rejected e \<Rightarrow> f\<lparr>sf_forgotError := getQueryErrorMessage texts e\<rparr>)"

section \<open>Signing up\<close>

datatype auth_mode = SignInMode | SignUpMode

record auth_home =
  ah_mode :: auth_mode
  ah_successMsg :: string
  ah_errors :: form_errors
  ah_serverError :: string

definition initial_auth_home :: auth_home where
  "initial_auth_home = \<lparr>ah_mode = SignInMode, ah_successMsg = [], ah_errors = [], ah_serverError = []\<rparr>"

text \<open>Switching the mode mounts the other form, without errors.\<close>

definition select_mode :: "auth_mode \<Rightarrow> auth_home \<Rightarrow> auth_home" where
  "select_mode m h =
     (if m = ah_mode h then h\<lparr>ah_successMsg := []\<rparr>
      else h\<lparr>ah_mode := m, ah_successMsg := [], ah_errors := [], ah_serverError := []\<rparr>)"

definition sign_up_request :: "SignUpValues \<Rightarrow> signUp_payload" where
  "sign_up_request v =
     \<lparr>signUp_payload_email = su_email v, signUp_payload_password = su_password v,
      signUp_payload_full_name = su_full_name v,
      signUp_payload_admin_invite_code =
        (case su_admin_invite_code v of None \<Rightarrow> None | Some t \<Rightarrow> or_none (trim t))\<rparr>"

definition submit_sign_up :: "(string \<Rightarrow> bool) \<Rightarrow> SignUpValues \<Rightarrow> auth_home \<Rightarrow> api_call option \<times> auth_home" where
  "submit_sign_up is_email v h =
     (case signUpSchema is_email v of
        Inl es \<Rightarrow> (None, h\<lparr>ah_errors := es\<rparr>)
      | Inr w \<Rightarrow> (Some (signUp (sign_up_request w)), h\<lparr>ah_errors := [], ah_serverError := []\<rparr>))"

definition sign_up_settled :: "(js_error \<Rightarrow> string) \<Rightarrow> SignUpValues \<Rightarrow> json option settled \<Rightarrow> auth_home \<Rightarrow> auth_home" where
  "sign_up_settled texts v answer h =
     (case answer of
        Unsettled \<Rightarrow> h
      | Resolved d \<Rightarrow>
          h\<lparr>ah_mode := SignInMode, ah_errors := [], ah_serverError := [],
            ah_successMsg := ''Account created for '' @ su_email v @ ''. You can sign in now.''\<rparr>
      | Rejected e \<Rightarrow> h\<lparr>ah_serverError := getQueryErrorMessage texts e\<rparr>)"

section \<open>A new password: views/ResetPasswordView.tsx\<close>

record reset_page =
  rp_token :: string
  rp_done :: bool
  rp_errors :: form_errors
  rp_serverError :: string

definition open_reset :: "string option \<Rightarrow> reset_page" where
  "open_reset token = \<lparr>rp_token = nullish token [], rp_done = False, rp_errors = [], rp_serverError = []\<rparr>"

text \<open>onSubmit behind the form, whose button is disabled without a token.\<close>

definition submit_reset :: "ResetValues \<Rightarrow> reset_page \<Rightarrow> api_call option \<times> reset_page" where
  "submit_reset v p =
     (if rp_token p = [] then (None, p)
      else case resetSchema v of
             Inl es \<Rightarrow> (None, p\<lparr>rp_errors := es\<rparr>)
           | Inr w \<Rightarrow>
               if rp_token p = [] then (None, p\<lparr>rp_serverError := ''Invalid or missing reset token.''\<rparr>)
               else (Some (resetPassword \<lparr>resetPassword_payload_token = rp_token p,
                       resetPassword_payload_new_password = rp_password w\<rparr>),
                     p\<lparr>rp_errors := [], rp_serverError := []\<rparr>))"

definition reset_settled :: "(js_error \<Rightarrow> string) \<Rightarrow> json option settled \<Rightarrow> reset_page \<Rightarrow> reset_page" where
  "reset_settled texts answer p =
     (case answer of Unsettled \<Rightarrow> p | Resolved d \<Rightarrow> p\<lparr>rp_done := True\<rparr>
      | Rejected e \<Rightarrow> p\<lparr>rp_serverError := getQueryErrorMessage texts e\<rparr>)"

section \<open>Confirming an address: views/VerifyEmailView.tsx\<close>

datatype verify_status = VerifyLoading | VerifySuccess | VerifyError | VerifyNoToken

record verify_page =
  vp_token :: "string option"
  vp_email :: string
  vp_status :: verify_status
  vp_resendDone :: bool
  vp_resending :: bool
  vp_resendError :: string

definition open_verify :: "string option \<Rightarrow> string option \<Rightarrow> verify_page" where
  "open_verify token email =
     \<lparr>vp_token = token, vp_email = nullish email [],
      vp_status = (if truthy token then VerifyLoading else VerifyNoToken),
      vp_resendDone = False, vp_resending = False, vp_resendError = []\<rparr>"

text \<open>The effect that runs once, and its then and catch.\<close>

definition verify_request :: "verify_page \<Rightarrow> api_call option" where
  "verify_request p =
     (if truthy (vp_token p) then Some (verifyEmail \<lparr>verifyEmail_payload_token = the (vp_token p)\<rparr>) else None)"

definition verify_settled :: "json option settled \<Rightarrow> verify_page \<Rightarrow> verify_page" where
  "verify_settled answer p =
     (case answer of Unsettled \<Rightarrow> p | Resolved d \<Rightarrow> p\<lparr>vp_status := VerifySuccess\<rparr>
      | Rejected e \<Rightarrow> p\<lparr>vp_status := VerifyError\<rparr>)"

definition type_verify_email :: "string \<Rightarrow> verify_page \<Rightarrow> verify_page" where
  "type_verify_email t p = p\<lparr>vp_email := t, vp_resendError := []\<rparr>"

text \<open>The field and the buttons are shown for a failed link or none.\<close>

definition resend_shown :: "verify_page \<Rightarrow> bool" where
  "resend_shown p \<longleftrightarrow> vp_status p \<in> {VerifyError, VerifyNoToken} \<and> \<not> vp_resendDone p"

definition handleResend :: "(string \<Rightarrow> bool) \<Rightarrow> verify_page \<Rightarrow> api_call option \<times> verify_page" where
  "handleResend is_email p =
     (if \<not> resend_shown p \<or> vp_resending p then (None, p)
      else case resendVerificationSchema is_email (trim (vp_email p)) of
             Inl es \<Rightarrow> (None, p\<lparr>vp_resendError := (case es of [] \<Rightarrow> ''Enter a valid email address.'' | e # _ \<Rightarrow> snd e)\<rparr>)
           | Inr e \<Rightarrow> (Some (resendVerification \<lparr>resendVerification_payload_email = e\<rparr>),
                       p\<lparr>vp_resending := True, vp_resendError := []\<rparr>))"

definition resend_settled :: "(js_error \<Rightarrow> string) \<Rightarrow> json option settled \<Rightarrow> verify_page \<Rightarrow> verify_page" where
  "resend_settled texts answer p =
     (case answer of
        Unsettled \<Rightarrow> p
      | Resolved d \<Rightarrow> p\<lparr>vp_resendDone := True, vp_resending := False\<rparr>
      | Rejected e \<Rightarrow> p\<lparr>vp_resendError := getQueryErrorMessage texts e, vp_resending := False\<rparr>)"

text \<open>The page as a machine: which calls it makes on which events.\<close>

datatype verify_event =
    LinkAnswered "json option settled"
  | EmailTyped string
  | ResendPressed
  | ResendAnswered "json option settled"

fun verify_step :: "(string \<Rightarrow> bool) \<Rightarrow> (js_error \<Rightarrow> string) \<Rightarrow> verify_event \<Rightarrow> verify_page \<Rightarrow> api_call option \<times> verify_page" where
  "verify_step is_email texts (LinkAnswered a) p = (None, if vp_status p = VerifyLoading then verify_settled a p else p)"
| "verify_step is_email texts (EmailTyped t) p =
     (None, if vp_status p \<in> {VerifyError, VerifyNoToken} then type_verify_email t p else p)"
| "verify_step is_email texts ResendPressed p = handleResend is_email p"
| "verify_step is_email texts (ResendAnswered a) p = (None, if vp_resending p then resend_settled texts a p else p)"

inductive verify_reachable :: "(string \<Rightarrow> bool) \<Rightarrow> (js_error \<Rightarrow> string) \<Rightarrow> verify_page \<Rightarrow> bool"
  for is_email :: "string \<Rightarrow> bool" and texts :: "js_error \<Rightarrow> string" where
  verify_opened: "verify_reachable is_email texts (open_verify token email)"
| verify_stepped: "verify_reachable is_email texts p \<Longrightarrow> verify_reachable is_email texts (snd (verify_step is_email texts e p))"

section \<open>What the server accepts\<close>

text \<open>
  backend/modules/identity_access/schemas.py: a password of eight characters at least (code
  points, where js_length counts UTF-16 units) and a code of six; every text is stripped of
  outer white space first (backend/core/schemas.py). Stripping belongs to the library
  pydantic and is a parameter; that it removes outer blanks and nothing between two
  solid characters is its documented behaviour.
\<close>

definition code_points :: "string \<Rightarrow> nat" where
  "code_points s = length (filter (\<lambda>n. n < 128 \<or> 192 \<le> n) (char_codes s))"

definition strips :: "(string \<Rightarrow> string) \<Rightarrow> bool" where
  "strips strip \<longleftrightarrow> strip [] = []
     \<and> (\<forall>s. s \<noteq> [] \<longrightarrow> solid (hd s) \<longrightarrow> solid (last s) \<longrightarrow> strip s = s)
     \<and> (\<forall>s. strip (CHR '' '' # s) = strip s)"

definition server_accepts_password :: "(string \<Rightarrow> string) \<Rightarrow> string \<Rightarrow> bool" where
  "server_accepts_password strip s \<longleftrightarrow> 8 \<le> code_points (strip s)"

definition server_accepts_mfa :: "(string \<Rightarrow> string) \<Rightarrow> string option \<Rightarrow> bool" where
  "server_accepts_mfa strip m \<longleftrightarrow>
     (case m of None \<Rightarrow> True | Some t \<Rightarrow> trim t = [] \<or> code_points (strip t) = 6)"

section \<open>Stripping and counting\<close>

lemma stripsD:
  assumes "strips strip"
  shows "strip [] = []" "s \<noteq> [] \<Longrightarrow> solid (hd s) \<Longrightarrow> solid (last s) \<Longrightarrow> strip s = s" "strip (CHR '' '' # s) = strip s"
  using assms by (auto simp: strips_def)

lemma strip_blanks: "strips strip \<Longrightarrow> strip (replicate n (CHR '' '')) = []"
  by (induction n) (simp_all add: stripsD)

lemma trim_strips: "strips trim"
proof -
  have blank: "ws_front (CHR '' '' # s) = 1" for s
  proof -
    have "find (\<lambda>w. take (length w) (char_codes (CHR '' '' # s)) = w) whitespace_encodings = Some [32]"
      by (simp add: whitespace_encodings_def char_codes_def)
    then show ?thesis by (simp add: ws_front_def)
  qed
  have "trim (CHR '' '' # s) = trim s" for s
    unfolding trim_def by (subst trim_start.simps) (simp add: blank)
  then show ?thesis by (simp add: strips_def trim_solid)
qed

lemma code_points_js_length: "js_length s = code_points s + length (filter (\<lambda>n. 240 \<le> n) (char_codes s))"
  by (simp add: js_length_def code_points_def)

text \<open>A text of the basic plane: no character of it takes two UTF-16 units.\<close>

definition basic_plane :: "string \<Rightarrow> bool" where
  "basic_plane s \<longleftrightarrow> list_all (\<lambda>n. n < 240) (char_codes s)"

lemma code_points_basic: "basic_plane s \<Longrightarrow> code_points s = js_length s"
  by (auto simp: code_points_js_length basic_plane_def list_all_iff filter_empty_conv not_le)

lemma six_digits_code:
  assumes "six_digits t" and "strips strip"
  shows "trim t = t" "strip t = t" "code_points t = 6" "t \<noteq> []"
proof -
  show ne: "t \<noteq> []" using assms(1) by (auto simp: six_digits_def)
  have digits: "\<forall>c \<in> set t. c \<in> set ''0123456789''" using assms(1) by (simp only: six_digits_def list_all_iff) blast
  then have "solid (hd t)" "solid (last t)" using ne digits_solid hd_in_set last_in_set by blast+
  then show "trim t = t" "strip t = t" using ne trim_solid assms(2) by (auto simp: stripsD)
  have "list_all (\<lambda>c. (of_char c :: nat) < 128) ''0123456789''" by code_simp
  then have "\<forall>c \<in> set t. (of_char c :: nat) < 128" using digits by (simp only: list_all_iff) blast
  then have "filter (\<lambda>n. n < 128 \<or> 192 \<le> n) (char_codes t) = char_codes t" by (auto simp: char_codes_def filter_id_conv)
  then show "code_points t = 6" using assms(1) by (simp add: code_points_def char_codes_def six_digits_def)
qed

lemma not_six_empty: "\<not> six_digits []"
  by (simp add: six_digits_def)

lemma signInSchema_Inl: "signInSchema is_email v = Inl es \<Longrightarrow> es \<noteq> []"
  by (auto simp: signInSchema_def mfa_code_field_def Let_def split: option.splits if_splits sum.splits)

lemma signInSchema_Inr:
  assumes "signInSchema is_email v = Inr w"
  obtains m where "mfa_code_field (si_mfa_code v) = Inr m" "w = v\<lparr>si_mfa_code := m\<rparr>"
    "is_email (si_email v)" "si_password v \<noteq> []"
proof -
  have "si_password v \<noteq> []" if "\<not> js_length (si_password v) < 1"
    using that by (auto simp: js_length_def char_codes_def)
  then show ?thesis
    using assms that by (auto simp: signInSchema_def email_errors_def Let_def split: sum.splits if_splits)
qed

section \<open>Properties\<close>

text \<open>
  What signing in sends. A form that passes its schema sends the address and the password
  as they were typed, and a code that the server accepts: exactly the six digits of the field, or none, and
  none only when the field was empty or not shown; a field of blanks is refused, and a
  refused form sends nothing and says what is wrong.
\<close>
theorem sign_in_code_accepted:
  assumes "strips strip"
  shows "case submit_sign_in is_email v f of
      (Some c, g) \<Rightarrow> is_email (si_email v) \<and> si_password v \<noteq> []
        \<and> (\<exists>m. c = signIn \<lparr>signIn_payload_email = si_email v, signIn_payload_password = si_password v,
                           signIn_payload_mfa_code = m\<rparr>
             \<and> server_accepts_mfa strip m
             \<and> (case si_mfa_code v of None \<Rightarrow> m = None
                | Some t \<Rightarrow> if t = [] then m = None else m = Some (trim t) \<and> six_digits (trim t)))
        \<and> sf_errors g = [] \<and> sf_serverError g = []
    | (None, g) \<Rightarrow> sf_errors g \<noteq> [] \<and> g = f\<lparr>sf_errors := sf_errors g\<rparr>"
proof (cases "signInSchema is_email v")
  case (Inl es)
  then show ?thesis using signInSchema_Inl [OF Inl] by (simp add: submit_sign_in_def)
next
  case (Inr w)
  then obtain m where m: "mfa_code_field (si_mfa_code v) = Inr m" "w = v\<lparr>si_mfa_code := m\<rparr>"
    and fields: "is_email (si_email v)" "si_password v \<noteq> []"
    by (rule signInSchema_Inr)
  show ?thesis
  proof (cases "si_mfa_code v")
    case None
    then show ?thesis
      using Inr m fields
      by (auto simp: submit_sign_in_def sign_in_request_def mfa_code_field_def server_accepts_mfa_def)
  next
    case (Some t)
    show ?thesis
    proof (cases "t = []")
      case True
      then show ?thesis
        using Inr m fields Some not_six_empty
        by (auto simp: submit_sign_in_def sign_in_request_def mfa_code_field_def server_accepts_mfa_def)
    next
      case False
      then have six: "six_digits (trim t)" "m = Some (trim t)"
        using m(1) Some by (auto simp: mfa_code_field_def split: if_splits)
      then show ?thesis
        using Inr m fields Some False six_digits_code [OF six(1) assms]
        by (auto simp: submit_sign_in_def sign_in_request_def server_accepts_mfa_def)
    qed
  qed
qed

definition typed_sign_in :: SignInValues where
  "typed_sign_in = entered_values True ''ada@example.org'' ''correct horse'' ''123456''"

theorem sign_in_code_accepted_witness:
  "fst (submit_sign_in (\<lambda>e. CHR ''@'' \<in> set e) typed_sign_in initial_sign_in)
     = Some (signIn \<lparr>signIn_payload_email = ''ada@example.org'', signIn_payload_password = ''correct horse'',
         signIn_payload_mfa_code = Some ''123456''\<rparr>)
   \<and> sf_errors (snd (submit_sign_in (\<lambda>e. CHR ''@'' \<in> set e) typed_sign_in initial_sign_in)) = []"
proof -
  have sent: "submit_sign_in (\<lambda>e. CHR ''@'' \<in> set e) typed_sign_in initial_sign_in
      = (Some (signIn \<lparr>signIn_payload_email = ''ada@example.org'', signIn_payload_password = ''correct horse'',
          signIn_payload_mfa_code = Some ''123456''\<rparr>), initial_sign_in)"
    by code_simp
  show ?thesis
    using sign_in_code_accepted [OF trim_strips, where is_email = "\<lambda>e. CHR ''@'' \<in> set e" and v = typed_sign_in
        and f = initial_sign_in]
    unfolding sent prod.case option.case prod.sel by blast
qed

text \<open>
  Which new passwords the forms let through. Signing up and choosing a new password send
  a password only when it has eight UTF-16 units, the latter only with a token and when the
  repetition agrees. What they send is long enough for the server when it is free of outer
  blanks and of characters beyond the basic plane; but eight blanks pass both
  forms, and the server, which strips them, refuses the request.
\<close>
theorem new_password_accepted:
  assumes "strips strip" and "is_email e"
  shows "(case submit_sign_up is_email v h of
        (Some c, g) \<Rightarrow> c = signUp (sign_up_request v) \<and> 8 \<le> js_length (su_password v)
          \<and> (solid (hd (su_password v)) \<and> solid (last (su_password v)) \<and> basic_plane (su_password v)
             \<longrightarrow> server_accepts_password strip (su_password v))
      | (None, g) \<Rightarrow> ah_errors g \<noteq> [])
    \<and> (case submit_reset r p of
        (Some c, q) \<Rightarrow> rp_token p \<noteq> [] \<and> rp_password r = rp_confirm_password r \<and> 8 \<le> js_length (rp_password r)
          \<and> c = resetPassword \<lparr>resetPassword_payload_token = rp_token p, resetPassword_payload_new_password = rp_password r\<rparr>
          \<and> (solid (hd (rp_password r)) \<and> solid (last (rp_password r)) \<and> basic_plane (rp_password r)
             \<longrightarrow> server_accepts_password strip (rp_password r))
      | (None, q) \<Rightarrow> rp_token p = [] \<or> rp_errors q \<noteq> [])
    \<and> signUpSchema is_email (v\<lparr>su_email := e, su_password := replicate 8 (CHR '' '')\<rparr>)
        = Inr (v\<lparr>su_email := e, su_password := replicate 8 (CHR '' '')\<rparr>)
    \<and> resetSchema \<lparr>rp_password = replicate 8 (CHR '' ''), rp_confirm_password = replicate 8 (CHR '' '')\<rparr>
        = Inr \<lparr>rp_password = replicate 8 (CHR '' ''), rp_confirm_password = replicate 8 (CHR '' '')\<rparr>
    \<and> \<not> server_accepts_password strip (replicate 8 (CHR '' ''))"
proof -
  have enough: "server_accepts_password strip t"
    if "8 \<le> js_length t" "solid (hd t)" "solid (last t)" "basic_plane t" for t
  proof -
    have "t \<noteq> []" using that(1) by (auto simp: js_length_def char_codes_def)
    then show ?thesis using that assms(1) by (simp add: server_accepts_password_def stripsD code_points_basic)
  qed
  have blanks: "js_length (replicate 8 (CHR '' '')) = 8" by code_simp
  have "strip (replicate 8 (CHR '' '')) = []" using assms(1) by (rule strip_blanks)
  then have "\<not> server_accepts_password strip (replicate 8 (CHR '' ''))"
    by (simp add: server_accepts_password_def code_points_def char_codes_def)
  then show ?thesis
    using enough blanks assms(2)
    by (auto simp: submit_sign_up_def signUpSchema_def submit_reset_def resetSchema_def email_errors_def Let_def
        not_less simp del: replicate.simps split: sum.splits if_splits)
qed

theorem new_password_accepted_witness:
  "signUpSchema (\<lambda>e. e = ''ada@example.org'')
       \<lparr>su_full_name = None, su_email = ''ada@example.org'', su_password = replicate 8 (CHR '' ''), su_admin_invite_code = None\<rparr>
     = Inr \<lparr>su_full_name = None, su_email = ''ada@example.org'', su_password = replicate 8 (CHR '' ''), su_admin_invite_code = None\<rparr>
   \<and> \<not> server_accepts_password trim (replicate 8 (CHR '' ''))"
  using new_password_accepted [OF trim_strips, where is_email = "\<lambda>e. e = ''ada@example.org''" and e = "''ada@example.org''"
      and v = "\<lparr>su_full_name = None, su_email = [], su_password = [], su_admin_invite_code = None\<rparr>"]
  by simp

text \<open>What holds of the page in every state that events lead to.\<close>

definition verify_ok :: "verify_page \<Rightarrow> bool" where
  "verify_ok p \<longleftrightarrow> (vp_status p = VerifyNoToken) = (\<not> truthy (vp_token p)) \<and> (vp_resending p \<longrightarrow> resend_shown p)"

lemma verify_ok_step: "verify_ok p \<Longrightarrow> verify_ok (snd (verify_step is_email texts e p))"
  by (cases e)
    (auto simp: verify_ok_def verify_settled_def type_verify_email_def handleResend_def resend_settled_def resend_shown_def
      split: settled.splits sum.splits)

lemma verify_reachable_ok: "verify_reachable is_email texts p \<Longrightarrow> verify_ok p"
  by (induction rule: verify_reachable.induct) (simp_all add: verify_ok_step, simp add: verify_ok_def open_verify_def)

text \<open>
  The page that confirms an address. In every state it reaches: it asks for a link
  exactly when there is no token; a new message is requested only from a page whose link failed or is missing,
  for the trimmed address, while no other request is under way and none has
  succeeded; and an address that is refused is reported. After a message was sent no other
  can be requested, whatever address is typed then.
\<close>
theorem resend_requested_once:
  assumes "verify_reachable is_email texts p"
  shows "(vp_status p = VerifyNoToken) = (\<not> truthy (vp_token p))
    \<and> (case verify_step is_email texts e p of
         (Some c, q) \<Rightarrow> e = ResendPressed \<and> vp_status p \<in> {VerifyError, VerifyNoToken}
           \<and> \<not> vp_resendDone p \<and> \<not> vp_resending p \<and> vp_resending q
           \<and> is_email (trim (vp_email p))
           \<and> c = resendVerification \<lparr>resendVerification_payload_email = trim (vp_email p)\<rparr>
       | (None, q) \<Rightarrow> (e = ResendPressed \<and> resend_shown p \<and> \<not> vp_resending p
             \<longrightarrow> \<not> is_email (trim (vp_email p)) \<and> vp_resendError q = ''Enter a valid email''))
    \<and> (vp_resendDone p \<longrightarrow>
         fst (verify_step is_email texts ResendPressed (snd (verify_step is_email texts e p))) = None
         \<and> vp_resendDone (snd (verify_step is_email texts e p)))"
  using verify_reachable_ok [OF assms]
  by (cases e)
    (auto simp: verify_ok_def handleResend_def resend_shown_def verify_settled_def type_verify_email_def resend_settled_def
      resendVerificationSchema_def forgotPasswordSchema_def email_errors_def split: settled.splits)

theorem resend_requested_once_witness:
  "fst (verify_step (\<lambda>e. e = ''ada@example.org'') (\<lambda>e. []) ResendPressed (open_verify None (Some ''ada@example.org'')))
     = Some (resendVerification \<lparr>resendVerification_payload_email = ''ada@example.org''\<rparr>)
   \<and> vp_resending (snd (verify_step (\<lambda>e. e = ''ada@example.org'') (\<lambda>e. []) ResendPressed
       (open_verify None (Some ''ada@example.org''))))"
proof -
  have "trim ''ada@example.org'' = ''ada@example.org''" by code_simp
  then have sent: "verify_step (\<lambda>e. e = ''ada@example.org'') (\<lambda>e. []) ResendPressed (open_verify None (Some ''ada@example.org''))
      = (Some (resendVerification \<lparr>resendVerification_payload_email = ''ada@example.org''\<rparr>),
         (open_verify None (Some ''ada@example.org''))\<lparr>vp_resending := True, vp_resendError := []\<rparr>)"
    by (simp add: handleResend_def resend_shown_def open_verify_def resendVerificationSchema_def forgotPasswordSchema_def
        email_errors_def)
  show ?thesis
    using resend_requested_once [OF verify_opened [of "\<lambda>e. e = ''ada@example.org''" "\<lambda>e. []" None
        "Some ''ada@example.org''"], where e = ResendPressed]
    unfolding sent prod.case option.case prod.sel by blast
qed



end
