(* ===== verification/Settings_Admin.thy ===== *)
theory Settings_Admin
  imports Platform_Admin_Facts Api_Endpoints
begin

text \<open>
  The settings of administrators: frontend/src/features/settings-admin.  The entries of the
  environment file are shown in groups and edited as drafts, all of which one button saves;
  settings in the database are edited one by one.  The last section models what the server
  does with the entries (backend/modules/settings/config_settings_service.py).
\<close>

section \<open>Groups: settingsModel.ts\<close>

datatype ConfigGroupId =
    ApplicationGroup | InfrastructureGroup | SecurityGroup | EmailGroup | ObservabilityGroup | StorageGroup | CustomGroup

datatype SettingsTabValue = GroupTab ConfigGroupId | DatabaseTab

record group_heading =
  gh_id :: ConfigGroupId
  gh_label :: string
  gh_description :: string

record ConfigGroup = group_heading +
  cg_items :: "ConfigEntry list"

definition GROUPS :: "group_heading list" where
  "GROUPS =
     [\<lparr>gh_id = ApplicationGroup, gh_label = ''Application'',
       gh_description = ''Branding, naming, environment identity, and app-facing defaults.''\<rparr>,
      \<lparr>gh_id = InfrastructureGroup, gh_label = ''Infrastructure'',
       gh_description = ''Hosts, ports, databases, cache, and background job plumbing.''\<rparr>,
      \<lparr>gh_id = SecurityGroup, gh_label = ''Auth & Security'',
       gh_description = ''Token behavior, cookies, verification windows, and admin access controls.''\<rparr>,
      \<lparr>gh_id = EmailGroup, gh_label = ''Email'',
       gh_description = ''SMTP delivery settings for verification, reset, and notification mail.''\<rparr>,
      \<lparr>gh_id = ObservabilityGroup, gh_label = ''Observability'',
       gh_description = ''Tracing, error capture, and telemetry export configuration.''\<rparr>,
      \<lparr>gh_id = StorageGroup, gh_label = ''Storage'',
       gh_description = ''Object storage connectivity, URL generation, and avatar upload limits.''\<rparr>,
      \<lparr>gh_id = CustomGroup, gh_label = ''Custom'',
       gh_description = ''Unmapped or custom environment variables kept in `backend/.env`.''\<rparr>]"

definition getGroup :: "ConfigEntry \<Rightarrow> ConfigGroupId" where
  "getGroup item =
     (let k = ConfigEntry_key item
      in if ConfigEntry_is_custom item then CustomGroup
         else if startsWith k ''APP_'' \<or> k = ''LOG_LEVEL'' \<or> startsWith k ''CORE_DOMAIN_''
              \<or> k = ''PLATFORM_DEFAULT_MODULE_PACK'' \<or> k = ''FRONTEND_URL'' then ApplicationGroup
         else if k = ''DATABASE_URL'' \<or> k = ''REDIS_URL'' \<or> startsWith k ''CELERY_'' then InfrastructureGroup
         else if startsWith k ''JWT_''
              \<or> k \<in> set [''ACCESS_TOKEN_EXPIRE_MINUTES'', ''REFRESH_TOKEN_EXPIRE_DAYS'', ''COOKIE_SECURE'',
                         ''VERIFICATION_TOKEN_TTL'', ''PASSWORD_RESET_TOKEN_TTL'', ''ADMIN_SIGNUP_INVITE_CODE'']
              then SecurityGroup
         else if startsWith k ''SMTP_'' then EmailGroup
         else if startsWith k ''SENTRY_'' \<or> startsWith k ''OTLP_'' then ObservabilityGroup
         else if startsWith k ''STORAGE_'' then StorageGroup
         else CustomGroup)"

text \<open>The loop that pushes every item onto the list of its group.\<close>

definition push_item :: "ConfigEntry \<Rightarrow> (ConfigGroupId \<Rightarrow> ConfigEntry list) \<Rightarrow> ConfigGroupId \<Rightarrow> ConfigEntry list" where
  "push_item item grouped = grouped(getGroup item := grouped (getGroup item) @ [item])"

definition buildConfigGroups :: "ConfigEntry list \<Rightarrow> ConfigGroup list" where
  "buildConfigGroups items =
     (let grouped = fold push_item items (\<lambda>g. [])
      in filter (\<lambda>g. 0 < length (cg_items g))
           (map (\<lambda>h. group_heading.extend h (ConfigGroup.fields (grouped (gh_id h)))) GROUPS))"

definition settingsContentKey :: "ConfigSettingsResponse \<Rightarrow> DatabaseSetting list \<Rightarrow> string" where
  "settingsContentKey config database =
     join ''|'' (map (\<lambda>i. key_of_parts (ConfigEntry_key i) (ConfigEntry_value i)) (ConfigSettingsResponse_items config))
     @ ''::''
     @ join ''|'' (map (\<lambda>s. key_of_parts (DatabaseSetting_id s) (DatabaseSetting_updated_at s)) database)"

section \<open>The page: hooks/useAdminSettingsContent.ts\<close>

record database_draft =
  dd_value :: string
  dd_description :: string

record new_setting =
  ns_key :: string
  ns_value :: string
  ns_description :: string

record settings_page =
  sp_key :: string
  sp_configDrafts :: "(string \<times> string) list"
  sp_databaseDrafts :: "(string \<times> database_draft) list"
  sp_newSetting :: new_setting

definition empty_new_setting :: new_setting where
  "empty_new_setting = \<lparr>ns_key = [], ns_value = [], ns_description = []\<rparr>"

definition config_drafts :: "ConfigEntry list \<Rightarrow> (string \<times> string) list" where
  "config_drafts items = fromEntries (map (\<lambda>i. (ConfigEntry_key i, ConfigEntry_value i)) items)"

definition database_draft_of :: "DatabaseSetting \<Rightarrow> database_draft" where
  "database_draft_of s = \<lparr>dd_value = DatabaseSetting_value s, dd_description = nullish (DatabaseSetting_description s) []\<rparr>"

definition mount_settings :: "ConfigSettingsResponse \<Rightarrow> DatabaseSetting list \<Rightarrow> settings_page" where
  "mount_settings config database =
     \<lparr>sp_key = settingsContentKey config database,
      sp_configDrafts = config_drafts (ConfigSettingsResponse_items config),
      sp_databaseDrafts = fromEntries (map (\<lambda>s. (DatabaseSetting_id s, database_draft_of s)) database),
      sp_newSetting = empty_new_setting\<rparr>"

text \<open>The key of AdminSettingsContent in views/AdminSettingsView.tsx: another key mounts the page anew.\<close>

definition render_settings :: "ConfigSettingsResponse \<Rightarrow> DatabaseSetting list \<Rightarrow> settings_page \<Rightarrow> settings_page" where
  "render_settings config database page =
     (if settingsContentKey config database = sp_key page then page else mount_settings config database)"

definition resolvedTab :: "SettingsTabValue \<Rightarrow> ConfigGroup list \<Rightarrow> SettingsTabValue" where
  "resolvedTab tab groups =
     (if tab = DatabaseTab \<or> (\<exists>g \<in> set groups. GroupTab (gh_id g) = tab) then tab
      else case groups of [] \<Rightarrow> DatabaseTab | g # _ \<Rightarrow> GroupTab (gh_id g))"

definition activeConfigGroup :: "SettingsTabValue \<Rightarrow> ConfigGroup list \<Rightarrow> ConfigGroup option" where
  "activeConfigGroup tab groups =
     (if tab = DatabaseTab then None
      else nullish_opt (find (\<lambda>g. GroupTab (gh_id g) = tab) groups) (case groups of [] \<Rightarrow> None | g # _ \<Rightarrow> Some g))"

definition changedConfigCount :: "ConfigEntry list \<Rightarrow> settings_page \<Rightarrow> nat" where
  "changedConfigCount items page =
     length (filter (\<lambda>i. nullish (map_of (sp_configDrafts page) (ConfigEntry_key i)) (ConfigEntry_value i)
                          \<noteq> ConfigEntry_value i) items)"

definition edit_config :: "string \<Rightarrow> string \<Rightarrow> settings_page \<Rightarrow> settings_page" where
  "edit_config k v page = page\<lparr>sp_configDrafts := put_entry k v (sp_configDrafts page)\<rparr>"

section \<open>Saving\<close>

text \<open>The button of components/ConfigSettingsSection.tsx sends every entry, changed or not.\<close>

definition config_payload :: "ConfigEntry list \<Rightarrow> settings_page \<Rightarrow> ConfigSettingsUpdateRequest" where
  "config_payload items page =
     \<lparr>ConfigSettingsUpdateRequest_items =
        map (\<lambda>i. \<lparr>ConfigSettingsUpdateRequest_items_item_key = ConfigEntry_key i,
                  ConfigSettingsUpdateRequest_items_item_value =
                    nullish (map_of (sp_configDrafts page) (ConfigEntry_key i)) []\<rparr>) items\<rparr>"

definition save_config :: "bool \<Rightarrow> ConfigEntry list \<Rightarrow> settings_page \<Rightarrow> api_call option" where
  "save_config pending items page =
     (if pending \<or> changedConfigCount items page = 0 then None else Some (updateConfigSettings (config_payload items page)))"

definition config_saved :: "ConfigSettingsResponse \<Rightarrow> settings_page \<Rightarrow> settings_page" where
  "config_saved data page = page\<lparr>sp_configDrafts := config_drafts (ConfigSettingsResponse_items data)\<rparr>"

definition add_setting :: "bool \<Rightarrow> settings_page \<Rightarrow> api_call option" where
  "add_setting pending page =
     (let n = sp_newSetting page
      in if pending \<or> trim (ns_key n) = [] then None
         else Some (createDatabaseSetting
                \<lparr>createDatabaseSetting_payload_key = trim (ns_key n), createDatabaseSetting_payload_value = ns_value n,
                 createDatabaseSetting_payload_description = or_none (ns_description n)\<rparr>))"

definition setting_added :: "settings_page \<Rightarrow> settings_page" where
  "setting_added page = page\<lparr>sp_newSetting := empty_new_setting\<rparr>"

definition shown_draft :: "DatabaseSetting \<Rightarrow> settings_page \<Rightarrow> database_draft" where
  "shown_draft s page = nullish (map_of (sp_databaseDrafts page) (DatabaseSetting_id s)) (database_draft_of s)"

definition edit_setting :: "DatabaseSetting \<Rightarrow> database_draft \<Rightarrow> settings_page \<Rightarrow> settings_page" where
  "edit_setting s d page = page\<lparr>sp_databaseDrafts := put_entry (DatabaseSetting_id s) d (sp_databaseDrafts page)\<rparr>"

definition save_setting :: "DatabaseSetting \<Rightarrow> settings_page \<Rightarrow> api_call" where
  "save_setting s page =
     updateDatabaseSetting (DatabaseSetting_id s)
       \<lparr>updateDatabaseSetting_payload_value = Some (dd_value (shown_draft s page)),
        updateDatabaseSetting_payload_description = Some (Some (dd_description (shown_draft s page)))\<rparr>"

section \<open>The server: config_settings_service.py\<close>

text \<open>
  The entries of the server are the keys and values of the environment file and of the
  settings, in order. A secret that is set is shown masked; is_secret tells the keys that
  name one, and entry_info is what the catalogue says of a key. A value that comes back
  masked keeps what is stored. The request model strips every text (a parameter, as the library
  pydantic does it); the validation of the merged settings is not modelled.
\<close>

definition REDACTED_SECRET :: string where
  "REDACTED_SECRET = ''********''"

definition config_entry :: "(string \<Rightarrow> bool) \<Rightarrow> (string \<Rightarrow> string \<times> string option \<times> bool \<times> bool) \<Rightarrow> string \<times> string \<Rightarrow> ConfigEntry" where
  "config_entry is_secret entry_info kv =
     (let (k, v) = kv; (value_type, description, requires_restart, is_custom) = entry_info k
      in \<lparr>ConfigEntry_key = k,
          ConfigEntry_value = (if is_secret k \<and> v \<noteq> [] then REDACTED_SECRET else v),
          ConfigEntry_value_type = value_type, ConfigEntry_description = description,
          ConfigEntry_requires_restart = requires_restart, ConfigEntry_is_custom = is_custom,
          ConfigEntry_is_secret = is_secret k\<rparr>)"

definition config_response :: "(string \<Rightarrow> bool) \<Rightarrow> (string \<Rightarrow> string \<times> string option \<times> bool \<times> bool) \<Rightarrow> string \<Rightarrow> (string \<times> string) list \<Rightarrow> ConfigSettingsResponse" where
  "config_response is_secret entry_info notice env =
     \<lparr>ConfigSettingsResponse_items = map (config_entry is_secret entry_info) env, ConfigSettingsResponse_notice = notice\<rparr>"

definition received_update :: "(string \<Rightarrow> string) \<Rightarrow> ConfigSettingsUpdateRequest_items_item \<Rightarrow> string \<times> string" where
  "received_update strip i =
     (strip (ConfigSettingsUpdateRequest_items_item_key i), strip (ConfigSettingsUpdateRequest_items_item_value i))"

definition stored_update :: "(string \<Rightarrow> bool) \<Rightarrow> (string \<times> string) list \<Rightarrow> string \<times> string \<Rightarrow> string \<times> string" where
  "stored_update is_secret env kv =
     (fst kv, if is_secret (fst kv) \<and> snd kv = REDACTED_SECRET then nullish (map_of env (fst kv)) [] else snd kv)"

definition DEPLOYMENT_MANAGED_CONFIG_KEYS :: "string list" where
  "DEPLOYMENT_MANAGED_CONFIG_KEYS =
     [''DATABASE_URL'', ''REDIS_URL'', ''CELERY_BROKER_URL'', ''CELERY_RESULT_BACKEND'', ''JWT_SECRET'',
      ''SMTP_PASSWORD'', ''STORAGE_ACCESS_KEY'', ''STORAGE_SECRET_KEY'']"

definition DEPRECATED_CONFIG_KEYS :: "string list" where
  "DEPRECATED_CONFIG_KEYS = [''AI_DOCUMENT_MAX_BYTES'', ''AI_DOCUMENT_CHUNK_SIZE'', ''AI_DOCUMENT_CHUNK_OVERLAP'']"

text \<open>
  None is a refusal: of managed keys in production (409), of a deprecated key (422), of a
  repeated key (400) or of values the settings model does not accept (422). What it accepts and how a
  value is written back are the library's: accepts and normal are parameters.
\<close>

definition server_update_config :: "(string \<Rightarrow> string) \<Rightarrow> (string \<Rightarrow> bool) \<Rightarrow> ((string \<times> string) list \<Rightarrow> bool) \<Rightarrow> (string \<Rightarrow> string \<Rightarrow> string)
    \<Rightarrow> bool \<Rightarrow> (string \<times> string) list \<Rightarrow> ConfigSettingsUpdateRequest \<Rightarrow> (string \<times> string) list option" where
  "server_update_config strip is_secret accepts normal production env payload =
     (let updates = map (received_update strip) (ConfigSettingsUpdateRequest_items payload);
          stored = map (stored_update is_secret env) updates
      in if production \<and> list_ex (\<lambda>kv. fst kv \<in> set DEPLOYMENT_MANAGED_CONFIG_KEYS) updates then None
         else if list_ex (\<lambda>kv. fst kv \<in> set DEPRECATED_CONFIG_KEYS) updates \<or> \<not> distinct (map fst updates) then None
         else if \<not> accepts stored then None
         else Some (map (\<lambda>kv. (fst kv, normal (fst kv) (snd kv))) stored))"

section \<open>Groups\<close>

lemma fold_push_item: "fold push_item items grouped g = grouped g @ filter (\<lambda>i. getGroup i = g) items"
  by (induction items arbitrary: grouped) (auto simp: push_item_def)

lemma buildConfigGroups_eq:
  "buildConfigGroups items =
     filter (\<lambda>g. cg_items g \<noteq> [])
       (map (\<lambda>h. group_heading.extend h (ConfigGroup.fields (filter (\<lambda>i. getGroup i = gh_id h) items))) GROUPS)"
  by (simp add: buildConfigGroups_def fold_push_item Let_def)

lemma groups_ids: "map gh_id GROUPS =
    [ApplicationGroup, InfrastructureGroup, SecurityGroup, EmailGroup, ObservabilityGroup, StorageGroup, CustomGroup]"
  by (simp add: GROUPS_def)

lemma every_group: "g \<in> gh_id ` set GROUPS"
  using groups_ids by (cases g) (simp_all flip: set_map)

lemma extend_fields [simp]:
  "gh_id (group_heading.extend h (ConfigGroup.fields xs)) = gh_id h"
  "cg_items (group_heading.extend h (ConfigGroup.fields xs)) = xs"
  by (simp_all add: group_heading.extend_def ConfigGroup.fields_def group_heading.defs ConfigGroup.defs)

lemma mset_concat_insert:
  "distinct gs \<Longrightarrow> h \<in> set gs \<Longrightarrow>
     mset (concat (map (\<lambda>g. if h = g then a # F g else F g) gs)) = add_mset a (mset (concat (map F gs)))"
proof (induction gs)
  case (Cons g gs)
  show ?case
  proof (cases "h = g")
    case True
    then have "map (\<lambda>g. if h = g then a # F g else F g) gs = map F gs"
      using Cons.prems(1) by (intro map_cong) auto
    then have "concat (map (\<lambda>g. if h = g then a # F g else F g) gs) = concat (map F gs)" by (simp only:)
    with True show ?thesis by simp
  next
    case False
    then show ?thesis using Cons by simp
  qed
qed simp

lemma mset_concat_groups:
  "distinct gs \<Longrightarrow> f ` set items \<subseteq> set gs \<Longrightarrow> mset (concat (map (\<lambda>g. filter (\<lambda>i. f i = g) items) gs)) = mset items"
proof (induction items)
  case Nil
  then show ?case by (induction gs) auto
next
  case (Cons i items)
  have "map (\<lambda>g. filter (\<lambda>j. f j = g) (i # items)) gs
      = map (\<lambda>g. if f i = g then i # filter (\<lambda>j. f j = g) items else filter (\<lambda>j. f j = g) items) gs"
    by simp
  then show ?case using Cons mset_concat_insert [of gs "f i" i] by simp
qed

lemma concat_nonempty: "concat (map cg_items (filter (\<lambda>g. cg_items g \<noteq> []) gs)) = concat (map cg_items gs)"
  by (induction gs) auto

lemma groups_concat:
  "concat (map cg_items (buildConfigGroups items)) = concat (map (\<lambda>g. filter (\<lambda>i. getGroup i = g) items) (map gh_id GROUPS))"
  by (simp add: buildConfigGroups_eq concat_nonempty comp_def)

lemma distinct_group_ids: "distinct (map gh_id (buildConfigGroups items))"
proof -
  let ?all = "map (\<lambda>h. group_heading.extend h (ConfigGroup.fields (filter (\<lambda>i. getGroup i = gh_id h) items))) GROUPS"
  have "map gh_id ?all = map gh_id GROUPS" by (simp add: comp_def)
  then have "distinct (map gh_id ?all)" unfolding groups_ids by simp
  then show ?thesis unfolding buildConfigGroups_eq by (rule distinct_map_filter)
qed

lemma find_member: "find P xs = Some x \<Longrightarrow> x \<in> set xs \<and> P x"
  by (induction xs) (auto split: if_splits)

lemma shown_tab:
  "case activeConfigGroup (resolvedTab tab groups) groups of None \<Rightarrow> resolvedTab tab groups = DatabaseTab
   | Some g \<Rightarrow> g \<in> set groups \<and> resolvedTab tab groups = GroupTab (gh_id g)"
proof (cases "resolvedTab tab groups = DatabaseTab")
  case False
  then obtain g where "g \<in> set groups" "resolvedTab tab groups = GroupTab (gh_id g)"
    by (auto simp: resolvedTab_def split: if_splits list.splits)
  then obtain h where "find (\<lambda>g. GroupTab (gh_id g) = resolvedTab tab groups) groups = Some h"
    by (cases "find (\<lambda>g. GroupTab (gh_id g) = resolvedTab tab groups) groups") (auto simp: find_None_iff)
  with find_member [OF this] False show ?thesis by (auto simp: activeConfigGroup_def)
qed (simp add: activeConfigGroup_def)

text \<open>
  The tabs of the settings. Every entry is shown in exactly one group, the groups are
  those that have entries, each once and each with its entries in the order of the
  server; and whatever tab was selected before, what is shown is a group that exists, or
  the settings in the database when there is none or they were selected.
\<close>
theorem config_groups_partition:
  "mset (concat (map cg_items (buildConfigGroups items))) = mset items
   \<and> distinct (map gh_id (buildConfigGroups items))
   \<and> set (map gh_id (buildConfigGroups items)) = getGroup ` set items
   \<and> list_all (\<lambda>g. cg_items g = filter (\<lambda>i. getGroup i = gh_id g) items) (buildConfigGroups items)
   \<and> (case activeConfigGroup (resolvedTab tab (buildConfigGroups items)) (buildConfigGroups items) of
        None \<Rightarrow> resolvedTab tab (buildConfigGroups items) = DatabaseTab
      | Some g \<Rightarrow> g \<in> set (buildConfigGroups items) \<and> resolvedTab tab (buildConfigGroups items) = GroupTab (gh_id g))"
proof (intro conjI)
  have "distinct (map gh_id GROUPS)" unfolding groups_ids by simp
  then show "mset (concat (map cg_items (buildConfigGroups items))) = mset items"
    unfolding groups_concat using every_group by (intro mset_concat_groups) auto
  show "distinct (map gh_id (buildConfigGroups items))" by (rule distinct_group_ids)
  show "set (map gh_id (buildConfigGroups items)) = getGroup ` set items"
  proof (intro set_eqI iffI)
    fix x assume "x \<in> getGroup ` set items"
    then obtain i where i: "i \<in> set items" "x = getGroup i" by blast
    moreover obtain h where "h \<in> set GROUPS" "gh_id h = x" using every_group by (metis imageE)
    ultimately show "x \<in> set (map gh_id (buildConfigGroups items))"
      by (force simp: buildConfigGroups_eq filter_empty_conv image_iff)
  next
    fix x assume "x \<in> set (map gh_id (buildConfigGroups items))"
    then obtain i where "i \<in> set items" "getGroup i = x" by (auto simp: buildConfigGroups_eq filter_empty_conv)
    then show "x \<in> getGroup ` set items" by blast
  qed
  show "list_all (\<lambda>g. cg_items g = filter (\<lambda>i. getGroup i = gh_id g) items) (buildConfigGroups items)"
    by (auto simp: buildConfigGroups_eq list_all_iff)
  show "case activeConfigGroup (resolvedTab tab (buildConfigGroups items)) (buildConfigGroups items) of
        None \<Rightarrow> resolvedTab tab (buildConfigGroups items) = DatabaseTab
      | Some g \<Rightarrow> g \<in> set (buildConfigGroups items) \<and> resolvedTab tab (buildConfigGroups items) = GroupTab (gh_id g)"
    by (rule shown_tab)
qed

section \<open>Saving the entries\<close>

text \<open>A text the server leaves as it is.\<close>

definition clean_text :: "string \<Rightarrow> bool" where
  "clean_text t \<longleftrightarrow> t = [] \<or> solid (hd t) \<and> solid (last t)"

text \<open>What pydantic does to a text with solid ends, and to the empty one.\<close>

definition keeps_clean :: "(string \<Rightarrow> string) \<Rightarrow> bool" where
  "keeps_clean strip \<longleftrightarrow> (\<forall>t. clean_text t \<longrightarrow> strip t = t)"

lemma trim_keeps_clean: "keeps_clean trim"
  by (auto simp: keeps_clean_def clean_text_def intro: trim_solid)

lemma redacted_clean: "clean_text REDACTED_SECRET"
  unfolding clean_text_def REDACTED_SECRET_def by code_simp

lemma response_keys: "map ConfigEntry_key (map (config_entry is_secret info) env) = map fst env"
  by (auto simp: config_entry_def Let_def split: prod.splits)

lemma entry_key [simp]: "ConfigEntry_key (config_entry is_secret info kv) = fst kv"
  by (simp add: config_entry_def Let_def split: prod.splits)

lemma entry_value: "ConfigEntry_value (config_entry is_secret info kv)
    = (if is_secret (fst kv) \<and> snd kv \<noteq> [] then REDACTED_SECRET else snd kv)"
  by (simp add: config_entry_def Let_def split: prod.splits)

lemma drafts_of_response:
  assumes "distinct (map fst env)" and "kv \<in> set env"
  shows "map_of (config_drafts (map (config_entry is_secret info) env)) (fst kv)
    = Some (ConfigEntry_value (config_entry is_secret info kv))"
proof -
  let ?es = "map (\<lambda>i. (ConfigEntry_key i, ConfigEntry_value i)) (map (config_entry is_secret info) env)"
  have "distinct (map fst ?es)" using assms(1) by (simp add: comp_def)
  moreover have "(fst kv, ConfigEntry_value (config_entry is_secret info kv)) \<in> set ?es" using assms(2) by auto
  ultimately show ?thesis
    unfolding config_drafts_def map_of_fromEntries
    by (intro map_of_is_SomeI) (auto simp: rev_map [symmetric])
qed

lemma stored_unedited:
  assumes "distinct (map fst env)" and "kv \<in> set env"
  shows "stored_update is_secret env (fst kv, ConfigEntry_value (config_entry is_secret info kv)) = kv"
proof -
  have "map_of env (fst kv) = Some (snd kv)" using assms by simp
  then show ?thesis by (cases kv) (auto simp: stored_update_def entry_value)
qed


text \<open>
  In production nothing can be saved. The page sends every entry with every save, and a
  server in production refuses a request that names a key managed by the deployment:
  once one of those keys is listed, as the keys of its settings always are, every save is
  refused, whatever was edited.
\<close>
theorem production_refuses_every_save:
  assumes "keeps_clean strip" and "list_all (\<lambda>kv. clean_text (fst kv)) env"
    and "m \<in> set DEPLOYMENT_MANAGED_CONFIG_KEYS" and "m \<in> set (map fst env)"
  shows "server_update_config strip is_secret accepts normal True env
      (config_payload (ConfigSettingsResponse_items (config_response is_secret info notice env)) page) = None"
proof -
  obtain kv where kv: "kv \<in> set env" "fst kv = m" using assms(4) by auto
  then have "strip (fst kv) = m" using assms by (auto simp: keeps_clean_def list_all_iff)
  then have "list_ex (\<lambda>u. fst u \<in> set DEPLOYMENT_MANAGED_CONFIG_KEYS)
      (map (received_update strip) (ConfigSettingsUpdateRequest_items
        (config_payload (ConfigSettingsResponse_items (config_response is_secret info notice env)) page)))"
    using kv(1) assms(3)
    by (auto simp: list_ex_iff received_update_def config_payload_def config_response_def intro!: bexI [OF _ kv(1)])
  then show ?thesis by (simp add: server_update_config_def Let_def)
qed

definition sample_env :: "(string \<times> string) list" where
  "sample_env = [(''APP_NAME'', ''Demo''), (''JWT_SECRET'', ''s3cret'')]"

definition sample_info :: "string \<Rightarrow> string \<times> string option \<times> bool \<times> bool" where
  "sample_info k = (''string'', None, True, False)"

lemma sample_env_clean: "list_all (\<lambda>kv. clean_text (fst kv) \<and> clean_text (snd kv)) sample_env" "clean_text ''New''"
  by code_simp+


theorem production_refuses_every_save_witness:
  "server_update_config trim (\<lambda>k. k = ''JWT_SECRET'') (\<lambda>kvs. True) (\<lambda>k v. v) True sample_env
     (config_payload (ConfigSettingsResponse_items (config_response (\<lambda>k. k = ''JWT_SECRET'') sample_info [] sample_env))
       (edit_config ''APP_NAME'' ''New''
         (mount_settings (config_response (\<lambda>k. k = ''JWT_SECRET'') sample_info [] sample_env) []))) = None"
  using sample_env_clean(1)
  by (intro production_refuses_every_save [OF trim_keeps_clean, where m = "''JWT_SECRET''"])
    (simp_all add: list_all_iff DEPLOYMENT_MANAGED_CONFIG_KEYS_def sample_env_def)

end
