(* ===== verification/Js_Json_Facts.thy ===== *)
theory Js_Json_Facts
  imports Js_Json
begin

text \<open>
  The fuel of JSON.parse.  Every reader returns a rest that is no longer than the text it was
  given, so that the depth of the calls is bounded by twice the length of the text; a reader with
  that much fuel has the same result as one with more.
\<close>

section \<open>Rests are shorter\<close>

lemma skip_ws_length: "length (skip_ws s) \<le> length s"
  by (simp add: skip_ws_def length_dropWhile_le)

lemma span_digits_length: "span_digits b s = (ds, r) \<Longrightarrow> length r \<le> length s"
  by (auto simp: span_digits_def length_dropWhile_le)

lemma take_sign_length: "take_sign s = (b, r) \<Longrightarrow> length r \<le> length s"
  by (auto simp: take_sign_def split: list.splits if_splits)

lemma hex4_length: "hex4 s = Some (u, r) \<Longrightarrow> length s = length r + 4"
  by (induction s rule: hex4.induct) (auto split: if_splits)

lemma unicode_escape_length: "unicode_escape s = Some (p, r) \<Longrightarrow> length r \<le> length s"
  by (auto simp: unicode_escape_def split: option.splits if_splits prod.splits dest!: hex4_length)

lemma json_string_length: "json_string n s = Some (t, r) \<Longrightarrow> length r < length s"
proof (induction n s arbitrary: t rule: json_string.induct)
  case (1 n c cs)
  then show ?case
    by (fastforce split: if_splits list.splits option.splits prod.splits dest: unicode_escape_length)
qed auto

lemma json_number_length: "json_number s = Some (v, r) \<Longrightarrow> length r \<le> length s"
  by (auto simp: json_number_def Let_def split: if_splits list.splits option.splits prod.splits
      dest!: span_digits_length take_sign_length)

lemma skip_ws_shorter: "skip_ws s = c # cs \<Longrightarrow> length cs < length s"
  using skip_ws_length [of s] by simp

lemma rest_length:
  "json_value n s = Some (v, r) \<Longrightarrow> length r \<le> length s"
  "json_elements n s = Some (vs, r) \<Longrightarrow> length r \<le> length s"
  "json_members n es s = Some (ms, r) \<Longrightarrow> length r \<le> length s"
proof (induction n s and n s and n es s arbitrary: v r and vs r and ms r
    rule: json_value_json_elements_json_members.induct)
  case (2 n s)
  note head = skip_ws_length [of s]
  show ?case
  proof (cases "skip_ws s")
    case Nil
    then show ?thesis
      using "2.prems" by (simp add: startsWith_def Let_def)
  next
    case (Cons c cs)
    then show ?thesis
      using "2.prems" "2.IH" head skip_ws_length [of cs]
      by (fastforce simp: Let_def split: if_splits dest: json_string_length json_number_length)
  qed
next
  case (4 n s)
  then show ?case
    by (fastforce split: option.splits list.splits if_splits dest: skip_ws_shorter)
next
  case (6 n es s)
  show ?case
  proof -
    from "6.prems" obtain q t where s: "skip_ws s = q # t" "q = CHR 0x22"
      by (auto split: list.splits if_splits)
    with "6.prems" obtain k r1 where k: "json_string (Suc (length t)) t = Some (k, r1)" "startsWith (skip_ws r1) '':''"
      by (auto split: option.splits if_splits)
    with s "6.prems" obtain u r2 where u: "json_value n (drop 1 (skip_ws r1)) = Some (u, r2)"
      by (auto split: option.splits)
    with s k "6.prems" obtain c cs where c: "skip_ws r2 = c # cs"
      by (auto split: list.splits)
    have "length r2 \<le> length (drop 1 (skip_ws r1))"
      using "6.IH"(1) s k u by blast
    then have "length cs \<le> length s"
      using skip_ws_shorter [OF c] skip_ws_length [of r1] json_string_length [OF k(1)] skip_ws_shorter [OF s(1)] by simp
    then show ?thesis
      using "6.prems" "6.IH"(2) [OF s(1) _ k(1) refl _ u refl c] s k u c
      by (auto split: if_splits intro: order_trans)
  qed
qed auto

section \<open>Enough fuel\<close>

lemma json_string_fuel:
  "length s < n \<Longrightarrow> length s < m \<Longrightarrow> json_string n s = json_string m s"
proof (induction n s arbitrary: m rule: json_string.induct)
  case (1 n c cs)
  then obtain m' where m: "m = Suc m'" "length cs < m'" "length cs < n"
    by (cases m) auto
  have plain: "json_string n cs = json_string m' cs" if "c \<noteq> CHR 0x22" "\<not> of_char c < (32::nat)" "c \<noteq> CHR 0x5C"
    using "1.IH"(1) that m by blast
  have escaped: "json_string n es' = json_string m' es'"
    if "c \<noteq> CHR 0x22" "\<not> of_char c < (32::nat)" "\<not> c \<noteq> CHR 0x5C" "cs = e # es"
      "(if e = CHR ''u'' then unicode_escape es else map_option (\<lambda>k. ([char_of k], es)) (simple_escape e)) = Some (p, es')"
    for e es p es'
  proof -
    have "length es' \<le> length es"
      using that(5) by (auto split: if_splits dest: unicode_escape_length)
    then show ?thesis
      using "1.IH"(2) [OF that(1-4) that(5) refl] that(4) m by simp
  qed
  show ?case
  proof (cases "c = CHR 0x22 \<or> of_char c < (32::nat) \<or> c \<noteq> CHR 0x5C")
    case True
    then show ?thesis
      unfolding m(1) using plain by auto
  next
    case False
    then have c: "c \<noteq> CHR 0x22" "\<not> of_char c < (32::nat)" "\<not> c \<noteq> CHR 0x5C" by simp_all
    show ?thesis
    proof (cases cs)
      case (Cons e es)
      let ?x = "if e = CHR ''u'' then unicode_escape es else map_option (\<lambda>k. ([char_of k], es)) (simple_escape e)"
      show ?thesis
      proof (cases ?x)
        case None
        then show ?thesis
          unfolding m(1) json_string.simps(1) Cons by (simp only: None c list.case option.case if_False not_not)
      next
        case (Some q)
        obtain p es' where q: "q = (p, es')" by (cases q)
        show ?thesis
          unfolding m(1) json_string.simps(1) Cons
          by (simp only: Some q c list.case option.case prod.case if_False not_not escaped [OF c Cons Some [unfolded q]])
      qed
    qed (use c m(1) in simp)
  qed
qed auto

lemma fuel_enough:
  "2 * length s < n \<Longrightarrow> 2 * length s < m \<Longrightarrow> json_value n s = json_value m s"
  "2 * length s + 1 < n \<Longrightarrow> 2 * length s + 1 < m \<Longrightarrow> json_elements n s = json_elements m s"
  "2 * length s < n \<Longrightarrow> 2 * length s < m \<Longrightarrow> json_members n es s = json_members m es s"
proof (induction n s and n s and n es s arbitrary: m and m and m
    rule: json_value_json_elements_json_members.induct)
  case (2 n s)
  from "2.prems" obtain m' where m: "m = Suc m'" by (cases m) auto
  show ?case
  proof (cases "skip_ws s")
    case Nil
    then show ?thesis by (simp add: m startsWith_def Let_def)
  next
    case (Cons c cs)
    have short: "2 * length cs + 1 < n" "2 * length cs + 1 < m'" "2 * length cs < n" "2 * length cs < m'"
      using "2.prems" skip_ws_shorter [OF Cons] m by auto
    have elements: "json_elements n cs = json_elements m' cs" if "c = CHR ''[''" "\<not> startsWith (skip_ws cs) '']''"
      by (rule "2.IH"(1) [OF refl]) (use that Cons short in \<open>simp_all add: startsWith_def\<close>)
    have members: "json_members n [] cs = json_members m' [] cs" if "c = CHR ''{''" "\<not> startsWith (skip_ws cs) ''}''"
      by (rule "2.IH"(2) [OF refl]) (use that Cons short in \<open>simp_all add: startsWith_def\<close>)
    show ?thesis
      unfolding m json_value.simps(2) Let_def Cons list.case
      by (simp only: elements members not_False_eq_True cong: if_cong)
  qed
next
  case (4 n s)
  from "4.prems" obtain m' where m: "m = Suc m'" by (cases m) auto
  have first: "json_value n s = json_value m' s"
    by (rule "4.IH"(1)) (use "4.prems" m in simp_all)
  show ?case
  proof (cases "json_value n s")
    case (Some vr)
    obtain v r where vr: "vr = (v, r)" by (cases vr)
    show ?thesis
    proof (cases "skip_ws r")
      case Cons2: (Cons c cs)
      have shorter: "length cs < length s"
        using skip_ws_shorter [OF Cons2] rest_length(1) [OF Some [unfolded vr]] by simp
      have "json_elements n cs = json_elements m' cs" if "c = CHR '',''" "c \<noteq> CHR '']''"
        by (rule "4.IH"(2) [OF Some vr [symmetric] Cons2 that(2) that(1)]) (use shorter "4.prems" m in simp_all)
      then show ?thesis
        unfolding m using Some [unfolded vr] Some [unfolded vr first] Cons2 by simp
    qed (use Some [unfolded vr] Some [unfolded vr first] m in simp)
  qed (use first m in simp)
next
  case (6 n es s)
  from "6.prems" obtain m' where m: "m = Suc m'" by (cases m) auto
  show ?case
  proof (cases "\<exists>t k r1. skip_ws s = CHR 0x22 # t \<and> json_string (Suc (length t)) t = Some (k, r1) \<and> startsWith (skip_ws r1) '':''")
    case False
    then show ?thesis
      unfolding m by (auto split: list.splits option.splits)
  next
    case True
    then obtain t k r1 where s: "skip_ws s = CHR 0x22 # t" "json_string (Suc (length t)) t = Some (k, r1)" "startsWith (skip_ws r1) '':''"
      by blast
    have r1: "length (drop 1 (skip_ws r1)) < length s"
      using json_string_length [OF s(2)] skip_ws_shorter [OF s(1)] skip_ws_length [of r1] by simp
    have first: "json_value n (drop 1 (skip_ws r1)) = json_value m' (drop 1 (skip_ws r1))"
      by (rule "6.IH"(1) [OF s(1) _ s(2) refl]) (use s(3) r1 "6.prems" m in simp_all)
    show ?thesis
    proof (cases "json_value n (drop 1 (skip_ws r1))")
      case (Some vr)
      obtain v r2 where vr: "vr = (v, r2)" by (cases vr)
      show ?thesis
      proof (cases "skip_ws r2")
        case Cons2: (Cons c cs)
        have shorter: "length cs < length s"
          using skip_ws_shorter [OF Cons2] rest_length(1) [OF Some [unfolded vr]] r1 by simp
        have "json_members n (put_entry k v es) cs = json_members m' (put_entry k v es) cs" if "c = CHR '',''" "c \<noteq> CHR ''}''"
          by (rule "6.IH"(2) [OF s(1) _ s(2) refl _ Some vr [symmetric] Cons2 that(2) that(1)]) (use s(3) shorter "6.prems" m in simp_all)
        then show ?thesis
          unfolding m using Some [unfolded vr] Some [unfolded vr first] Cons2 s by simp
      qed (use Some [unfolded vr] Some [unfolded vr first] m s in simp)
    qed (use first m s in simp)
  qed
qed auto

lemma JSON_parse_fuel:
  "2 * length s < n \<Longrightarrow> JSON_parse s =
     (case json_value n s of None \<Rightarrow> None | Some (v, rest) \<Rightarrow> if skip_ws rest = [] then Some v else None)"
  unfolding JSON_parse_def using fuel_enough(1) [of s "Suc (2 * length s)" n] by simp

end
