(* ===== verification/Ai_Studio.thy ===== *)
theory Ai_Studio
  imports Js_Numbers Js_Json_Facts Ai_Endpoints Query_Keys
begin

text \<open>
  The AI studio: frontend/src/features/ai.  Its forms keep numbers and JSON as text; the
  schemas of studioUtils.ts check them before a request is built.  The texts of errors that
  the engine and the library Zod word themselves are parameters.
\<close>

section \<open>Schemas: studioUtils.ts\<close>

datatype json_problem = NotJson | NotObject

text \<open>JSON.parse throws NotJson; a value that is no object throws the second error.\<close>

definition parseJsonObject :: "string \<Rightarrow> json_problem + (string \<times> json) list" where
  "parseJsonObject value =
     (if trim value = [] then Inr []
      else case JSON_parse value of
             None \<Rightarrow> Inl NotJson
           | Some (JObj es) \<Rightarrow> Inr es
           | Some _ \<Rightarrow> Inl NotObject)"

text \<open>Messages that are not the program's own.\<close>

record library_texts =
  lt_not_json :: "string \<Rightarrow> string"
  lt_too_short :: string
  lt_too_long :: string

type_synonym issues = "string list"

definition jsonObjectText :: "library_texts \<Rightarrow> string \<Rightarrow> issues" where
  "jsonObjectText lt value =
     (case parseJsonObject value of
        Inl NotJson \<Rightarrow> [lt_not_json lt value]
      | Inl NotObject \<Rightarrow> [''JSON payload must be an object.'']
      | Inr es \<Rightarrow> [])"

definition between :: "number \<Rightarrow> number \<Rightarrow> js_num \<Rightarrow> bool" where
  "between lo hi x \<longleftrightarrow> (case x of Finite r \<Rightarrow> lo \<le> r \<and> r \<le> hi | _ \<Rightarrow> False)"

definition numericText :: "string \<Rightarrow> number \<Rightarrow> number \<Rightarrow> string \<Rightarrow> issues" where
  "numericText label lo hi value =
     (if between lo hi (parse_number value) then []
      else [label @ '' must be between '' @ number_text lo @ '' and '' @ number_text hi @ ''.''])"

definition MAX_SAFE_INTEGER :: number where
  "MAX_SAFE_INTEGER = 9007199254740991"

text \<open>Number(text) of a text that passed numericText.\<close>

definition checked_number :: "string \<Rightarrow> number" where
  "checked_number value = (case parse_number value of Finite r \<Rightarrow> r | _ \<Rightarrow> 0)"

record run_form =
  rf_prompt_template_key :: string
  rf_prompt_version_id :: string
  rf_variables_json :: string
  rf_retrieval_query :: string
  rf_top_k :: string
  rf_review_required :: bool

definition at_most_4000 :: "library_texts \<Rightarrow> string \<Rightarrow> issues" where
  "at_most_4000 lt t = (if 4000 < js_length t then [lt_too_long lt] else [])"

definition aiRunDraftSchema :: "library_texts \<Rightarrow> run_form \<Rightarrow> issues" where
  "aiRunDraftSchema lt f =
     (if js_length (rf_prompt_template_key f) < 2 then [''Select a prompt template.''] else [])
     @ jsonObjectText lt (rf_variables_json f)
     @ at_most_4000 lt (rf_retrieval_query f)
     @ numericText ''Top K'' 1 20 (rf_top_k f)"

record version_form =
  vf_provider_key :: string
  vf_model_name :: string
  vf_system_prompt :: string
  vf_user_prompt_template :: string
  vf_variable_names :: string
  vf_response_format :: response_format
  vf_temperature :: string
  vf_rollout_percentage :: string
  vf_is_published :: bool
  vf_input_cost_per_million :: string
  vf_output_cost_per_million :: string

definition promptVersionDraftSchema :: "library_texts \<Rightarrow> version_form \<Rightarrow> issues" where
  "promptVersionDraftSchema lt f =
     (if js_length (vf_provider_key f) < 2 then [lt_too_short lt] else [])
     @ (if js_length (trim (vf_model_name f)) < 2 then [''Model name is required.''] else [])
     @ (if js_length (trim (vf_user_prompt_template f)) < 1 then [''User prompt template is required.''] else [])
     @ numericText ''Temperature'' 0 2 (vf_temperature f)
     @ numericText ''Rollout'' 0 100 (vf_rollout_percentage f)
     @ numericText ''Input cost'' 0 MAX_SAFE_INTEGER (vf_input_cost_per_million f)
     @ numericText ''Output cost'' 0 MAX_SAFE_INTEGER (vf_output_cost_per_million f)"

record case_form =
  cf_input_variables_json :: string
  cf_retrieval_query :: string
  cf_expected_chunk_ids :: string
  cf_expected_output_text :: string
  cf_expected_output_json :: string
  cf_evaluation_type :: evaluation_type
  cf_notes :: string

definition datasetCaseDraftSchema :: "library_texts \<Rightarrow> case_form \<Rightarrow> issues" where
  "datasetCaseDraftSchema lt f =
     jsonObjectText lt (cf_input_variables_json f)
     @ at_most_4000 lt (cf_retrieval_query f)
     @ (if trim (cf_expected_output_json f) = [] then [] else jsonObjectText lt (cf_expected_output_json f))"

definition firstSchemaError :: "issues \<Rightarrow> string" where
  "firstSchemaError es = (case es of [] \<Rightarrow> ''Invalid form values.'' | e # _ \<Rightarrow> e)"

section \<open>Forms: hooks/useAiStudioForms.ts\<close>

definition initial_run_form :: run_form where
  "initial_run_form =
     \<lparr>rf_prompt_template_key = [], rf_prompt_version_id = [],
      rf_variables_json = with_quotes (''{'' @ [char_of (10::nat)] @ ''  ~task~: ~Summarize the attached knowledge base~'' @ [char_of (10::nat)] @ ''}''),
      rf_retrieval_query = [], rf_top_k = ''4'', rf_review_required = False\<rparr>"

definition initial_version_form :: version_form where
  "initial_version_form =
     \<lparr>vf_provider_key = ''local'', vf_model_name = ''local-heuristic'', vf_system_prompt = [],
      vf_user_prompt_template = [], vf_variable_names = [], vf_response_format = TextFormat,
      vf_temperature = ''0.2'', vf_rollout_percentage = ''100'', vf_is_published = True,
      vf_input_cost_per_million = ''0'', vf_output_cost_per_million = ''0''\<rparr>"

definition initial_case_form :: case_form where
  "initial_case_form =
     \<lparr>cf_input_variables_json = with_quotes (''{'' @ [char_of (10::nat)] @ ''  ~task~: ~What is the return policy?~'' @ [char_of (10::nat)] @ ''}''),
      cf_retrieval_query = [], cf_expected_chunk_ids = [], cf_expected_output_text = [],
      cf_expected_output_json = [], cf_evaluation_type = Standard, cf_notes = []\<rparr>"

definition toggle_id :: "string \<Rightarrow> string list \<Rightarrow> string list" where
  "toggle_id documentId current =
     (if documentId \<in> set current then filter (\<lambda>item. item \<noteq> documentId) current else current @ [documentId])"

definition parseVariableDefinitions :: "string \<Rightarrow> AiVariableDefinition list" where
  "parseVariableDefinitions rawNames =
     map (\<lambda>name. \<lparr>AiVariableDefinition_name = name, AiVariableDefinition_description = None, AiVariableDefinition_required = True\<rparr>)
       (comma_items rawNames)"

section \<open>Requests of the panels\<close>

text \<open>
  A button that is disabled does nothing (None); otherwise a toast with an error (Inl) or a
  request (Inr).
\<close>

type_synonym submission = "(string + api_call) option"

definition run_prompt :: "library_texts \<Rightarrow> bool \<Rightarrow> string list \<Rightarrow> run_form \<Rightarrow> submission" where
  "run_prompt lt pending selectedDocumentIds f =
     (if pending \<or> rf_prompt_template_key f = [] then None
      else if aiRunDraftSchema lt f \<noteq> [] then Some (Inl (firstSchemaError (aiRunDraftSchema lt f)))
      else (case parseJsonObject (rf_variables_json f) of
              Inl p \<Rightarrow> None
            | Inr variables \<Rightarrow>
                Some (Inr (createAiRun
                  \<lparr>createAiRun_payload_prompt_template_key = Some (rf_prompt_template_key f),
                   createAiRun_payload_prompt_version_id = None,
                   createAiRun_payload_variables = variables,
                   createAiRun_payload_retrieval_query = or_none (rf_retrieval_query f),
                   createAiRun_payload_document_ids = selectedDocumentIds,
                   createAiRun_payload_top_k = checked_number (rf_top_k f),
                   createAiRun_payload_review_required = rf_review_required f\<rparr>))))"

definition version_payload :: "version_form \<Rightarrow> createPromptVersion_payload" where
  "version_payload f =
     \<lparr>createPromptVersion_payload_provider_key = vf_provider_key f,
      createPromptVersion_payload_model_name = trim (vf_model_name f),
      createPromptVersion_payload_system_prompt = vf_system_prompt f,
      createPromptVersion_payload_user_prompt_template = trim (vf_user_prompt_template f),
      createPromptVersion_payload_variable_definitions = parseVariableDefinitions (vf_variable_names f),
      createPromptVersion_payload_response_format = vf_response_format f,
      createPromptVersion_payload_temperature = checked_number (vf_temperature f),
      createPromptVersion_payload_rollout_percentage = checked_number (vf_rollout_percentage f),
      createPromptVersion_payload_is_published = vf_is_published f,
      createPromptVersion_payload_input_cost_per_million = checked_number (vf_input_cost_per_million f),
      createPromptVersion_payload_output_cost_per_million = checked_number (vf_output_cost_per_million f)\<rparr>"

definition create_version :: "library_texts \<Rightarrow> bool \<Rightarrow> string \<Rightarrow> version_form \<Rightarrow> submission" where
  "create_version lt pending selectedTemplateId f =
     (if pending \<or> selectedTemplateId = [] \<or> trim (vf_model_name f) = [] \<or> trim (vf_user_prompt_template f) = [] then None
      else if promptVersionDraftSchema lt f \<noteq> [] then Some (Inl (firstSchemaError (promptVersionDraftSchema lt f)))
      else Some (Inr (createPromptVersion selectedTemplateId (version_payload f))))"

definition case_payload :: "string list \<Rightarrow> (string \<times> json) list \<Rightarrow> (string \<times> json) list option \<Rightarrow> case_form \<Rightarrow> createAiDatasetCase_payload" where
  "case_payload documentIds variables expected f =
     \<lparr>createAiDatasetCase_payload_input_variables = variables,
      createAiDatasetCase_payload_retrieval_query = Some (or_none (cf_retrieval_query f)),
      createAiDatasetCase_payload_document_ids = Some documentIds,
      createAiDatasetCase_payload_expected_chunk_ids = Some (comma_items (cf_expected_chunk_ids f)),
      createAiDatasetCase_payload_expected_output_text = Some (or_none (cf_expected_output_text f)),
      createAiDatasetCase_payload_expected_output_json = Some expected,
      createAiDatasetCase_payload_evaluation_type = Some (cf_evaluation_type f),
      createAiDatasetCase_payload_notes = Some (or_none (cf_notes f))\<rparr>"

text \<open>The catch clause shows the error of a text that is no JSON object.\<close>

definition problem_text :: "library_texts \<Rightarrow> string \<Rightarrow> json_problem \<Rightarrow> string" where
  "problem_text lt value p = (case p of NotJson \<Rightarrow> lt_not_json lt value | NotObject \<Rightarrow> ''JSON payload must be an object.'')"

definition add_case :: "library_texts \<Rightarrow> bool \<Rightarrow> string \<Rightarrow> string list \<Rightarrow> case_form \<Rightarrow> submission" where
  "add_case lt pending selectedDatasetId documentIds f =
     (if pending \<or> selectedDatasetId = [] then None
      else if datasetCaseDraftSchema lt f \<noteq> [] then Some (Inl (firstSchemaError (datasetCaseDraftSchema lt f)))
      else (case parseJsonObject (cf_input_variables_json f) of
              Inl p \<Rightarrow> Some (Inl (problem_text lt (cf_input_variables_json f) p))
            | Inr variables \<Rightarrow>
                (if trim (cf_expected_output_json f) = []
                 then Some (Inr (createAiDatasetCase selectedDatasetId (case_payload documentIds variables None f)))
                 else (case parseJsonObject (cf_expected_output_json f) of
                         Inl p \<Rightarrow> Some (Inl (problem_text lt (cf_expected_output_json f) p))
                       | Inr expected \<Rightarrow>
                           Some (Inr (createAiDatasetCase selectedDatasetId
                             (case_payload documentIds variables (Some expected) f)))))))"

section \<open>Other requests\<close>

text \<open>Evaluation runs: components/ReviewsEvaluationsPanel.tsx, hooks/useAiStudioView.ts.\<close>

record studio_selection =
  ss_templateId :: string
  ss_datasetId :: string

definition run_evaluation :: "bool \<Rightarrow> string \<Rightarrow> string \<Rightarrow> api_call option" where
  "run_evaluation pending datasetId promptVersionId =
     (if pending \<or> datasetId = [] \<or> promptVersionId = [] then None
      else Some (runAiEvaluation datasetId promptVersionId))"

definition versions_query :: "'a studio_selection_scheme \<Rightarrow> (query_key \<times> api_call) option" where
  "versions_query s =
     (if 0 < length (ss_templateId s)
      then Some (queryKeys_ai_promptVersions (ss_templateId s), listPromptVersions (ss_templateId s)) else None)"

definition dataset_cases_query :: "'a studio_selection_scheme \<Rightarrow> (query_key \<times> api_call) option" where
  "dataset_cases_query s =
     (if 0 < length (ss_datasetId s)
      then Some (queryKeys_ai_datasetCases (ss_datasetId s), listAiDatasetCases (ss_datasetId s)) else None)"

text \<open>Evaluation runs are polled every three seconds while one is running.\<close>

definition evaluation_poll :: "string list option \<Rightarrow> nat option" where
  "evaluation_poll statuses = (if list_ex (\<lambda>st. st = ''running'') (nullish statuses []) then Some 3000 else None)"

text \<open>Decisions of reviews and feedback; a rejection carries no corrected output.\<close>

definition decide_review :: "string \<Rightarrow> review_decision \<Rightarrow> (string \<times> string) list \<Rightarrow> (string \<times> string) list \<Rightarrow> api_call" where
  "decide_review reviewId decision notes corrections =
     decideAiReview reviewId
       \<lparr>decideAiReview_payload_status = decision, decideAiReview_payload_reviewer_notes = map_of notes reviewId,
        decideAiReview_payload_corrected_output = (if decision = RejectedReview then None else map_of corrections reviewId)\<rparr>"

definition give_feedback :: "string \<Rightarrow> feedback_rating \<Rightarrow> (string \<times> string) list \<Rightarrow> (string \<times> string) list \<Rightarrow> api_call" where
  "give_feedback runId rating comments corrections =
     createAiFeedback runId
       \<lparr>createAiFeedback_payload_rating = rating, createAiFeedback_payload_comment = map_of comments runId,
        createAiFeedback_payload_corrected_output = (if rating = RatedUp then None else map_of corrections runId)\<rparr>"

section \<open>Properties\<close>

text \<open>The integers of the request models in backend/modules/ai/schemas.py: int with ge and le.\<close>

definition server_accepts_int :: "number \<Rightarrow> number \<Rightarrow> number \<Rightarrow> bool" where
  "server_accepts_int lo hi r \<longleftrightarrow> of_int \<lfloor>r\<rfloor> = r \<and> lo \<le> r \<and> r \<le> hi"

lemma numericText_empty: "numericText label lo hi t = [] \<longleftrightarrow> lo \<le> checked_number t \<and> checked_number t \<le> hi \<and> is_finite (parse_number t)"
  by (cases "parse_number t") (auto simp: numericText_def between_def checked_number_def is_finite_def)

lemma jsonObjectText_empty: "jsonObjectText lt t = [] \<longleftrightarrow> (\<exists>es. parseJsonObject t = Inr es)"
  by (auto simp: jsonObjectText_def split: sum.splits json_problem.splits)

lemma first_issue: "es \<noteq> [] \<Longrightarrow> firstSchemaError es \<in> set es"
  by (cases es) (auto simp: firstSchemaError_def)



lemma not_integer: "of_int \<lfloor>5 / 2 :: number\<rfloor> * 2 \<noteq> (5 :: number)" "of_int \<lfloor>25 / 2 :: number\<rfloor> * 2 \<noteq> (25 :: number)"
  by (simp_all add: floor_divide_of_int_eq [of 5 2, simplified] floor_divide_of_int_eq [of 25 2, simplified])

text \<open>
  The number fields of the forms accept what the server refuses. Top K, rollout and costs
  are integers of the server; a fraction within the bounds passes the form, is sent as it is and is
  refused, and a blank rollout is sent as zero.
\<close>
theorem fractions_pass_forms:
  "(case run_prompt lt False docs (initial_run_form\<lparr>rf_prompt_template_key := ''summary'', rf_top_k := ''2.5''\<rparr>) of
      Some (Inr c) \<Rightarrow> (\<exists>payload. c = createAiRun payload \<and> createAiRun_payload_top_k payload = 5 / 2)
    | _ \<Rightarrow> False)
   \<and> \<not> server_accepts_int 1 20 (5 / 2)
   \<and> (case create_version lt False ''t1'' (initial_version_form\<lparr>vf_user_prompt_template := ''Hi'', vf_rollout_percentage := ''12.5''\<rparr>) of
        Some (Inr c) \<Rightarrow> (\<exists>payload. c = createPromptVersion ''t1'' payload \<and> createPromptVersion_payload_rollout_percentage payload = 25 / 2)
      | _ \<Rightarrow> False)
   \<and> \<not> server_accepts_int 0 100 (25 / 2)
   \<and> createPromptVersion_payload_rollout_percentage (version_payload (initial_version_form\<lparr>vf_rollout_percentage := []\<rparr>)) = 0"
proof (intro conjI, goal_cases)
  case 1
  have "aiRunDraftSchema lt (initial_run_form\<lparr>rf_prompt_template_key := ''summary'', rf_top_k := ''2.5''\<rparr>) = []"
    by code_simp
  moreover have "checked_number ''2.5'' = 5 / 2"
    by code_simp
  moreover have "parseJsonObject (rf_variables_json initial_run_form) = Inr [(''task'', JStr ''Summarize the attached knowledge base'')]"
    by code_simp
  ultimately show ?case
    by (simp add: run_prompt_def initial_run_form_def) (rule exI, rule conjI, rule refl, simp)
next
  case 3
  have "promptVersionDraftSchema lt (initial_version_form\<lparr>vf_user_prompt_template := ''Hi'', vf_rollout_percentage := ''12.5''\<rparr>) = []"
    by code_simp
  moreover have "checked_number ''12.5'' = 25 / 2"
    by code_simp
  moreover have "trim ''Hi'' = ''Hi''" "trim ''local-heuristic'' = ''local-heuristic''"
    by code_simp+
  ultimately show ?case
    by (simp add: create_version_def version_payload_def initial_version_form_def) (rule exI, rule conjI, rule refl, simp)
next
  case 5
  then show ?case
    by (simp add: version_payload_def checked_number_def)
qed (simp_all add: server_accepts_int_def not_integer)

end
