(* ===== verification/Ai_Studio_State.thy ===== *)
theory Ai_Studio_State
  imports Ai_Studio Step_System
begin

text \<open>
  The AI studio as it runs: the state of its forms and selections (useAiStudioForms), the buttons
  of its panels, the mutations under way and what is done when one of them settles
  (useAiPromptAssetMutations, useAiRunEvaluationMutations).
\<close>

section \<open>State: hooks/useAiStudioForms.ts\<close>

record template_form =
  tf_key :: string
  tf_name :: string
  tf_description :: string

record text_document_form =
  df_title :: string
  df_description :: string
  df_content :: string
  df_content_type :: string

record dataset_form =
  sf_name :: string
  sf_description :: string

record studio_forms = studio_selection +
  selectedDocumentIds :: "string list"
  selectedEvaluationDocumentIds :: "string list"
  templateForm :: template_form
  versionForm :: version_form
  textDocumentForm :: text_document_form
  uploadDescription :: string
  runForm :: run_form
  reviewNotesById :: "(string \<times> string) list"
  correctionsById :: "(string \<times> string) list"
  feedbackCommentByRunId :: "(string \<times> string) list"
  datasetForm :: dataset_form
  datasetCaseForm :: case_form

definition blank_template :: template_form where
  "blank_template = \<lparr>tf_key = [], tf_name = [], tf_description = []\<rparr>"

definition blank_document :: text_document_form where
  "blank_document = \<lparr>df_title = [], df_description = [], df_content = [], df_content_type = ''text/plain''\<rparr>"

definition blank_dataset :: dataset_form where
  "blank_dataset = \<lparr>sf_name = [], sf_description = []\<rparr>"

definition useAiStudioForms :: studio_forms where
  "useAiStudioForms =
     \<lparr>ss_templateId = [], ss_datasetId = [],
      selectedDocumentIds = [], selectedEvaluationDocumentIds = [], templateForm = blank_template,
      versionForm = initial_version_form, textDocumentForm = blank_document, uploadDescription = [],
      runForm = initial_run_form, reviewNotesById = [], correctionsById = [], feedbackCommentByRunId = [],
      datasetForm = blank_dataset, datasetCaseForm = initial_case_form\<rparr>"

section \<open>Uploads: uploadValidation.ts\<close>

definition MAX_DOCUMENT_UPLOAD_BYTES :: nat where
  "MAX_DOCUMENT_UPLOAD_BYTES = 10 * 1024 * 1024"

definition ALLOWED_DOCUMENT_EXTENSIONS :: "string list" where
  "ALLOWED_DOCUMENT_EXTENSIONS = [''.txt'', ''.md'', ''.json'', ''.ndjson'']"

definition validateDocumentUpload :: "upload_file \<Rightarrow> string option" where
  "validateDocumentUpload file =
     (if MAX_DOCUMENT_UPLOAD_BYTES < file_size file then Some ''Document uploads must be 10 MB or smaller.''
      else let extension = CHR ''.'' # lower_case (last (split_char CHR ''.'' (file_name file)))
           in if extension \<notin> set ALLOWED_DOCUMENT_EXTENSIONS
              then Some ''Choose a .txt, .md, .json, or .ndjson file.'' else None)"

section \<open>Buttons of the panels\<close>

datatype studio_mutation =
    CreateTemplate | CreateVersion | ActivateVersion | PublishVersion | CreateTextDocument | UploadDocument
  | CreateRun | CreateReview | DecideReview | CreateFeedback | CreateDataset | CreateDatasetCase | RunEvaluation

datatype studio_button =
    CreateTemplateButton | CreateVersionButton | SetActiveButton string | PublishButton string bool
  | CreateDocumentButton | FilePicked upload_file | RunPromptButton | RequestReviewButton string
  | DecideButton string review_decision | FeedbackButton string feedback_rating
  | CreateDatasetButton | AddCaseButton | RunEvaluationButton

fun mutation_of :: "studio_button \<Rightarrow> studio_mutation" where
  "mutation_of CreateTemplateButton = CreateTemplate"
| "mutation_of CreateVersionButton = CreateVersion"
| "mutation_of (SetActiveButton v) = ActivateVersion"
| "mutation_of (PublishButton v b) = PublishVersion"
| "mutation_of CreateDocumentButton = CreateTextDocument"
| "mutation_of (FilePicked f) = UploadDocument"
| "mutation_of RunPromptButton = CreateRun"
| "mutation_of (RequestReviewButton r) = CreateReview"
| "mutation_of (DecideButton r d) = DecideReview"
| "mutation_of (FeedbackButton r d) = CreateFeedback"
| "mutation_of CreateDatasetButton = CreateDataset"
| "mutation_of AddCaseButton = CreateDatasetCase"
| "mutation_of RunEvaluationButton = RunEvaluation"

definition createTemplate_press :: "bool \<Rightarrow> template_form \<Rightarrow> submission" where
  "createTemplate_press pending f =
     (if pending \<or> trim (tf_key f) = [] \<or> trim (tf_name f) = [] then None
      else Some (Inr (createPromptTemplate
        \<lparr>createPromptTemplate_payload_key = tf_key f, createPromptTemplate_payload_name = tf_name f,
         createPromptTemplate_payload_description = Some (tf_description f)\<rparr>)))"

definition createTextDocument_press :: "bool \<Rightarrow> text_document_form \<Rightarrow> submission" where
  "createTextDocument_press pending f =
     (if pending \<or> trim (df_title f) = [] \<or> trim (df_content f) = [] then None
      else Some (Inr (createAiDocument
        \<lparr>createAiDocument_payload_title = df_title f, createAiDocument_payload_description = Some (df_description f),
         createAiDocument_payload_content = df_content f, createAiDocument_payload_content_type = Some (df_content_type f),
         createAiDocument_payload_metadata = None\<rparr>)))"

definition uploadDocument_press :: "bool \<Rightarrow> upload_file \<Rightarrow> string \<Rightarrow> submission" where
  "uploadDocument_press pending file description =
     (if pending then None
      else case validateDocumentUpload file of
             Some validationError \<Rightarrow> Some (Inl validationError)
           | None \<Rightarrow> Some (Inr (uploadAiDocument file (or_none description))))"

definition createDataset_press :: "bool \<Rightarrow> dataset_form \<Rightarrow> submission" where
  "createDataset_press pending f =
     (if pending \<or> trim (sf_name f) = [] then None
      else Some (Inr (createAiDataset
        \<lparr>createAiDataset_payload_name = sf_name f, createAiDataset_payload_description = Some (sf_description f)\<rparr>)))"

fun press :: "library_texts \<Rightarrow> bool \<Rightarrow> studio_forms \<Rightarrow> studio_button \<Rightarrow> submission" where
  "press lt pending s CreateTemplateButton = createTemplate_press pending (templateForm s)"
| "press lt pending s CreateVersionButton = create_version lt pending (ss_templateId s) (versionForm s)"
| "press lt pending s (SetActiveButton versionId) =
     Some (Inr (updatePromptTemplate (ss_templateId s)
       \<lparr>updatePromptTemplate_payload_name = None, updatePromptTemplate_payload_description = None,
        updatePromptTemplate_payload_is_active = None, updatePromptTemplate_payload_active_version_id = Some (Some versionId)\<rparr>))"
| "press lt pending s (PublishButton versionId is_published) =
     Some (Inr (updatePromptVersion (ss_templateId s) versionId
       \<lparr>updatePromptVersion_payload_is_published = Some (\<not> is_published), updatePromptVersion_payload_rollout_percentage = None\<rparr>))"
| "press lt pending s CreateDocumentButton = createTextDocument_press pending (textDocumentForm s)"
| "press lt pending s (FilePicked file) = uploadDocument_press pending file (uploadDescription s)"
| "press lt pending s RunPromptButton = run_prompt lt pending (selectedDocumentIds s) (runForm s)"
| "press lt pending s (RequestReviewButton runId) =
     Some (Inr (createAiReview runId \<lparr>createAiReview_payload_assigned_to_user_id = None\<rparr>))"
| "press lt pending s (DecideButton reviewId decision) =
     Some (Inr (decide_review reviewId decision (reviewNotesById s) (correctionsById s)))"
| "press lt pending s (FeedbackButton runId rating) =
     Some (Inr (give_feedback runId rating (feedbackCommentByRunId s) (correctionsById s)))"
| "press lt pending s CreateDatasetButton = createDataset_press pending (datasetForm s)"
| "press lt pending s AddCaseButton =
     add_case lt pending (ss_datasetId s) (selectedEvaluationDocumentIds s) (datasetCaseForm s)"
| "press lt pending s RunEvaluationButton =
     map_option Inr (run_evaluation pending (ss_datasetId s) (rf_prompt_version_id (runForm s)))"

section \<open>Settlement of a mutation\<close>

text \<open>
  The function onSuccess of a mutation.  It resets forms, invalidates queries and shows a toast;
  the hooks pass their options at every render, so the forms it sees are those of the last render,
  also when they have changed since the button was pressed.
\<close>

record effects =
  ef_forms :: studio_forms
  ef_invalidated :: "query_key list"
  ef_toast :: "string \<times> string"

definition success :: "studio_forms \<Rightarrow> query_key list \<Rightarrow> string \<Rightarrow> effects" where
  "success s keys text_shown = \<lparr>ef_forms = s, ef_invalidated = keys, ef_toast = (text_shown, ''success'')\<rparr>"

fun on_success :: "studio_mutation \<Rightarrow> string \<Rightarrow> studio_forms \<Rightarrow> effects" where
  "on_success CreateTemplate new_id s =
     success (s\<lparr>templateForm := blank_template\<rparr>) [queryKeys_ai_overview] ''Prompt template created.''"
| "on_success CreateVersion new_id s =
     success s [queryKeys_ai_overview, queryKeys_ai_promptVersions (ss_templateId s)] ''Prompt version created.''"
| "on_success ActivateVersion new_id s = success s [queryKeys_ai_overview] ''Active prompt version updated.''"
| "on_success PublishVersion new_id s =
     success s [queryKeys_ai_promptVersions (ss_templateId s)] ''Prompt version updated.''"
| "on_success CreateTextDocument new_id s =
     success (s\<lparr>textDocumentForm := blank_document\<rparr>) [queryKeys_ai_overview] ''Document queued for indexing.''"
| "on_success UploadDocument new_id s =
     success (s\<lparr>uploadDescription := []\<rparr>) [queryKeys_ai_overview] ''Document uploaded and queued for indexing.''"
| "on_success CreateRun new_id s = success s [queryKeys_ai_overview, queryKeys_ai_reviews] ''AI run completed.''"
| "on_success CreateReview new_id s = success s [queryKeys_ai_reviews] ''Review requested.''"
| "on_success DecideReview new_id s = success s [queryKeys_ai_reviews] ''Review decision saved.''"
| "on_success CreateFeedback new_id s = success s [] ''Feedback saved.''"
| "on_success CreateDataset new_id s =
     success (s\<lparr>datasetForm := blank_dataset, ss_datasetId := new_id\<rparr>) [queryKeys_ai_overview] ''Evaluation dataset created.''"
| "on_success CreateDatasetCase new_id s =
     success (s\<lparr>selectedEvaluationDocumentIds := []\<rparr>) [queryKeys_ai_datasetCases (ss_datasetId s)] ''Evaluation case added.''"
| "on_success RunEvaluation new_id s =
     success s [queryKeys_ai_evaluationRuns] ''Evaluation started. Results will update when complete.''"

fun failure_text :: "studio_mutation \<Rightarrow> string" where
  "failure_text CreateTemplate = ''Failed to create prompt template.''"
| "failure_text CreateVersion = ''Failed to create prompt version.''"
| "failure_text ActivateVersion = ''Failed to update active prompt version.''"
| "failure_text PublishVersion = ''Failed to update prompt version.''"
| "failure_text CreateTextDocument = ''Failed to ingest document.''"
| "failure_text UploadDocument = ''Failed to upload document.''"
| "failure_text CreateRun = ''Failed to run prompt.''"
| "failure_text CreateReview = ''Failed to create review.''"
| "failure_text DecideReview = ''Failed to save review decision.''"
| "failure_text CreateFeedback = ''Failed to save feedback.''"
| "failure_text CreateDataset = ''Failed to create evaluation dataset.''"
| "failure_text CreateDatasetCase = ''Failed to add evaluation case.''"
| "failure_text RunEvaluation = ''Failed to run evaluation.''"

text \<open>A failure leaves the forms alone; message is what getQueryErrorMessage makes of the error.\<close>

definition on_error :: "studio_mutation \<Rightarrow> (string \<Rightarrow> string) \<Rightarrow> studio_forms \<Rightarrow> effects" where
  "on_error m getQueryErrorMessage s =
     \<lparr>ef_forms = s, ef_invalidated = [], ef_toast = (getQueryErrorMessage (failure_text m), ''error'')\<rparr>"

section \<open>Sessions\<close>

text \<open>
  A mutation under way remembers the call it sent.  Requests are numbered from zero in the order
  they were sent; answers come in any order.
\<close>

record studio =
  sd_forms :: studio_forms
  sd_under_way :: "(studio_mutation \<times> api_call) list"
  sd_invalidated :: "query_key list"
  sd_toasts :: "(string \<times> string) list"

datatype studio_event =
    Edited "studio_forms"
  | Pressed studio_button
  | Succeeded nat string
  | Failed nat "string \<Rightarrow> string"

definition open_studio :: studio where
  "open_studio = \<lparr>sd_forms = useAiStudioForms, sd_under_way = [], sd_invalidated = [], sd_toasts = []\<rparr>"

definition is_pending :: "studio \<Rightarrow> studio_mutation \<Rightarrow> bool" where
  "is_pending s m \<longleftrightarrow> m \<in> fst ` set (sd_under_way s)"

definition remove_at :: "nat \<Rightarrow> 'a list \<Rightarrow> 'a list" where
  "remove_at i xs = take i xs @ drop (Suc i) xs"

definition settle_studio :: "nat \<Rightarrow> effects \<Rightarrow> studio \<Rightarrow> studio" where
  "settle_studio i e s =
     s\<lparr>sd_forms := ef_forms e, sd_under_way := remove_at i (sd_under_way s),
       sd_invalidated := sd_invalidated s @ ef_invalidated e, sd_toasts := sd_toasts s @ [ef_toast e]\<rparr>"

fun studio_step :: "library_texts \<Rightarrow> studio \<Rightarrow> studio_event \<Rightarrow> studio" where
  "studio_step lt s (Edited forms) = s\<lparr>sd_forms := forms\<rparr>"
| "studio_step lt s (Pressed b) =
     (case press lt (is_pending s (mutation_of b)) (sd_forms s) b of
        None \<Rightarrow> s
      | Some (Inl text_shown) \<Rightarrow>
          s\<lparr>sd_toasts := sd_toasts s @ [(text_shown, if mutation_of b = UploadDocument then ''warning'' else ''error'')]\<rparr>
      | Some (Inr c) \<Rightarrow> s\<lparr>sd_under_way := sd_under_way s @ [(mutation_of b, c)]\<rparr>)"
| "studio_step lt s (Succeeded i new_id) =
     settle_studio i (on_success (fst (sd_under_way s ! i)) new_id (sd_forms s)) s"
| "studio_step lt s (Failed i message_of) =
     settle_studio i (on_error (fst (sd_under_way s ! i)) message_of (sd_forms s)) s"

fun studio_enabled :: "studio \<Rightarrow> studio_event \<Rightarrow> bool" where
  "studio_enabled s (Succeeded i new_id) = (i < length (sd_under_way s))"
| "studio_enabled s (Failed i message_of) = (i < length (sd_under_way s))"
| "studio_enabled s e = True"

section \<open>Properties\<close>

text \<open>The buttons that are not disabled while their mutation is pending.\<close>

definition unguarded :: "studio_mutation \<Rightarrow> bool" where
  "unguarded m \<longleftrightarrow> m \<in> {ActivateVersion, PublishVersion, CreateReview, DecideReview, CreateFeedback}"

definition under_way_of :: "studio_mutation \<Rightarrow> (studio_mutation \<times> api_call) list \<Rightarrow> nat" where
  "under_way_of m xs = length (filter (\<lambda>x. fst x = m) xs)"

definition valid_request :: "studio_mutation \<Rightarrow> api_call \<Rightarrow> bool" where
  "valid_request m c \<longleftrightarrow>
     (m = UploadDocument \<longrightarrow> (\<exists>file description. c = uploadAiDocument file description
        \<and> file_size file \<le> 10485760
        \<and> lower_case (last (split_char CHR ''.'' (file_name file))) \<in> {''txt'', ''md'', ''json'', ''ndjson''}))
   \<and> (m = RunEvaluation \<longrightarrow> (\<exists>datasetId versionId. c = runAiEvaluation datasetId versionId \<and> datasetId \<noteq> [] \<and> versionId \<noteq> []))"

definition studio_ok :: "studio \<Rightarrow> bool" where
  "studio_ok s \<longleftrightarrow>
     (\<forall>m. \<not> unguarded m \<longrightarrow> under_way_of m (sd_under_way s) \<le> 1)
   \<and> (\<forall>(m, c) \<in> set (sd_under_way s). valid_request m c)"

lemma set_remove_at: "set (remove_at i xs) \<subseteq> set xs"
  by (auto simp: remove_at_def dest: in_set_takeD in_set_dropD)

lemma under_way_remove: "under_way_of m (remove_at i xs) \<le> under_way_of m xs"
proof (induction xs arbitrary: i)
  case (Cons x xs)
  then show ?case
    by (cases i) (fastforce simp: remove_at_def under_way_of_def)+
qed (simp add: remove_at_def)

lemma not_pending: "\<not> is_pending s m \<Longrightarrow> under_way_of m (sd_under_way s) = 0"
  by (force simp: is_pending_def under_way_of_def filter_empty_conv)

lemma guarded_press:
  assumes "press lt pending f b = Some (Inr c)" and "\<not> unguarded (mutation_of b)"
  shows "\<not> pending"
  using assms
  by (cases b) (auto simp: unguarded_def createTemplate_press_def create_version_def createTextDocument_press_def
      uploadDocument_press_def run_prompt_def createDataset_press_def add_case_def run_evaluation_def)

lemma uploaded_file_valid:
  assumes "uploadDocument_press pending file description = Some (Inr c)"
  shows "valid_request UploadDocument c"
  using assms
  by (auto simp: valid_request_def uploadDocument_press_def validateDocumentUpload_def MAX_DOCUMENT_UPLOAD_BYTES_def
      ALLOWED_DOCUMENT_EXTENSIONS_def Let_def split: if_splits option.splits)

lemma pressed_valid:
  assumes "press lt pending f b = Some (Inr c)"
  shows "valid_request (mutation_of b) c"
proof (cases b)
  case (FilePicked f6)
  then show ?thesis
    using assms uploaded_file_valid by simp
next
  case RunEvaluationButton
  then show ?thesis
    using assms by (auto simp: run_evaluation_def valid_request_def split: if_splits)
qed (simp_all add: valid_request_def)

lemma studio_ok_settle: "studio_ok s \<Longrightarrow> studio_ok (settle_studio i e s)"
  unfolding studio_ok_def settle_studio_def
  using set_remove_at [of i "sd_under_way s"] under_way_remove [of _ i "sd_under_way s"]
  by (fastforce intro: order_trans)

lemma studio_ok_press: "studio_ok s \<Longrightarrow> studio_ok (studio_step lt s (Pressed b))"
proof (cases "press lt (is_pending s (mutation_of b)) (sd_forms s) b")
  case (Some r)
  assume ok: "studio_ok s"
  show ?thesis
  proof (cases r)
    case (Inr c)
    have "under_way_of m (sd_under_way s @ [(mutation_of b, c)]) \<le> 1" if "\<not> unguarded m" for m
      using that ok guarded_press [OF Some [unfolded Inr]] not_pending [of s m]
      by (cases "m = mutation_of b") (auto simp: studio_ok_def under_way_of_def)
    moreover have "valid_request (mutation_of b) c"
      using Some Inr by (simp add: pressed_valid)
    ultimately show ?thesis
      using ok Some Inr by (auto simp: studio_ok_def)
  qed (use Some ok in \<open>simp add: studio_ok_def\<close>)
qed simp

interpretation studio: step_system studio_enabled "studio_step lt" open_studio studio_ok for lt
proof
  show "studio_ok open_studio"
    by (simp add: studio_ok_def open_studio_def under_way_of_def)
next
  fix s e
  assume "studio_ok s"
  then show "studio_ok (studio_step lt s e)"
  proof (cases e)
    case (Pressed b)
    with \<open>studio_ok s\<close> show ?thesis by (simp only: studio_ok_press)
  qed (simp_all add: studio_ok_settle, simp add: studio_ok_def)
qed

text \<open>
  C39: The buttons of the studio. Whatever the order of edits, clicks and answers: every
  mutation whose button is disabled while it runs is under way at most once; a file that is being
  uploaded has at most ten megabytes and one of the four extensions; and an evaluation that
  is being started names a dataset and a version.
\<close>
theorem studio_requests_guarded:
  assumes "reachable studio_enabled (studio_step lt) open_studio s"
  shows "(unguarded m \<or> length (filter (\<lambda>x. fst x = m) (sd_under_way s)) \<le> 1)
    \<and> list_all (\<lambda>(m, c). valid_request m c) (sd_under_way s)"
  using studio.invar_reachable [OF assms]
  by (auto simp: studio_ok_def under_way_of_def list_all_iff)

definition sample_texts :: library_texts where
  "sample_texts = \<lparr>lt_not_json = (\<lambda>t. ''not JSON''), lt_too_short = ''too short'', lt_too_long = ''too long''\<rparr>"

theorem studio_requests_guarded_witness:
  "map fst (sd_under_way (studio_step sample_texts (studio_step sample_texts open_studio
       (Pressed (FilePicked \<lparr>file_name = ''guide.MD'', file_type = [], file_size = 12\<rparr>)))
       (Pressed (FilePicked \<lparr>file_name = ''guide.MD'', file_type = [], file_size = 12\<rparr>)))) = [UploadDocument]
   \<and> list_all (\<lambda>(m, c). valid_request m c) (sd_under_way (studio_step sample_texts (studio_step sample_texts open_studio
       (Pressed (FilePicked \<lparr>file_name = ''guide.MD'', file_type = [], file_size = 12\<rparr>)))
       (Pressed (FilePicked \<lparr>file_name = ''guide.MD'', file_type = [], file_size = 12\<rparr>))))"
proof
  have "lower_case (last (split_char CHR ''.'' ''guide.MD'')) = ''md''"
    by code_simp
  then have ok: "validateDocumentUpload \<lparr>file_name = ''guide.MD'', file_type = [], file_size = 12\<rparr> = None"
    by (simp add: validateDocumentUpload_def MAX_DOCUMENT_UPLOAD_BYTES_def ALLOWED_DOCUMENT_EXTENSIONS_def)
  show "map fst (sd_under_way (studio_step sample_texts (studio_step sample_texts open_studio
       (Pressed (FilePicked \<lparr>file_name = ''guide.MD'', file_type = [], file_size = 12\<rparr>)))
       (Pressed (FilePicked \<lparr>file_name = ''guide.MD'', file_type = [], file_size = 12\<rparr>)))) = [UploadDocument]"
    by (simp add: uploadDocument_press_def ok is_pending_def open_studio_def)
next
  have "reachable studio_enabled (studio_step sample_texts) open_studio (studio_step sample_texts (studio_step sample_texts open_studio
       (Pressed (FilePicked \<lparr>file_name = ''guide.MD'', file_type = [], file_size = 12\<rparr>)))
       (Pressed (FilePicked \<lparr>file_name = ''guide.MD'', file_type = [], file_size = 12\<rparr>)))"
    by (intro reachable_step reachable_init studio_enabled.simps(4)) simp_all
  from studio_requests_guarded [OF this, where m = CreateRun]
  show "list_all (\<lambda>(m, c). valid_request m c) (sd_under_way (studio_step sample_texts (studio_step sample_texts open_studio
       (Pressed (FilePicked \<lparr>file_name = ''guide.MD'', file_type = [], file_size = 12\<rparr>)))
       (Pressed (FilePicked \<lparr>file_name = ''guide.MD'', file_type = [], file_size = 12\<rparr>))))"
    by simp
qed

text \<open>
  An evaluation case that is accepted after another dataset was selected. The queries that
  are fetched again are those of the dataset selected when the answer arrives: the cases
  of the dataset the case was added to are fetched again exactly when it is still selected; the
  documents picked meanwhile for the next case are cleared either way, and the rest of the form is kept.
\<close>
theorem case_refreshes_selected_dataset:
  assumes "sd_under_way s = before @ (CreateDatasetCase, createAiDatasetCase datasetId payload) # later"
  shows "(queryKeys_ai_datasetCases datasetId
        \<in> set (drop (length (sd_invalidated s)) (sd_invalidated (studio_step lt s (Succeeded (length before) new_id)))))
      = (ss_datasetId (sd_forms s) = datasetId)
    \<and> selectedEvaluationDocumentIds (sd_forms (studio_step lt s (Succeeded (length before) new_id))) = []
    \<and> datasetCaseForm (sd_forms (studio_step lt s (Succeeded (length before) new_id))) = datasetCaseForm (sd_forms s)
    \<and> sd_under_way (studio_step lt s (Succeeded (length before) new_id)) = before @ later"
  by (auto simp: assms settle_studio_def success_def remove_at_def queryKeys_ai_datasetCases_def)

theorem case_refreshes_selected_dataset_witness:
  "sd_invalidated (studio_step sample_texts
      (open_studio\<lparr>sd_forms := useAiStudioForms\<lparr>ss_datasetId := ''d2''\<rparr>,
        sd_under_way := [(CreateDatasetCase, createAiDatasetCase ''d1'' (case_payload [] [] None initial_case_form))]\<rparr>)
      (Succeeded 0 ''c1'')) = [queryKeys_ai_datasetCases ''d2'']
   \<and> queryKeys_ai_datasetCases ''d1'' \<notin> {queryKeys_ai_datasetCases ''d2''}"
  using case_refreshes_selected_dataset [of
      "open_studio\<lparr>sd_forms := useAiStudioForms\<lparr>ss_datasetId := ''d2''\<rparr>,
        sd_under_way := [(CreateDatasetCase, createAiDatasetCase ''d1'' (case_payload [] [] None initial_case_form))]\<rparr>"
      "[]" "''d1''" "case_payload [] [] None initial_case_form" "[]" sample_texts "''c1''"]
  by (simp add: settle_studio_def success_def open_studio_def)

end
