(* ===== verification/Ai_Provider.thy ===== *)
theory Ai_Provider
  imports Settings_Admin "HOL-Library.Sublist"
begin

text \<open>
  The panel of the AI studio that configures a provider: features/ai/components/AiProviderPanel.tsx.  It
  reads and writes entries of the server's configuration; what the server stores is that of
  Settings_Admin.
\<close>

section \<open>Providers\<close>

datatype ProviderKey = LocalProvider | OpenaiProvider | AnthropicProvider

fun provider_id :: "ProviderKey \<Rightarrow> string" where
  "provider_id LocalProvider = ''local''"
| "provider_id OpenaiProvider = ''openai''"
| "provider_id AnthropicProvider = ''anthropic''"

record provider_entry =
  pe_model :: string
  pe_baseUrl :: string
  pe_label :: string

fun providerConfig :: "ProviderKey \<Rightarrow> provider_entry" where
  "providerConfig LocalProvider = \<lparr>pe_model = ''AI_LOCAL_MODEL_NAME'', pe_baseUrl = [], pe_label = ''Local''\<rparr>"
| "providerConfig OpenaiProvider =
     \<lparr>pe_model = ''OPENAI_DEFAULT_MODEL'', pe_baseUrl = ''OPENAI_BASE_URL'', pe_label = ''OpenAI''\<rparr>"
| "providerConfig AnthropicProvider =
     \<lparr>pe_model = ''ANTHROPIC_DEFAULT_MODEL'', pe_baseUrl = ''ANTHROPIC_BASE_URL'', pe_label = ''Anthropic''\<rparr>"

definition configValue :: "ConfigSettingsResponse option \<Rightarrow> string \<Rightarrow> string" where
  "configValue data key =
     nullish (Option.bind data (\<lambda>d. map_option ConfigEntry_value
       (find (\<lambda>item. ConfigEntry_key item = key) (ConfigSettingsResponse_items d)))) []"

definition isProviderKey :: "string \<Rightarrow> ProviderKey option" where
  "isProviderKey value = find (\<lambda>k. provider_id k = value) [LocalProvider, OpenaiProvider, AnthropicProvider]"

section \<open>State of the panel\<close>

record provider_panel =
  pv_providerOverride :: "ProviderKey option"
  pv_modelNameOverride :: "string option"
  pv_baseUrlOverride :: "string option"
  pv_apiKey :: string

definition open_panel :: provider_panel where
  "open_panel = \<lparr>pv_providerOverride = None, pv_modelNameOverride = None, pv_baseUrlOverride = None, pv_apiKey = []\<rparr>"

definition providerKey :: "ConfigSettingsResponse option \<Rightarrow> provider_panel \<Rightarrow> ProviderKey" where
  "providerKey data p =
     nullish (pv_providerOverride p) (nullish (isProviderKey (configValue data ''AI_DEFAULT_PROVIDER'')) LocalProvider)"

definition base_url_of :: "ConfigSettingsResponse option \<Rightarrow> ProviderKey \<Rightarrow> string" where
  "base_url_of data k =
     (if pe_baseUrl (providerConfig k) \<noteq> [] then configValue data (pe_baseUrl (providerConfig k)) else [])"

definition modelName :: "ConfigSettingsResponse option \<Rightarrow> provider_panel \<Rightarrow> string" where
  "modelName data p =
     nullish (pv_modelNameOverride p) (configValue data (pe_model (providerConfig (providerKey data p))))"

definition baseUrl :: "ConfigSettingsResponse option \<Rightarrow> provider_panel \<Rightarrow> string" where
  "baseUrl data p = nullish (pv_baseUrlOverride p) (base_url_of data (providerKey data p))"

text \<open>Choosing another provider; the API key that was typed stays.\<close>

definition selectProvider :: "ConfigSettingsResponse option \<Rightarrow> ProviderKey \<Rightarrow> provider_panel \<Rightarrow> provider_panel" where
  "selectProvider data nextProvider p =
     p\<lparr>pv_providerOverride := Some nextProvider,
       pv_modelNameOverride := Some (configValue data (pe_model (providerConfig nextProvider))),
       pv_baseUrlOverride := Some (base_url_of data nextProvider)\<rparr>"

definition type_model :: "string \<Rightarrow> provider_panel \<Rightarrow> provider_panel" where
  "type_model v p = p\<lparr>pv_modelNameOverride := Some v\<rparr>"

text \<open>The fields of the address and of the key are shown for hosted providers only.\<close>

definition type_base_url :: "ConfigSettingsResponse option \<Rightarrow> string \<Rightarrow> provider_panel \<Rightarrow> provider_panel" where
  "type_base_url data v p = (if providerKey data p = LocalProvider then p else p\<lparr>pv_baseUrlOverride := Some v\<rparr>)"

definition type_api_key :: "ConfigSettingsResponse option \<Rightarrow> string \<Rightarrow> provider_panel \<Rightarrow> provider_panel" where
  "type_api_key data v p = (if providerKey data p = LocalProvider then p else p\<lparr>pv_apiKey := v\<rparr>)"

definition configuredKey :: "ConfigSettingsResponse option \<Rightarrow> provider_panel \<Rightarrow> string" where
  "configuredKey data p =
     (case providerKey data p of
        OpenaiProvider \<Rightarrow> configValue data ''OPENAI_API_KEY''
      | AnthropicProvider \<Rightarrow> configValue data ''ANTHROPIC_API_KEY''
      | LocalProvider \<Rightarrow> [])"

section \<open>Saving\<close>

definition update_item :: "string \<Rightarrow> string \<Rightarrow> ConfigSettingsUpdateRequest_items_item" where
  "update_item k v =
     \<lparr>ConfigSettingsUpdateRequest_items_item_key = k, ConfigSettingsUpdateRequest_items_item_value = v\<rparr>"

definition api_key_entry :: "ProviderKey \<Rightarrow> string" where
  "api_key_entry k = (if k = OpenaiProvider then ''OPENAI'' else ''ANTHROPIC'') @ ''_API_KEY''"

definition provider_items :: "ConfigSettingsResponse option \<Rightarrow> provider_panel \<Rightarrow> (string \<times> string) list" where
  "provider_items data p =
     (let k = providerKey data p; selected = providerConfig k
      in [(''AI_DEFAULT_PROVIDER'', provider_id k), (pe_model selected, trim (modelName data p))]
         @ (if pe_baseUrl selected \<noteq> [] then [(pe_baseUrl selected, trim (baseUrl data p))] else [])
         @ (if trim (pv_apiKey p) \<noteq> [] \<and> k \<noteq> LocalProvider then [(api_key_entry k, trim (pv_apiKey p))] else []))"

definition provider_request :: "ConfigSettingsResponse option \<Rightarrow> provider_panel \<Rightarrow> ConfigSettingsUpdateRequest" where
  "provider_request data p =
     \<lparr>ConfigSettingsUpdateRequest_items = map (\<lambda>(k, v). update_item k v) (provider_items data p)\<rparr>"

text \<open>The button: the form is shown to administrators once the settings have loaded without an error.\<close>

definition save_provider :: "bool \<Rightarrow> bool \<Rightarrow> bool \<Rightarrow> ConfigSettingsResponse option \<Rightarrow> provider_panel \<Rightarrow> api_call option" where
  "save_provider isAdmin isError pending data p =
     (if \<not> isAdmin \<or> isError \<or> pending \<or> trim (modelName data p) = [] then None
      else Some (updateConfigSettings (provider_request data p)))"

text \<open>When the save is accepted the answer becomes the data of the query and the key is cleared.\<close>

definition provider_saved :: "ConfigSettingsResponse \<Rightarrow> provider_panel \<Rightarrow> ConfigSettingsResponse option \<times> provider_panel" where
  "provider_saved answer p = (Some answer, p\<lparr>pv_apiKey := []\<rparr>)"

definition saved_toast :: "ConfigSettingsResponse option \<Rightarrow> provider_panel \<Rightarrow> string" where
  "saved_toast data p = pe_label (providerConfig (providerKey data p)) @ '' provider saved.''"

section \<open>The server's side\<close>

text \<open>backend/modules/settings/config_catalog.py and config_settings_service.py.\<close>

definition SENSITIVE_KEY_MARKERS :: "string list" where
  "SENSITIVE_KEY_MARKERS =
     [''SECRET'', ''PASSWORD'', ''TOKEN'', ''KEY'', ''DSN'', ''DATABASE_URL'', ''REDIS_URL'']"

definition is_secret_key :: "string \<Rightarrow> bool" where
  "is_secret_key key = list_ex (\<lambda>marker. sublist marker (map upper_char key)) SENSITIVE_KEY_MARKERS"

text \<open>The entries after an update: an existing one is replaced where it is, a new one goes to the end.\<close>

definition env_after :: "(string \<times> string) list \<Rightarrow> (string \<times> string) list \<Rightarrow> (string \<times> string) list" where
  "env_after updates env = fold (\<lambda>(k, v). put_entry k v) updates env"

section \<open>Properties\<close>

lemma find_entry: "distinct (map fst env) \<Longrightarrow>
    map_option ConfigEntry_value (find (\<lambda>item. ConfigEntry_key item = key) (map (config_entry is_secret info) env))
      = map_option (\<lambda>v. if is_secret key \<and> v \<noteq> [] then REDACTED_SECRET else v) (map_of env key)"
  by (induction env) (auto simp: entry_value)

lemma configValue_response:
  "distinct (map fst env) \<Longrightarrow> configValue (Some (config_response is_secret info notice env)) key =
     nullish (map_option (\<lambda>v. if is_secret key \<and> v \<noteq> [] then REDACTED_SECRET else v) (map_of env key)) []"
  by (simp add: configValue_def config_response_def find_entry)

lemma map_of_env_after: "distinct (map fst updates) \<Longrightarrow> map_of (env_after updates env) = map_of env ++ map_of updates"
proof (induction updates arbitrary: env)
  case (Cons u updates)
  then show ?case
    by (cases u) (auto simp: env_after_def map_add_def fun_eq_iff map_of_eq_None_iff [symmetric] split: option.splits)
qed (simp add: env_after_def)

lemma masked_value: "nullish (map_option (\<lambda>v. if v \<noteq> [] then masked else v) stored) [] = (if nullish stored [] = [] then [] else masked)"
  by (cases stored) simp_all

lemma provider_ids: "isProviderKey (provider_id k) = Some k"
  by (cases k) (simp_all add: isProviderKey_def)

lemma keys_secret:
  "is_secret_key ''OPENAI_API_KEY''" "is_secret_key ''ANTHROPIC_API_KEY''" "\<not> is_secret_key ''AI_DEFAULT_PROVIDER''"
  "\<not> is_secret_key ''AI_LOCAL_MODEL_NAME''" "\<not> is_secret_key ''OPENAI_DEFAULT_MODEL''" "\<not> is_secret_key ''ANTHROPIC_DEFAULT_MODEL''"
  "\<not> is_secret_key ''OPENAI_BASE_URL''" "\<not> is_secret_key ''ANTHROPIC_BASE_URL''"
  by code_simp+

lemma provider_items_keys: "distinct (map fst (provider_items data p))"
  by (cases "providerKey data p") (simp_all add: provider_items_def Let_def api_key_entry_def)

lemma provider_items_managed:
  "\<forall>kv \<in> set (provider_items data p). fst kv \<notin> set DEPLOYMENT_MANAGED_CONFIG_KEYS \<and> fst kv \<notin> set DEPRECATED_CONFIG_KEYS"
  by (cases "providerKey data p")
    (auto simp: provider_items_def Let_def api_key_entry_def DEPLOYMENT_MANAGED_CONFIG_KEYS_def DEPRECATED_CONFIG_KEYS_def)

lemma received_items:
  assumes "list_all (\<lambda>(k, v). strip k = k \<and> strip v = v) (provider_items data p)"
  shows "map (received_update strip) (ConfigSettingsUpdateRequest_items (provider_request data p)) = provider_items data p"
  using assms by (induction "provider_items data p") (auto simp: provider_request_def received_update_def update_item_def list_all_iff intro!: map_idI)

lemma stored_items:
  assumes "trim (pv_apiKey p) \<noteq> REDACTED_SECRET"
  shows "map (stored_update is_secret_key env) (provider_items data p) = provider_items data p"
  using assms keys_secret
  by (cases "providerKey data p")
    (auto simp: provider_items_def Let_def api_key_entry_def stored_update_def)

text \<open>
  C37: Saving a provider. Whether in production or not, the server refuses the request only when its
  settings model does: none of its keys is managed by the deployment, repeated or masked. With the settings
  as they are listed afterwards, the panel opened anew shows the provider, model and
  address that were saved, the key masked once one is stored, and every other entry keeps its
  value. (Here the values are ones the server does not rewrite.)
\<close>
theorem saved_provider_shown:
  assumes plain: "list_all (\<lambda>(k, v). strip k = k \<and> strip v = v \<and> normal k v = v) (provider_items data p)"
    and typed: "trim (pv_apiKey p) \<noteq> REDACTED_SECRET"
    and listing: "distinct (map fst listing)" "map_of listing = map_of (env_after (provider_items data p) env)"
    and answer: "answer = config_response is_secret_key info notice listing"
  shows "server_update_config strip is_secret_key accepts normal production env (provider_request data p)
      = (if accepts (provider_items data p) then Some (provider_items data p) else None)
    \<and> providerKey (Some answer) open_panel = providerKey data p
    \<and> modelName (Some answer) open_panel = trim (modelName data p)
    \<and> baseUrl (Some answer) open_panel = (if providerKey data p = LocalProvider then [] else trim (baseUrl data p))
    \<and> configuredKey (Some answer) open_panel =
        (if providerKey data p \<noteq> LocalProvider
            \<and> (trim (pv_apiKey p) \<noteq> [] \<or> nullish (map_of env (api_key_entry (providerKey data p))) [] \<noteq> [])
         then REDACTED_SECRET else [])
    \<and> (k \<in> fst ` set (provider_items data p) \<or> map_of listing k = map_of env k)"
proof -
  have stripped: "list_all (\<lambda>(k, v). strip k = k \<and> strip v = v) (provider_items data p)"
    using plain by (auto simp: list_all_iff)
  have normal: "map (\<lambda>kv. (fst kv, normal (fst kv) (snd kv))) (provider_items data p) = provider_items data p"
    using plain by (intro map_idI) (auto simp: list_all_iff)
  have server: "server_update_config strip is_secret_key accepts normal production env (provider_request data p)
      = (if accepts (provider_items data p) then Some (provider_items data p) else None)"
    using provider_items_managed [of data p] provider_items_keys [of data p]
    by (auto simp: server_update_config_def Let_def received_items [OF stripped] stored_items [OF typed] normal list_ex_iff)
  have value_of: "map_of listing = map_of env ++ map_of (provider_items data p)"
    unfolding listing(2) by (rule map_of_env_after [OF provider_items_keys])
  note read = configValue_response [OF listing(1), of is_secret_key info notice, folded answer, unfolded value_of]
  have provider: "providerKey (Some answer) open_panel = providerKey data p"
    using provider_ids [of "providerKey data p"]
    by (simp add: providerKey_def [of "Some answer"] open_panel_def read keys_secret provider_items_def Let_def)
  show ?thesis
  proof (intro conjI, goal_cases)
    case 1 show ?case by (rule server)
  next
    case 2 show ?case by (rule provider)
  next
    case 3 show ?case
      unfolding modelName_def [of "Some answer"] provider
      by (cases "providerKey data p") (simp_all add: open_panel_def read keys_secret provider_items_def Let_def)
  next
    case 4 show ?case
      unfolding baseUrl_def [of "Some answer"] provider
      by (cases "providerKey data p")
        (simp_all add: open_panel_def base_url_of_def read keys_secret provider_items_def Let_def)
  next
    case 5 show ?case
      unfolding configuredKey_def provider
      by (cases "providerKey data p")
        (auto simp: read keys_secret provider_items_def api_key_entry_def Let_def masked_value)
  next
    case 6 show ?case
      unfolding value_of
      using map_of_eq_None_iff [of "provider_items data p" k]
      by (cases "k \<in> fst ` set (provider_items data p)") (simp_all add: map_add_def)
  qed
qed

text \<open>
  A key that was typed follows the panel to another provider. When a key is typed for OpenAI and
  Anthropic is chosen before saving, the key is stored and masked as that of Anthropic, and
  none is stored for OpenAI.
\<close>
theorem typed_key_follows_selection:
  assumes "providerKey data p = OpenaiProvider" and "trim v \<noteq> []"
    and "q = selectProvider data AnthropicProvider (type_api_key data v p)"
  shows "map_of (provider_items data q) ''ANTHROPIC_API_KEY'' = Some (trim v)
    \<and> map_of (provider_items data q) ''OPENAI_API_KEY'' = None
    \<and> map_of (provider_items data q) ''AI_DEFAULT_PROVIDER'' = Some ''anthropic''"
  using assms(1,2)
  by (simp add: assms(3) selectProvider_def type_api_key_def provider_items_def providerKey_def [of data "_\<lparr>pv_providerOverride := _\<rparr>"]
      api_key_entry_def Let_def) (simp add: providerKey_def api_key_entry_def)

definition sample_settings :: "(string \<times> string) list" where
  "sample_settings = [(''AI_DEFAULT_PROVIDER'', ''local''), (''OPENAI_DEFAULT_MODEL'', ''gpt''), (''OPENAI_BASE_URL'', ''https://o'')]"

definition sample_settings_data :: "ConfigSettingsResponse option" where
  "sample_settings_data = Some (config_response is_secret_key sample_info [] sample_settings)"

definition openai_panel :: provider_panel where
  "openai_panel = type_api_key sample_settings_data ''sk-1'' (selectProvider sample_settings_data OpenaiProvider open_panel)"

lemma sample_values:
  "configValue sample_settings_data ''OPENAI_DEFAULT_MODEL'' = ''gpt''"
  "configValue sample_settings_data ''OPENAI_BASE_URL'' = ''https://o''"
  "configValue sample_settings_data ''ANTHROPIC_DEFAULT_MODEL'' = []"
  by (simp_all add: sample_settings_data_def sample_settings_def configValue_response keys_secret)

lemma sample_items:
  "provider_items sample_settings_data openai_panel =
     [(''AI_DEFAULT_PROVIDER'', ''openai''), (''OPENAI_DEFAULT_MODEL'', ''gpt''), (''OPENAI_BASE_URL'', ''https://o''),
      (''OPENAI_API_KEY'', ''sk-1'')]"
proof -
  have "trim ''gpt'' = ''gpt''" "trim ''https://o'' = ''https://o''" "trim ''sk-1'' = ''sk-1''"
    by code_simp+
  then show ?thesis
    by (simp add: openai_panel_def type_api_key_def selectProvider_def provider_items_def providerKey_def modelName_def
        baseUrl_def base_url_of_def sample_values api_key_entry_def open_panel_def Let_def)
qed

theorem saved_provider_shown_witness:
  "configuredKey (Some (config_response is_secret_key sample_info []
       (env_after (provider_items sample_settings_data openai_panel) sample_settings))) open_panel = REDACTED_SECRET"
proof -
  let ?listing = "env_after (provider_items sample_settings_data openai_panel) sample_settings"
  have listed: "distinct (map fst ?listing)"
    by (simp add: sample_items env_after_def sample_settings_def)
  have plain: "list_all (\<lambda>(k, v). (\<lambda>t. t) k = k \<and> (\<lambda>t. t) v = v \<and> (\<lambda>k v. v) k v = v) (provider_items sample_settings_data openai_panel)"
    by (simp add: case_prod_beta list_all_iff)
  have key: "trim (pv_apiKey openai_panel) = ''sk-1''"
    unfolding openai_panel_def type_api_key_def selectProvider_def providerKey_def by (simp, code_simp)
  have typed: "trim (pv_apiKey openai_panel) \<noteq> REDACTED_SECRET"
    by (simp add: key REDACTED_SECRET_def)
  have provider: "providerKey sample_settings_data openai_panel = OpenaiProvider"
    by (simp add: openai_panel_def type_api_key_def selectProvider_def providerKey_def)
  show ?thesis
    using saved_provider_shown [OF plain typed listed refl refl, where info = sample_info and notice = "[]"] key provider
    by simp
qed

theorem typed_key_follows_selection_witness:
  "map_of (provider_items sample_settings_data
      (selectProvider sample_settings_data AnthropicProvider
        (type_api_key sample_settings_data ''sk-1'' (selectProvider sample_settings_data OpenaiProvider open_panel)))) ''ANTHROPIC_API_KEY''
   = Some ''sk-1''"
proof -
  have key: "trim ''sk-1'' = ''sk-1''" by code_simp
  have chosen: "providerKey sample_settings_data (selectProvider sample_settings_data OpenaiProvider open_panel) = OpenaiProvider"
    by (simp add: selectProvider_def providerKey_def)
  show ?thesis
    using typed_key_follows_selection [OF chosen _ refl, of "''sk-1''"] key by simp
qed

end
