(* ===== verification/Observability.thy ===== *)
theory Observability
  imports Js_Uri Api_Endpoints
begin

text \<open>
  The observability page: frontend/src/features/observability.  Health cards are built from the
  status the server reports, and the shortcuts are links into Grafana, Tempo and Prometheus that carry the
  filters of the page in their query.  The parser of the URL constructor is the platform's: it
  is the parameter parse_url; None is a text for which the constructor throws.
\<close>

section \<open>Types: types.ts\<close>

datatype health_status = Healthy | Degraded | Down | UnknownHealth | NotConfigured

record tool_link =
  tl_url :: "string option"
  tl_configured :: bool
  tl_allowed :: bool

record dashboard_links =
  dl_application_overview :: tool_link
  dl_api :: tool_link
  dl_frontend :: tool_link
  dl_database :: tool_link
  dl_cache :: tool_link
  dl_workers :: tool_link
  dl_scheduled_tasks :: tool_link
  dl_errors :: tool_link

record observability_links =
  ol_grafana_base_url :: tool_link
  ol_prometheus_url :: tool_link
  ol_tempo_explore_url :: tool_link
  ol_dashboards :: dashboard_links

record status_item =
  si_status :: health_status
  si_detail :: string
  si_url :: "string option"
  si_value :: "string option"
  si_queue_depth :: "number option"
  si_last_checked_at :: "string option"

record observability_status =
  os_api :: status_item
  os_frontend :: status_item
  os_database :: status_item
  os_cache :: status_item
  os_workers :: status_item
  os_background_jobs :: status_item
  os_error_rate :: status_item
  os_request_latency :: status_item
  os_prometheus :: status_item
  os_grafana :: status_item
  os_tempo :: status_item

record grafana_context =
  gc_service :: "string option"
  gc_environment :: "string option"
  gc_route :: "string option"
  gc_jobName :: "string option"
  gc_traceId :: "string option"
  gc_requestId :: "string option"
  gc_from :: "string option"
  gc_to :: "string option"
  gc_orgId :: "string option"

section \<open>Requests: api.ts\<close>

definition getObservabilityLinks :: api_call where
  "getObservabilityLinks = Fetch ''/observability/links'' no_init"

definition getObservabilityStatus :: api_call where
  "getObservabilityStatus = Fetch ''/observability/status'' no_init"

section \<open>Health: observabilityModel.ts\<close>

datatype HealthKey =
    ApiHealth | FrontendHealth | DatabaseHealth | CacheHealth | WorkersHealth | BackgroundJobsHealth
  | ErrorRateHealth | RequestLatencyHealth | PrometheusHealth | GrafanaHealth | TempoHealth

definition SERVICES :: "string list" where
  "SERVICES = [''backend'', ''frontend'', ''worker'']"

definition ENVIRONMENTS :: "string list" where
  "ENVIRONMENTS = [''local'', ''development'', ''staging'', ''production'']"

text \<open>Label, from and to.\<close>

definition TIME_RANGES :: "(string \<times> string \<times> string) list" where
  "TIME_RANGES =
     [(''Last 15 minutes'', ''now-15m'', ''now''), (''Last hour'', ''now-1h'', ''now''),
      (''Last 6 hours'', ''now-6h'', ''now''), (''Last 24 hours'', ''now-24h'', ''now'')]"

fun status_of :: "HealthKey \<Rightarrow> observability_status \<Rightarrow> status_item" where
  "status_of ApiHealth s = os_api s"
| "status_of FrontendHealth s = os_frontend s"
| "status_of DatabaseHealth s = os_database s"
| "status_of CacheHealth s = os_cache s"
| "status_of WorkersHealth s = os_workers s"
| "status_of BackgroundJobsHealth s = os_background_jobs s"
| "status_of ErrorRateHealth s = os_error_rate s"
| "status_of RequestLatencyHealth s = os_request_latency s"
| "status_of PrometheusHealth s = os_prometheus s"
| "status_of GrafanaHealth s = os_grafana s"
| "status_of TempoHealth s = os_tempo s"

definition buildHealthItems :: "observability_status option \<Rightarrow> HealthKey \<Rightarrow> status_item option" where
  "buildHealthItems st key = map_option (status_of key) st"

definition metricFor :: "status_item option \<Rightarrow> string option" where
  "metricFor item =
     (case Option.bind item si_value of
        Some v \<Rightarrow> Some v
      | None \<Rightarrow> map_option (\<lambda>n. number_text n @ '' queued'') (Option.bind item si_queue_depth))"

definition fallbackItem :: "string \<Rightarrow> status_item" where
  "fallbackItem detail =
     \<lparr>si_status = UnknownHealth, si_detail = detail, si_url = None, si_value = None, si_queue_depth = None,
      si_last_checked_at = None\<rparr>"

record observability_filters =
  of_service :: string
  of_environment :: string
  of_route :: string
  of_jobName :: string
  of_traceId :: string
  of_requestId :: string
  of_timeRangeIndex :: nat

text \<open>The filters the page opens with: hooks/useObservabilityView.ts.\<close>

definition initial_filters :: observability_filters where
  "initial_filters =
     \<lparr>of_service = ''backend'', of_environment = ''local'', of_route = [], of_jobName = [], of_traceId = [],
      of_requestId = [], of_timeRangeIndex = 1\<rparr>"

definition buildObservabilityContext :: "observability_filters \<Rightarrow> grafana_context" where
  "buildObservabilityContext f =
     (let (label, from_time, to_time) =
        (if of_timeRangeIndex f < length TIME_RANGES then TIME_RANGES ! of_timeRangeIndex f else TIME_RANGES ! 1)
      in \<lparr>gc_service = Some (of_service f), gc_environment = Some (of_environment f), gc_route = Some (of_route f),
          gc_jobName = Some (of_jobName f), gc_traceId = Some (of_traceId f), gc_requestId = Some (of_requestId f),
          gc_from = Some from_time, gc_to = Some to_time, gc_orgId = Some ''1''\<rparr>)"

text \<open>The cards of components/ObservabilityHealthGrid.tsx.\<close>

definition HEALTH_CARDS :: "(HealthKey \<times> string) list" where
  "HEALTH_CARDS =
     [(ApiHealth, ''API Status''), (FrontendHealth, ''Frontend Status''), (DatabaseHealth, ''Database''),
      (CacheHealth, ''Cache / Redis''), (WorkersHealth, ''Worker Queue''), (BackgroundJobsHealth, ''Background Jobs''),
      (ErrorRateHealth, ''Error Rate''), (RequestLatencyHealth, ''Request Latency''), (PrometheusHealth, ''Prometheus''),
      (GrafanaHealth, ''Grafana''), (TempoHealth, ''Tempo'')]"

record health_card =
  hc_title :: string
  hc_status :: health_status
  hc_detail :: string
  hc_metric :: "string option"
  hc_lastCheckedAt :: "string option"

definition health_cards :: "observability_status option \<Rightarrow> health_card list" where
  "health_cards st =
     map (\<lambda>(key, title).
        let item = nullish (buildHealthItems st key) (fallbackItem ''Status check is not configured'')
        in \<lparr>hc_title = title, hc_status = si_status item, hc_detail = si_detail item,
            hc_metric = metricFor (Some item), hc_lastCheckedAt = si_last_checked_at item\<rparr>) HEALTH_CARDS"

section \<open>Links: urlBuilders.ts\<close>

record js_url =
  ju_base :: string
  ju_params :: url_params
  ju_hash :: string

text \<open>toString of a URL whose parameters have been set.\<close>

definition url_text :: "js_url \<Rightarrow> string" where
  "url_text u = ju_base u @ (if ju_params u = [] then [] else CHR ''?'' # params_text (ju_params u)) @ ju_hash u"

definition addParam :: "string \<Rightarrow> string option \<Rightarrow> url_params \<Rightarrow> url_params" where
  "addParam name v params =
     (case v of None \<Rightarrow> params | Some t \<Rightarrow> if trim t = [] then params else params_set name (trim t) params)"

definition grafana_params :: "grafana_context \<Rightarrow> url_params \<Rightarrow> url_params" where
  "grafana_params c =
     addParam ''var-job'' (gc_jobName c) \<circ> addParam ''var-route'' (gc_route c)
     \<circ> addParam ''var-environment'' (gc_environment c) \<circ> addParam ''var-service'' (gc_service c)
     \<circ> addParam ''to'' (Some (nullish (gc_to c) ''now'')) \<circ> addParam ''from'' (Some (nullish (gc_from c) ''now-1h''))
     \<circ> addParam ''orgId'' (Some (nullish (gc_orgId c) ''1''))"

text \<open>A result: Inl when the URL constructor throws, Inr None without a base.\<close>

definition buildGrafanaUrl :: "(string \<Rightarrow> js_url option) \<Rightarrow> string option \<Rightarrow> grafana_context \<Rightarrow> unit + string option" where
  "buildGrafanaUrl parse_url baseUrl c =
     (case baseUrl of
        None \<Rightarrow> Inr None
      | Some b \<Rightarrow>
          if b = [] then Inr None
          else (case parse_url b of
                  None \<Rightarrow> Inl ()
                | Some u \<Rightarrow> Inr (Some (url_text (u\<lparr>ju_params := grafana_params c (ju_params u)\<rparr>)))))"

definition buildTempoExploreUrl :: "(string \<Rightarrow> js_url option) \<Rightarrow> string option \<Rightarrow> grafana_context \<Rightarrow> unit + string option" where
  "buildTempoExploreUrl parse_url baseUrl c =
     (case buildGrafanaUrl parse_url baseUrl c of
        Inl e \<Rightarrow> Inl e
      | Inr None \<Rightarrow> Inr None
      | Inr (Some url) \<Rightarrow>
          if url = [] then Inr None
          else (case parse_url url of
                  None \<Rightarrow> Inl ()
                | Some u \<Rightarrow> Inr (Some (url_text (u\<lparr>ju_params :=
                    addParam ''requestId'' (gc_requestId c) (addParam ''traceId'' (gc_traceId c) (ju_params u))\<rparr>)))))"

section \<open>Shortcuts: components/ObservabilityShortcuts.tsx, ObservabilityShortcutCard.tsx\<close>

record shortcut =
  sh_title :: string
  sh_link :: "tool_link option"
  sh_url :: "string option"
  sh_adminOnly :: bool

text \<open>The dashboards in the order of their cards.\<close>

definition dashboard_cards :: "(string \<times> (dashboard_links \<Rightarrow> tool_link)) list" where
  "dashboard_cards =
     [(''Application Overview'', dl_application_overview), (''Backend API'', dl_api), (''Frontend Performance'', dl_frontend),
      (''Database'', dl_database), (''Cache / Redis'', dl_cache), (''Workers / Background Jobs'', dl_workers),
      (''Scheduled Tasks'', dl_scheduled_tasks), (''Error Investigation'', dl_errors)]"

text \<open>One card; None when building its address throws, which ends the rendering of the page.\<close>

definition shortcut_of :: "string \<Rightarrow> bool \<Rightarrow> tool_link option \<Rightarrow> unit + string option \<Rightarrow> shortcut option" where
  "shortcut_of title adminOnly link built =
     (case built of Inl e \<Rightarrow> None
      | Inr url \<Rightarrow> Some \<lparr>sh_title = title, sh_link = link, sh_url = url, sh_adminOnly = adminOnly\<rparr>)"

definition all_shortcuts :: "(string \<Rightarrow> js_url option) \<Rightarrow> observability_links option \<Rightarrow> grafana_context \<Rightarrow> shortcut option list" where
  "all_shortcuts parse_url links c =
     map (\<lambda>(title, dashboard).
        let link = map_option (dashboard \<circ> ol_dashboards) links
        in shortcut_of title False link (buildGrafanaUrl parse_url (Option.bind link tl_url) c)) dashboard_cards
     @ [(let link = map_option ol_tempo_explore_url links
         in shortcut_of ''Tempo Traces'' False link (buildTempoExploreUrl parse_url (Option.bind link tl_url) c)),
        (let link = map_option ol_prometheus_url links
         in shortcut_of ''Prometheus Debug'' True link (buildGrafanaUrl parse_url (Option.bind link tl_url) c))]"

definition shortcuts :: "(string \<Rightarrow> js_url option) \<Rightarrow> bool \<Rightarrow> observability_links option \<Rightarrow> grafana_context \<Rightarrow> shortcut list option" where
  "shortcuts parse_url isAdmin links c =
     (let all = all_shortcuts parse_url links c
      in if None \<in> set all then None
         else Some (filter (\<lambda>item. \<not> sh_adminOnly item \<or> isAdmin) (map the all)))"

definition disabledReason :: "shortcut \<Rightarrow> string option" where
  "disabledReason item =
     (if \<not> (case sh_link item of None \<Rightarrow> False | Some l \<Rightarrow> tl_allowed l) then Some ''Admin only''
      else if \<not> (case sh_link item of None \<Rightarrow> False | Some l \<Rightarrow> tl_configured l) \<or> \<not> truthy (sh_url item)
      then Some ''Not configured'' else None)"

text \<open>What a click opens in a new window.\<close>

definition opened_url :: "shortcut \<Rightarrow> string option" where
  "opened_url item = (if disabledReason item \<noteq> None \<or> \<not> truthy (sh_url item) then None else sh_url item)"

section \<open>Access: hooks/useObservabilityView.ts and the server\<close>

definition technicalAccess :: "bool \<Rightarrow> observability_links option \<Rightarrow> bool" where
  "technicalAccess isAdmin links \<longleftrightarrow> isAdmin \<and> nullish (map_option (tl_allowed \<circ> ol_grafana_base_url) links) False"

text \<open>
  backend/observability/service.py: a link is given to administrators only; urls are the addresses
  that build_public_url makes of the settings, None for one that is not configured.
\<close>

definition server_tool_link :: "string option \<Rightarrow> bool \<Rightarrow> tool_link" where
  "server_tool_link url allowed =
     \<lparr>tl_url = (if allowed then url else None), tl_configured = (url \<noteq> None), tl_allowed = allowed\<rparr>"

record public_urls =
  pu_grafana :: "string option"
  pu_prometheus :: "string option"
  pu_tempo :: "string option"
  pu_dashboards :: "string option list"

definition server_links :: "bool \<Rightarrow> public_urls \<Rightarrow> observability_links" where
  "server_links is_admin urls =
     (let dashboard = (\<lambda>i. server_tool_link (pu_dashboards urls ! i) is_admin)
      in \<lparr>ol_grafana_base_url = server_tool_link (pu_grafana urls) is_admin,
          ol_prometheus_url = server_tool_link (pu_prometheus urls) is_admin,
          ol_tempo_explore_url = server_tool_link (pu_tempo urls) is_admin,
          ol_dashboards =
            \<lparr>dl_application_overview = dashboard 0, dl_api = dashboard 1, dl_frontend = dashboard 2,
             dl_database = dashboard 3, dl_cache = dashboard 4, dl_workers = dashboard 5,
             dl_scheduled_tasks = dashboard 6, dl_errors = dashboard 7\<rparr>\<rparr>)"

section \<open>Properties\<close>

text \<open>What the platform documents of URL: the text of a URL is read back as that URL.\<close>

definition reads_back :: "(string \<Rightarrow> js_url option) \<Rightarrow> bool" where
  "reads_back parse_url \<longleftrightarrow>
     (\<forall>t u ps. parse_url t = Some u \<longrightarrow> ju_base u \<noteq> [] \<and> parse_url (url_text (u\<lparr>ju_params := ps\<rparr>)) = Some (u\<lparr>ju_params := ps\<rparr>))"

definition chosen :: "string option \<Rightarrow> string option \<Rightarrow> string option" where
  "chosen v old = (case v of None \<Rightarrow> old | Some t \<Rightarrow> if trim t = [] then old else Some (trim t))"

lemma get_addParam: "params_get k (addParam name v ps) = (if k = name then chosen v (params_get k ps) else params_get k ps)"
  by (auto simp: addParam_def chosen_def split: option.splits)

text \<open>The parameters a link carries, given those its base had.\<close>

definition carried :: "grafana_context \<Rightarrow> (string \<Rightarrow> string option) \<Rightarrow> string \<Rightarrow> string option" where
  "carried c old k =
     (if k = ''orgId'' then chosen (Some (nullish (gc_orgId c) ''1'')) (old k)
      else if k = ''from'' then chosen (Some (nullish (gc_from c) ''now-1h'')) (old k)
      else if k = ''to'' then chosen (Some (nullish (gc_to c) ''now'')) (old k)
      else if k = ''var-service'' then chosen (gc_service c) (old k)
      else if k = ''var-environment'' then chosen (gc_environment c) (old k)
      else if k = ''var-route'' then chosen (gc_route c) (old k)
      else if k = ''var-job'' then chosen (gc_jobName c) (old k)
      else if k = ''traceId'' then chosen (gc_traceId c) (old k)
      else if k = ''requestId'' then chosen (gc_requestId c) (old k)
      else old k)"

lemma get_grafana_params:
  "params_get k (grafana_params c ps) =
     (if k \<in> {''traceId'', ''requestId''} then params_get k ps else carried c (\<lambda>k. params_get k ps) k)"
  by (auto simp: grafana_params_def get_addParam carried_def)

lemma url_text_ne: "ju_base u \<noteq> [] \<Longrightarrow> url_text u \<noteq> []"
  by (simp add: url_text_def)

text \<open>
  The links into Grafana carry the filters. A link to the traces has the path and the fragment of its
  base, and its query, read back, has every filter that is not blank, trimmed, under
  its name, the time range and the organisation, and what else the base had.
\<close>
theorem trace_link_carries_filters:
  assumes "reads_back parse_url" and "parse_url b = Some u" and "b \<noteq> []"
  shows "\<exists>text v. buildTempoExploreUrl parse_url (Some b) c = Inr (Some text) \<and> parse_url text = Some v
    \<and> ju_base v = ju_base u \<and> ju_hash v = ju_hash u
    \<and> (\<lambda>k. params_get k (ju_params v)) = carried c (\<lambda>k. params_get k (ju_params u))"
proof -
  let ?p = "grafana_params c (ju_params u)"
  let ?q = "addParam ''requestId'' (gc_requestId c) (addParam ''traceId'' (gc_traceId c) ?p)"
  have first: "buildGrafanaUrl parse_url (Some b) c = Inr (Some (url_text (u\<lparr>ju_params := ?p\<rparr>)))"
    using assms(2,3) by (simp add: buildGrafanaUrl_def)
  have again: "parse_url (url_text (u\<lparr>ju_params := ps\<rparr>)) = Some (u\<lparr>ju_params := ps\<rparr>)" and "ju_base u \<noteq> []" for ps
    using assms(1,2) unfolding reads_back_def by blast+
  then have "buildTempoExploreUrl parse_url (Some b) c = Inr (Some (url_text (u\<lparr>ju_params := ?q\<rparr>)))"
    by (simp add: buildTempoExploreUrl_def first url_text_ne)
  moreover have "params_get k ?q = carried c (\<lambda>k. params_get k (ju_params u)) k" for k
    by (auto simp: get_addParam get_grafana_params carried_def)
  ultimately show ?thesis
    using again [of ?q]
    by (intro exI [of _ "url_text (u\<lparr>ju_params := ?q\<rparr>)"] exI [of _ "u\<lparr>ju_params := ?q\<rparr>"]) auto
qed

text \<open>A parser for the addresses of one site.\<close>

definition sample_base :: string where
  "sample_base = ''http://grafana/explore''"

definition sample_parse :: "string \<Rightarrow> js_url option" where
  "sample_parse t =
     (if \<not> startsWith t sample_base then None
      else case drop (length sample_base) t of
             [] \<Rightarrow> Some \<lparr>ju_base = sample_base, ju_params = [], ju_hash = []\<rparr>
           | c # q \<Rightarrow>
               (if c \<noteq> CHR ''?'' \<or> \<not> list_all (\<lambda>(k, v). k \<noteq> None \<and> v \<noteq> None) (read_params q) then None
                else Some \<lparr>ju_base = sample_base, ju_params = map (\<lambda>(k, v). (the k, the v)) (read_params q), ju_hash = []\<rparr>))"

lemma sample_reads_back: "reads_back sample_parse"
proof -
  have site: "u\<lparr>ju_params := ps\<rparr> = \<lparr>ju_base = sample_base, ju_params = ps, ju_hash = []\<rparr>" if "sample_parse t = Some u" for t u ps
    using that by (auto simp: sample_parse_def split: if_splits list.splits)
  have again: "sample_parse (sample_base @ (if ps = [] then [] else CHR ''?'' # params_text ps))
      = Some \<lparr>ju_base = sample_base, ju_params = ps, ju_hash = []\<rparr>" for ps
    by (auto simp: sample_parse_def read_params_text list_all_iff comp_def case_prod_beta)
  show ?thesis
    unfolding reads_back_def
  proof (intro allI impI conjI)
    fix t u ps
    assume u: "sample_parse t = Some u"
    show "ju_base u \<noteq> []"
      using arg_cong [OF site [OF u, of ps], of ju_base] by (simp add: sample_base_def)
    show "sample_parse (url_text (u\<lparr>ju_params := ps\<rparr>)) = Some (u\<lparr>ju_params := ps\<rparr>)"
      unfolding site [OF u] url_text_def using again [of ps] by (simp split: if_splits)
  qed
qed

theorem trace_link_carries_filters_witness:
  "\<exists>text v. buildTempoExploreUrl sample_parse (Some sample_base)
       (buildObservabilityContext (initial_filters\<lparr>of_traceId := ''ab 1''\<rparr>)) = Inr (Some text)
     \<and> sample_parse text = Some v
     \<and> params_get ''traceId'' (ju_params v) = Some ''ab 1'' \<and> params_get ''var-service'' (ju_params v) = Some ''backend''
     \<and> params_get ''var-route'' (ju_params v) = None"
proof -
  have site: "sample_parse sample_base = Some \<lparr>ju_base = sample_base, ju_params = [], ju_hash = []\<rparr>" "sample_base \<noteq> []"
    by (simp_all add: sample_parse_def sample_base_def)
  obtain t v where tv: "buildTempoExploreUrl sample_parse (Some sample_base)
       (buildObservabilityContext (initial_filters\<lparr>of_traceId := ''ab 1''\<rparr>)) = Inr (Some t)" "sample_parse t = Some v"
    and get: "(\<lambda>k. params_get k (ju_params v)) = carried (buildObservabilityContext (initial_filters\<lparr>of_traceId := ''ab 1''\<rparr>))
      (\<lambda>k. params_get k (ju_params \<lparr>ju_base = sample_base, ju_params = [], ju_hash = []\<rparr>))"
    using trace_link_carries_filters [OF sample_reads_back site] by blast
  have "trim ''ab 1'' = ''ab 1''" "trim ''backend'' = ''backend''" "trim [] = []"
    by code_simp+
  then have "params_get ''traceId'' (ju_params v) = Some ''ab 1''" "params_get ''var-service'' (ju_params v) = Some ''backend''"
    "params_get ''var-route'' (ju_params v) = None"
    using fun_cong [OF get, of "''traceId''"] fun_cong [OF get, of "''var-service''"] fun_cong [OF get, of "''var-route''"]
    by (simp_all add: carried_def chosen_def buildObservabilityContext_def initial_filters_def TIME_RANGES_def params_get_def)
  then show ?thesis
    using tv by blast
qed

text \<open>What building an address comes to.\<close>

definition built_for :: "(string \<Rightarrow> js_url option) \<Rightarrow> string option \<Rightarrow> unit + string option \<Rightarrow> bool" where
  "built_for parse_url a b \<longleftrightarrow>
     (case b of
        Inl e \<Rightarrow> truthy a \<and> parse_url (the a) = None
      | Inr None \<Rightarrow> \<not> truthy a
      | Inr (Some t) \<Rightarrow> truthy a \<and> t \<noteq> [] \<and> parse_url (the a) \<noteq> None)"

lemma grafana_built: "reads_back parse_url \<Longrightarrow> built_for parse_url a (buildGrafanaUrl parse_url a c)"
  unfolding reads_back_def
  by (auto simp: built_for_def buildGrafanaUrl_def truthy_def url_text_def split: option.splits)

lemma tempo_built:
  assumes "reads_back parse_url"
  shows "built_for parse_url a (buildTempoExploreUrl parse_url a c)"
proof (cases "\<exists>b u. a = Some b \<and> b \<noteq> [] \<and> parse_url b = Some u")
  case True
  then obtain b u where b: "a = Some b" "b \<noteq> []" "parse_url b = Some u" by blast
  obtain t v where t: "buildTempoExploreUrl parse_url (Some b) c = Inr (Some t)" "parse_url t = Some v"
    "buildTempoExploreUrl parse_url (Some b) c \<noteq> Inr (Some [])"
    using assms b unfolding reads_back_def buildTempoExploreUrl_def buildGrafanaUrl_def
    by (fastforce simp: url_text_def)
  then show ?thesis using b by (auto simp: built_for_def truthy_def)
next
  case False
  then show ?thesis
    by (auto simp: built_for_def buildTempoExploreUrl_def buildGrafanaUrl_def truthy_def split: option.splits)
qed

text \<open>A row of cards: title, whether it is for administrators only, address and what was built of it.\<close>

type_synonym card_row = "string \<times> bool \<times> string option \<times> (unit + string option)"

definition row_card :: "card_row \<Rightarrow> shortcut option" where
  "row_card r = (case r of (title, only, a, b) \<Rightarrow> shortcut_of title only (Some (server_tool_link a True)) b)"

lemma row_cards:
  assumes "\<forall>(title, only, a, b) \<in> set rows. built_for parse_url a b"
  shows "None \<in> set (map row_card rows) \<longleftrightarrow> (\<exists>(title, only, a, b) \<in> set rows. truthy a \<and> parse_url (the a) = None)"
    and "None \<notin> set (map row_card rows) \<Longrightarrow>
      map (\<lambda>i. opened_url i \<noteq> None) (map the (map row_card rows)) = map (\<lambda>(title, only, a, b). truthy a) rows"
  using assms
  by (induction rows)
    (auto simp: row_card_def shortcut_of_def built_for_def server_tool_link_def opened_url_def disabledReason_def truthy_def
      split: sum.splits option.splits)

text \<open>The rows of the page for an administrator.\<close>

definition admin_rows :: "(string \<Rightarrow> js_url option) \<Rightarrow> public_urls \<Rightarrow> grafana_context \<Rightarrow> card_row list" where
  "admin_rows parse_url urls c =
     map2 (\<lambda>(title, dashboard) a. (title, False, a, buildGrafanaUrl parse_url a c)) dashboard_cards (pu_dashboards urls)
     @ [(''Tempo Traces'', False, pu_tempo urls, buildTempoExploreUrl parse_url (pu_tempo urls) c),
        (''Prometheus Debug'', True, pu_prometheus urls, buildGrafanaUrl parse_url (pu_prometheus urls) c)]"

definition public_addresses :: "public_urls \<Rightarrow> string option list" where
  "public_addresses urls = pu_dashboards urls @ [pu_tempo urls, pu_prometheus urls]"

lemma eight:
  assumes "length xs = 8" obtains a b c d e f g h where "xs = [a, b, c, d, e, f, g, h]"
  using assms that by (auto simp: eval_nat_numeral length_Suc_conv)

lemma admin_shortcuts:
  assumes "length (pu_dashboards urls) = 8"
  shows "all_shortcuts parse_url (Some (server_links True urls)) c = map row_card (admin_rows parse_url urls c)"
  using assms
  by (elim eight)
    (simp add: all_shortcuts_def admin_rows_def dashboard_cards_def row_card_def server_links_def server_tool_link_def Let_def)

lemma admin_rows_addresses:
  assumes "length (pu_dashboards urls) = 8"
  shows "map (\<lambda>(title, only, a, b). a) (admin_rows parse_url urls c) = public_addresses urls"
  using assms by (elim eight) (simp add: admin_rows_def public_addresses_def dashboard_cards_def)

lemma user_shortcuts:
  "all_shortcuts parse_url (Some (server_links False urls)) c =
     map (\<lambda>(title, only, l). Some \<lparr>sh_title = title, sh_link = Some (l (server_links False urls)), sh_url = None, sh_adminOnly = only\<rparr>)
       (map (\<lambda>(title, dashboard). (title, False, dashboard \<circ> ol_dashboards)) dashboard_cards
        @ [(''Tempo Traces'', False, ol_tempo_explore_url), (''Prometheus Debug'', True, ol_prometheus_url)])"
  by (simp add: all_shortcuts_def dashboard_cards_def server_links_def server_tool_link_def shortcut_of_def
      buildGrafanaUrl_def buildTempoExploreUrl_def Let_def)

text \<open>
  Who can open a shortcut. With the links the server gives, an administrator can open exactly
  the shortcuts whose tool has an address, and other users none; the card of Prometheus is
  not shown to them. The page fails to render only for an administrator, and only when an
  address is one the browser cannot parse.
\<close>
theorem shortcuts_open_for_admins:
  assumes "reads_back parse_url" and "length (pu_dashboards urls) = 8"
  shows "case shortcuts parse_url isAdmin (Some (server_links isAdmin urls)) c of
      None \<Rightarrow> isAdmin \<and> list_ex (\<lambda>a. truthy a \<and> parse_url (the a) = None) (public_addresses urls)
    | Some items \<Rightarrow>
        if isAdmin then map (\<lambda>i. opened_url i \<noteq> None) items = map truthy (public_addresses urls)
        else list_all (\<lambda>i. opened_url i = None \<and> sh_title i \<noteq> ''Prometheus Debug'') items"
proof (cases isAdmin)
  case True
  let ?rows = "admin_rows parse_url urls c"
  have built: "\<forall>(title, only, a, b) \<in> set ?rows. built_for parse_url a b"
    using grafana_built [OF assms(1)] tempo_built [OF assms(1)] by (auto simp: admin_rows_def set_zip)
  have addresses: "map (\<lambda>(title, only, a, b). f a) ?rows = map f (public_addresses urls)" for f
    unfolding admin_rows_addresses [OF assms(2), of parse_url c, symmetric] by (simp add: comp_def case_prod_beta)
  have "(\<exists>(title, only, a, b) \<in> set ?rows. P a) \<longleftrightarrow> list_ex P (public_addresses urls)" for P
    using arg_cong [OF addresses [of P], of "\<lambda>bs. True \<in> set bs"] by (auto simp: list_ex_iff image_iff)
  then show ?thesis
    using row_cards [OF built] True
    by (auto simp: shortcuts_def admin_shortcuts [OF assms(2)] addresses Let_def)
next
  case False
  then show ?thesis
    by (auto simp: shortcuts_def user_shortcuts Let_def opened_url_def list_all_iff dashboard_cards_def truthy_def)
qed

definition sample_urls :: public_urls where
  "sample_urls =
     \<lparr>pu_grafana = Some sample_base, pu_prometheus = None, pu_tempo = Some sample_base,
      pu_dashboards = [Some sample_base, None, None, None, None, None, None, None]\<rparr>"

theorem shortcuts_open_for_admins_witness:
  "(case shortcuts sample_parse True (Some (server_links True sample_urls)) (buildObservabilityContext initial_filters) of
      None \<Rightarrow> False
    | Some items \<Rightarrow> map (\<lambda>i. opened_url i \<noteq> None) items = [True, False, False, False, False, False, False, False, True, False])
   \<and> (case shortcuts sample_parse False (Some (server_links False sample_urls)) (buildObservabilityContext initial_filters) of
      None \<Rightarrow> False
    | Some items \<Rightarrow> list_all (\<lambda>i. opened_url i = None \<and> sh_title i \<noteq> ''Prometheus Debug'') items)"
proof -
  have eight_urls: "length (pu_dashboards sample_urls) = 8"
    by (simp add: sample_urls_def)
  have parses: "sample_parse sample_base \<noteq> None"
    by (simp add: sample_parse_def)
  show ?thesis
    using shortcuts_open_for_admins [OF sample_reads_back eight_urls, of True "buildObservabilityContext initial_filters"]
      shortcuts_open_for_admins [OF sample_reads_back eight_urls, of False "buildObservabilityContext initial_filters"] parses
    by (simp add: sample_urls_def public_addresses_def truthy_def sample_base_def split: option.splits)
qed

text \<open>
  The health cards. There is one card for every kind of health, titled apart; without a status every
  card says that the check is not configured, and with one each shows the state and detail the
  server gave for its own kind, and the value or, failing that, the depth of the queue.
\<close>
theorem health_cards_complete:
  "set (map fst HEALTH_CARDS) = UNIV \<and> distinct (map fst HEALTH_CARDS) \<and> distinct (map hc_title (health_cards st))
   \<and> length (health_cards st) = length HEALTH_CARDS
   \<and> map (\<lambda>h. (hc_status h, hc_detail h)) (health_cards st) =
       map (\<lambda>k. case st of None \<Rightarrow> (UnknownHealth, ''Status check is not configured'')
                 | Some s \<Rightarrow> (si_status (status_of k s), si_detail (status_of k s))) (map fst HEALTH_CARDS)
   \<and> map hc_metric (health_cards st) =
       map (\<lambda>k. case st of None \<Rightarrow> None
                 | Some s \<Rightarrow> (case si_value (status_of k s) of Some v \<Rightarrow> Some v
                              | None \<Rightarrow> map_option (\<lambda>n. number_text n @ '' queued'') (si_queue_depth (status_of k s))))
         (map fst HEALTH_CARDS)"
proof (intro conjI, goal_cases)
  case 1
  have "k \<in> set (map fst HEALTH_CARDS)" for k
    by (cases k) (simp_all add: HEALTH_CARDS_def)
  then show ?case by blast
next
  case 3
  have "map hc_title (health_cards st) = map snd HEALTH_CARDS"
    by (simp add: health_cards_def Let_def case_prod_beta comp_def)
  then show ?case by (simp add: HEALTH_CARDS_def)
next
  case 2
  show ?case by (simp add: HEALTH_CARDS_def)
next
  case 4
  show ?case by (simp add: health_cards_def)
next
  case 5
  show ?case
    by (cases st) (simp_all add: health_cards_def buildHealthItems_def fallbackItem_def Let_def case_prod_beta)
next
  case 6
  show ?case
    by (cases st) (simp_all add: health_cards_def buildHealthItems_def fallbackItem_def metricFor_def Let_def
      case_prod_beta split: option.split)
qed

end
