(* ===== verification/Profile_View.thy ===== *)
theory Profile_View
  imports Auth_Forms Admin_Endpoints Step_System
begin

text \<open>
  The profile page: features/profile.  Its forms and their schemas, the second factor (set up with
  a secret the server generates, confirmed with a first code, switched off with a code), sessions
  and avatar, and the list of personal memories.
\<close>

section \<open>Schemas: profileSchemas.ts\<close>

record ProfileValues =
  pf_bio :: "string option"
  pf_location :: "string option"
  pf_website :: "string option"

definition too_long :: "nat \<Rightarrow> string \<Rightarrow> string \<Rightarrow> string option \<Rightarrow> form_errors" where
  "too_long bound field text_shown v =
     (case v of None \<Rightarrow> [] | Some t \<Rightarrow> if bound < js_length t then [(field, text_shown)] else [])"

definition profileSchema :: "ProfileValues \<Rightarrow> form_errors" where
  "profileSchema v =
     too_long 1000 ''bio'' ''Bio is too long'' (pf_bio v)
     @ too_long 255 ''location'' ''Location is too long'' (pf_location v)
     @ too_long 500 ''website'' ''Website is too long'' (pf_website v)"

record PasswordValues =
  pw_current_password :: string
  pw_new_password :: string
  pw_confirm_password :: string

definition passwordSchema :: "PasswordValues \<Rightarrow> form_errors" where
  "passwordSchema v =
     (if js_length (pw_current_password v) < 1 then [(''current_password'', ''Required'')] else [])
     @ (if js_length (pw_new_password v) < 8 then [(''new_password'', ''At least 8 characters'')] else [])
     @ (if pw_new_password v \<noteq> pw_confirm_password v then [(''confirm_password'', ''Passwords do not match'')] else [])"

definition mfaCodeSchema :: "string \<Rightarrow> form_errors" where
  "mfaCodeSchema code_text =
     (if six_digits code_text then [] else [(''code'', ''Enter the 6-digit authenticator code'')])"

section \<open>Forms: components/ProfileSections.tsx, hooks/useProfileView.ts\<close>

text \<open>The values the profile form takes from the profile, and what it sends.\<close>

definition profile_values :: "ProfileValues \<Rightarrow> ProfileValues" where
  "profile_values stored =
     \<lparr>pf_bio = Some (nullish (pf_bio stored) []), pf_location = Some (nullish (pf_location stored) []),
      pf_website = Some (nullish (pf_website stored) [])\<rparr>"

definition profile_update :: "ProfileValues \<Rightarrow> ProfileUpdate" where
  "profile_update v =
     \<lparr>ProfileUpdate_bio = Some (Option.bind (pf_bio v) or_none),
      ProfileUpdate_location = Some (Option.bind (pf_location v) or_none),
      ProfileUpdate_website = Some (Option.bind (pf_website v) or_none)\<rparr>"

definition submit_profile :: "bool \<Rightarrow> ProfileValues \<Rightarrow> form_errors + api_call option" where
  "submit_profile pending v =
     (if pending then Inr None
      else if profileSchema v \<noteq> [] then Inl (profileSchema v)
      else Inr (Some (updateProfile (profile_update v))))"

definition submit_account :: "bool \<Rightarrow> string option \<Rightarrow> api_call option" where
  "submit_account pending full_name =
     (if pending then None
      else Some (updateMe \<lparr>updateMe_payload_full_name = map_option Some full_name\<rparr>))"

definition submit_password :: "bool \<Rightarrow> PasswordValues \<Rightarrow> form_errors + api_call option" where
  "submit_password pending v =
     (if pending then Inr None
      else if passwordSchema v \<noteq> [] then Inl (passwordSchema v)
      else Inr (Some (changePassword
        \<lparr>changePassword_payload_current_password = pw_current_password v,
         changePassword_payload_new_password = pw_new_password v\<rparr>)))"

text \<open>The avatar: any file the dialog gives; it can be removed when there is one.\<close>

definition press_upload_avatar :: "bool \<Rightarrow> upload_file option \<Rightarrow> api_call option" where
  "press_upload_avatar pending file = (if pending then None else map_option uploadAvatar file)"

definition press_delete_avatar :: "bool \<Rightarrow> string option \<Rightarrow> api_call option" where
  "press_delete_avatar pending avatar_url = (if \<not> truthy avatar_url \<or> pending then None else Some deleteAvatar)"

text \<open>What is refreshed when a change was accepted.\<close>

datatype profile_mutation = Account | PublicProfile | Password | RevokeSession | Avatar | MfaChange

fun refreshed :: "profile_mutation \<Rightarrow> query_key list" where
  "refreshed Account = [queryKeys_auth_me, queryKeys_users_me]"
| "refreshed PublicProfile = [queryKeys_users_profile]"
| "refreshed Password = []"
| "refreshed RevokeSession = [queryKeys_users_sessions]"
| "refreshed Avatar = [queryKeys_users_profile]"
| "refreshed MfaChange = [queryKeys_auth_me, queryKeys_users_me]"

section \<open>Second factor: MfaSection, and the server it talks to\<close>

text \<open>
  backend/modules/identity_access/service.py: a secret that waits for its first code (for ten
  minutes at most), and the factor of the account.  Whether a code fits a secret is the
  library's: the parameter totp.
\<close>

record mfa_server =
  ms_enabled :: bool
  ms_secret :: "string option"
  ms_pending :: "string option"

definition server_mfa_enable :: "string \<Rightarrow> mfa_server \<Rightarrow> mfa_server" where
  "server_mfa_enable fresh s = s\<lparr>ms_pending := Some fresh\<rparr>"

definition server_mfa_verify :: "(string \<Rightarrow> string \<Rightarrow> bool) \<Rightarrow> string \<Rightarrow> mfa_server \<Rightarrow> string + mfa_server" where
  "server_mfa_verify totp code_text s =
     (case ms_pending s of
        None \<Rightarrow> Inl ''MFA setup session expired. Start again.''
      | Some secret \<Rightarrow>
          if secret = [] then Inl ''MFA setup session expired. Start again.''
          else if \<not> totp secret code_text then Inl ''Invalid TOTP code''
          else Inr \<lparr>ms_enabled = True, ms_secret = Some secret, ms_pending = None\<rparr>)"

definition server_mfa_disable :: "(string \<Rightarrow> string \<Rightarrow> bool) \<Rightarrow> string \<Rightarrow> mfa_server \<Rightarrow> string + mfa_server" where
  "server_mfa_disable totp code_text s =
     (if \<not> ms_enabled s \<or> \<not> truthy (ms_secret s) then Inl ''MFA is not enabled''
      else if \<not> totp (the (ms_secret s)) code_text then Inl ''Invalid TOTP code''
      else Inr (s\<lparr>ms_enabled := False, ms_secret := None\<rparr>))"

text \<open>
  The section shows what the identity query says (mv_user_enabled) and, below the button that starts a
  setup, the data of the last answered start (mv_setup); starting anew clears it.
\<close>

record mfa_section =
  mv_user_enabled :: bool
  mv_setup :: "string option"
  mv_enabling :: bool

definition start_shown :: "mfa_section \<Rightarrow> bool" where
  "start_shown m \<longleftrightarrow> \<not> mv_user_enabled m"

definition setup_shown :: "mfa_section \<Rightarrow> string option" where
  "setup_shown m = (if mv_user_enabled m then None else mv_setup m)"

definition disable_shown :: "mfa_section \<Rightarrow> bool" where
  "disable_shown m \<longleftrightarrow> mv_user_enabled m"

record mfa_world =
  mw_server :: mfa_server
  mw_section :: mfa_section
  mw_answer :: "string option"

text \<open>
  Start is pressed and reaches the server, which makes a fresh secret and answers with it (mw_answer), or
  is lost; the answer arrives, or fails; a code is submitted on either form, and an accepted one refreshes
  the identity; the pending secret runs out.  A code is handled as one step.
\<close>

datatype mfa_event =
    StartPressed "string option" | StartAnswered | StartFailed
  | VerifySubmitted string | DisableSubmitted string | PendingExpired

fun mfa_enabled_event :: "mfa_world \<Rightarrow> mfa_event \<Rightarrow> bool" where
  "mfa_enabled_event w (StartPressed fresh) = (start_shown (mw_section w) \<and> \<not> mv_enabling (mw_section w) \<and> fresh \<noteq> Some [])"
| "mfa_enabled_event w StartAnswered = (mv_enabling (mw_section w) \<and> mw_answer w \<noteq> None)"
| "mfa_enabled_event w StartFailed = mv_enabling (mw_section w)"
| "mfa_enabled_event w (VerifySubmitted t) = (setup_shown (mw_section w) \<noteq> None \<and> mfaCodeSchema t = [])"
| "mfa_enabled_event w (DisableSubmitted t) = (disable_shown (mw_section w) \<and> mfaCodeSchema t = [])"
| "mfa_enabled_event w PendingExpired = True"

fun mfa_step :: "(string \<Rightarrow> string \<Rightarrow> bool) \<Rightarrow> mfa_world \<Rightarrow> mfa_event \<Rightarrow> mfa_world" where
  "mfa_step totp w (StartPressed fresh) =
     w\<lparr>mw_server := (case fresh of None \<Rightarrow> mw_server w | Some f \<Rightarrow> server_mfa_enable f (mw_server w)),
       mw_section := (mw_section w)\<lparr>mv_setup := None, mv_enabling := True\<rparr>, mw_answer := fresh\<rparr>"
| "mfa_step totp w StartAnswered =
     w\<lparr>mw_section := (mw_section w)\<lparr>mv_setup := mw_answer w, mv_enabling := False\<rparr>, mw_answer := None\<rparr>"
| "mfa_step totp w StartFailed =
     w\<lparr>mw_section := (mw_section w)\<lparr>mv_setup := None, mv_enabling := False\<rparr>, mw_answer := None\<rparr>"
| "mfa_step totp w (VerifySubmitted t) =
     (case server_mfa_verify totp t (mw_server w) of
        Inl e \<Rightarrow> w
      | Inr s \<Rightarrow> w\<lparr>mw_server := s, mw_section := (mw_section w)\<lparr>mv_user_enabled := ms_enabled s\<rparr>\<rparr>)"
| "mfa_step totp w (DisableSubmitted t) =
     (case server_mfa_disable totp t (mw_server w) of
        Inl e \<Rightarrow> w
      | Inr s \<Rightarrow> w\<lparr>mw_server := s, mw_section := (mw_section w)\<lparr>mv_user_enabled := ms_enabled s\<rparr>\<rparr>)"
| "mfa_step totp w PendingExpired = w\<lparr>mw_server := (mw_server w)\<lparr>ms_pending := None\<rparr>\<rparr>"

definition fresh_mfa :: mfa_world where
  "fresh_mfa =
     \<lparr>mw_server = \<lparr>ms_enabled = False, ms_secret = None, ms_pending = None\<rparr>,
      mw_section = \<lparr>mv_user_enabled = False, mv_setup = None, mv_enabling = False\<rparr>,
      mw_answer = None\<rparr>"

section \<open>Memories: components/ProfileMemorySection.tsx\<close>

definition MEMORY_PAGE_SIZE :: number where
  "MEMORY_PAGE_SIZE = 20"

text \<open>The list is asked for while the module is active.\<close>

definition memory_query :: "string list option \<Rightarrow> (query_key \<times> api_call) option" where
  "memory_query active_modules =
     (if ''memory'' \<in> set (nullish active_modules [])
      then Some (queryKeys_memory_list MEMORY_PAGE_SIZE 0,
        listMyMemories (Some \<lparr>listMemories_params_memory_level = None, listMemories_params_project_id = None,
          listMemories_params_agent_id = None, listMemories_params_limit = Some MEMORY_PAGE_SIZE,
          listMemories_params_offset = Some 0, listMemories_params_cursor = None\<rparr>))
      else None)"

datatype memory_list = MemoryHidden | MemoryLoading | MemoryFailed | NoMemories
  | Memories "MemoryItemResponse list" "(nat \<times> number) option"

text \<open>What is shown, and below a list that is not complete how much of it that is.\<close>

definition memory_shown :: "bool \<Rightarrow> bool \<Rightarrow> bool \<Rightarrow> PaginatedResponseMemoryItemResponse option \<Rightarrow> memory_list" where
  "memory_shown memoryActive isLoading isError data =
     (if \<not> memoryActive then MemoryHidden
      else if isLoading then MemoryLoading
      else if isError then MemoryFailed
      else let items = nullish (map_option PaginatedResponseMemoryItemResponse_items data) [];
               all_items = nullish (nullish (Option.bind data PaginatedResponseMemoryItemResponse_total) None) 0
           in if items = [] then NoMemories
              else Memories items (if of_nat (length items) < all_items then Some (length items, all_items) else None))"

record memory_section =
  mm_pendingDelete :: "MemoryItemResponse option"
  mm_deleting :: "string option"
  mm_invalidated :: "query_key list"

datatype memory_event = DeletePressed MemoryItemResponse | DeleteConfirmed | DialogClosed | DeleteSettled bool

text \<open>The dialog and the buttons of the list are disabled while a deletion is pending.\<close>

fun memory_step :: "memory_section \<Rightarrow> memory_event \<Rightarrow> memory_section" where
  "memory_step s (DeletePressed item) = (if mm_deleting s \<noteq> None then s else s\<lparr>mm_pendingDelete := Some item\<rparr>)"
| "memory_step s DeleteConfirmed =
     (case mm_pendingDelete s of
        None \<Rightarrow> s
      | Some item \<Rightarrow> if mm_deleting s \<noteq> None then s else s\<lparr>mm_deleting := Some (MemoryItemResponse_id item)\<rparr>)"
| "memory_step s DialogClosed = (if mm_deleting s \<noteq> None then s else s\<lparr>mm_pendingDelete := None\<rparr>)"
| "memory_step s (DeleteSettled accepted) =
     (if accepted
      then s\<lparr>mm_deleting := None, mm_pendingDelete := None, mm_invalidated := mm_invalidated s @ [queryKeys_memory_all]\<rparr>
      else s\<lparr>mm_deleting := None\<rparr>)"

fun memory_enabled :: "memory_section \<Rightarrow> memory_event \<Rightarrow> bool" where
  "memory_enabled s (DeleteSettled accepted) = (mm_deleting s \<noteq> None)"
| "memory_enabled s e = True"

definition memory_request :: "memory_section \<Rightarrow> api_call option" where
  "memory_request s = map_option deleteMyMemory (mm_deleting s)"

section \<open>Properties\<close>

definition mfa_ok :: "mfa_world \<Rightarrow> bool" where
  "mfa_ok w \<longleftrightarrow>
     (ms_enabled (mw_server w) \<longleftrightarrow> truthy (ms_secret (mw_server w)))
   \<and> mv_user_enabled (mw_section w) = ms_enabled (mw_server w)
   \<and> (ms_enabled (mw_server w) \<longrightarrow> ms_pending (mw_server w) = None \<and> \<not> mv_enabling (mw_section w))
   \<and> (mv_setup (mw_section w) \<noteq> None \<longrightarrow>
        \<not> mv_enabling (mw_section w) \<and> ms_pending (mw_server w) \<in> {None, mv_setup (mw_section w)})
   \<and> (mw_answer w \<noteq> None \<longrightarrow> mv_enabling (mw_section w) \<and> ms_pending (mw_server w) \<in> {None, mw_answer w})
   \<and> ms_pending (mw_server w) \<noteq> Some [] \<and> mw_answer w \<noteq> Some []"

lemmas mfa_server_defs = server_mfa_enable_def server_mfa_verify_def server_mfa_disable_def

lemma mfa_ok_step:
  assumes "mfa_ok w" and "mfa_enabled_event w e"
  shows "mfa_ok (mfa_step totp w e)"
proof (cases e)
  case (StartPressed fresh)
  then show ?thesis
    using assms by (cases fresh) (auto simp: mfa_ok_def start_shown_def server_mfa_enable_def)
next
  case (VerifySubmitted t)
  then show ?thesis
    using assms
    by (auto simp: mfa_ok_def server_mfa_verify_def setup_shown_def truthy_def split: option.splits if_splits)
next
  case (DisableSubmitted t)
  then show ?thesis
    using assms
    by (auto simp: mfa_ok_def server_mfa_disable_def disable_shown_def truthy_def split: if_splits)
qed (use assms in \<open>auto simp: mfa_ok_def\<close>)

interpretation mfa: step_system mfa_enabled_event "mfa_step totp" fresh_mfa mfa_ok for totp
  by unfold_locales (auto simp: mfa_ok_step, simp add: mfa_ok_def fresh_mfa_def truthy_def)

text \<open>
  C33: Switching the second factor on. In every state the page and the server reach, the section
  shows whether the account has a factor. When a code is submitted, the factor is on
  afterwards exactly when the server still waits for that code and it fits the secret shown on the page,
  and then that secret, and no other, is the one of the account.
\<close>
theorem mfa_secret_confirmed:
  assumes "reachable mfa_enabled_event (mfa_step totp) fresh_mfa w"
    and "mfa_enabled_event w (VerifySubmitted t)"
    and "w' = mfa_step totp w (VerifySubmitted t)"
  shows "mv_user_enabled (mw_section w) = ms_enabled (mw_server w)
    \<and> mv_user_enabled (mw_section w') = ms_enabled (mw_server w')
    \<and> ms_enabled (mw_server w') = (ms_pending (mw_server w) = setup_shown (mw_section w) \<and> totp (the (setup_shown (mw_section w))) t)
    \<and> (if ms_enabled (mw_server w') then ms_secret (mw_server w') = setup_shown (mw_section w) \<and> six_digits t
       else w' = w)"
proof -
  have ok: "mfa_ok w" by (rule mfa.invar_reachable [OF assms(1)])
  then have ok': "mfa_ok w'" using assms(2,3) mfa_ok_step by blast
  have six: "six_digits t"
    using assms(2) by (auto simp: mfaCodeSchema_def split: if_splits)
  obtain x where x: "setup_shown (mw_section w) = Some x" and off: "\<not> ms_enabled (mw_server w)"
    using assms(2) ok by (auto simp: mfa_ok_def setup_shown_def split: if_splits)
  then have pending: "ms_pending (mw_server w) = None \<or> ms_pending (mw_server w) = Some x" and ne: "ms_pending (mw_server w) \<noteq> Some []"
    using ok by (auto simp: mfa_ok_def setup_shown_def split: if_splits)
  have agree: "mv_user_enabled (mw_section w) = ms_enabled (mw_server w)" "mv_user_enabled (mw_section w') = ms_enabled (mw_server w')"
    using ok ok' by (simp_all add: mfa_ok_def)
  show ?thesis
  proof (cases "ms_pending (mw_server w) = Some x \<and> totp x t")
    case True
    then have "server_mfa_verify totp t (mw_server w) = Inr \<lparr>ms_enabled = True, ms_secret = Some x, ms_pending = None\<rparr>"
      using ne by (simp add: server_mfa_verify_def)
    then show ?thesis
      using agree True x six by (simp add: assms(3))
  next
    case False
    then obtain err where "server_mfa_verify totp t (mw_server w) = Inl err"
      using pending ne by (auto simp: server_mfa_verify_def)
    then show ?thesis
      using agree False x off by (auto simp: assms(3))
  qed
qed

text \<open>
  Switching it off. An accepted code takes the factor and its secret away; the setup of before is
  shown again, when there was one on this page, but whatever code is then entered is refused until a
  new setup is started.
\<close>
theorem mfa_disabled_setup_stale:
  assumes "reachable mfa_enabled_event (mfa_step totp) fresh_mfa w"
    and "mfa_enabled_event w (DisableSubmitted t)" and "totp (the (ms_secret (mw_server w))) t"
    and "w' = mfa_step totp w (DisableSubmitted t)"
  shows "\<not> ms_enabled (mw_server w') \<and> ms_secret (mw_server w') = None \<and> start_shown (mw_section w')
    \<and> setup_shown (mw_section w') = mv_setup (mw_section w)
    \<and> server_mfa_verify totp any_code (mw_server w') = Inl ''MFA setup session expired. Start again.''"
proof -
  have "mfa_ok w" by (rule mfa.invar_reachable [OF assms(1)])
  then show ?thesis
    using assms(2,3)
    by (auto simp: assms(4) mfa_ok_def server_mfa_disable_def server_mfa_verify_def disable_shown_def start_shown_def setup_shown_def)
qed

definition set_up_events :: "mfa_event list" where
  "set_up_events = [StartPressed (Some ''S1''), StartAnswered, VerifySubmitted ''123456'']"

lemma set_up_run:
  "run_events mfa_enabled_event (mfa_step (\<lambda>s t. t = ''123456'')) fresh_mfa (take 2 set_up_events) =
     Some \<lparr>mw_server = \<lparr>ms_enabled = False, ms_secret = None, ms_pending = Some ''S1''\<rparr>,
       mw_section = \<lparr>mv_user_enabled = False, mv_setup = Some ''S1'', mv_enabling = False\<rparr>, mw_answer = None\<rparr>"
  "run_events mfa_enabled_event (mfa_step (\<lambda>s t. t = ''123456'')) fresh_mfa set_up_events =
     Some \<lparr>mw_server = \<lparr>ms_enabled = True, ms_secret = Some ''S1'', ms_pending = None\<rparr>,
       mw_section = \<lparr>mv_user_enabled = True, mv_setup = Some ''S1'', mv_enabling = False\<rparr>, mw_answer = None\<rparr>"
  by (simp_all add: set_up_events_def fresh_mfa_def start_shown_def server_mfa_enable_def setup_shown_def mfaCodeSchema_def
      six_digits_def server_mfa_verify_def)

theorem mfa_secret_confirmed_witness:
  "ms_secret (mw_server (mfa_step (\<lambda>s t. t = ''123456'')
      \<lparr>mw_server = \<lparr>ms_enabled = False, ms_secret = None, ms_pending = Some ''S1''\<rparr>,
       mw_section = \<lparr>mv_user_enabled = False, mv_setup = Some ''S1'', mv_enabling = False\<rparr>, mw_answer = None\<rparr>
      (VerifySubmitted ''123456''))) = Some ''S1''"
  using mfa_secret_confirmed [OF reachable_run [OF reachable_init set_up_run(1)] _ refl, of "''123456''"]
  by (simp add: setup_shown_def mfaCodeSchema_def six_digits_def server_mfa_verify_def)

theorem mfa_disabled_setup_stale_witness:
  "setup_shown (mw_section (mfa_step (\<lambda>s t. t = ''123456'')
      \<lparr>mw_server = \<lparr>ms_enabled = True, ms_secret = Some ''S1'', ms_pending = None\<rparr>,
       mw_section = \<lparr>mv_user_enabled = True, mv_setup = Some ''S1'', mv_enabling = False\<rparr>, mw_answer = None\<rparr>
      (DisableSubmitted ''123456''))) = Some ''S1''"
  using mfa_disabled_setup_stale [OF reachable_run [OF reachable_init set_up_run(2)] _ _ refl, of "''123456''"]
  by (simp add: disable_shown_def mfaCodeSchema_def six_digits_def server_mfa_disable_def)

section \<open>Memories and forms\<close>

definition open_memories :: memory_section where
  "open_memories = \<lparr>mm_pendingDelete = None, mm_deleting = None, mm_invalidated = []\<rparr>"

definition memory_ok :: "memory_section \<Rightarrow> bool" where
  "memory_ok s \<longleftrightarrow> (case mm_deleting s of None \<Rightarrow> True | Some i \<Rightarrow> map_option MemoryItemResponse_id (mm_pendingDelete s) = Some i)"

interpretation memory: step_system memory_enabled memory_step open_memories memory_ok
proof
  show "memory_ok open_memories"
    by (simp add: memory_ok_def open_memories_def)
next
  fix s e
  assume "memory_ok s" "memory_enabled s e"
  then show "memory_ok (memory_step s e)"
    by (cases e) (auto simp: memory_ok_def split: option.splits)
qed

text \<open>
  Deleting a memory. Whatever is clicked, a memory is being deleted only while the dialog names it; the
  dialog cannot be closed or moved to another memory meanwhile, and only an answer ends the
  deletion: an accepted one closes the dialog and refreshes the list, a failed one leaves it open.
\<close>
theorem memory_deletion_confirmed:
  assumes "reachable memory_enabled memory_step open_memories s" and "mm_deleting s = Some i" and "memory_enabled s e"
  shows "memory_request s = Some (deleteMyMemory i)
    \<and> map_option MemoryItemResponse_id (mm_pendingDelete s) = Some i
    \<and> memory_step s e =
        (if e = DeleteSettled True
         then s\<lparr>mm_deleting := None, mm_pendingDelete := None, mm_invalidated := mm_invalidated s @ [queryKeys_memory_all]\<rparr>
         else if e = DeleteSettled False then s\<lparr>mm_deleting := None\<rparr> else s)"
  using memory.invar_reachable [OF assms(1)] assms(2,3)
  by (cases e) (auto simp: memory_ok_def memory_request_def)

text \<open>
  Saving the public profile. The values taken from the stored profile pass the form whenever they are short
  enough, and what is then sent stores the same profile, blank texts becoming null; a text that is too
  long is reported under its field and nothing is sent.
\<close>
theorem profile_saved_as_shown:
  "submit_profile False (profile_values stored) =
     (if js_length (nullish (pf_bio stored) []) \<le> 1000 \<and> js_length (nullish (pf_location stored) []) \<le> 255
         \<and> js_length (nullish (pf_website stored) []) \<le> 500
      then Inr (Some (updateProfile
        \<lparr>ProfileUpdate_bio = Some (Option.bind (pf_bio stored) or_none),
         ProfileUpdate_location = Some (Option.bind (pf_location stored) or_none),
         ProfileUpdate_website = Some (Option.bind (pf_website stored) or_none)\<rparr>))
      else Inl (profileSchema (profile_values stored)))
   \<and> (''bio'' \<in> fst ` set (profileSchema (profile_values stored))) = (1000 < js_length (nullish (pf_bio stored) []))"
  by (cases "pf_bio stored"; cases "pf_location stored"; cases "pf_website stored")
    (auto simp: submit_profile_def profileSchema_def profile_values_def profile_update_def too_long_def or_none_def)

end
