(* ===== verification/App_Queries.thy ===== *)
theory App_Queries
  imports Platform_Endpoints Ai_Studio Chat_View Admin_Jobs Admin_Users Admin_Rag Observability Profile_View "HOL-Library.Sublist"
begin

text \<open>
  Every query the application runs (the calls of useQuery in frontend/src/hooks and
  frontend/src/features), with its key and the request behind it, and every mutation
  outside the AI studio with the keys it invalidates when it succeeds.  One cache holds
  all of them: a key that two queries share, or one that an invalidation misses, shows
  the wrong or an old answer, which no single component can tell.
\<close>

section \<open>Timing: config/queryTiming.ts and config/queryClient.ts\<close>

definition QUERY_STALE_TIMES_default :: nat where
  "QUERY_STALE_TIMES_default = 60000"

definition QUERY_STALE_TIMES_notifications :: nat where
  "QUERY_STALE_TIMES_notifications = 30000"

definition QUERY_STALE_TIMES_notificationPreferences :: nat where
  "QUERY_STALE_TIMES_notificationPreferences = 5 * 60000"

definition QUERY_STALE_TIMES_userProfile :: nat where
  "QUERY_STALE_TIMES_userProfile = 90000"

definition QUERY_STALE_TIMES_userSessions :: nat where
  "QUERY_STALE_TIMES_userSessions = 60000"

definition QUERY_STALE_TIMES_userDirectory :: nat where
  "QUERY_STALE_TIMES_userDirectory = 60000"

definition QUERY_STALE_TIMES_platformMetadata :: nat where
  "QUERY_STALE_TIMES_platformMetadata = 5 * 60000"

definition QUERY_STALE_TIMES_projects :: nat where
  "QUERY_STALE_TIMES_projects = 30000"

definition QUERY_STALE_TIMES_calendar :: nat where
  "QUERY_STALE_TIMES_calendar = 60000"

definition QUERY_STALE_TIMES_aiOverview :: nat where
  "QUERY_STALE_TIMES_aiOverview = 60000"

definition QUERY_STALE_TIMES_aiReviews :: nat where
  "QUERY_STALE_TIMES_aiReviews = 30000"

definition QUERY_STALE_TIMES_aiEvaluationRuns :: nat where
  "QUERY_STALE_TIMES_aiEvaluationRuns = 60000"

definition QUERY_STALE_TIMES_aiPromptVersions :: nat where
  "QUERY_STALE_TIMES_aiPromptVersions = 60000"

definition QUERY_STALE_TIMES_aiDatasetCases :: nat where
  "QUERY_STALE_TIMES_aiDatasetCases = 60000"

definition NOTIFICATIONS_REFETCH_INTERVAL_MS :: nat where
  "NOTIFICATIONS_REFETCH_INTERVAL_MS = 60000"

definition QUERY_GC_TIME_MS :: nat where
  "QUERY_GC_TIME_MS = 10 * 60000"

text \<open>
  The options of a call of useQuery.  Nothing at staleTime or retry means the default of
  the client; no interval means that the query is not polled, and retry: false is no retry.
\<close>

record use_query =
  uq_key :: query_key
  uq_call :: api_call
  uq_enabled :: bool
  uq_staleTime :: "nat option"
  uq_refetchInterval :: "nat option"
  uq_retry :: "nat option"

definition useQuery :: "query_key \<Rightarrow> api_call \<Rightarrow> use_query" where
  "useQuery key call =
     \<lparr>uq_key = key, uq_call = call, uq_enabled = True, uq_staleTime = None,
      uq_refetchInterval = None, uq_retry = None\<rparr>"

definition effective_staleTime :: "use_query \<Rightarrow> nat" where
  "effective_staleTime q = nullish (uq_staleTime q) QUERY_STALE_TIMES_default"

definition effective_retry :: "use_query \<Rightarrow> nat" where
  "effective_retry q = nullish (uq_retry q) 1"

text \<open>({ signal }) => f({ signal }); TanStack Query provides the signal.\<close>

definition with_signal :: RequestInit where
  "with_signal = no_init\<lparr>init_signal := True\<rparr>"

section \<open>Queries\<close>

subsection \<open>Shared hooks: frontend/src/hooks\<close>

text \<open>The option that overrides the interval of useNotifications is false in NotificationsView.\<close>

definition usePlatformMetadata :: use_query where
  "usePlatformMetadata = (useQuery queryKeys_platform_metadata getPlatformMetadata)
     \<lparr>uq_staleTime := Some QUERY_STALE_TIMES_platformMetadata\<rparr>"

definition useNotifications :: "nat option option \<Rightarrow> use_query" where
  "useNotifications override =
     (useQuery queryKeys_notifications_all (getNotifications with_signal))
     \<lparr>uq_staleTime := Some QUERY_STALE_TIMES_notifications,
       uq_refetchInterval := nullish override (Some NOTIFICATIONS_REFETCH_INTERVAL_MS)\<rparr>"

definition useUnreadNotificationCount :: use_query where
  "useUnreadNotificationCount =
     (useQuery queryKeys_notifications_unreadCount (getUnreadCount with_signal))
     \<lparr>uq_staleTime := Some QUERY_STALE_TIMES_notifications\<rparr>"

definition useNotificationPreferences :: use_query where
  "useNotificationPreferences = (useQuery queryKeys_notifications_preferences getPreferences)
     \<lparr>uq_staleTime := Some QUERY_STALE_TIMES_notificationPreferences\<rparr>"

definition useCurrentUser :: use_query where
  "useCurrentUser = (useQuery queryKeys_users_me getMe)
     \<lparr>uq_staleTime := Some QUERY_STALE_TIMES_userProfile\<rparr>"

definition useUserProfile :: use_query where
  "useUserProfile = (useQuery queryKeys_users_profile getProfile)
     \<lparr>uq_staleTime := Some QUERY_STALE_TIMES_userProfile\<rparr>"

definition useUserSessions :: use_query where
  "useUserSessions = (useQuery queryKeys_users_sessions getSessions)
     \<lparr>uq_staleTime := Some QUERY_STALE_TIMES_userSessions\<rparr>"

subsection \<open>The identity, projects and the calendar\<close>

definition AuthContext_meQuery :: use_query where
  "AuthContext_meQuery = (useQuery queryKeys_auth_me me)
     \<lparr>uq_retry := Some 0, uq_staleTime := Some QUERY_STALE_TIMES_userProfile\<rparr>"

definition ProjectsView_projects :: use_query where
  "ProjectsView_projects = useQuery queryKeys_projects_all (listProjects with_signal)"

definition DashboardView_projectsQuery :: use_query where
  "DashboardView_projectsQuery = useQuery queryKeys_projects_all (listProjects with_signal)"

definition CalendarView_projects :: use_query where
  "CalendarView_projects = useQuery queryKeys_projects_all (listProjects with_signal)"

definition DashboardView_projectSummaryQuery :: use_query where
  "DashboardView_projectSummaryQuery =
     useQuery queryKeys_projects_summary (getProjectSummary with_signal)"

definition useProjectDetail_projectQuery :: "string \<Rightarrow> use_query" where
  "useProjectDetail_projectQuery projectId =
     (useQuery (queryKeys_projects_detail projectId) (getProject projectId))
     \<lparr>uq_enabled := projectId \<noteq> []\<rparr>"

definition useProjectDetail_tasksQuery :: "string \<Rightarrow> use_query" where
  "useProjectDetail_tasksQuery projectId =
     (useQuery (queryKeys_projects_tasks projectId) (listProjectTasks projectId))
     \<lparr>uq_enabled := projectId \<noteq> []\<rparr>"

definition useProjectDetail_usersQuery :: use_query where
  "useProjectDetail_usersQuery = (useQuery queryKeys_users_directory listUserDirectory)
     \<lparr>uq_staleTime := Some QUERY_STALE_TIMES_userDirectory\<rparr>"

definition useDashboardCalendar_itemsQuery :: "string \<Rightarrow> string \<Rightarrow> use_query" where
  "useDashboardCalendar_itemsQuery start stop =
     (useQuery (queryKeys_calendar_items start stop) (listCalendarItems start stop with_signal))
     \<lparr>uq_staleTime := Some QUERY_STALE_TIMES_calendar\<rparr>"

subsection \<open>The platform, for its users and its administrators\<close>

definition usePlatformView_plansQuery :: "string list \<Rightarrow> use_query" where
  "usePlatformView_plansQuery modules = (useQuery queryKeys_platform_plans listSubscriptionPlans)
     \<lparr>uq_enabled := ''billing'' \<in> set modules\<rparr>"

definition usePlatformView_subscriptionQuery :: "string list \<Rightarrow> use_query" where
  "usePlatformView_subscriptionQuery modules =
     (useQuery queryKeys_platform_subscription getMySubscription)
     \<lparr>uq_enabled := ''billing'' \<in> set modules\<rparr>"

definition usePlatformView_apiKeysQuery :: "string list \<Rightarrow> use_query" where
  "usePlatformView_apiKeysQuery modules = (useQuery queryKeys_platform_apiKeys listApiKeys)
     \<lparr>uq_enabled := ''api_keys'' \<in> set modules\<rparr>"

definition usePlatformView_webhooksQuery :: "string list \<Rightarrow> use_query" where
  "usePlatformView_webhooksQuery modules = (useQuery queryKeys_platform_webhooks listWebhooks)
     \<lparr>uq_enabled := ''webhooks'' \<in> set modules\<rparr>"

definition usePlatformView_flagsQuery :: "string list \<Rightarrow> use_query" where
  "usePlatformView_flagsQuery modules =
     (useQuery queryKeys_platform_featureFlags listMyFeatureFlags)
     \<lparr>uq_enabled := ''feature_flags'' \<in> set modules\<rparr>"

definition AdminPlatformView_config :: use_query where
  "AdminPlatformView_config = useQuery queryKeys_platform_admin_config getPlatformConfig"

definition AdminPlatformView_plans :: use_query where
  "AdminPlatformView_plans = useQuery queryKeys_platform_admin_plans listAdminPlans"

definition AdminPlatformView_flags :: use_query where
  "AdminPlatformView_flags = useQuery queryKeys_platform_admin_featureFlags listAdminFeatureFlags"

definition AdminPlatformView_templates :: use_query where
  "AdminPlatformView_templates =
     useQuery queryKeys_platform_admin_emailTemplates listAdminEmailTemplates"

subsection \<open>Observability and diagnostics\<close>

definition useObservabilityView_linksQuery :: use_query where
  "useObservabilityView_linksQuery =
     (useQuery queryKeys_observability_links getObservabilityLinks)
     \<lparr>uq_staleTime := Some (5 * 60000)\<rparr>"

definition useObservabilityView_statusQuery :: use_query where
  "useObservabilityView_statusQuery =
     (useQuery queryKeys_observability_status getObservabilityStatus)
     \<lparr>uq_refetchInterval := Some 60000\<rparr>"

definition AdminDiagnosticsView_query :: use_query where
  "AdminDiagnosticsView_query = (useQuery queryKeys_admin_diagnostics getDiagnostics)
     \<lparr>uq_refetchInterval := Some 30000\<rparr>"

definition StorageHealthCard_query :: use_query where
  "StorageHealthCard_query = (useQuery queryKeys_admin_diagnostics getDiagnostics)
     \<lparr>uq_staleTime := Some 30000, uq_retry := Some 0\<rparr>"

definition DeveloperDiagnosticsPanel_statusQuery :: use_query where
  "DeveloperDiagnosticsPanel_statusQuery =
     (useQuery [KStr ''developer-diagnostics'', KStr ''status''] getDeveloperDiagnosticsStatus)
     \<lparr>uq_staleTime := Some 60000, uq_retry := Some 0\<rparr>"

subsection \<open>Chat and memories\<close>

definition useConversationList_query :: use_query where
  "useConversationList_query = useQuery queryKeys_chat_conversations listChatConversations"

definition useConversationList_selectedQuery :: "string option \<Rightarrow> use_query" where
  "useConversationList_selectedQuery activeId =
     (useQuery (if truthy activeId then queryKeys_chat_conversation (nullish activeId []) else [KStr ''chat'', KStr ''empty''])
     (getChatConversation (nullish activeId [])))
     \<lparr>uq_enabled := truthy activeId\<rparr>"

definition useKnowledgeDocuments_documentsQuery :: "string option \<Rightarrow> use_query" where
  "useKnowledgeDocuments_documentsQuery projectId =
     useQuery (queryKeys_chat_documentsForProject projectId) (listRagDocuments projectId)"

definition useKnowledgeDocuments_jobsQuery :: "string option \<Rightarrow> RagIngestionJob list option \<Rightarrow> use_query" where
  "useKnowledgeDocuments_jobsQuery projectId jobs =
     (useQuery (queryKeys_chat_ingestionJobsForProject projectId) listRagIngestionJobs)
     \<lparr>uq_refetchInterval := jobs_refetchInterval jobs\<rparr>"

definition ProfileMemorySection_listQuery :: "bool \<Rightarrow> use_query" where
  "ProfileMemorySection_listQuery memoryActive =
     (useQuery (queryKeys_memory_list MEMORY_PAGE_SIZE 0)
     (listMyMemories (Some
     \<lparr>listMemories_params_memory_level = None, listMemories_params_project_id = None,
      listMemories_params_agent_id = None, listMemories_params_limit = Some MEMORY_PAGE_SIZE,
      listMemories_params_offset = Some 0, listMemories_params_cursor = None\<rparr>)))
     \<lparr>uq_enabled := memoryActive, uq_retry := Some 0\<rparr>"

subsection \<open>Administration\<close>

definition useRagIndexes_statusQuery :: use_query where
  "useRagIndexes_statusQuery = useQuery queryKeys_admin_ragIndexStatus getRagIndexStatus"

definition useRagEvaluation_datasetsQuery :: use_query where
  "useRagEvaluation_datasetsQuery =
     useQuery queryKeys_admin_ragEvalDatasets (listRagEvalDatasets None)"

definition useRagEvaluation_casesQuery :: "string \<Rightarrow> use_query" where
  "useRagEvaluation_casesQuery datasetId =
     (useQuery (queryKeys_admin_ragEvalCases datasetId) (listRagEvalCases datasetId None))
     \<lparr>uq_enabled := datasetId \<noteq> []\<rparr>"

definition useRagEvaluation_runsQuery :: "string \<Rightarrow> use_query" where
  "useRagEvaluation_runsQuery datasetId =
     (useQuery (queryKeys_admin_ragEvalRuns datasetId) (listRagEvalRuns (or_none datasetId)))
     \<lparr>uq_enabled := datasetId \<noteq> []\<rparr>"

definition AccessControlPanels_rolesQuery :: use_query where
  "AccessControlPanels_rolesQuery = useQuery queryKeys_admin_policyRoles listPolicyRoles"

definition AccessControlPanels_permissionsQuery :: use_query where
  "AccessControlPanels_permissionsQuery =
     useQuery queryKeys_admin_policyPermissions listPolicyPermissions"

definition UserRolesDialog_rolesQuery :: "bool \<Rightarrow> use_query" where
  "UserRolesDialog_rolesQuery opened =
     (useQuery queryKeys_admin_policyRoles listPolicyRoles)\<lparr>uq_enabled := opened\<rparr>"

definition UserRolesDialog_assignmentsQuery :: "bool \<Rightarrow> string \<Rightarrow> use_query" where
  "UserRolesDialog_assignmentsQuery opened userId =
     (useQuery (queryKeys_admin_userRoleAssignments userId) (listUserRoleAssignments userId))
     \<lparr>uq_enabled := opened \<and> userId \<noteq> []\<rparr>"

definition useAdminUsers_usersQuery :: "DirectoryTab \<Rightarrow> number \<Rightarrow> string \<Rightarrow> use_query" where
  "useAdminUsers_usersQuery tab pg debouncedSearch =
     (useQuery (queryKeys_admin_users pg debouncedSearch)
     (listAdminUsers (Some
     \<lparr>listUsers_params_page = Some (pg + 1), listUsers_params_page_size = Some PAGE_SIZE,
      listUsers_params_search = text_or_undefined debouncedSearch\<rparr>)))
     \<lparr>uq_enabled := tab = UsersTab\<rparr>"

definition useAdminJobs_listQuery :: "job_filters \<Rightarrow> use_query" where
  "useAdminJobs_listQuery filters =
     useQuery (queryKeys_admin_jobs filters) (listConsoleJobs (Some (jobs_params filters)))"

definition AdminSettingsView_config :: use_query where
  "AdminSettingsView_config = useQuery queryKeys_settings_config getConfigSettings"

definition AdminSettingsView_database :: use_query where
  "AdminSettingsView_database = useQuery queryKeys_settings_database listDatabaseSettings"

definition AiProviderPanel_config :: "bool \<Rightarrow> use_query" where
  "AiProviderPanel_config is_admin = (useQuery queryKeys_settings_config getConfigSettings)
     \<lparr>uq_enabled := is_admin\<rparr>"

subsection \<open>The AI studio: features/ai/hooks/useAiStudioView.ts\<close>

definition useAiStudioView_overview :: use_query where
  "useAiStudioView_overview = (useQuery queryKeys_ai_overview (getAiOverview with_signal))
     \<lparr>uq_staleTime := Some QUERY_STALE_TIMES_aiOverview\<rparr>"

definition useAiStudioView_reviews :: use_query where
  "useAiStudioView_reviews = (useQuery queryKeys_ai_reviews listAiReviews)
     \<lparr>uq_staleTime := Some QUERY_STALE_TIMES_aiReviews\<rparr>"

definition useAiStudioView_evaluationRuns :: "string list option \<Rightarrow> use_query" where
  "useAiStudioView_evaluationRuns statuses =
     (useQuery queryKeys_ai_evaluationRuns listAiEvaluationRuns)
     \<lparr>uq_staleTime := Some QUERY_STALE_TIMES_aiEvaluationRuns, uq_refetchInterval := evaluation_poll statuses\<rparr>"

definition useAiStudioView_templateVersions :: "string \<Rightarrow> use_query" where
  "useAiStudioView_templateVersions templateId =
     (useQuery (queryKeys_ai_promptVersions templateId) (listPromptVersions templateId))
     \<lparr>uq_enabled := 0 < length templateId, uq_staleTime := Some QUERY_STALE_TIMES_aiPromptVersions\<rparr>"

definition useAiStudioView_datasetCases :: "string \<Rightarrow> use_query" where
  "useAiStudioView_datasetCases datasetId =
     (useQuery (queryKeys_ai_datasetCases datasetId) (listAiDatasetCases datasetId))
     \<lparr>uq_enabled := 0 < length datasetId, uq_staleTime := Some QUERY_STALE_TIMES_aiDatasetCases\<rparr>"

subsection \<open>All of them\<close>

text \<open>
  The state the options of queries depend on: the enabled modules, the rights of the user,
  what is open, and the loaded jobs and runs that decide whether to ask again.
\<close>

record query_context =
  qx_modules :: "string list"
  qx_memoryActive :: bool
  qx_isAdmin :: bool
  qx_open :: bool
  qx_tab :: DirectoryTab
  qx_interval :: "nat option option"
  qx_jobs :: "RagIngestionJob list option"
  qx_statuses :: "string list option"

text \<open>One constructor for each call of useQuery, with the arguments its key depends on.\<close>

datatype (plugins only: size) app_query =
    MeQuery | MetadataQuery
  | NotificationsQuery | UnreadCountQuery | PreferencesQuery
  | CurrentUserQuery | ProfileQuery | SessionsQuery | DirectoryQuery
  | ProjectsQuery | DashboardProjectsQuery | CalendarProjectsQuery | ProjectSummaryQuery
  | ProjectQuery string | ProjectTasksQuery string
  | CalendarQuery string string
  | PlansQuery | SubscriptionQuery | ApiKeysQuery | WebhooksQuery | MyFlagsQuery
  | AdminConfigQuery | AdminPlansQuery | AdminFlagsQuery | AdminTemplatesQuery
  | LinksQuery | HealthQuery | DiagnosticsQuery | StorageQuery | DeveloperStatusQuery
  | MemoriesQuery
  | IndexStatusQuery | EvalDatasetsQuery | EvalCasesQuery string | EvalRunsQuery string
  | ConversationsQuery | ConversationQuery "string option"
  | DocumentsQuery "string option" | IngestionJobsQuery "string option"
  | RolesQuery | DialogRolesQuery | PermissionsQuery | AssignmentsQuery string
  | UsersQuery number string | JobsQuery job_filters
  | ConfigQuery | ProviderConfigQuery | DatabaseQuery
  | AiOverviewQuery | AiReviewsQuery | AiRunsQuery | PromptVersionsQuery string | DatasetCasesQuery string

fun query_of :: "query_context \<Rightarrow> app_query \<Rightarrow> use_query" where
  "query_of x MeQuery = AuthContext_meQuery"
| "query_of x MetadataQuery = usePlatformMetadata"
| "query_of x NotificationsQuery = useNotifications (qx_interval x)"
| "query_of x UnreadCountQuery = useUnreadNotificationCount"
| "query_of x PreferencesQuery = useNotificationPreferences"
| "query_of x CurrentUserQuery = useCurrentUser"
| "query_of x ProfileQuery = useUserProfile"
| "query_of x SessionsQuery = useUserSessions"
| "query_of x DirectoryQuery = useProjectDetail_usersQuery"
| "query_of x ProjectsQuery = ProjectsView_projects"
| "query_of x DashboardProjectsQuery = DashboardView_projectsQuery"
| "query_of x CalendarProjectsQuery = CalendarView_projects"
| "query_of x ProjectSummaryQuery = DashboardView_projectSummaryQuery"
| "query_of x (ProjectQuery projectId) = useProjectDetail_projectQuery projectId"
| "query_of x (ProjectTasksQuery projectId) = useProjectDetail_tasksQuery projectId"
| "query_of x (CalendarQuery start stop) = useDashboardCalendar_itemsQuery start stop"
| "query_of x PlansQuery = usePlatformView_plansQuery (qx_modules x)"
| "query_of x SubscriptionQuery = usePlatformView_subscriptionQuery (qx_modules x)"
| "query_of x ApiKeysQuery = usePlatformView_apiKeysQuery (qx_modules x)"
| "query_of x WebhooksQuery = usePlatformView_webhooksQuery (qx_modules x)"
| "query_of x MyFlagsQuery = usePlatformView_flagsQuery (qx_modules x)"
| "query_of x AdminConfigQuery = AdminPlatformView_config"
| "query_of x AdminPlansQuery = AdminPlatformView_plans"
| "query_of x AdminFlagsQuery = AdminPlatformView_flags"
| "query_of x AdminTemplatesQuery = AdminPlatformView_templates"
| "query_of x LinksQuery = useObservabilityView_linksQuery"
| "query_of x HealthQuery = useObservabilityView_statusQuery"
| "query_of x DiagnosticsQuery = AdminDiagnosticsView_query"
| "query_of x StorageQuery = StorageHealthCard_query"
| "query_of x DeveloperStatusQuery = DeveloperDiagnosticsPanel_statusQuery"
| "query_of x MemoriesQuery = ProfileMemorySection_listQuery (qx_memoryActive x)"
| "query_of x IndexStatusQuery = useRagIndexes_statusQuery"
| "query_of x EvalDatasetsQuery = useRagEvaluation_datasetsQuery"
| "query_of x (EvalCasesQuery datasetId) = useRagEvaluation_casesQuery datasetId"
| "query_of x (EvalRunsQuery datasetId) = useRagEvaluation_runsQuery datasetId"
| "query_of x ConversationsQuery = useConversationList_query"
| "query_of x (ConversationQuery activeId) = useConversationList_selectedQuery activeId"
| "query_of x (DocumentsQuery projectId) = useKnowledgeDocuments_documentsQuery projectId"
| "query_of x (IngestionJobsQuery projectId) = useKnowledgeDocuments_jobsQuery projectId (qx_jobs x)"
| "query_of x RolesQuery = AccessControlPanels_rolesQuery"
| "query_of x DialogRolesQuery = UserRolesDialog_rolesQuery (qx_open x)"
| "query_of x PermissionsQuery = AccessControlPanels_permissionsQuery"
| "query_of x (AssignmentsQuery userId) = UserRolesDialog_assignmentsQuery (qx_open x) userId"
| "query_of x (UsersQuery pg search) = useAdminUsers_usersQuery (qx_tab x) pg search"
| "query_of x (JobsQuery filters) = useAdminJobs_listQuery filters"
| "query_of x ConfigQuery = AdminSettingsView_config"
| "query_of x ProviderConfigQuery = AiProviderPanel_config (qx_isAdmin x)"
| "query_of x DatabaseQuery = AdminSettingsView_database"
| "query_of x AiOverviewQuery = useAiStudioView_overview"
| "query_of x AiReviewsQuery = useAiStudioView_reviews"
| "query_of x AiRunsQuery = useAiStudioView_evaluationRuns (qx_statuses x)"
| "query_of x (PromptVersionsQuery templateId) = useAiStudioView_templateVersions templateId"
| "query_of x (DatasetCasesQuery datasetId) = useAiStudioView_datasetCases datasetId"

section \<open>Keys are not shared\<close>

lemmas key_defs =
  queryKeys_auth_me_def queryKeys_auth_all_def queryKeys_users_me_def queryKeys_users_profile_def
  queryKeys_users_sessions_def queryKeys_users_directory_def queryKeys_notifications_all_def
  queryKeys_notifications_unreadCount_def queryKeys_notifications_preferences_def
  queryKeys_projects_all_def queryKeys_projects_summary_def queryKeys_projects_detail_def
  queryKeys_projects_tasks_def queryKeys_calendar_all_def queryKeys_calendar_items_def
  queryKeys_admin_all_def queryKeys_admin_users_def queryKeys_admin_policyRoles_def
  queryKeys_admin_policyPermissions_def queryKeys_admin_userRoleAssignments_def
  queryKeys_admin_diagnostics_def queryKeys_admin_jobs_def queryKeys_admin_ragIndexStatus_def
  queryKeys_admin_ragEvalDatasets_def queryKeys_admin_ragEvalCases_def queryKeys_admin_ragEvalRuns_def
  queryKeys_memory_all_def queryKeys_memory_list_def queryKeys_platform_all_def
  queryKeys_platform_metadata_def queryKeys_platform_plans_def queryKeys_platform_subscription_def
  queryKeys_platform_apiKeys_def queryKeys_platform_webhooks_def queryKeys_platform_featureFlags_def
  queryKeys_platform_admin_config_def queryKeys_platform_admin_plans_def
  queryKeys_platform_admin_featureFlags_def queryKeys_platform_admin_emailTemplates_def
  queryKeys_settings_config_def queryKeys_settings_database_def queryKeys_observability_links_def
  queryKeys_observability_status_def queryKeys_ai_all_def queryKeys_ai_overview_def
  queryKeys_ai_reviews_def queryKeys_ai_evaluationRuns_def queryKeys_ai_promptVersions_def
  queryKeys_ai_datasetCases_def queryKeys_chat_all_def queryKeys_chat_conversations_def
  queryKeys_chat_conversation_def queryKeys_chat_documents_def queryKeys_chat_documentsForProject_def
  queryKeys_chat_ingestionJobs_def queryKeys_chat_ingestionJobsForProject_def

lemmas hook_defs =
  useQuery_def usePlatformMetadata_def useNotifications_def useUnreadNotificationCount_def
  useNotificationPreferences_def useCurrentUser_def useUserProfile_def useUserSessions_def
  AuthContext_meQuery_def ProjectsView_projects_def DashboardView_projectsQuery_def
  CalendarView_projects_def DashboardView_projectSummaryQuery_def useProjectDetail_projectQuery_def
  useProjectDetail_tasksQuery_def useProjectDetail_usersQuery_def
  useDashboardCalendar_itemsQuery_def usePlatformView_plansQuery_def
  usePlatformView_subscriptionQuery_def usePlatformView_apiKeysQuery_def
  usePlatformView_webhooksQuery_def usePlatformView_flagsQuery_def AdminPlatformView_config_def
  AdminPlatformView_plans_def AdminPlatformView_flags_def AdminPlatformView_templates_def
  useObservabilityView_linksQuery_def useObservabilityView_statusQuery_def
  AdminDiagnosticsView_query_def StorageHealthCard_query_def
  DeveloperDiagnosticsPanel_statusQuery_def useConversationList_query_def
  useConversationList_selectedQuery_def useKnowledgeDocuments_documentsQuery_def
  useKnowledgeDocuments_jobsQuery_def ProfileMemorySection_listQuery_def
  useRagIndexes_statusQuery_def useRagEvaluation_datasetsQuery_def useRagEvaluation_casesQuery_def
  useRagEvaluation_runsQuery_def AccessControlPanels_rolesQuery_def
  AccessControlPanels_permissionsQuery_def UserRolesDialog_rolesQuery_def
  UserRolesDialog_assignmentsQuery_def useAdminUsers_usersQuery_def useAdminJobs_listQuery_def
  AdminSettingsView_config_def AdminSettingsView_database_def AiProviderPanel_config_def
  useAiStudioView_overview_def useAiStudioView_reviews_def useAiStudioView_evaluationRuns_def
  useAiStudioView_templateVersions_def useAiStudioView_datasetCases_def

text \<open>The key and the request of a query do not depend on the context.\<close>

definition idle_context :: query_context where
  "idle_context =
     \<lparr>qx_modules = [], qx_memoryActive = False, qx_isAdmin = False, qx_open = False, qx_tab = UsersTab,
      qx_interval = None, qx_jobs = None, qx_statuses = None\<rparr>"

definition query_key_of :: "app_query \<Rightarrow> query_key" where
  "query_key_of q = uq_key (query_of idle_context q)"

definition query_call :: "app_query \<Rightarrow> api_call" where
  "query_call q = uq_call (query_of idle_context q)"

lemma query_keys:
  "query_key_of MeQuery = queryKeys_auth_me"
  "query_key_of MetadataQuery = queryKeys_platform_metadata"
  "query_key_of NotificationsQuery = queryKeys_notifications_all"
  "query_key_of UnreadCountQuery = queryKeys_notifications_unreadCount"
  "query_key_of PreferencesQuery = queryKeys_notifications_preferences"
  "query_key_of CurrentUserQuery = queryKeys_users_me"
  "query_key_of ProfileQuery = queryKeys_users_profile"
  "query_key_of SessionsQuery = queryKeys_users_sessions"
  "query_key_of DirectoryQuery = queryKeys_users_directory"
  "query_key_of ProjectsQuery = queryKeys_projects_all"
  "query_key_of DashboardProjectsQuery = queryKeys_projects_all"
  "query_key_of CalendarProjectsQuery = queryKeys_projects_all"
  "query_key_of ProjectSummaryQuery = queryKeys_projects_summary"
  "query_key_of (ProjectQuery projectId) = queryKeys_projects_detail projectId"
  "query_key_of (ProjectTasksQuery projectId) = queryKeys_projects_tasks projectId"
  "query_key_of (CalendarQuery start stop) = queryKeys_calendar_items start stop"
  "query_key_of PlansQuery = queryKeys_platform_plans"
  "query_key_of SubscriptionQuery = queryKeys_platform_subscription"
  "query_key_of ApiKeysQuery = queryKeys_platform_apiKeys"
  "query_key_of WebhooksQuery = queryKeys_platform_webhooks"
  "query_key_of MyFlagsQuery = queryKeys_platform_featureFlags"
  "query_key_of AdminConfigQuery = queryKeys_platform_admin_config"
  "query_key_of AdminPlansQuery = queryKeys_platform_admin_plans"
  "query_key_of AdminFlagsQuery = queryKeys_platform_admin_featureFlags"
  "query_key_of AdminTemplatesQuery = queryKeys_platform_admin_emailTemplates"
  "query_key_of LinksQuery = queryKeys_observability_links"
  "query_key_of HealthQuery = queryKeys_observability_status"
  "query_key_of DiagnosticsQuery = queryKeys_admin_diagnostics"
  "query_key_of StorageQuery = queryKeys_admin_diagnostics"
  "query_key_of DeveloperStatusQuery = [KStr ''developer-diagnostics'', KStr ''status'']"
  "query_key_of MemoriesQuery = queryKeys_memory_list MEMORY_PAGE_SIZE 0"
  "query_key_of IndexStatusQuery = queryKeys_admin_ragIndexStatus"
  "query_key_of EvalDatasetsQuery = queryKeys_admin_ragEvalDatasets"
  "query_key_of (EvalCasesQuery datasetId) = queryKeys_admin_ragEvalCases datasetId"
  "query_key_of (EvalRunsQuery datasetId) = queryKeys_admin_ragEvalRuns datasetId"
  "query_key_of ConversationsQuery = queryKeys_chat_conversations"
  "query_key_of (ConversationQuery activeId) = (if truthy activeId then queryKeys_chat_conversation (nullish activeId []) else [KStr ''chat'', KStr ''empty''])"
  "query_key_of (DocumentsQuery scope) = queryKeys_chat_documentsForProject scope"
  "query_key_of (IngestionJobsQuery scope) = queryKeys_chat_ingestionJobsForProject scope"
  "query_key_of RolesQuery = queryKeys_admin_policyRoles"
  "query_key_of DialogRolesQuery = queryKeys_admin_policyRoles"
  "query_key_of PermissionsQuery = queryKeys_admin_policyPermissions"
  "query_key_of (AssignmentsQuery userId) = queryKeys_admin_userRoleAssignments userId"
  "query_key_of (UsersQuery pg search) = queryKeys_admin_users pg search"
  "query_key_of (JobsQuery filters) = queryKeys_admin_jobs filters"
  "query_key_of ConfigQuery = queryKeys_settings_config"
  "query_key_of ProviderConfigQuery = queryKeys_settings_config"
  "query_key_of DatabaseQuery = queryKeys_settings_database"
  "query_key_of AiOverviewQuery = queryKeys_ai_overview"
  "query_key_of AiReviewsQuery = queryKeys_ai_reviews"
  "query_key_of AiRunsQuery = queryKeys_ai_evaluationRuns"
  "query_key_of (PromptVersionsQuery templateId) = queryKeys_ai_promptVersions templateId"
  "query_key_of (DatasetCasesQuery datasetId) = queryKeys_ai_datasetCases datasetId"
  by (simp_all add: query_key_of_def hook_defs)

lemmas key_simps = query_keys [unfolded key_defs] key_defs

lemma key_of_query: "uq_key (query_of x q) = query_key_of q"
  by (cases q) (simp_all add: query_key_of_def hook_defs)

lemma call_of_query: "uq_call (query_of x q) = query_call q"
  by (cases q) (simp_all add: query_call_def hook_defs)

text \<open>Several components run the same query; the first that is listed stands for it.\<close>

fun same_query :: "app_query \<Rightarrow> app_query" where
  "same_query DashboardProjectsQuery = ProjectsQuery"
| "same_query CalendarProjectsQuery = ProjectsQuery"
| "same_query StorageQuery = DiagnosticsQuery"
| "same_query DialogRolesQuery = RolesQuery"
| "same_query ProviderConfigQuery = ConfigQuery"
| "same_query (ConversationQuery activeId) = ConversationQuery (if truthy activeId then activeId else None)"
| "same_query q = q"

lemma call_same_query: "query_call (same_query q) = query_call q"
  by (cases q rule: same_query.cases)
    (simp_all add: query_call_def hook_defs truthy_def nullish_def split: option.splits)

definition plain_queries :: "app_query list" where
  "plain_queries =
     [MeQuery, MetadataQuery, NotificationsQuery, UnreadCountQuery, PreferencesQuery, CurrentUserQuery,
      ProfileQuery, SessionsQuery, DirectoryQuery, ProjectsQuery, ProjectSummaryQuery, PlansQuery,
      SubscriptionQuery, ApiKeysQuery, WebhooksQuery, MyFlagsQuery, AdminConfigQuery, AdminPlansQuery,
      AdminFlagsQuery, AdminTemplatesQuery, LinksQuery, HealthQuery, MemoriesQuery, IndexStatusQuery,
      EvalDatasetsQuery, ConversationsQuery, ConversationQuery None, RolesQuery, PermissionsQuery,
      DiagnosticsQuery, DeveloperStatusQuery, ConfigQuery, DatabaseQuery, AiOverviewQuery,
      AiReviewsQuery, AiRunsQuery]"

text \<open>
  The query a key belongs to, read off the key: the argument of a query is a part of its
  key, and the words before it say which query it is.
\<close>

definition query_at :: "query_key \<Rightarrow> app_query" where
  "query_at k =
     (case map_of (map (\<lambda>q. (query_key_of q, q)) plain_queries) k of
        Some q \<Rightarrow> q
      | None \<Rightarrow>
          (case k of
             [KStr area, KStr a] \<Rightarrow> ProjectQuery a
           | [KStr area, KStr a, KStr b] \<Rightarrow>
               if area = ''projects'' then ProjectTasksQuery a
               else if a = ''rag-eval-cases'' then EvalCasesQuery b
               else if a = ''rag-eval-runs'' then EvalRunsQuery b
               else if a = ''conversation'' then ConversationQuery (Some b)
               else if a = ''documents'' then DocumentsQuery (if b = ''_'' then None else Some b)
               else if a = ''ingestion-jobs'' then IngestionJobsQuery (if b = ''_'' then None else Some b)
               else if a = ''role-assignments'' then AssignmentsQuery b
               else if a = ''prompt-versions'' then PromptVersionsQuery b
               else DatasetCasesQuery b
           | [KStr area, KStr a, KStr b, KStr c] \<Rightarrow> CalendarQuery b c
           | [KStr area, KStr a, KNum n, KStr s] \<Rightarrow> UsersQuery n s
           | [KStr area, KStr a, KStr s, KStr t, KStr q, KStr p, KBool f] \<Rightarrow>
               JobsQuery \<lparr>jf_status = s, jf_jobType = t, jf_queue = q, jf_projectId = p, jf_failedOnly = f\<rparr>
           | _ \<Rightarrow> MeQuery))"

text \<open>No project is called summary, and none _; the server names projects with UUIDs.\<close>

fun proper_query :: "app_query \<Rightarrow> bool" where
  "proper_query (ProjectQuery projectId) = (projectId \<noteq> ''summary'')"
| "proper_query (DocumentsQuery projectId) = (projectId \<noteq> Some ''_'')"
| "proper_query (IngestionJobsQuery projectId) = (projectId \<noteq> Some ''_'')"
| "proper_query _ = True"


lemmas query_table = plain_queries_def [THEN arg_cong, of "map (\<lambda>q. (query_key_of q, q))",
    unfolded list.map query_keys key_defs truthy_simps if_False]

lemma query_at_key:
  assumes "proper_query q"
  shows "query_at (query_key_of q) = same_query q"
  using assms
  by (cases q) (simp_all add: query_at_def query_table query_keys key_defs nullish_def truthy_def split: option.splits, auto)

text \<open>The ids a query puts into its request.\<close>

fun query_ids :: "app_query \<Rightarrow> string list" where
  "query_ids (ProjectQuery projectId) = [projectId]"
| "query_ids (ProjectTasksQuery projectId) = [projectId]"
| "query_ids (EvalCasesQuery datasetId) = [datasetId]"
| "query_ids (EvalRunsQuery datasetId) = [datasetId]"
| "query_ids (ConversationQuery activeId) = [nullish activeId []]"
| "query_ids (AssignmentsQuery userId) = [userId]"
| "query_ids (PromptVersionsQuery templateId) = [templateId]"
| "query_ids (DatasetCasesQuery datasetId) = [datasetId]"
| "query_ids _ = []"

section \<open>What an invalidation reaches\<close>

text \<open>
  Which keys a filter selects is decided by TanStack Query, a parameter here: matches
  filter key.  Its documentation promises that a filter selects the keys it begins.
\<close>

definition prefix_matching :: "(query_key \<Rightarrow> query_key \<Rightarrow> bool) \<Rightarrow> bool" where
  "prefix_matching matches \<longleftrightarrow> (\<forall>f k. matches f k \<longleftrightarrow> prefix f k)"

text \<open>The keys the mutations of each component invalidate when they succeeded, in the order of the code.\<close>

definition ProjectsView_created :: "query_key list" where
  "ProjectsView_created = [queryKeys_projects_all, queryKeys_projects_summary]"

definition useProjectDetail_created :: "query_key list" where
  "useProjectDetail_created = [queryKeys_projects_all, queryKeys_projects_summary]"

definition useProjectDetail_reordered :: "string \<Rightarrow> query_key list" where
  "useProjectDetail_reordered projectId = [queryKeys_projects_tasks projectId]"

definition useDashboardCalendar_saved :: "bool \<Rightarrow> query_key list" where
  "useDashboardCalendar_saved is_task =
     queryKeys_calendar_all # (if is_task then [queryKeys_projects_all, queryKeys_projects_summary] else [])"

definition KnowledgeChatView_created :: "query_key list" where
  "KnowledgeChatView_created = [queryKeys_chat_conversations]"

definition KnowledgeChatView_deleted :: "query_key list" where
  "KnowledgeChatView_deleted = [queryKeys_chat_conversations]"

definition KnowledgeChatView_updated :: "string \<Rightarrow> query_key list" where
  "KnowledgeChatView_updated conversationId =
     [queryKeys_chat_conversation conversationId, queryKeys_chat_conversations]"

definition KnowledgeChatView_cleared :: "string option \<Rightarrow> query_key list" where
  "KnowledgeChatView_cleared activeId =
     (if truthy activeId then [queryKeys_chat_conversation (nullish activeId [])] else [])"

definition onStreamComplete :: "string \<Rightarrow> query_key list" where
  "onStreamComplete conversationId =
     [queryKeys_chat_conversation conversationId, queryKeys_chat_conversations]"

definition useKnowledgeDocuments_invalidate :: "query_key list" where
  "useKnowledgeDocuments_invalidate = [queryKeys_chat_documents, queryKeys_chat_ingestionJobs]"

definition NotificationsView_read :: "query_key list" where
  "NotificationsView_read = [queryKeys_notifications_all, queryKeys_notifications_unreadCount]"

definition NotificationsView_preferences :: "query_key list" where
  "NotificationsView_preferences = [queryKeys_notifications_preferences]"

definition useAdminUsers_settled :: "query_key list" where
  "useAdminUsers_settled = [queryKeys_admin_all]"

definition UserRolesDialog_assigned :: "string \<Rightarrow> query_key list" where
  "UserRolesDialog_assigned userId =
     [queryKeys_admin_userRoleAssignments userId, queryKeys_admin_all]"

definition UserRolesDialog_revoked :: "string \<Rightarrow> query_key list" where
  "UserRolesDialog_revoked userId =
     [queryKeys_admin_userRoleAssignments userId, queryKeys_admin_all]"

definition useAdminJobs_refresh :: "query_key list" where
  "useAdminJobs_refresh = [[KStr ''admin'', KStr ''jobs'']]"

definition useRagIndexes_refresh :: "query_key list" where
  "useRagIndexes_refresh = [queryKeys_admin_ragIndexStatus]"

definition refreshDatasets :: "query_key list" where
  "refreshDatasets = [queryKeys_admin_ragEvalDatasets]"

definition refreshCases :: "string \<Rightarrow> query_key list" where
  "refreshCases datasetId = [queryKeys_admin_ragEvalCases datasetId]"

definition refreshRuns :: "string \<Rightarrow> query_key list" where
  "refreshRuns datasetId = [queryKeys_admin_ragEvalRuns datasetId]"

definition usePlatformView_planSelected :: "query_key list" where
  "usePlatformView_planSelected = [queryKeys_platform_subscription]"

definition usePlatformView_keysChanged :: "query_key list" where
  "usePlatformView_keysChanged = [queryKeys_platform_apiKeys]"

definition usePlatformView_webhooksChanged :: "query_key list" where
  "usePlatformView_webhooksChanged = [queryKeys_platform_webhooks]"

definition refreshDatabase :: "query_key list" where
  "refreshDatabase = [queryKeys_settings_database]"

definition ProfileMemorySection_deleted :: "query_key list" where
  "ProfileMemorySection_deleted = [queryKeys_memory_all]"

text \<open>invalidatePlatformAdminCapability: the argument of an accepted change of the administrator.\<close>

datatype platform_capability = AllCapabilities | PlansCapability | FlagsCapability | TemplatesCapability

fun invalidatePlatformAdminCapability :: "platform_capability \<Rightarrow> query_key list" where
  "invalidatePlatformAdminCapability AllCapabilities = [queryKeys_platform_all]"
| "invalidatePlatformAdminCapability PlansCapability = [queryKeys_platform_admin_plans]"
| "invalidatePlatformAdminCapability FlagsCapability = [queryKeys_platform_admin_featureFlags]"
| "invalidatePlatformAdminCapability TemplatesCapability = [queryKeys_platform_admin_emailTemplates]"

datatype (plugins only: size) app_mutation =
    CreateProject | CreateTask string | UpdateTask string | DeleteTask string | ReorderTasks string
  | SaveCalendarItem bool
  | CreateConversation | DeleteConversation string | UpdateConversation string
  | ClearConversation "string option" | StreamCompleted string
  | DocumentsChanged
  | ReadNotifications | SavePreferences
  | SetUserStatus | AssignRole string | RevokeRole string
  | RetryOrCancelJob
  | ChangeIndex | AddEvalDataset | AddEvalCase string | RunEvalDataset string
  | SelectPlan | ChangeApiKeys | ChangeWebhooks
  | SavePlatformConfig | ChangePlans | ChangeFlags | ChangeTemplates
  | ChangeDatabaseSetting
  | ProfileChange profile_mutation
  | DeleteMemory

text \<open>
  The keys invalidated when a mutation has succeeded.  Updating
  and deleting a task write the cached list of tasks and invalidate nothing.
\<close>

fun invalidated_keys :: "app_mutation \<Rightarrow> query_key list" where
  "invalidated_keys CreateProject = ProjectsView_created"
| "invalidated_keys (CreateTask projectId) = useProjectDetail_created"
| "invalidated_keys (UpdateTask projectId) = []"
| "invalidated_keys (DeleteTask projectId) = []"
| "invalidated_keys (ReorderTasks projectId) = useProjectDetail_reordered projectId"
| "invalidated_keys (SaveCalendarItem is_task) = useDashboardCalendar_saved is_task"
| "invalidated_keys CreateConversation = KnowledgeChatView_created"
| "invalidated_keys (DeleteConversation conversationId) = KnowledgeChatView_deleted"
| "invalidated_keys (UpdateConversation conversationId) = KnowledgeChatView_updated conversationId"
| "invalidated_keys (ClearConversation activeId) = KnowledgeChatView_cleared activeId"
| "invalidated_keys (StreamCompleted conversationId) = onStreamComplete conversationId"
| "invalidated_keys DocumentsChanged = useKnowledgeDocuments_invalidate"
| "invalidated_keys ReadNotifications = NotificationsView_read"
| "invalidated_keys SavePreferences = NotificationsView_preferences"
| "invalidated_keys SetUserStatus = useAdminUsers_settled"
| "invalidated_keys (AssignRole userId) = UserRolesDialog_assigned userId"
| "invalidated_keys (RevokeRole userId) = UserRolesDialog_revoked userId"
| "invalidated_keys RetryOrCancelJob = useAdminJobs_refresh"
| "invalidated_keys ChangeIndex = useRagIndexes_refresh"
| "invalidated_keys AddEvalDataset = refreshDatasets"
| "invalidated_keys (AddEvalCase datasetId) = refreshCases datasetId"
| "invalidated_keys (RunEvalDataset datasetId) = refreshRuns datasetId"
| "invalidated_keys SelectPlan = usePlatformView_planSelected"
| "invalidated_keys ChangeApiKeys = usePlatformView_keysChanged"
| "invalidated_keys ChangeWebhooks = usePlatformView_webhooksChanged"
| "invalidated_keys SavePlatformConfig = invalidatePlatformAdminCapability AllCapabilities"
| "invalidated_keys ChangePlans = invalidatePlatformAdminCapability PlansCapability"
| "invalidated_keys ChangeFlags = invalidatePlatformAdminCapability FlagsCapability"
| "invalidated_keys ChangeTemplates = invalidatePlatformAdminCapability TemplatesCapability"
| "invalidated_keys ChangeDatabaseSetting = refreshDatabase"
| "invalidated_keys (ProfileChange m) = refreshed m"
| "invalidated_keys DeleteMemory = ProfileMemorySection_deleted"

lemmas refresh_defs =
  ProjectsView_created_def useProjectDetail_created_def useProjectDetail_reordered_def
  useDashboardCalendar_saved_def KnowledgeChatView_created_def KnowledgeChatView_deleted_def
  KnowledgeChatView_updated_def KnowledgeChatView_cleared_def onStreamComplete_def
  useKnowledgeDocuments_invalidate_def NotificationsView_read_def
  NotificationsView_preferences_def useAdminUsers_settled_def UserRolesDialog_assigned_def
  UserRolesDialog_revoked_def useAdminJobs_refresh_def useRagIndexes_refresh_def
  refreshDatasets_def refreshCases_def refreshRuns_def usePlatformView_planSelected_def
  usePlatformView_keysChanged_def usePlatformView_webhooksChanged_def refreshDatabase_def
  ProfileMemorySection_deleted_def

definition refetched :: "(query_key \<Rightarrow> query_key \<Rightarrow> bool) \<Rightarrow> app_mutation \<Rightarrow> app_query \<Rightarrow> bool" where
  "refetched matches m q \<longleftrightarrow> list_ex (\<lambda>k. matches k (query_key_of q)) (invalidated_keys m)"

text \<open>The queries by the resource they show.\<close>

fun shows_projects :: "app_query \<Rightarrow> bool" where
  "shows_projects ProjectsQuery = True"
| "shows_projects DashboardProjectsQuery = True"
| "shows_projects CalendarProjectsQuery = True"
| "shows_projects ProjectSummaryQuery = True"
| "shows_projects (ProjectQuery _) = True"
| "shows_projects (ProjectTasksQuery _) = True"
| "shows_projects _ = False"

fun shows_calendar :: "app_query \<Rightarrow> bool" where
  "shows_calendar (CalendarQuery _ _) = True"
| "shows_calendar _ = False"

fun shows_notifications :: "app_query \<Rightarrow> bool" where
  "shows_notifications NotificationsQuery = True"
| "shows_notifications UnreadCountQuery = True"
| "shows_notifications PreferencesQuery = True"
| "shows_notifications _ = False"

fun shows_documents :: "app_query \<Rightarrow> bool" where
  "shows_documents (DocumentsQuery _) = True"
| "shows_documents (IngestionJobsQuery _) = True"
| "shows_documents _ = False"

fun shows_jobs :: "app_query \<Rightarrow> bool" where
  "shows_jobs (JobsQuery _) = True"
| "shows_jobs _ = False"

fun shows_administration :: "app_query \<Rightarrow> bool" where
  "shows_administration IndexStatusQuery = True"
| "shows_administration EvalDatasetsQuery = True"
| "shows_administration (EvalCasesQuery _) = True"
| "shows_administration (EvalRunsQuery _) = True"
| "shows_administration RolesQuery = True"
| "shows_administration DialogRolesQuery = True"
| "shows_administration PermissionsQuery = True"
| "shows_administration (AssignmentsQuery _) = True"
| "shows_administration (UsersQuery _ _) = True"
| "shows_administration (JobsQuery _) = True"
| "shows_administration DiagnosticsQuery = True"
| "shows_administration StorageQuery = True"
| "shows_administration _ = False"

fun shows_platform :: "app_query \<Rightarrow> bool" where
  "shows_platform q =
     (q \<in> set [MetadataQuery, PlansQuery, SubscriptionQuery, ApiKeysQuery, WebhooksQuery, MyFlagsQuery,
        AdminConfigQuery, AdminPlansQuery, AdminFlagsQuery, AdminTemplatesQuery])"

text \<open>The queries a mutation is meant to refresh.\<close>

fun meant_queries :: "app_mutation \<Rightarrow> app_query \<Rightarrow> bool" where
  "meant_queries CreateProject q = shows_projects q"
| "meant_queries (CreateTask _) q = shows_projects q"
| "meant_queries (UpdateTask _) q = False"
| "meant_queries (DeleteTask _) q = False"
| "meant_queries (ReorderTasks projectId) q = (q = ProjectTasksQuery projectId)"
| "meant_queries (SaveCalendarItem is_task) q = (shows_calendar q \<or> is_task \<and> shows_projects q)"
| "meant_queries CreateConversation q = (q = ConversationsQuery)"
| "meant_queries (DeleteConversation _) q = (q = ConversationsQuery)"
| "meant_queries (UpdateConversation c) q = (q = ConversationsQuery \<or> q = ConversationQuery (Some c) \<and> c \<noteq> [])"
| "meant_queries (ClearConversation active) q = (truthy active \<and> q = ConversationQuery active)"
| "meant_queries (StreamCompleted c) q = (q = ConversationsQuery \<or> q = ConversationQuery (Some c) \<and> c \<noteq> [])"
| "meant_queries DocumentsChanged q = shows_documents q"
| "meant_queries ReadNotifications q = shows_notifications q"
| "meant_queries SavePreferences q = (q = PreferencesQuery)"
| "meant_queries SetUserStatus q = shows_administration q"
| "meant_queries (AssignRole _) q = shows_administration q"
| "meant_queries (RevokeRole _) q = shows_administration q"
| "meant_queries RetryOrCancelJob q = shows_jobs q"
| "meant_queries ChangeIndex q = (q = IndexStatusQuery)"
| "meant_queries AddEvalDataset q = (q = EvalDatasetsQuery)"
| "meant_queries (AddEvalCase d) q = (q = EvalCasesQuery d)"
| "meant_queries (RunEvalDataset d) q = (q = EvalRunsQuery d)"
| "meant_queries SelectPlan q = (q = SubscriptionQuery)"
| "meant_queries ChangeApiKeys q = (q = ApiKeysQuery)"
| "meant_queries ChangeWebhooks q = (q = WebhooksQuery)"
| "meant_queries SavePlatformConfig q = shows_platform q"
| "meant_queries ChangePlans q = (q = AdminPlansQuery)"
| "meant_queries ChangeFlags q = (q = AdminFlagsQuery)"
| "meant_queries ChangeTemplates q = (q = AdminTemplatesQuery)"
| "meant_queries ChangeDatabaseSetting q = (q = DatabaseQuery)"
| "meant_queries (ProfileChange m) q =
     (case m of
        Password \<Rightarrow> False
      | RevokeSession \<Rightarrow> q = SessionsQuery
      | PublicProfile \<Rightarrow> q = ProfileQuery
      | Avatar \<Rightarrow> q = ProfileQuery
      | _ \<Rightarrow> q = MeQuery \<or> q = CurrentUserQuery)"
| "meant_queries DeleteMemory q = (q = MemoriesQuery)"

section \<open>Properties\<close>

lemma prefix_matchingD: "prefix_matching matches \<Longrightarrow> matches f k \<longleftrightarrow> prefix f k"
  by (simp add: prefix_matching_def)

lemma query_key_user_scoped: "isUserScopedQuery (query_key_of q) \<longleftrightarrow> q \<noteq> MeQuery"
  by (cases q) (simp_all add: isUserScopedQuery_def key_simps)

text \<open>
  C15: One key, one request. Two calls of useQuery anywhere in the application that have
  the same key send the same request, in whatever context each is made, so the cache
  never answers one of them with the data of another; and each has the key of the query
  that stands for it. Left out are the two ids that would collide, a project called
  summary and one called _, which the server's UUIDs never are.
\<close>
theorem equal_keys_equal_requests:
  assumes "proper_query q" and "proper_query q'" and "uq_key (query_of x q) = uq_key (query_of y q')"
  shows "same_query q = same_query q' \<and> uq_call (query_of x q) = uq_call (query_of y q')"
proof -
  have "same_query q = query_at (query_key_of q)" by (simp add: query_at_key [OF assms(1)])
  also have "\<dots> = query_at (query_key_of q')" using assms(3) by (simp add: key_of_query)
  also have "\<dots> = same_query q'" by (rule query_at_key [OF assms(2)])
  finally have *: "same_query q = same_query q'" .
  then have "query_call q = query_call q'" by (metis call_same_query)
  with * show ?thesis by (simp add: call_of_query)
qed

theorem equal_keys_equal_requests_witness:
  "uq_call (query_of idle_context RolesQuery) = uq_call (query_of (idle_context\<lparr>qx_open := True\<rparr>) DialogRolesQuery)"
  using equal_keys_equal_requests [of RolesQuery DialogRolesQuery idle_context "idle_context\<lparr>qx_open := True\<rparr>"]
  by (simp add: hook_defs)

text \<open>
  C17: No query runs without what it asks for. While a query is enabled, every id in
  its request is there: a project, a dataset, a conversation, a user or a template that
  is not chosen yet asks the server for nothing.
\<close>
theorem enabled_queries_have_ids:
  assumes "uq_enabled (query_of x q)"
  shows "[] \<notin> set (query_ids q)"
  using assms by (cases q) (auto simp: hook_defs truthy_def nullish_def split: option.splits)

theorem enabled_queries_have_ids_witness:
  "uq_enabled (query_of idle_context (ProjectTasksQuery ''p1'')) \<and> [] \<notin> set (query_ids (ProjectTasksQuery ''p1''))"
proof -
  have *: "uq_enabled (query_of idle_context (ProjectTasksQuery ''p1''))" by (simp add: hook_defs)
  show ?thesis using enabled_queries_have_ids [OF *] * by simp
qed

text \<open>Fresh data is never dropped: every query is stale before an unused one is collected.\<close>

lemma stale_before_collected: "effective_staleTime (query_of x q) \<le> QUERY_GC_TIME_MS"
  by (cases q) (simp_all add: hook_defs effective_staleTime_def nullish_def QUERY_GC_TIME_MS_def
      QUERY_STALE_TIMES_default_def QUERY_STALE_TIMES_notifications_def
      QUERY_STALE_TIMES_notificationPreferences_def QUERY_STALE_TIMES_userProfile_def
      QUERY_STALE_TIMES_userSessions_def QUERY_STALE_TIMES_userDirectory_def
      QUERY_STALE_TIMES_platformMetadata_def QUERY_STALE_TIMES_calendar_def
      QUERY_STALE_TIMES_aiOverview_def QUERY_STALE_TIMES_aiReviews_def
      QUERY_STALE_TIMES_aiEvaluationRuns_def QUERY_STALE_TIMES_aiPromptVersions_def
      QUERY_STALE_TIMES_aiDatasetCases_def)

text \<open>
  After logout every query but the identity is forgotten. Whatever was written to the
  cache while the queries were cancelled, clearUserScopedQueryState leaves no data of any
  query of the application except auth.me, which it keeps as it is.
\<close>
theorem logout_forgets_queries:
  assumes "query_client_laws qc"
  shows "getQueryData qc (clearUserScopedQueryState qc meanwhile c) (query_key_of q) =
    (if q = MeQuery
     then getQueryData qc (meanwhile (cancelQueries qc isUserScopedQuery c)) (query_key_of q) else None)"
  by (simp add: getQueryData_cleared [OF assms] query_key_user_scoped)

text \<open>The queries each invalidated key begins the key of.\<close>

lemma reach_projects_1: "prefix queryKeys_projects_all (query_key_of q) \<longleftrightarrow> shows_projects q"
  by (cases q; simp add: query_keys key_defs)

lemma reach_projects_2: "prefix (queryKeys_projects_tasks p) (query_key_of q) \<longleftrightarrow> q = ProjectTasksQuery p"
  by (cases q; simp add: query_keys key_defs eq_commute [of _ p])

lemma reach_projects_3: "prefix queryKeys_calendar_all (query_key_of q) \<longleftrightarrow> shows_calendar q"
  by (cases q; simp add: query_keys key_defs)

lemma reach_projects_4: "prefix queryKeys_projects_summary (query_key_of q) \<Longrightarrow> shows_projects q"
  by (cases q; simp add: query_keys key_defs split: if_split_asm)

lemma reach_chat_1: "prefix queryKeys_chat_conversations (query_key_of q) \<longleftrightarrow> q = ConversationsQuery"
  by (cases q; simp add: query_keys key_defs)

lemma reach_chat_2: "prefix (queryKeys_chat_conversation c) (query_key_of q) \<longleftrightarrow> q = ConversationQuery (Some c) \<and> c \<noteq> []"
  by (cases q; simp add: query_keys key_defs truthy_def nullish_def split: option.split; blast)

lemma reach_chat_3: "prefix queryKeys_memory_all (query_key_of q) \<longleftrightarrow> q = MemoriesQuery"
  by (cases q; simp add: query_keys key_defs)

lemma reach_user_1: "prefix queryKeys_notifications_all (query_key_of q) \<longleftrightarrow> shows_notifications q"
  by (cases q; simp add: query_keys key_defs)

lemma reach_user_2: "prefix queryKeys_notifications_unreadCount (query_key_of q) \<Longrightarrow> shows_notifications q"
  by (cases q; simp add: query_keys key_defs split: if_split_asm)

lemma reach_user_3: "prefix queryKeys_notifications_preferences (query_key_of q) \<longleftrightarrow> q = PreferencesQuery"
  by (cases q; simp add: query_keys key_defs)

lemma reach_user_4: "prefix queryKeys_users_sessions (query_key_of q) \<longleftrightarrow> q = SessionsQuery"
  by (cases q; simp add: query_keys key_defs)

lemma reach_user_5: "prefix queryKeys_users_profile (query_key_of q) \<longleftrightarrow> q = ProfileQuery"
  by (cases q; simp add: query_keys key_defs)

lemma reach_user_6: "prefix queryKeys_auth_me (query_key_of q) \<longleftrightarrow> q = MeQuery"
  by (cases q; simp add: query_keys key_defs)

lemma reach_user_7: "prefix queryKeys_users_me (query_key_of q) \<longleftrightarrow> q = CurrentUserQuery"
  by (cases q; simp add: query_keys key_defs)

lemma reach_admin_1: "prefix queryKeys_admin_all (query_key_of q) \<longleftrightarrow> shows_administration q"
  by (cases q; simp add: query_keys key_defs)

lemma reach_admin_2: "prefix (queryKeys_admin_userRoleAssignments u) (query_key_of q) \<Longrightarrow> shows_administration q"
  by (cases q; simp add: query_keys key_defs split: if_split_asm)

lemma reach_admin_3: "prefix [KStr ''admin'', KStr ''jobs''] (query_key_of q) \<longleftrightarrow> shows_jobs q"
  by (cases q; simp add: query_keys key_defs)

lemma reach_admin_4: "prefix queryKeys_admin_ragIndexStatus (query_key_of q) \<longleftrightarrow> q = IndexStatusQuery"
  by (cases q; simp add: query_keys key_defs)

lemma reach_admin_5: "prefix queryKeys_admin_ragEvalDatasets (query_key_of q) \<longleftrightarrow> q = EvalDatasetsQuery"
  by (cases q; simp add: query_keys key_defs)

lemma reach_admin_6: "prefix (queryKeys_admin_ragEvalCases d) (query_key_of q) \<longleftrightarrow> q = EvalCasesQuery d"
  by (cases q; simp add: query_keys key_defs eq_commute [of _ d])

lemma reach_admin_7: "prefix (queryKeys_admin_ragEvalRuns d) (query_key_of q) \<longleftrightarrow> q = EvalRunsQuery d"
  by (cases q; simp add: query_keys key_defs eq_commute [of _ d])

lemma reach_admin_8: "prefix queryKeys_settings_database (query_key_of q) \<longleftrightarrow> q = DatabaseQuery"
  by (cases q; simp add: query_keys key_defs)

lemma reach_platform_1: "prefix queryKeys_platform_all (query_key_of q) \<longleftrightarrow> shows_platform q"
  by (cases q; simp add: query_keys key_defs)

lemma reach_platform_2: "prefix queryKeys_platform_subscription (query_key_of q) \<longleftrightarrow> q = SubscriptionQuery"
  by (cases q; simp add: query_keys key_defs)

lemma reach_platform_3: "prefix queryKeys_platform_apiKeys (query_key_of q) \<longleftrightarrow> q = ApiKeysQuery"
  by (cases q; simp add: query_keys key_defs)

lemma reach_platform_4: "prefix queryKeys_platform_webhooks (query_key_of q) \<longleftrightarrow> q = WebhooksQuery"
  by (cases q; simp add: query_keys key_defs)

lemma reach_platform_5: "prefix queryKeys_platform_admin_plans (query_key_of q) \<longleftrightarrow> q = AdminPlansQuery"
  by (cases q; simp add: query_keys key_defs)

lemma reach_platform_6: "prefix queryKeys_platform_admin_featureFlags (query_key_of q) \<longleftrightarrow> q = AdminFlagsQuery"
  by (cases q; simp add: query_keys key_defs)

lemma reach_platform_7: "prefix queryKeys_platform_admin_emailTemplates (query_key_of q) \<longleftrightarrow> q = AdminTemplatesQuery"
  by (cases q; simp add: query_keys key_defs)

lemma reach_documents:
  "prefix queryKeys_chat_documents (query_key_of q) \<or> prefix queryKeys_chat_ingestionJobs (query_key_of q)
     \<longleftrightarrow> shows_documents q"
  by (cases q; simp add: query_keys key_defs)

lemmas reach_simps = reach_projects_1 reach_projects_2 reach_projects_3 reach_chat_1 reach_chat_2
  reach_chat_3 reach_user_1 reach_user_3 reach_user_4 reach_user_5 reach_user_6 reach_user_7
  reach_admin_1 reach_admin_3 reach_admin_4 reach_admin_5 reach_admin_6 reach_admin_7 reach_admin_8
  reach_platform_1 reach_platform_2 reach_platform_3 reach_platform_4 reach_platform_5
  reach_platform_6 reach_platform_7 reach_documents



theorem logout_forgets_queries_witness:
  "getQueryData map_client (clearUserScopedQueryState map_client (\<lambda>c. c(queryKeys_projects_all := Some JNull)) Map.empty)
     (query_key_of ProjectsQuery) = None"
  using logout_forgets_queries [OF map_client_laws, of _ _ ProjectsQuery] by simp

text \<open>
  The calendar shows the tasks of projects that are due, yet none of the changes made on
  the page of a project refreshes it: a calendar read in the last minute still shows a
  deleted task, or one at its old date.  In the other direction, a task put on the calendar
  refreshes the projects.
\<close>
lemma task_changes_miss_calendar:
  assumes "m \<in> {CreateTask p, UpdateTask p, DeleteTask p, ReorderTasks p}"
  shows "\<not> refetched prefix m (CalendarQuery start stop)"
    and "refetched prefix (SaveCalendarItem True) (ProjectTasksQuery p)"
  using assms by (auto simp: refetched_def refresh_defs key_simps)

end
