(* ===== verification/Directory_Search.thy ===== *)
theory Directory_Search
  imports Admin_Users
begin

text \<open>
  Text that is used only after a pause: frontend/src/hooks/useDebounce.ts with its timer,
  and the search of the user directory that reads it (features/admin-users).  Time is
  counted in milliseconds; an edit clears the timer and starts it anew.
\<close>

section \<open>The timer: hooks/useDebounce.ts\<close>

record debounced =
  db_value :: string
  db_debounced :: string
  db_timer :: "nat option"

text \<open>Mounting shows the value at once and starts a timer that will set the same value.\<close>

definition mount_debounce :: "nat \<Rightarrow> string \<Rightarrow> debounced" where
  "mount_debounce delay v = \<lparr>db_value = v, db_debounced = v, db_timer = Some delay\<rparr>"

text \<open>A render with the same value leaves the effect alone; a new value clears its timer.\<close>

definition value_changes :: "nat \<Rightarrow> string \<Rightarrow> debounced \<Rightarrow> debounced" where
  "value_changes delay v s = (if v = db_value s then s else s\<lparr>db_value := v, db_timer := Some delay\<rparr>)"

definition time_passes :: "nat \<Rightarrow> debounced \<Rightarrow> debounced" where
  "time_passes n s =
     (case db_timer s of
        None \<Rightarrow> s
      | Some t \<Rightarrow> if t \<le> n then s\<lparr>db_debounced := db_value s, db_timer := None\<rparr>
                else s\<lparr>db_timer := Some (t - n)\<rparr>)"

text \<open>Edits, each with the time until the next one.\<close>

fun type_and_wait :: "nat \<Rightarrow> (string \<times> nat) list \<Rightarrow> debounced \<Rightarrow> debounced" where
  "type_and_wait delay [] s = s"
| "type_and_wait delay ((v, gap) # es) s = type_and_wait delay es (time_passes gap (value_changes delay v s))"

section \<open>The search of the directory: useAdminUsers\<close>

definition SEARCH_DELAY :: nat where
  "SEARCH_DELAY = 300"

type_synonym directory_search = "admin_users \<times> debounced"

definition open_search :: directory_search where
  "open_search = (initial_admin_users, mount_debounce SEARCH_DELAY [])"

definition type_search :: "string \<Rightarrow> directory_search \<Rightarrow> directory_search" where
  "type_search v s = (updateSearch v (fst s), value_changes SEARCH_DELAY v (snd s))"

definition wait_search :: "nat \<Rightarrow> directory_search \<Rightarrow> directory_search" where
  "wait_search n s =
     (let d = time_passes n (snd s)
      in (if db_timer (snd s) \<noteq> None \<and> db_timer d = None then debounce_fires (fst s) else fst s, d))"

fun search_run :: "(string \<times> nat) list \<Rightarrow> directory_search \<Rightarrow> directory_search" where
  "search_run [] s = s"
| "search_run ((v, gap) # es) s = search_run es (wait_search gap (type_search v s))"

section \<open>Lemmas\<close>

lemma time_passes_add: "time_passes n (time_passes m s) = time_passes (m + n) s"
  by (auto simp: time_passes_def split: option.splits)

text \<open>What an edit and the time after it leave: the text, and the one that is used.\<close>

lemma edit_fields:
  "db_value (time_passes gap (value_changes delay v s)) = v"
  "v \<noteq> db_value s \<Longrightarrow> db_debounced (time_passes gap (value_changes delay v s))
     = (if delay \<le> gap then v else db_debounced s)"
  by (auto simp: time_passes_def value_changes_def split: option.splits)

text \<open>The two halves of the directory agree.\<close>

definition halves_agree :: "directory_search \<Rightarrow> bool" where
  "halves_agree s \<longleftrightarrow> au_search (fst s) = db_value (snd s) \<and> au_debouncedSearch (fst s) = db_debounced (snd s)"

lemma halves_agree_open: "halves_agree open_search"
  by (simp add: halves_agree_def open_search_def initial_admin_users_def mount_debounce_def)

lemma halves_agree_edit: "halves_agree s \<Longrightarrow> halves_agree (wait_search gap (type_search v s))"
  by (auto simp: halves_agree_def wait_search_def type_search_def updateSearch_def value_changes_def
      time_passes_def debounce_fires_def Let_def split: option.splits)

lemma search_run_agrees: "halves_agree s \<Longrightarrow> halves_agree (search_run es s)"
  by (induction es s rule: search_run.induct) (simp_all add: halves_agree_edit)

lemma search_run_timer: "snd (search_run es s) = type_and_wait SEARCH_DELAY es (snd s)"
  by (induction es s rule: search_run.induct) (simp_all add: wait_search_def type_search_def Let_def)

lemma search_run_page: "es \<noteq> [] \<Longrightarrow> au_page (fst (search_run es s)) = 0"
proof (induction es s rule: search_run.induct)
  case (2 v gap es s)
  show ?case
  proof (cases es)
    case Nil
    then show ?thesis by (simp add: wait_search_def type_search_def updateSearch_def debounce_fires_def Let_def)
  qed (use 2 in simp)
qed simp

lemma debounced_is_last_pause:
  assumes "distinct_adj (db_value s # map fst es)"
  shows "db_debounced (type_and_wait delay es s)
    = last (db_debounced s # map fst (filter (\<lambda>(v, gap). delay \<le> gap) es))"
  using assms
proof (induction es arbitrary: s)
  case (Cons e es)
  obtain v gap where e: "e = (v, gap)" by (cases e)
  let ?t = "time_passes gap (value_changes delay v s)"
  from Cons.prems e have ne: "v \<noteq> db_value s" and rest: "distinct_adj (db_value ?t # map fst es)"
    by (auto simp: edit_fields)
  from Cons.IH [OF rest] show ?case
    by (simp add: e edit_fields(2) [OF ne])
qed simp

section \<open>Properties\<close>

text \<open>
  C30: The directory is searched for what the user paused at. After any sequence of edits of
  the search field, each with the time to the next, the key of the query is that of the
  first page of the last text that stood for 300 ms, or of no search when none did: texts
  in between are never asked for, and the timer gives the same as the plain filter of
  the edits by their pauses. What is asked of the server is that text.
\<close>
theorem directory_searches_pauses:
  assumes "distinct_adj ([] # map fst es)" and "es \<noteq> []"
  defines "paused \<equiv> last ([] # map fst (filter (\<lambda>(v, gap). 300 \<le> gap) es))"
  shows "usersQueryKey (fst (search_run es open_search)) = queryKeys_admin_users 0 paused
    \<and> listUsers_params_search (users_params (fst (search_run es open_search)))
        = (if paused = [] then None else Some (Some paused))"
proof -
  have "halves_agree (search_run es open_search)" by (rule search_run_agrees [OF halves_agree_open])
  moreover have "db_debounced (type_and_wait SEARCH_DELAY es (mount_debounce SEARCH_DELAY [])) = paused"
    using debounced_is_last_pause [of "mount_debounce SEARCH_DELAY []" es SEARCH_DELAY] assms(1)
    by (simp add: mount_debounce_def SEARCH_DELAY_def paused_def)
  ultimately have "au_debouncedSearch (fst (search_run es open_search)) = paused"
    by (simp add: halves_agree_def search_run_timer open_search_def)
  then show ?thesis
    using search_run_page [OF assms(2)] by (simp add: usersQueryKey_def users_params_def)
qed

theorem directory_searches_pauses_witness:
  "usersQueryKey (fst (search_run [(''a'', 80), (''an'', 90), (''ann'', 400), (''anna'', 120)] open_search))
     = queryKeys_admin_users 0 ''ann''"
  using directory_searches_pauses [of "[(''a'', 80), (''an'', 90), (''ann'', 400), (''anna'', 120)]"]
  by simp

text \<open>Once nothing was typed for the delay, the text used is the text shown, for good.\<close>

lemma debounce_settles:
  assumes "delay \<le> n" and "\<forall>t. db_timer s = Some t \<longrightarrow> t \<le> delay" and "db_timer s = None \<longrightarrow> db_debounced s = db_value s"
  shows "db_debounced (time_passes n s) = db_value s" "db_timer (time_passes n s) = None"
  using assms by (auto simp: time_passes_def split: option.splits)

end
