(* ===== verification/App_Shell.thy ===== *)
theory App_Shell
  imports Auth_Forms Observability Admin_Types Platform_Types
begin

text \<open>
  What every page shares and the pages without a module of their own: the color mode and
  the toast of frontend/src/app, QueryBoundary and ConfirmDialog of components/ui, the
  form of a new project, the numbers of the dashboard, the panel of developer diagnostics
  and the health cards of the administrator.
\<close>

section \<open>The color mode: app/providers.tsx and ThemeToggle\<close>

datatype ColorMode = LightMode | DarkMode | SystemMode

fun color_mode_text :: "ColorMode \<Rightarrow> string" where
  "color_mode_text LightMode = ''light''"
| "color_mode_text DarkMode = ''dark''"
| "color_mode_text SystemMode = ''system''"

text \<open>localStorage; in some contexts every access throws.\<close>

record local_storage =
  ls_available :: bool
  ls_items :: "string \<Rightarrow> string option"

definition COLOR_MODE_KEY :: string where
  "COLOR_MODE_KEY = ''generic-app-color-mode''"

definition initial_color_mode :: "local_storage \<Rightarrow> ColorMode" where
  "initial_color_mode st =
     (if \<not> ls_available st then SystemMode
      else let stored = ls_items st COLOR_MODE_KEY
           in if stored = Some ''light'' then LightMode
              else if stored = Some ''dark'' then DarkMode else SystemMode)"

text \<open>The effect that runs after every render with a new mode.\<close>

definition store_color_mode :: "ColorMode \<Rightarrow> local_storage \<Rightarrow> local_storage" where
  "store_color_mode m st =
     (if ls_available st then st\<lparr>ls_items := (ls_items st)(COLOR_MODE_KEY \<mapsto> color_mode_text m)\<rparr> else st)"

definition dark_theme :: "ColorMode \<Rightarrow> bool \<Rightarrow> bool" where
  "dark_theme m prefersDark = (if m = SystemMode then prefersDark else m = DarkMode)"

fun cycle_color_mode :: "ColorMode \<Rightarrow> ColorMode" where
  "cycle_color_mode LightMode = DarkMode"
| "cycle_color_mode DarkMode = SystemMode"
| "cycle_color_mode SystemMode = LightMode"

section \<open>Toasts: app/SnackbarProvider.tsx\<close>

datatype severity = SuccessSeverity | InfoSeverity | WarningSeverity | ErrorSeverity

record toast =
  to_message :: string
  to_severity :: "severity option"

record snackbar =
  sb_open :: bool
  sb_opts :: toast

definition initial_snackbar :: snackbar where
  "initial_snackbar = \<lparr>sb_open = False, sb_opts = \<lparr>to_message = [], to_severity = Some InfoSeverity\<rparr>\<rparr>"

definition showToast :: "toast \<Rightarrow> snackbar \<Rightarrow> snackbar" where
  "showToast opts s = s\<lparr>sb_opts := opts, sb_open := True\<rparr>"

text \<open>The button of the toast, and the library after four seconds.\<close>

definition close_toast :: "snackbar \<Rightarrow> snackbar" where
  "close_toast s = s\<lparr>sb_open := False\<rparr>"

definition toast_shown :: "snackbar \<Rightarrow> (severity \<times> string) option" where
  "toast_shown s =
     (if sb_open s then Some (nullish (to_severity (sb_opts s)) InfoSeverity, to_message (sb_opts s)) else None)"

text \<open>
  getQueryErrorMessage with its fallback: everything the client rejects with is an Error,
  and a query without an error has none to show.
\<close>

definition error_or_fallback :: "(js_error \<Rightarrow> string) \<Rightarrow> js_error option \<Rightarrow> string \<Rightarrow> string" where
  "error_or_fallback texts error fallback =
     (case error of Some e \<Rightarrow> getQueryErrorMessage texts e | None \<Rightarrow> fallback)"

definition toast_mutation_error :: "(js_error \<Rightarrow> string) \<Rightarrow> js_error option \<Rightarrow> string \<Rightarrow> snackbar \<Rightarrow> snackbar" where
  "toast_mutation_error texts error fallback =
     showToast \<lparr>to_message = error_or_fallback texts error fallback, to_severity = Some ErrorSeverity\<rparr>"

section \<open>Loading, failing and being empty: components/ui/QueryBoundary.tsx\<close>

text \<open>What is given to the boundary as an element is named by a text.\<close>

record boundary_props =
  bp_isLoading :: bool
  bp_isError :: bool
  bp_error :: "js_error option"
  bp_isEmpty :: bool
  bp_errorFallback :: "string option"
  bp_errorTitle :: "string option"
  bp_severity :: "severity option"
  bp_onRetry :: bool
  bp_loadingFallback :: "string option"
  bp_emptyFallback :: "string option"
  bp_page :: bool

datatype boundary_view =
    LoadingElement string | PageSpinner | LoadingSkeleton
  | ErrorAlert severity "string option" string bool
  | EmptyElement string
  | Children

definition QueryBoundary :: "(js_error \<Rightarrow> string) \<Rightarrow> boundary_props \<Rightarrow> boundary_view" where
  "QueryBoundary texts p =
     (if bp_isLoading p
      then (case bp_loadingFallback p of
              Some t \<Rightarrow> LoadingElement t
            | None \<Rightarrow> if bp_page p then PageSpinner else LoadingSkeleton)
      else if bp_isError p
      then ErrorAlert (nullish (bp_severity p) ErrorSeverity)
             (if truthy (bp_errorTitle p) then bp_errorTitle p else None)
             (error_or_fallback texts (bp_error p) (nullish (bp_errorFallback p) ''Failed to load data.''))
             (bp_onRetry p)
      else (case bp_emptyFallback p of
              Some t \<Rightarrow> if bp_isEmpty p then EmptyElement t else Children
            | None \<Rightarrow> Children))"

definition QueryErrorAlert ::
  "(js_error \<Rightarrow> string) \<Rightarrow> js_error option \<Rightarrow> string option \<Rightarrow> string option \<Rightarrow> bool \<Rightarrow> boundary_view option"
where
  "QueryErrorAlert texts error fallback title onRetry =
     (if error = None then None
      else Some (ErrorAlert ErrorSeverity (if truthy title then title else None)
             (error_or_fallback texts error (nullish fallback ''Failed to load data.'')) onRetry))"

section \<open>Confirming: components/ui/ConfirmDialog.tsx\<close>

datatype dialog_press = PressCancel | PressConfirm | LeaveDialog

datatype dialog_call = CallClose | CallConfirm

definition ConfirmDialog :: "bool \<Rightarrow> bool \<Rightarrow> dialog_press \<Rightarrow> dialog_call option" where
  "ConfirmDialog opened pending e =
     (if \<not> opened then None
      else case e of
             PressCancel \<Rightarrow> if pending then None else Some CallClose
           | PressConfirm \<Rightarrow> if pending then None else Some CallConfirm
           | LeaveDialog \<Rightarrow> if pending then None else Some CallClose)"

section \<open>A new project: features/projects/views/ProjectsView.tsx\<close>

record ProjectValues =
  pj_name :: string
  pj_description :: "string option"

text \<open>The message for a name that is too long is the library's.\<close>

definition projectSchema :: "string \<Rightarrow> ProjectValues \<Rightarrow> form_errors" where
  "projectSchema too_long_text v =
     (if js_length (pj_name v) < 2 then [(''name'', ''Name must be at least 2 characters'')] else [])
     @ (if 255 < js_length (pj_name v) then [(''name'', too_long_text)] else [])"

text \<open>handleSubmit: the errors of the form, or the request; a disabled button does nothing.\<close>

definition submit_project :: "string \<Rightarrow> bool \<Rightarrow> ProjectValues \<Rightarrow> (form_errors + api_call) option" where
  "submit_project too_long_text pending v =
     (if pending then None
      else if projectSchema too_long_text v \<noteq> [] then Some (Inl (projectSchema too_long_text v))
      else Some (Inr (createProject
        \<lparr>createProject_payload_name = pj_name v, createProject_payload_description = pj_description v,
         createProject_payload_organization_id = None\<rparr>)))"

text \<open>An accepted project: the toast, and the page that is opened.\<close>

definition project_created :: "Project \<Rightarrow> snackbar \<Rightarrow> snackbar \<times> string" where
  "project_created project s =
     (showToast \<lparr>to_message = ''Project created successfully.'', to_severity = Some SuccessSeverity\<rparr> s,
      ''/projects/'' @ Project_id project)"

text \<open>ProjectCreate of backend/modules/projects/schemas.py, with every text stripped.\<close>

definition server_accepts_project :: "(string \<Rightarrow> string) \<Rightarrow> ProjectValues \<Rightarrow> bool" where
  "server_accepts_project strip v \<longleftrightarrow>
     2 \<le> code_points (strip (pj_name v)) \<and> code_points (strip (pj_name v)) \<le> 255
     \<and> (case pj_description v of None \<Rightarrow> True | Some d \<Rightarrow> code_points (strip d) \<le> 1000)"

section \<open>The dashboard: features/dashboard/views/DashboardView.tsx\<close>

record 'a query_result =
  qr_data :: "'a option"
  qr_isLoading :: bool
  qr_isError :: bool
  qr_error :: "js_error option"

definition dashboard_project_count :: "ProjectSummary query_result \<Rightarrow> Project list query_result \<Rightarrow> number" where
  "dashboard_project_count summary projects =
     nullish (nullish_opt (map_option ProjectSummary_project_count (qr_data summary))
                (map_option (\<lambda>ps. of_nat (length ps)) (qr_data projects))) 0"

definition project_count_loading :: "ProjectSummary query_result \<Rightarrow> Project list query_result \<Rightarrow> bool" where
  "project_count_loading summary projects \<longleftrightarrow> qr_isLoading projects \<or> qr_isLoading summary"

definition recentNotifications :: "Notification list query_result \<Rightarrow> Notification list" where
  "recentNotifications q = nullish (map_option (take 5) (qr_data q)) []"

definition project_snapshot :: "Project list query_result \<Rightarrow> Project list" where
  "project_snapshot q = nullish (map_option (take 3) (qr_data q)) []"

definition dashboard_boundary :: "'a query_result \<Rightarrow> bool \<Rightarrow> string \<Rightarrow> string \<Rightarrow> boundary_props" where
  "dashboard_boundary q no_items fallback emptyElement =
     \<lparr>bp_isLoading = qr_isLoading q, bp_isError = qr_isError q, bp_error = qr_error q, bp_isEmpty = no_items,
      bp_errorFallback = Some fallback, bp_errorTitle = None, bp_severity = None, bp_onRetry = True,
      bp_loadingFallback = None, bp_emptyFallback = Some emptyElement, bp_page = False\<rparr>"

definition recent_activity :: "(js_error \<Rightarrow> string) \<Rightarrow> Notification list query_result \<Rightarrow> boundary_view" where
  "recent_activity texts q =
     QueryBoundary texts (dashboard_boundary q (recentNotifications q = [])
       ''Failed to load notifications.'' ''No notifications yet'')"

text \<open>The part of the plural name is put into the texts in lower case; it is given here as it is.\<close>

definition snapshot_section :: "(js_error \<Rightarrow> string) \<Rightarrow> string \<Rightarrow> Project list query_result \<Rightarrow> boundary_view" where
  "snapshot_section texts plural q =
     QueryBoundary texts (dashboard_boundary q (qr_data q = None \<or> qr_data q = Some [])
       (''Failed to load '' @ plural @ ''.'') (''No '' @ plural @ '' yet''))"

definition accountChecks :: "AuthUser option \<Rightarrow> (string \<times> string \<times> bool) list" where
  "accountChecks user =
     (let verified = (case user of Some u \<Rightarrow> AuthUser_is_verified u | None \<Rightarrow> False);
          mfa = (case user of Some u \<Rightarrow> AuthUser_mfa_enabled u | None \<Rightarrow> False)
      in [(''Email verification'', if verified then ''Verified'' else ''Action needed'', verified),
          (''Multi-factor authentication'', if mfa then ''Enabled'' else ''Recommended'', mfa)])"

section \<open>Developer diagnostics: features/developer-diagnostics/DeveloperDiagnosticsPanel.tsx\<close>

record diagnostics_panel =
  dp_open :: bool
  dp_latest :: "DeveloperRequestSummary option"

definition initial_panel :: diagnostics_panel where
  "initial_panel = \<lparr>dp_open = False, dp_latest = None\<rparr>"

text \<open>The handler of the event the client dispatches after a response.\<close>

definition diagnostics_event :: "DeveloperRequestSummary option \<Rightarrow> diagnostics_panel \<Rightarrow> diagnostics_panel" where
  "diagnostics_event detail p = (case detail of None \<Rightarrow> p | Some d \<Rightarrow> p\<lparr>dp_latest := Some d\<rparr>)"

definition em_dash :: string where
  "em_dash = [CHR 0xE2, CHR 0x80, CHR 0x94]"

definition metric_line :: "string \<Rightarrow> string option \<Rightarrow> string" where
  "metric_line label v = label @ '': '' @ nullish v em_dash"

definition external_call_text :: "DeveloperRequestSummary_external_calls_item \<Rightarrow> string" where
  "external_call_text c =
     DeveloperRequestSummary_external_calls_item_provider c @ ''/'' @ DeveloperRequestSummary_external_calls_item_operation c
     @ (case DeveloperRequestSummary_external_calls_item_latency_ms c of
          None \<Rightarrow> [] | Some ms \<Rightarrow> ''@'' @ number_text ms @ ''ms'')"

definition none_if_empty :: "string \<Rightarrow> string" where
  "none_if_empty t = (if t = [] then ''none'' else t)"

definition request_lines :: "DeveloperRequestSummary \<Rightarrow> string list" where
  "request_lines d =
     [metric_line ''route'' (Some (DeveloperRequestSummary_method d @ '' '' @ DeveloperRequestSummary_path d)),
      metric_line ''status'' (map_option number_text (DeveloperRequestSummary_status_code d)),
      metric_line ''duration_ms'' (Some (number_text (DeveloperRequestSummary_duration_ms d))),
      metric_line ''correlation'' (DeveloperRequestSummary_correlation_id d),
      metric_line ''trace'' (DeveloperRequestSummary_trace_id d),
      metric_line ''sql_count'' (Some (number_text (DeveloperRequestSummary_sql_query_count d))),
      metric_line ''db_ms'' (Some (number_text (DeveloperRequestSummary_db_duration_ms d))),
      metric_line ''hits'' (Some (number_text (DeveloperRequestSummary_cache_hits d))),
      metric_line ''misses'' (Some (number_text (DeveloperRequestSummary_cache_misses d))),
      metric_line ''calls'' (Some (if DeveloperRequestSummary_external_calls d = [] then ''none''
        else join '', '' (map external_call_text (DeveloperRequestSummary_external_calls d)))),
      metric_line ''stages'' (Some (none_if_empty (join '', '' (DeveloperRequestSummary_rag_stages d)))),
      metric_line ''chunks'' (map_option number_text (DeveloperRequestSummary_rag_retrieved_chunk_count d)),
      metric_line ''celery'' (Some (none_if_empty (join '', '' (DeveloperRequestSummary_celery_tasks d))))]"

definition no_context :: grafana_context where
  "no_context =
     \<lparr>gc_service = None, gc_environment = None, gc_route = None, gc_jobName = None, gc_traceId = None,
      gc_requestId = None, gc_from = None, gc_to = None, gc_orgId = None\<rparr>"

text \<open>
  The addresses behind the two buttons; Inl when an address cannot be parsed, which breaks
  the rendering.
\<close>

definition panel_tempo_url ::
  "(string \<Rightarrow> js_url option) \<Rightarrow> DeveloperDiagnosticsStatus \<Rightarrow> diagnostics_panel \<Rightarrow> unit + string option"
where
  "panel_tempo_url parse_url status_data p =
     buildTempoExploreUrl parse_url (DeveloperDiagnosticsStatus_tempo_explore_url status_data)
       (no_context\<lparr>gc_traceId := Option.bind (dp_latest p) DeveloperRequestSummary_trace_id,
          gc_requestId := Option.bind (dp_latest p) DeveloperRequestSummary_correlation_id\<rparr>)"

definition panel_grafana_url ::
  "(string \<Rightarrow> js_url option) \<Rightarrow> DeveloperDiagnosticsStatus \<Rightarrow> diagnostics_panel \<Rightarrow> unit + string option"
where
  "panel_grafana_url parse_url status_data p =
     buildGrafanaUrl parse_url (DeveloperDiagnosticsStatus_grafana_base_url status_data)
       (no_context\<lparr>gc_route := map_option DeveloperRequestSummary_path (dp_latest p)\<rparr>)"

text \<open>What the panel shows: nothing, its button, or its lines.\<close>

datatype panel_view = PanelHidden | PanelButton | PanelHint | PanelLines "string list"

definition panel_shown :: "DeveloperDiagnosticsStatus option \<Rightarrow> diagnostics_panel \<Rightarrow> panel_view" where
  "panel_shown status_data p =
     (if \<not> (case status_data of None \<Rightarrow> False | Some s \<Rightarrow> DeveloperDiagnosticsStatus_enabled s) then PanelHidden
      else if \<not> dp_open p then PanelButton
      else case dp_latest p of None \<Rightarrow> PanelHint | Some d \<Rightarrow> PanelLines (request_lines d))"

section \<open>Health of the operations: features/admin-diagnostics, StorageHealthCard.tsx\<close>

datatype chip_color = DefaultColor | SuccessColor | WarningColor | ErrorColor | InfoColor

fun diagnosticsStateColor :: "DiagnosticsSectionState \<Rightarrow> chip_color" where
  "diagnosticsStateColor DiagnosticsSectionState_healthy = SuccessColor"
| "diagnosticsStateColor DiagnosticsSectionState_degraded = WarningColor"
| "diagnosticsStateColor DiagnosticsSectionState_unavailable = ErrorColor"
| "diagnosticsStateColor DiagnosticsSectionState_not_required = DefaultColor"
| "diagnosticsStateColor DiagnosticsSectionState_unknown = InfoColor"

definition section_state :: "DiagnosticsSection \<Rightarrow> DiagnosticsSectionState" where
  "section_state s = nullish (DiagnosticsSection_state s) DiagnosticsSectionState_unknown"

definition SAFE_METRIC_KEYS :: "string list" where
  "SAFE_METRIC_KEYS = [''configured'', ''bucket_name'', ''endpoint_host'', ''region'']"

definition safe_metrics :: "DiagnosticsSection \<Rightarrow> (string \<times> json) list" where
  "safe_metrics s =
     (let metrics = nullish (DiagnosticsSection_metrics s) []
      in List.map_filter (\<lambda>k. case map_of metrics k of
             None \<Rightarrow> None
           | Some v \<Rightarrow> if v = JNull \<or> v = JStr [] then None else Some (k, v)) SAFE_METRIC_KEYS)"

datatype storage_card =
    StorageChecking | StorageUnavailable
  | StorageState DiagnosticsSectionState chip_color "(string \<times> json) list"

definition StorageHealthCard :: "DiagnosticsResponse query_result \<Rightarrow> storage_card" where
  "StorageHealthCard q =
     (if qr_isLoading q then StorageChecking
      else case map_option DiagnosticsResponse_storage (qr_data q) of
             None \<Rightarrow> StorageUnavailable
           | Some s \<Rightarrow>
               if qr_isError q then StorageUnavailable
               else StorageState (section_state s) (diagnosticsStateColor (section_state s)) (safe_metrics s))"

section \<open>Properties\<close>

text \<open>
  The chosen color mode survives a reload. Where the browser lets the page store anything,
  the mode that is stored after a choice is the one a new page starts with, whatever was
  stored before, and no other entry is touched; where it does not, every page follows the
  system. Three presses of the button come back to the first mode.
\<close>
lemma color_mode_survives_reload:
  "initial_color_mode (store_color_mode m st) = (if ls_available st then m else SystemMode)"
  "k \<noteq> COLOR_MODE_KEY \<Longrightarrow> ls_items (store_color_mode m st) k = ls_items st k"
  "cycle_color_mode (cycle_color_mode (cycle_color_mode m)) = m"
  by (cases m; simp add: initial_color_mode_def store_color_mode_def Let_def)+

text \<open>Of several toasts the last is shown, until it is closed.\<close>

lemma last_toast_shown:
  "toast_shown (fold showToast (ts @ [t]) s) = Some (nullish (to_severity t) InfoSeverity, to_message t)"
  "toast_shown (close_toast s) = None"
  by (simp_all add: showToast_def toast_shown_def close_toast_def)

text \<open>
  A boundary never hides a failure. Its children are shown exactly when the query neither
  loads nor has failed and there is something to show (or nothing to show instead); a
  query that failed and does not load shows its error, and the button to try again
  whenever it was given one.
\<close>
lemma boundary_shows:
  "QueryBoundary texts p = Children \<longleftrightarrow>
     \<not> bp_isLoading p \<and> \<not> bp_isError p \<and> \<not> (bp_isEmpty p \<and> bp_emptyFallback p \<noteq> None)"
  "(\<exists>s t m. QueryBoundary texts p = ErrorAlert s t m retry) \<longleftrightarrow>
     \<not> bp_isLoading p \<and> bp_isError p \<and> retry = bp_onRetry p"
  by (auto simp: QueryBoundary_def split: option.splits)

text \<open>Lists of the dashboard are shown only with items, at most five and three of them.\<close>

lemma dashboard_lists:
  "recent_activity texts q = Children \<Longrightarrow> recentNotifications q \<noteq> [] \<and> length (recentNotifications q) \<le> 5"
  "snapshot_section texts plural r = Children \<Longrightarrow> project_snapshot r \<noteq> [] \<and> length (project_snapshot r) \<le> 3"
  by (auto simp: recent_activity_def snapshot_section_def boundary_shows(1) dashboard_boundary_def
      recentNotifications_def project_snapshot_def nullish_def split: option.splits)

text \<open>Before the summary has come, the dashboard counts the loaded projects.\<close>

lemma dashboard_count:
  "dashboard_project_count summary projects =
     (case qr_data summary of Some s \<Rightarrow> ProjectSummary_project_count s
      | None \<Rightarrow> case qr_data projects of Some ps \<Rightarrow> of_nat (length ps) | None \<Rightarrow> 0)"
  by (auto simp: dashboard_project_count_def nullish_def nullish_opt_def split: option.splits)

text \<open>The panel shows the last request that carried diagnostics, opened or not.\<close>

lemma panel_shows_last:
  "dp_latest (fold diagnostics_event (ds @ [Some d] @ replicate n None) p) = Some d"
  "dp_open (fold diagnostics_event ds p) = dp_open p"
proof -
  show "dp_open (fold diagnostics_event ds p) = dp_open p"
    by (induction ds arbitrary: p) (simp_all add: diagnostics_event_def split: option.split)
  have "fold diagnostics_event (replicate n None) q = q" for q
    by (induction n) (simp_all add: diagnostics_event_def)
  then show "dp_latest (fold diagnostics_event (ds @ [Some d] @ replicate n None) p) = Some d"
    by (simp add: diagnostics_event_def)
qed

text \<open>Of the metrics of the storage only four are shown, none of them a credential.\<close>

lemma storage_metrics_safe:
  assumes "StorageHealthCard q = StorageState st color ms"
  shows "fst ` set ms \<subseteq> set SAFE_METRIC_KEYS"
    and "(k, v) \<in> set ms \<Longrightarrow> \<exists>r s. qr_data q = Some r \<and> DiagnosticsSection_metrics (DiagnosticsResponse_storage r) = Some s
      \<and> map_of s k = Some v"
proof -
  obtain r where r: "qr_data q = Some r" "ms = safe_metrics (DiagnosticsResponse_storage r)"
    using assms by (auto simp: StorageHealthCard_def split: if_splits option.splits)
  show "fst ` set ms \<subseteq> set SAFE_METRIC_KEYS"
    by (auto simp: r(2) safe_metrics_def Let_def map_filter_def split: option.splits if_splits)
  show "\<exists>r s. qr_data q = Some r \<and> DiagnosticsSection_metrics (DiagnosticsResponse_storage r) = Some s
      \<and> map_of s k = Some v" if "(k, v) \<in> set ms"
    using that r(1)
    by (cases "DiagnosticsSection_metrics (DiagnosticsResponse_storage r)")
      (auto simp: r(2) safe_metrics_def Let_def map_filter_def split: option.splits if_splits)
qed

lemma code_points_le: "code_points s \<le> js_length s"
  by (simp add: code_points_js_length)

lemma length_of_letters: "js_length (replicate n (CHR ''a'')) = n"
  by (simp add: js_length_ascii)

lemma letter_solid: "solid (CHR ''a'')"
  by code_simp

text \<open>A text without outer blanks: the server reads it as it was typed.\<close>

definition unpadded :: "string \<Rightarrow> bool" where
  "unpadded t \<longleftrightarrow> t = [] \<or> solid (hd t) \<and> solid (last t)"

lemma strip_unpadded: "strips strip \<Longrightarrow> unpadded t \<Longrightarrow> strip t = t"
  unfolding unpadded_def by (cases "t = []") (simp add: stripsD(1), metis stripsD(2))

text \<open>
  C31: Which new projects the form lets through, and which of these the server takes. A
  request is sent exactly for a name of 2 to 255 UTF-16 units, otherwise the form reports
  it. The server takes what was sent when name and description have no outer blanks, the
  name no character beyond the basic plane and the description at most 1000 units; but a
  name of two blanks, and a description of 1001 letters, pass the form and are refused.
\<close>
theorem project_form_accepted:
  assumes "strips strip"
  shows "(case submit_project too_long_text False v of
        Some (Inr c) \<Rightarrow> 2 \<le> js_length (pj_name v) \<and> js_length (pj_name v) \<le> 255
          \<and> c = createProject \<lparr>createProject_payload_name = pj_name v,
              createProject_payload_description = pj_description v, createProject_payload_organization_id = None\<rparr>
          \<and> (unpadded (pj_name v) \<and> basic_plane (pj_name v)
               \<and> pred_option (\<lambda>d. unpadded d \<and> js_length d \<le> 1000) (pj_description v)
             \<longrightarrow> server_accepts_project strip v)
      | Some (Inl es) \<Rightarrow> map fst es = [''name''] \<and> (js_length (pj_name v) < 2 \<or> 255 < js_length (pj_name v))
      | None \<Rightarrow> False)
    \<and> projectSchema too_long_text \<lparr>pj_name = ''  '', pj_description = None\<rparr> = []
    \<and> \<not> server_accepts_project strip \<lparr>pj_name = ''  '', pj_description = None\<rparr>
    \<and> projectSchema too_long_text \<lparr>pj_name = ''ab'', pj_description = Some (replicate 1001 (CHR ''a''))\<rparr> = []
    \<and> \<not> server_accepts_project strip \<lparr>pj_name = ''ab'', pj_description = Some (replicate 1001 (CHR ''a''))\<rparr>"
proof (intro conjI)
  have taken: "server_accepts_project strip v"
    if "2 \<le> js_length (pj_name v)" "js_length (pj_name v) \<le> 255" "unpadded (pj_name v)" "basic_plane (pj_name v)"
      "pred_option (\<lambda>d. unpadded d \<and> js_length d \<le> 1000) (pj_description v)"
  proof -
    have "code_points d \<le> 1000" if "js_length d \<le> 1000" for d
      using code_points_le [of d] that by simp
    then show ?thesis using that
      by (cases "pj_description v")
        (auto simp: server_accepts_project_def strip_unpadded [OF assms] code_points_basic)
  qed
  then show "case submit_project too_long_text False v of
        Some (Inr c) \<Rightarrow> 2 \<le> js_length (pj_name v) \<and> js_length (pj_name v) \<le> 255
          \<and> c = createProject \<lparr>createProject_payload_name = pj_name v,
              createProject_payload_description = pj_description v, createProject_payload_organization_id = None\<rparr>
          \<and> (unpadded (pj_name v) \<and> basic_plane (pj_name v)
               \<and> pred_option (\<lambda>d. unpadded d \<and> js_length d \<le> 1000) (pj_description v)
             \<longrightarrow> server_accepts_project strip v)
      | Some (Inl es) \<Rightarrow> map fst es = [''name''] \<and> (js_length (pj_name v) < 2 \<or> 255 < js_length (pj_name v))
      | None \<Rightarrow> False"
    by (auto simp: submit_project_def projectSchema_def)
  have blanks: "js_length ''  '' = 2" and short: "js_length ''ab'' = 2" by code_simp+
  show "projectSchema too_long_text \<lparr>pj_name = ''  '', pj_description = None\<rparr> = []"
    and "projectSchema too_long_text \<lparr>pj_name = ''ab'', pj_description = Some (replicate 1001 (CHR ''a''))\<rparr> = []"
    by (simp_all add: projectSchema_def blanks short)
  show "\<not> server_accepts_project strip \<lparr>pj_name = ''  '', pj_description = None\<rparr>"
    using stripsD [OF assms] by (simp add: server_accepts_project_def code_points_def char_codes_def)
  have letters: "basic_plane (replicate 1001 (CHR ''a''))" "unpadded (replicate 1001 (CHR ''a''))"
    by (auto simp: basic_plane_def char_codes_def unpadded_def letter_solid last_replicate list_all_iff
        simp del: replicate.simps)
  then show "\<not> server_accepts_project strip \<lparr>pj_name = ''ab'', pj_description = Some (replicate 1001 (CHR ''a''))\<rparr>"
    using length_of_letters [of 1001]
    by (simp add: server_accepts_project_def strip_unpadded [OF assms] code_points_basic del: replicate.simps)
qed

theorem project_form_accepted_witness:
  "submit_project ''Too long'' False \<lparr>pj_name = ''Atlas'', pj_description = Some []\<rparr>
     = Some (Inr (createProject \<lparr>createProject_payload_name = ''Atlas'', createProject_payload_description = Some [],
         createProject_payload_organization_id = None\<rparr>))
   \<and> server_accepts_project trim \<lparr>pj_name = ''Atlas'', pj_description = Some []\<rparr>"
proof -
  let ?v = "\<lparr>pj_name = ''Atlas'', pj_description = Some []\<rparr>"
  have len: "js_length ''Atlas'' = 5" and none: "js_length [] = 0" by code_simp+
  have sent: "submit_project ''Too long'' False ?v
      = Some (Inr (createProject \<lparr>createProject_payload_name = ''Atlas'', createProject_payload_description = Some [],
         createProject_payload_organization_id = None\<rparr>))"
    by (simp add: submit_project_def projectSchema_def len)
  have plain: "unpadded ''Atlas''" "basic_plane ''Atlas''" "unpadded []" by code_simp+
  show ?thesis
    using project_form_accepted [OF trim_strips, where too_long_text = "''Too long''" and v = ?v] sent plain none by simp
qed

end
