(* ===== verification/Task_Editor.thy ===== *)
theory Task_Editor
  imports Project_Tasks App_Shell Step_System
begin

text \<open>
  The editor beside the board of a project: the schema of
  features/projects/projectTaskModel.ts, the selection, form and mutations of
  features/projects/hooks/useProjectDetail.ts and the buttons of
  components/TaskEditorSection.tsx, as a machine whose events are what the user does and
  what the server answers, in any order.
\<close>

section \<open>The schema: projectTaskSchema\<close>

text \<open>Status and priority have no other values here; the message for too long a text is the library's.\<close>

definition projectTaskSchema :: "string \<Rightarrow> TaskDraft \<Rightarrow> form_errors" where
  "projectTaskSchema too_long_text d =
     (if js_length (trim (draft_title d)) < 2 then [(''title'', ''Task title must be at least 2 characters.'')] else [])
     @ (if 255 < js_length (trim (draft_title d)) then [(''title'', too_long_text)] else [])
     @ (if 5000 < js_length (draft_description d) then [(''description'', too_long_text)] else [])"

section \<open>State\<close>

text \<open>A save under way has the task it changes, none for a new one, and its request; so has a deletion.\<close>

record task_editor =
  te_tasks :: "ProjectTask list option"
  te_selected :: "string option"
  te_draft :: TaskDraft
  te_error :: string
  te_saving :: "(string option \<times> api_call) option"
  te_deleting :: "(string \<times> api_call) option"

definition initial_editor :: task_editor where
  "initial_editor =
     \<lparr>te_tasks = None, te_selected = None, te_draft = EMPTY_TASK_DRAFT, te_error = [], te_saving = None,
      te_deleting = None\<rparr>"

definition orderedTasks :: "string comparator \<Rightarrow> task_editor \<Rightarrow> ProjectTask list" where
  "orderedTasks lc s = sortTasks lc (nullish (te_tasks s) [])"

definition selectedTask :: "string comparator \<Rightarrow> task_editor \<Rightarrow> ProjectTask option" where
  "selectedTask lc s = find (\<lambda>t. Some (ProjectTask_id t) = te_selected s) (orderedTasks lc s)"

definition reset_editor :: "task_editor \<Rightarrow> task_editor" where
  "reset_editor s = s\<lparr>te_selected := None, te_draft := EMPTY_TASK_DRAFT, te_error := []\<rparr>"

definition select_task :: "ProjectTask \<Rightarrow> task_editor \<Rightarrow> task_editor" where
  "select_task t s = s\<lparr>te_selected := Some (ProjectTask_id t), te_draft := taskToDraft t, te_error := []\<rparr>"

section \<open>Saving and deleting\<close>

text \<open>submit, behind a button that is disabled while a save is pending.\<close>

definition press_save :: "string \<Rightarrow> string \<Rightarrow> task_editor \<Rightarrow> task_editor" where
  "press_save too_long_text projectId s =
     (if te_saving s \<noteq> None \<or> projectTaskSchema too_long_text (te_draft s) \<noteq> [] then s
      else s\<lparr>te_saving := Some (if truthy (te_selected s) then te_selected s else None,
               submit_task projectId (te_selected s) (te_draft s))\<rparr>)"

text \<open>The button to delete is there for a selected task that is loaded, and disabled while it is pending.\<close>

definition press_delete :: "string comparator \<Rightarrow> string \<Rightarrow> task_editor \<Rightarrow> task_editor" where
  "press_delete lc projectId s =
     (if selectedTask lc s = None \<or> te_deleting s \<noteq> None then s
      else let i = nullish (te_selected s) []
           in s\<lparr>te_deleting := Some (i, deleteProjectTask projectId i)\<rparr>)"

text \<open>createMutation and updateMutation: onSuccess with the task, onError with its message.\<close>

definition save_answered :: "string comparator \<Rightarrow> string + ProjectTask \<Rightarrow> task_editor \<Rightarrow> task_editor" where
  "save_answered lc answer s =
     (case te_saving s of
        None \<Rightarrow> s
      | Some (target, _) \<Rightarrow>
          (let s' = s\<lparr>te_saving := None\<rparr>
           in case answer of
                Inl msg \<Rightarrow> s'\<lparr>te_error := msg\<rparr>
              | Inr t \<Rightarrow>
                  (let s'' = s'\<lparr>te_tasks := Some (saveCache lc t (te_tasks s))\<rparr>
                   in if target = None then reset_editor s'' else select_task t s'')))"

definition delete_answered :: "string option \<Rightarrow> task_editor \<Rightarrow> task_editor" where
  "delete_answered failure s =
     (let s' = s\<lparr>te_deleting := None\<rparr>
      in case failure of
           Some msg \<Rightarrow> s'\<lparr>te_error := msg\<rparr>
         | None \<Rightarrow> reset_editor (s'\<lparr>te_tasks := Some (delete_onSuccess (te_selected s) (te_tasks s))\<rparr>))"

section \<open>Events\<close>

datatype editor_event =
    Fetched "ProjectTask list"
  | SelectTask ProjectTask | NewTask | EditDraft TaskDraft
  | PressSave | SaveAnswered "string + ProjectTask"
  | PressDelete | DeleteAnswered "string option"

text \<open>Cards are there for loaded tasks, and the button of a new task beside a selected one.\<close>

fun editor_enabled :: "string comparator \<Rightarrow> task_editor \<Rightarrow> editor_event \<Rightarrow> bool" where
  "editor_enabled lc s (SelectTask t) = (t \<in> set (orderedTasks lc s))"
| "editor_enabled lc s NewTask = (selectedTask lc s \<noteq> None)"
| "editor_enabled lc s (SaveAnswered _) = (te_saving s \<noteq> None)"
| "editor_enabled lc s (DeleteAnswered _) = (te_deleting s \<noteq> None)"
| "editor_enabled lc s _ = True"

fun editor_step :: "string comparator \<Rightarrow> string \<Rightarrow> string \<Rightarrow> task_editor \<Rightarrow> editor_event \<Rightarrow> task_editor" where
  "editor_step lc lt p s (Fetched ts) = s\<lparr>te_tasks := Some ts\<rparr>"
| "editor_step lc lt p s (SelectTask t) = select_task t s"
| "editor_step lc lt p s NewTask = reset_editor s"
| "editor_step lc lt p s (EditDraft d) = s\<lparr>te_draft := d\<rparr>"
| "editor_step lc lt p s PressSave = press_save lt p s"
| "editor_step lc lt p s (SaveAnswered answer) = save_answered lc answer s"
| "editor_step lc lt p s PressDelete = press_delete lc p s"
| "editor_step lc lt p s (DeleteAnswered failure) = delete_answered failure s"

section \<open>The server: ProjectTaskCreate and ProjectTaskUpdate of backend/modules/projects/schemas.py\<close>

definition server_task_title :: "(string \<Rightarrow> string) \<Rightarrow> string \<Rightarrow> bool" where
  "server_task_title strip t \<longleftrightarrow> 2 \<le> code_points (strip t) \<and> code_points (strip t) \<le> 255"

definition server_task_description :: "(string \<Rightarrow> string) \<Rightarrow> string option \<Rightarrow> bool" where
  "server_task_description strip d = pred_option (\<lambda>t. code_points (strip t) \<le> 5000) d"

definition server_accepts_create :: "(string \<Rightarrow> string) \<Rightarrow> createProjectTask_payload \<Rightarrow> bool" where
  "server_accepts_create strip c \<longleftrightarrow>
     server_task_title strip (createProjectTask_payload_title c)
     \<and> server_task_description strip (createProjectTask_payload_description c)"

definition server_accepts_update :: "(string \<Rightarrow> string) \<Rightarrow> updateProjectTask_payload \<Rightarrow> bool" where
  "server_accepts_update strip u \<longleftrightarrow>
     pred_option (server_task_title strip) (updateProjectTask_payload_title u)
     \<and> pred_option (server_task_description strip) (updateProjectTask_payload_description u)"

section \<open>Invariant\<close>

text \<open>What is under way was checked, and addresses the task it was pressed for.\<close>

definition editor_ok :: "string \<Rightarrow> string \<Rightarrow> task_editor \<Rightarrow> bool" where
  "editor_ok lt p s \<longleftrightarrow>
     (\<forall>target c. te_saving s = Some (target, c) \<longrightarrow>
        (\<exists>d. projectTaskSchema lt d = []
          \<and> (case target of
               None \<Rightarrow> c = createProjectTask p (create_draft d)
             | Some i \<Rightarrow> i \<noteq> [] \<and> c = updateProjectTask p i (update_draft d))))
     \<and> (\<forall>i c. te_deleting s = Some (i, c) \<longrightarrow> c = deleteProjectTask p i)"

lemma editor_ok_initial: "editor_ok lt p initial_editor"
  by (simp add: editor_ok_def initial_editor_def)

lemma editor_ok_save: "editor_ok lt p s \<Longrightarrow> editor_ok lt p (press_save lt p s)"
  by (auto simp: editor_ok_def press_save_def submit_task_def truthy_def nullish_def split: option.splits)

lemma editor_ok_step: "editor_ok lt p s \<Longrightarrow> editor_ok lt p (editor_step lc lt p s e)"
proof (cases e)
  case PressSave
  then show "editor_ok lt p s \<Longrightarrow> ?thesis" by (simp add: editor_ok_save)
qed (auto simp: editor_ok_def select_task_def reset_editor_def save_answered_def press_delete_def delete_answered_def
    Let_def split: option.splits sum.splits prod.splits)

interpretation editor: step_system "editor_enabled lc" "editor_step lc lt p" initial_editor "editor_ok lt p"
  for lc lt p
  by unfold_locales (rule editor_ok_initial, rule editor_ok_step)

lemma js_length_infix: "js_length s \<le> js_length (p @ s @ q)"
  by (simp add: js_length_def char_codes_def)

lemma trim_not_longer: "js_length (trim s) \<le> js_length s"
  using trim_infix [of s] js_length_infix by metis

text \<open>A draft that the server reads as the form did.\<close>

definition plain_draft :: "TaskDraft \<Rightarrow> bool" where
  "plain_draft d \<longleftrightarrow> unpadded (trim (draft_title d)) \<and> basic_plane (draft_title d) \<and> unpadded (trim (draft_description d))"

lemma basic_plane_trim: "basic_plane t \<Longrightarrow> basic_plane (trim t)"
  using set_trim [of t] by (auto simp: basic_plane_def char_codes_def list_all_iff)

lemma checked_draft_accepted:
  assumes "strips strip" and "projectTaskSchema lt d = []" and "plain_draft d"
  shows "server_accepts_create strip (create_draft d)" and "server_accepts_update strip (update_draft d)"
proof -
  from assms(2) have len: "2 \<le> js_length (trim (draft_title d))" "js_length (trim (draft_title d)) \<le> 255"
      "js_length (draft_description d) \<le> 5000"
    by (auto simp: projectTaskSchema_def split: if_splits)
  have "server_task_title strip (trim (draft_title d))"
    using len assms(3) basic_plane_trim
    by (simp add: server_task_title_def plain_draft_def strip_unpadded [OF assms(1)] code_points_basic)
  moreover have "server_task_description strip (or_none (trim (draft_description d)))"
    using len(3) trim_not_longer [of "draft_description d"] code_points_le [of "trim (draft_description d)"] assms(3)
    by (simp add: server_task_description_def or_none_def plain_draft_def strip_unpadded [OF assms(1)])
  ultimately show "server_accepts_create strip (create_draft d)" and "server_accepts_update strip (update_draft d)"
    by (simp_all add: server_accepts_create_def server_accepts_update_def create_draft_def update_draft_def)
qed

section \<open>Properties\<close>

text \<open>
  C21: Every save of the editor is checked and goes where it was pressed. In every state
  that fetching, selecting, typing, saving, deleting and their answers lead to, in whatever
  order, at most one save is under way, and it is the request of a draft that passed the
  schema: a new task, or the update of the task that was selected, never one without an
  id. The server accepts it when the texts have no blanks that only it strips and the title
  no character beyond the basic plane. A deletion under way is that of one task.
\<close>
theorem editor_requests_checked:
  assumes "reachable (editor_enabled lc) (editor_step lc lt p) initial_editor s" and "strips strip"
  shows "(case te_saving s of
        None \<Rightarrow> True
      | Some (target, c) \<Rightarrow> \<exists>d. projectTaskSchema lt d = []
          \<and> (case target of
               None \<Rightarrow> c = createProjectTask p (create_draft d)
                 \<and> (plain_draft d \<longrightarrow> server_accepts_create strip (create_draft d))
             | Some i \<Rightarrow> i \<noteq> [] \<and> c = updateProjectTask p i (update_draft d)
                 \<and> (plain_draft d \<longrightarrow> server_accepts_update strip (update_draft d))))
    \<and> (case te_deleting s of None \<Rightarrow> True | Some (i, c) \<Rightarrow> c = deleteProjectTask p i)
    \<and> (te_saving s \<noteq> None \<longrightarrow> press_save lt p s = s)"
proof -
  have ok: "editor_ok lt p s" using assms(1) by (rule editor.invar_reachable)
  have "case te_saving s of
        None \<Rightarrow> True
      | Some (target, c) \<Rightarrow> \<exists>d. projectTaskSchema lt d = []
          \<and> (case target of
               None \<Rightarrow> c = createProjectTask p (create_draft d)
                 \<and> (plain_draft d \<longrightarrow> server_accepts_create strip (create_draft d))
             | Some i \<Rightarrow> i \<noteq> [] \<and> c = updateProjectTask p i (update_draft d)
                 \<and> (plain_draft d \<longrightarrow> server_accepts_update strip (update_draft d)))"
  proof (cases "te_saving s")
    case (Some x)
    obtain target c where x: "x = (target, c)" by (cases x)
    with ok Some obtain d where d: "projectTaskSchema lt d = []"
      and c: "case target of None \<Rightarrow> c = createProjectTask p (create_draft d)
            | Some i \<Rightarrow> i \<noteq> [] \<and> c = updateProjectTask p i (update_draft d)"
      unfolding editor_ok_def by blast
    then show ?thesis
      using checked_draft_accepted [OF assms(2) d] by (auto simp: Some x split: option.splits)
  qed simp
  moreover have "case te_deleting s of None \<Rightarrow> True | Some (i, c) \<Rightarrow> c = deleteProjectTask p i"
    using ok by (auto simp: editor_ok_def split: option.splits)
  ultimately show ?thesis by (simp add: press_save_def)
qed

text \<open>
  A save ends in what was saved. When the server answers with the task, the list holds it
  in its place; after a new task the form is empty for the next, after an update it shows
  the task as it was stored. A refused save changes nothing but the message: the draft and
  the selection stay.
\<close>
lemma save_answered_shown:
  assumes "te_saving s = Some (target, c)"
  shows "save_answered lc (Inl msg) s = s\<lparr>te_saving := None, te_error := msg\<rparr>"
    and "te_tasks (save_answered lc (Inr t) s) = Some (saveCache lc t (te_tasks s))"
    and "te_draft (save_answered lc (Inr t) s) = (if target = None then EMPTY_TASK_DRAFT else taskToDraft t)"
    and "te_selected (save_answered lc (Inr t) s) = (if target = None then None else Some (ProjectTask_id t))"
    and "te_saving (save_answered lc (Inr t) s) = None"
  by (simp_all add: save_answered_def assms reset_editor_def select_task_def Let_def)

text \<open>
  The answer to an update takes the editor back: a task that was selected, and a draft that
  was typed, while the update was under way are replaced by the task that was saved.
\<close>
lemma save_answer_overwrites_draft:
  assumes "te_saving s = Some (Some i, c)" and "ProjectTask_id u \<noteq> ProjectTask_id t"
    and s': "s' = editor_step lc lt p (editor_step lc lt p s (SelectTask u)) (EditDraft d)"
  shows "te_selected s' = Some (ProjectTask_id u)" and "te_draft s' = d"
    and "te_selected (editor_step lc lt p s' (SaveAnswered (Inr t))) \<noteq> Some (ProjectTask_id u)"
    and "te_draft (editor_step lc lt p s' (SaveAnswered (Inr t))) = taskToDraft t"
  using assms by (simp_all add: select_task_def save_answered_def Let_def)

text \<open>
  A selected task that a later list no longer has leaves its id behind: the editor is
  titled as one for a new task, but saving still updates the task that is gone.
\<close>
lemma vanished_task_still_updated:
  assumes "te_selected s = Some i" and "i \<noteq> []" and "te_saving s = None"
    and "i \<notin> ProjectTask_id ` set ts" and "projectTaskSchema lt (te_draft s) = []"
    and s': "s' = editor_step lc lt p s (Fetched ts)"
  shows "selectedTask lc s' = None"
    and "te_saving (editor_step lc lt p s' PressSave) = Some (Some i, updateProjectTask p i (update_draft (te_draft s)))"
  using assms
  by (auto simp: selectedTask_def orderedTasks_def find_None_iff press_save_def submit_task_def truthy_def)

definition typed_draft :: TaskDraft where
  "typed_draft = EMPTY_TASK_DRAFT\<lparr>draft_title := ''Write docs''\<rparr>"

theorem editor_requests_checked_witness:
  "\<exists>s. reachable (editor_enabled compare_text) (editor_step compare_text ''Too long'' ''p1'') initial_editor s
     \<and> te_saving s = Some (None, createProjectTask ''p1'' (create_draft typed_draft))
     \<and> press_save ''Too long'' ''p1'' s = s"
proof -
  have "trim ''Write docs'' = ''Write docs''" and "js_length ''Write docs'' = 10" and "js_length [] = 0"
    by code_simp+
  then have ok: "projectTaskSchema ''Too long'' typed_draft = []"
    by (simp add: projectTaskSchema_def typed_draft_def EMPTY_TASK_DRAFT_def)
  let ?s = "initial_editor\<lparr>te_draft := typed_draft, te_saving := Some (None, createProjectTask ''p1'' (create_draft typed_draft))\<rparr>"
  have "run_events (editor_enabled compare_text) (editor_step compare_text ''Too long'' ''p1'') initial_editor
      [EditDraft typed_draft, PressSave] = Some ?s"
    using ok by (simp add: press_save_def initial_editor_def submit_task_def)
  then have r: "reachable (editor_enabled compare_text) (editor_step compare_text ''Too long'' ''p1'') initial_editor ?s"
    by (rule reachable_run [OF reachable.reachable_init])
  have "te_saving ?s \<noteq> None" by simp
  then have "press_save ''Too long'' ''p1'' ?s = ?s"
    using editor_requests_checked [OF r trim_strips] by blast
  with r show ?thesis by (intro exI [of _ ?s]) simp
qed

end
