(* ===== verification/Spec2Isabelle.thy ===== *)
theory Spec2Isabelle
  imports Js_Sort Chat_View Project_Tasks Navigation Api_Client_Facts Contract_Core Contract_Platform Contract_Ai Contract_Admin Calendar_Facts
    Platform_Admin_Facts Admin_Users Admin_Jobs Admin_Rag Notifications Platform_View
    Auth_Forms Settings_Admin Ai_Studio_State Ai_Provider Observability Profile_View App_Queries
    Directory_Search App_Shell Task_Editor
begin

text \<open>
  Verification library of the Generic App frontend (frontend/src, TypeScript).  The theories
  follow the program from the HTTP client up to the pages.  They are translated from the source; where a
  theory is about one module it has the names of the module.

  The program and the theories

  Values of JavaScript.  Prelude has strings (the UTF-8 bytes of a text, with js_length for the UTF-16
  units that .length counts), numbers (the exact rational of a finite number), nullish defaults and
  truthiness; Js_Values has JSON values and what a request body is made of; Js_Json and Js_Json_Facts
  have JSON.parse; Js_Uri has encodeURIComponent and URLSearchParams; Js_Sort has Array.prototype.sort;
  Js_Numbers has Number and the numerals of text fields.

  The client, api/client.ts.  Auth_Session is its session half as a machine: the module variables
  (authSessionActive, authSessionGeneration, refreshPromise, ...), every function that changes them, and the
  callbacks of the shared refresh promise, one handler per piece of code between two awaits.  Api_Errors is
  ApiError and the reading of error bodies; Api_Client is readCookie, apiFetch, apiFetchStream, apiUpload and
  what is built on them, over a script of what the server and the user do meanwhile; Api_Transport has
  orvalMutator.ts and axiosClient.ts.  Api_Client_Facts and Auth_Session state how often a request is
  sent, by whom a refresh is shared, what a logout stops, how every outcome is reported, and that a call
  settles.

  The API modules, api/*.ts and the generated endpoints they wrap.  Api_Types, Platform_Types, Ai_Types,
  Admin_Types and Chat_Types are the data; Api_Endpoints, Platform_Endpoints, Ai_Endpoints,
  Admin_Endpoints and Chat_Api the functions, each as the call it makes.  Api_Contract lists the operations of
  frontend/openapi/openapi.json, and Contract_Core, Contract_Platform, Contract_Ai and Contract_Admin show
  that every call addresses one of them with members and parameters it knows (Generated_Calls has the
  shape of generated functions).

  Cached data and identity.  Query_Keys is config/queryKeys.ts; the query cache of TanStack Query is a
  parameter with its documented laws.  App_Queries has every query of the application with its options and
  request, and every mutation with what it invalidates: no two queries share a key, and a change refreshes
  the queries that show it.  Optimistic is the pattern of mutations that show their change at once.
  Auth_Context is the identity of the user; Pages the registry of pages and the guards around them; Navigation
  the tabs and entries offered.

  Features, features/*.  Chat_Stream and Chat_View (knowledge chat: server-sent events, the reader
  loop, selection, uploads, sending); Project_Tasks (the board and its drag and drop) and
  Task_Editor (the form beside it); Calendar and
  Calendar_Facts (ranges, drafts, layout); Auth_Forms (sign-in, sign-up, reset, confirmation); Profile_View
  (forms, second factor, memories); Platform_View, Platform_Admin and Platform_Admin_Facts (plans, flags,
  profile, webhooks); Settings_Admin (configuration); Admin_Users with
  Directory_Search (its debounced search), Admin_Jobs, Admin_Rag (consoles);
  Notifications; Ai_Studio, Ai_Studio_State and Ai_Provider (prompts, runs, evaluations, providers);
  Observability (health and links); App_Shell (color mode, toasts, boundaries, dashboard, diagnostics).

  How state is modelled.  A component is a record of its state, its operations are functions on it with the
  conditions and early returns of the source, a request that is sent is a value (api_call), and a rejection is a
  value of js_error or the left half of a sum.  Where the order of events matters the component is a
  step function over an event type with a guard for each event; Step_System has reachability, executions and
  the locale step_system, which Auth_Session, Ai_Studio_State, Task_Editor and others interpret with their
  invariants.  Js_Sort (js_comparator), Chat_Stream (separator), Calendar (dayjs_dates) and Optimistic have the other locales; each is
  interpreted on definitions of the model, Gregorian dates for the one of the date library.

  What the lemmas show.  Safety and invariants of the session machine (one refresh per generation, logout
  wins, at most two sends); liveness of calls and of streams; equivalence of a stream with any other
  cutting of its text and of the board shown with the board sent; refinement of the server's contract, of
  its flag updates and of its index life cycle; round trips of drafts, settings and provider panels through the
  server; bounds of calendar ranges, codes and passwords; the error reported for every response; and that
  reading JSON ends.  The theorems with a number Cn are the properties of the program; the others are lemmas, among
  them some that show a defect of the program.

  Bounds and fuel.  JSON.parse reads with a fuel of twice the length of the text and one, which is enough:
  more gives the same result (fuel_enough).  A string literal is read with the length of the rest as its
  fuel.  apiFetch recurses once at most, on its flag for retries.  Everything else recurses on its data.

  Parameters.  What is not in the repository is an argument of the definitions that use it, with what the code
  relies on as a named hypothesis and a concrete instance in the witness: the query cache
  (query_client_laws) and the keys its filters select (prefix_matching), dayjs (dayjs_dates), localeCompare, the URL constructor (reads_back), the e-mail and URL
  patterns of Zod, pydantic's stripping of texts, one-time codes, and the texts of engine errors.  Of the
  Python backend only the checks and updates that a property of the client refers to are modelled, where they
  are used.

  Not modelled: markup, styling and layout (app/theme.ts, components/ui, the JSX of the views, tables that only lay
  out query results), utils/formatters.ts (Intl, and Unicode case and white space), the generated Zod
  schemas and React Query hooks, which the program does not use beside the endpoint functions the
  wrappers call, React's scheduling (a handler sees the state of the last render) and the timing
  of TanStack Query beyond the laws stated.
\<close>

section \<open>Properties that span components\<close>

text \<open>
  C8: The API modules keep the contract of the server. Every call of the hand-written API
  modules, whatever its payload and its (one segment) identifiers, addresses an operation
  of openapi.json with its method, sends a body whose members are all known to the schema
  and include the required ones, and reads a page exactly where the operation gives one.
\<close>
theorem api_calls_conform:
  assumes "api_call c \<or> platform_call c \<or> ai_call c \<or> chat_call c"
  shows "conforms (core_routes @ platform_routes @ ai_routes @ chat_routes) c"
  using assms api_call_conforms platform_call_conforms ai_call_conforms chat_call_conforms
  by (auto simp: conforms_def)

theorem api_calls_conform_witness:
  "conforms (core_routes @ platform_routes @ ai_routes @ chat_routes)
     (reorderProjectTasks ''p1'' \<lparr>reorderProjectTasks_payload_columns =
        [\<lparr>reorderProjectTasks_payload_columns_item_status = Todo,
          reorderProjectTasks_payload_columns_item_task_ids = [''t2'', ''t1'']\<rparr>]\<rparr>)"
  by (rule api_calls_conform [OF disjI1 [OF api_reorderProjectTasks]]) code_simp

end
